(* ===== verification/A2A_Prelude.thy ===== *)
theory A2A_Prelude
  imports Complex_Main "HOL-Library.Word" "HOL-Library.Char_ord" "HOL-Library.List_Lexorder"
    "HOL-Library.Sublist" "HOL-Library.Multiset"
begin

text \<open>
  The vocabulary every component shares.

  \<^item> Effects: a handler is a function from the state to the new state and either an error or a
    result (\<open>act\<close>). The state survives an error, because the gateway never opens a
    transaction: what the statements before a failing one wrote stays written.
  \<^item> Text: a Rust \<open>String\<close> is the list of its UTF-8 bytes (\<open>char list\<close>), so
    \<open>length\<close> is \<open>str::len\<close>. \<open>to_lowercase\<close> and \<open>trim\<close> are modelled
    on ASCII text (bytes above 127 are left alone).
  \<^item> Numbers: printing and parsing in a radix, with the width of the target type as a bound.
  \<^item> Time: an \<open>f64\<close> count of seconds is the rational it denotes; rounding is not modelled.
  \<^item> Interfaces: the locales that several components share (string codecs, invariants and
    monotone histories of operation runs).
\<close>

named_theorems act_simps \<open>unfolding of the effect combinators\<close>
named_theorems table_simps \<open>facts on keyed tables\<close>

subsection \<open>Effects\<close>

type_synonym time = rat

text \<open>Why PostgreSQL refuses a statement: a constraint, or a column name it cannot resolve.\<close>

datatype violation = Unique_violation | Foreign_key_violation | Check_violation | Ambiguous_column

text \<open>\<open>Panicked\<close> is an unwinding panic: the task that runs the operation is lost.\<close>

datatype err = Anyhow string | Sql_err string violation | Panicked string

type_synonym ('s, 'a) act = "'s \<Rightarrow> 's \<times> (err + 'a)"

definition ret :: "'a \<Rightarrow> 's \<Rightarrow> 's \<times> ('e + 'a)" where
  "ret x = (\<lambda>s. (s, Inr x))"

definition fail :: "'e \<Rightarrow> 's \<Rightarrow> 's \<times> ('e + 'a)" where
  "fail e = (\<lambda>s. (s, Inl e))"

definition bindA :: "('s \<Rightarrow> 's \<times> ('e + 'a)) \<Rightarrow> ('a \<Rightarrow> 's \<Rightarrow> 's \<times> ('e + 'b)) \<Rightarrow> 's \<Rightarrow> 's \<times> ('e + 'b)" where
  "bindA m f = (\<lambda>s. case m s of (s', Inl e) \<Rightarrow> (s', Inl e) | (s', Inr x) \<Rightarrow> f x s')"

definition seqA :: "('s \<Rightarrow> 's \<times> ('e + 'a)) \<Rightarrow> ('s \<Rightarrow> 's \<times> ('e + 'b)) \<Rightarrow> 's \<Rightarrow> 's \<times> ('e + 'b)" where
  "seqA m n = bindA m (\<lambda>_. n)"

text \<open>\<open>askA\<close> reads, \<open>needA\<close> is \<open>Option::context\<close>, \<open>okA\<close> is \<open>Result::ok\<close> on an effect.\<close>

definition askA :: "('s \<Rightarrow> 'a) \<Rightarrow> 's \<Rightarrow> 's \<times> ('e + 'a)" where
  "askA f = (\<lambda>s. (s, Inr (f s)))"

definition needA :: "'e \<Rightarrow> 'a option \<Rightarrow> 's \<Rightarrow> 's \<times> ('e + 'a)" where
  "needA e v = (case v of None \<Rightarrow> fail e | Some x \<Rightarrow> ret x)"

definition guardA :: "bool \<Rightarrow> 'e \<Rightarrow> 's \<Rightarrow> 's \<times> ('e + unit)" where
  "guardA b e = (if b then ret () else fail e)"

definition okA :: "('s \<Rightarrow> 's \<times> ('e + 'a)) \<Rightarrow> 's \<Rightarrow> 's \<times> ('e + 'a option)" where
  "okA m = (\<lambda>s. case m s of (s', Inl e) \<Rightarrow> (s', Inr None) | (s', Inr x) \<Rightarrow> (s', Inr (Some x)))"

text \<open>\<open>Result::map_err\<close> on an effect.\<close>

definition map_errA :: "('e \<Rightarrow> 'f) \<Rightarrow> ('s \<Rightarrow> 's \<times> ('e + 'a)) \<Rightarrow> 's \<Rightarrow> 's \<times> ('f + 'a)" where
  "map_errA f m = (\<lambda>s. case m s of (s', Inl e) \<Rightarrow> (s', Inl (f e)) | (s', Inr x) \<Rightarrow> (s', Inr x))"

lemmas act_defs [act_simps] = ret_def fail_def bindA_def seqA_def askA_def needA_def guardA_def okA_def map_errA_def

text \<open>An effect on a part of the state.\<close>

definition zoomA :: "('s \<Rightarrow> 't) \<Rightarrow> ('t \<Rightarrow> 's \<Rightarrow> 's) \<Rightarrow> ('t \<Rightarrow> 't \<times> ('e + 'a)) \<Rightarrow> 's \<Rightarrow> 's \<times> ('e + 'a)" where
  "zoomA get put m = (\<lambda>s. case m (get s) of (t, r) \<Rightarrow> (put t s, r))"

lemma bindA_ret [simp]: "bindA (ret x) f = f x"
  by (simp add: act_simps)

lemma bindA_fail [simp]: "bindA (fail e) f = fail e"
  by (simp add: act_simps)

lemma bindA_cases:
  "bindA m f s = (case m s of (s', Inl e) \<Rightarrow> (s', Inl e) | (s', Inr x) \<Rightarrow> f x s')"
  by (simp add: bindA_def)

lemma bindA_Inr_iff:
  "bindA m f s = (s', Inr y) \<longleftrightarrow> (\<exists>s1 x. m s = (s1, Inr x) \<and> f x s1 = (s', Inr y))"
  by (auto simp: bindA_def split: prod.splits sum.splits)

text \<open>The state after a run that ignores the results, as a background task does.\<close>

definition exec :: "('s \<Rightarrow> 's \<times> ('e + 'a)) \<Rightarrow> 's \<Rightarrow> 's" where
  "exec m s = fst (m s)"

definition result :: "('s \<Rightarrow> 's \<times> ('e + 'a)) \<Rightarrow> 's \<Rightarrow> 'e + 'a" where
  "result m s = snd (m s)"

lemma exec_bind_read: "(\<And>x t. fst (f x t) = t) \<Longrightarrow> exec (bindA m f) s = exec m s"
  by (auto simp: exec_def bindA_def split: prod.splits sum.splits)

lemma exec_bind_ret [simp]: "exec (bindA m (\<lambda>x. ret (f x))) s = exec m s"
  by (rule exec_bind_read) (simp add: ret_def)

lemma exec_map_err [simp]: "exec (map_errA f m) s = exec m s"
  by (auto simp: exec_def map_errA_def split: prod.splits sum.splits)

lemma exec_zoom: "exec (zoomA g p m) s = p (exec m (g s)) s"
  by (simp add: exec_def zoomA_def split: prod.splits)

fun is_ok :: "'e + 'a \<Rightarrow> bool" where
  "is_ok (Inl _) = False"
| "is_ok (Inr _) = True"

fun runA :: "('op \<Rightarrow> 's \<Rightarrow> 's) \<Rightarrow> 's \<Rightarrow> 'op list \<Rightarrow> 's" where
  "runA step s [] = s"
| "runA step s (op # ops) = runA step (step op s) ops"

lemma runA_append: "runA step s (xs @ ys) = runA step (runA step s xs) ys"
  by (induction xs arbitrary: s) simp_all

subsection \<open>Interfaces: string codecs, invariants, histories\<close>

text \<open>
  The enums that the gateway stores in text columns have an \<open>as_str\<close> and a
  \<open>from_str\<close>; what the row mappings rely on is that decoding inverts encoding.
\<close>

locale string_codec =
  fixes enc :: "'a \<Rightarrow> string" and dec :: "string \<Rightarrow> 'a option"
  assumes dec_enc: "dec (enc x) = Some x"
begin

lemma enc_inj: "enc x = enc y \<longleftrightarrow> x = y"
  by (metis dec_enc option.inject)

lemma dec_map_option: "Option.bind (map_option enc v) dec = v"
  by (cases v) (simp_all add: dec_enc)

lemma filter_enc: "filter (\<lambda>r. f r = enc x) rs = filter (\<lambda>r. dec (f r) = Some x) rs"
  if "\<And>r. r \<in> set rs \<Longrightarrow> \<exists>y. f r = enc y"
  using that by (intro filter_cong) (auto simp: dec_enc enc_inj dest: that)

end

locale total_codec =
  fixes enc :: "'a \<Rightarrow> string" and dec0 :: "string \<Rightarrow> 'a"
  assumes dec0_enc: "dec0 (enc x) = x"

sublocale total_codec \<subseteq> string_codec enc "\<lambda>s. Some (dec0 s)"
  by unfold_locales (simp add: dec0_enc)

text \<open>Operations that all keep one invariant: so does every run of them.\<close>

locale invariant_system =
  fixes step :: "'op \<Rightarrow> 's \<Rightarrow> 's" and inv :: "'s \<Rightarrow> bool"
  assumes step_inv: "inv s \<Longrightarrow> inv (step op s)"
begin

lemma run_inv: "inv s \<Longrightarrow> inv (runA step s ops)"
  by (induction ops arbitrary: s) (auto intro: step_inv)

end

text \<open>
  Operations that only ever extend what was there (append-only data, write-once fields, status machines). An effect
  \<open>moves\<close> along a relation when its state after stands in the relation to the state before, whatever its
  result; along an order, composed effects move when their parts do.
\<close>

definition moves :: "('s \<Rightarrow> 's \<Rightarrow> bool) \<Rightarrow> ('s \<Rightarrow> 's \<times> ('e + 'a)) \<Rightarrow> bool" where
  "moves R m \<longleftrightarrow> (\<forall>s. R s (exec m s))"

lemma movesD: "moves R m \<Longrightarrow> R s (exec m s)"
  by (simp add: moves_def)

lemma moves_zoom:
  "moves Q m \<Longrightarrow> (\<And>s t. Q (g s) t \<Longrightarrow> R s (p t s)) \<Longrightarrow> moves R (zoomA g p m)"
  by (simp add: moves_def exec_zoom)

locale history_order =
  fixes ext :: "'s \<Rightarrow> 's \<Rightarrow> bool"
  assumes ext_refl: "ext s s"
    and ext_trans: "ext s t \<Longrightarrow> ext t u \<Longrightarrow> ext s u"
begin

lemma moves_pure: "moves ext (ret x)" "moves ext (fail e)" "moves ext (askA f)" "moves ext (needA e' v)"
    "moves ext (guardA b e')"
  by (auto simp: moves_def exec_def act_simps ext_refl split: option.split)

lemma moves_bind: "moves ext m \<Longrightarrow> (\<And>x. moves ext (f x)) \<Longrightarrow> moves ext (bindA m f)"
  unfolding moves_def exec_def bindA_def
  by (auto split: prod.split sum.split) (metis ext_trans fst_conv)+

lemma moves_seq: "moves ext m \<Longrightarrow> moves ext n \<Longrightarrow> moves ext (seqA m n)"
  by (simp add: seqA_def moves_bind)

lemma moves_map_err: "moves ext m \<Longrightarrow> moves ext (map_errA f m)"
  by (simp add: moves_def)

lemma moves_ok: "moves ext m \<Longrightarrow> moves ext (okA m)"
  unfolding moves_def exec_def okA_def by (auto split: prod.split sum.split) (metis fst_conv)+

lemma moves_foldl:
  assumes "\<And>x. moves ext (m x)"
  shows "moves ext (\<lambda>s. (foldl (\<lambda>s x. exec (m x) s) s xs, r))"
proof -
  have "ext s (foldl (\<lambda>s x. exec (m x) s) s xs)" for s
    using assms by (induction xs rule: rev_induct) (auto simp: ext_refl moves_def intro: ext_trans)
  then show ?thesis by (simp add: moves_def exec_def)
qed

lemmas moves_intros = moves_pure moves_bind moves_seq moves_map_err moves_ok

end

locale history_system = history_order ext
  for step :: "'op \<Rightarrow> 's \<Rightarrow> 's" and ext :: "'s \<Rightarrow> 's \<Rightarrow> bool" +
  assumes step_ext: "ext s (step op s)"
begin

lemma run_ext: "ext s (runA step s ops)"
  by (induction ops arbitrary: s) (auto intro: ext_refl ext_trans step_ext)

end

subsection \<open>Text\<close>

text \<open>\<open>str::starts_with\<close>, \<open>ends_with\<close>, \<open>contains\<close>, \<open>split\<close> on a character, \<open>join\<close>.\<close>

definition starts_with :: "string \<Rightarrow> string \<Rightarrow> bool" where
  "starts_with p s \<longleftrightarrow> take (length p) s = p"

definition ends_with :: "string \<Rightarrow> string \<Rightarrow> bool" where
  "ends_with p s \<longleftrightarrow> length p \<le> length s \<and> drop (length s - length p) s = p"

fun contains :: "string \<Rightarrow> string \<Rightarrow> bool" where
  "contains needle [] = (needle = [])"
| "contains needle (c # cs) = (starts_with needle (c # cs) \<or> contains needle cs)"

fun split_on :: "(char \<Rightarrow> bool) \<Rightarrow> string \<Rightarrow> string list" where
  "split_on p [] = [[]]"
| "split_on p (c # cs) =
     (if p c then [] # split_on p cs
      else (case split_on p cs of [] \<Rightarrow> [[c]] | w # ws \<Rightarrow> (c # w) # ws))"

fun join_with :: "string \<Rightarrow> string list \<Rightarrow> string" where
  "join_with d [] = []"
| "join_with d [w] = w"
| "join_with d (w # v # ws) = w @ d @ join_with d (v # ws)"

definition is_space :: "char \<Rightarrow> bool" where
  "is_space c \<longleftrightarrow> c \<in> {CHR '' '', CHR 0x09, CHR 0x0A, CHR 0x0B, CHR 0x0C, CHR 0x0D}"

definition trim :: "string \<Rightarrow> string" where
  "trim s = rev (dropWhile is_space (rev (dropWhile is_space s)))"

definition lower_char :: "char \<Rightarrow> char" where
  "lower_char c = (if CHR ''A'' \<le> c \<and> c \<le> CHR ''Z'' then char_of ((of_char c :: nat) + 32) else c)"

definition to_lower :: "string \<Rightarrow> string" where
  "to_lower s = map lower_char s"

definition is_digit :: "char \<Rightarrow> bool" where
  "is_digit c \<longleftrightarrow> CHR ''0'' \<le> c \<and> c \<le> CHR ''9''"

definition is_hex_digit :: "char \<Rightarrow> bool" where
  "is_hex_digit c \<longleftrightarrow> is_digit c \<or> (CHR ''a'' \<le> c \<and> c \<le> CHR ''f'') \<or> (CHR ''A'' \<le> c \<and> c \<le> CHR ''F'')"

definition is_alphanumeric :: "char \<Rightarrow> bool" where
  "is_alphanumeric c \<longleftrightarrow>
     is_digit c \<or> (CHR ''a'' \<le> c \<and> c \<le> CHR ''z'') \<or> (CHR ''A'' \<le> c \<and> c \<le> CHR ''Z'')"

text \<open>\<open>str::lines\<close>: a line ends at LF or CR LF; a last empty line is not a line.\<close>

definition strip_cr :: "string \<Rightarrow> string" where
  "strip_cr w = (if w \<noteq> [] \<and> last w = CHR 0x0D then butlast w else w)"

definition lines_of :: "string \<Rightarrow> string list" where
  "lines_of s = (let ws = split_on (\<lambda>c. c = CHR 0x0A) s in
     map strip_cr (butlast ws) @ (if last ws = [] then [] else [last ws]))"

lemma split_on_nonempty [simp]: "split_on p s \<noteq> []"
  by (cases s) (auto split: list.splits)

lemma split_on_no_sep: "\<forall>c \<in> set w. \<not> p c \<Longrightarrow> split_on p w = [w]"
  by (induction w) auto

lemma split_on_word: "\<forall>c \<in> set w. \<not> p c \<Longrightarrow> p d \<Longrightarrow> split_on p (w @ d # s) = w # split_on p s"
  by (induction w) auto

lemma join_with_Cons: "ws \<noteq> [] \<Longrightarrow> join_with d (w # ws) = w @ d @ join_with d ws"
  by (cases ws) auto

lemma split_on_join:
  "ws \<noteq> [] \<Longrightarrow> \<forall>w \<in> set ws. \<forall>c \<in> set w. \<not> p c \<Longrightarrow> p d \<Longrightarrow> split_on p (join_with [d] ws) = ws"
proof (induction ws)
  case Nil
  then show ?case by simp
next
  case (Cons w ws)
  then show ?case
    by (cases "ws = []") (auto simp: split_on_no_sep join_with_Cons split_on_word)
qed

lemma starts_with_append [simp]: "starts_with p (p @ s)"
  by (simp add: starts_with_def)

lemma starts_with_iff: "starts_with p s \<longleftrightarrow> (\<exists>t. s = p @ t)"
  by (metis append_eq_conv_conj starts_with_def append_take_drop_id)

lemma contains_iff: "contains needle s \<longleftrightarrow> (\<exists>a b. s = a @ needle @ b)"
proof (induction s)
  case Nil
  then show ?case by auto
next
  case (Cons c s)
  show ?case
    by (auto simp: Cons starts_with_iff Cons_eq_append_conv)
qed

lemma lower_char_idem [simp]: "lower_char (lower_char c) = lower_char c"
proof (cases "CHR ''A'' \<le> c \<and> c \<le> CHR ''Z''")
  case True
  then have "(65::nat) \<le> of_char c" "of_char c \<le> (90::nat)"
    by (auto simp: less_eq_char_def)
  then show ?thesis
    by (auto simp: lower_char_def less_eq_char_def)
qed (auto simp: lower_char_def)

lemma to_lower_idem [simp]: "to_lower (to_lower s) = to_lower s"
  by (simp add: to_lower_def)

text \<open>Fields joined by a separator that the first one does not contain.\<close>

lemma field_eq:
  "a @ c # x = b @ c # y \<Longrightarrow> c \<notin> set a \<Longrightarrow> c \<notin> set b \<Longrightarrow> a = b \<and> x = y"
proof (induction a arbitrary: b)
  case Nil
  then show ?case by (cases b) auto
next
  case (Cons d a)
  then show ?case by (cases b) auto
qed

lemma last_field_eq:
  "x @ c # a = y @ c # b \<Longrightarrow> c \<notin> set a \<Longrightarrow> c \<notin> set b \<Longrightarrow> x = y \<and> a = b"
  using field_eq [of "rev a" c "rev x" "rev b" "rev y"]
  by (metis rev.simps(2) rev_append rev_rev_ident set_rev append.assoc append_Cons append_Nil)

end
