(* ===== verification/Text_Numbers.thy ===== *)
theory Text_Numbers
  imports A2A_Prelude
begin

text \<open>
  Numbers as text: Rust's \<open>{}\<close> and \<open>{:o}\<close> formatting, \<open>str::parse\<close> and
  \<open>from_str_radix\<close> with the bound of the target type, and the saturating cast of a timestamp to
  \<open>u64\<close>. The round trip is what the transcript lines and the signatures rely on.
\<close>

definition digit_char :: "nat \<Rightarrow> char" where
  "digit_char n = char_of (n + 48)"

definition digit_value :: "char \<Rightarrow> nat" where
  "digit_value c = of_char c - 48"

fun show_radix :: "nat \<Rightarrow> nat \<Rightarrow> string" where
  "show_radix b n = (if b < 2 \<or> n < b then [digit_char n]
     else show_radix b (n div b) @ [digit_char (n mod b)])"

declare show_radix.simps [simp del]

definition show_int :: "int \<Rightarrow> string" where
  "show_int i = (if i < 0 then CHR ''-'' # show_radix 10 (nat (- i)) else show_radix 10 (nat i))"

definition radix_digit :: "nat \<Rightarrow> char \<Rightarrow> bool" where
  "radix_digit b c \<longleftrightarrow> is_digit c \<and> digit_value c < b"

definition digits_value :: "nat \<Rightarrow> string \<Rightarrow> nat" where
  "digits_value b ds = foldl (\<lambda>n c. n * b + digit_value c) 0 ds"

text \<open>
  \<open>parse_radix b bound\<close>: an optional plus sign, at least one digit, and a value that fits:
  overflow and any other character are errors.
\<close>

definition strip_plus :: "string \<Rightarrow> string" where
  "strip_plus s = (case s of c # cs \<Rightarrow> if c = CHR ''+'' then cs else s | [] \<Rightarrow> [])"

definition parse_radix :: "nat \<Rightarrow> nat \<Rightarrow> string \<Rightarrow> nat option" where
  "parse_radix b bound s = (let ds = strip_plus s in
     if ds = [] \<or> \<not> list_all (radix_digit b) ds then None
     else if digits_value b ds < bound then Some (digits_value b ds) else None)"

definition f64_as_u64 :: "time \<Rightarrow> nat" where
  "f64_as_u64 t = (if t < 0 then 0 else if 2 ^ 64 \<le> t then 2 ^ 64 - 1 else nat \<lfloor>t\<rfloor>)"

lemma digit_value_char: "n < 10 \<Longrightarrow> digit_value (digit_char n) = n"
  by (simp add: digit_value_def digit_char_def)

lemma is_digit_char: "n < 10 \<Longrightarrow> is_digit (digit_char n)"
  by (simp add: is_digit_def digit_char_def less_eq_char_def)

lemma radix_digit_char: "n < b \<Longrightarrow> b \<le> 10 \<Longrightarrow> radix_digit b (digit_char n)"
  by (simp add: radix_digit_def digit_value_char is_digit_char)

lemma is_digit_range: "is_digit c \<longleftrightarrow> 48 \<le> (of_char c :: nat) \<and> (of_char c :: nat) \<le> 57"
  by (simp add: is_digit_def less_eq_char_def)

lemma show_radix_nonempty [simp]: "show_radix b n \<noteq> []"
  by (subst show_radix.simps) simp

lemma show_radix_digits:
  "2 \<le> b \<Longrightarrow> b \<le> 10 \<Longrightarrow> list_all (radix_digit b) (show_radix b n)"
proof (induction b n rule: show_radix.induct)
  case (1 b n)
  then show ?case
    by (subst show_radix.simps) (auto simp: radix_digit_char)
qed

lemma show_radix_is_digit:
  assumes "2 \<le> b" and "b \<le> 10" and "c \<in> set (show_radix b n)"
  shows "is_digit c"
  using show_radix_digits [OF assms(1,2), of n] assms(3)
  by (auto simp: list_all_iff radix_digit_def)

lemma digits_value_show: "2 \<le> b \<Longrightarrow> b \<le> 10 \<Longrightarrow> digits_value b (show_radix b n) = n"
proof (induction b n rule: show_radix.induct)
  case (1 b n)
  show ?case
  proof (cases "n < b")
    case True
    with 1 show ?thesis
      by (subst show_radix.simps) (simp add: digits_value_def digit_value_char)
  next
    case False
    have "n mod b < 10"
      using 1 by (meson less_le_trans mod_less_divisor order_less_le_trans pos2)
    with 1 False show ?thesis
      by (subst show_radix.simps) (simp add: digits_value_def digit_value_char)
  qed
qed

lemma strip_plus_digits: "list_all (radix_digit b) ds \<Longrightarrow> strip_plus ds = ds"
  by (cases ds) (auto simp: strip_plus_def radix_digit_def is_digit_range)

lemma parse_show_radix:
  "2 \<le> b \<Longrightarrow> b \<le> 10 \<Longrightarrow> n < bound \<Longrightarrow> parse_radix b bound (show_radix b n) = Some n"
  by (simp add: parse_radix_def Let_def strip_plus_digits [OF show_radix_digits] show_radix_digits
      digits_value_show)

lemma parse_radix_bound: "parse_radix b bound s = Some n \<Longrightarrow> n < bound"
  by (auto simp: parse_radix_def Let_def split: if_splits)

lemma show_radix_inj: "2 \<le> b \<Longrightarrow> b \<le> 10 \<Longrightarrow> show_radix b m = show_radix b n \<longleftrightarrow> m = n"
  by (metis digits_value_show)

lemma show_radix_last_digit: "2 \<le> b \<Longrightarrow> b \<le> 10 \<Longrightarrow> is_digit (last (show_radix b n))"
  by (rule show_radix_is_digit [OF _ _ last_in_set]) auto

lemma f64_as_u64_bound: "f64_as_u64 t < 2 ^ 64"
proof -
  have "t < 2 ^ 64 \<Longrightarrow> 0 \<le> t \<Longrightarrow> nat \<lfloor>t\<rfloor> < 2 ^ 64"
    by (simp add: nat_less_iff floor_less_iff)
  then show ?thesis by (auto simp: f64_as_u64_def)
qed

subsection \<open>A concrete codec for lists of strings\<close>

text \<open>Every character is marked, every string ends with a semicolon: one instance of the encodings
  that are parameters elsewhere (JSON arrays, tokens).\<close>

definition mark_words :: "string list \<Rightarrow> string" where
  "mark_words ws = concat (map (\<lambda>w. concat (map (\<lambda>c. [CHR ''/'', c]) w) @ [CHR '';'']) ws)"

fun mark_dec :: "string \<Rightarrow> string list option" where
  "mark_dec [] = Some []"
| "mark_dec (c # s) =
     (if c = CHR '';'' then map_option (Cons []) (mark_dec s)
      else case s of [] \<Rightarrow> None
        | d # t \<Rightarrow> (case mark_dec t of Some (w # ws) \<Rightarrow> Some ((d # w) # ws) | _ \<Rightarrow> None))"

lemma mark_dec_word:
  "mark_dec (concat (map (\<lambda>c. [CHR ''/'', c]) w) @ CHR '';'' # s) = map_option (Cons w) (mark_dec s)"
  by (induction w) (auto split: option.splits)

lemma mark_dec_words [simp]: "mark_dec (mark_words ws) = Some ws"
  by (induction ws) (simp_all add: mark_words_def mark_dec_word)

end
