(* ===== verification/Gateway_Db.thy ===== *)
theory Gateway_Db
  imports Text_Numbers
begin

text \<open>
  The PostgreSQL state of one gateway: one list of rows per table, in insertion order, with the
  serial counters. A statement is a function on these lists. \<open>ORDER BY\<close> is the stable sort
  (rows that tie keep insertion order, one of the orders SQL allows); a primary key, \<open>UNIQUE\<close>,
  foreign key or \<open>CHECK\<close> that a statement violates makes it fail and write nothing.
  Connection failures and column widths are not modelled; the decoding checks of sqlx are in \<open>Migrations\<close>.

  The rows are the \<open>FromRow\<close> structs of the stores (and the column lists of the migrations
  where the stores read tuples).
\<close>

subsection \<open>Statements on keyed tables\<close>

definition find_by :: "('r \<Rightarrow> 'k) \<Rightarrow> 'k \<Rightarrow> 'r list \<Rightarrow> 'r option" where
  "find_by key k rows = List.find (\<lambda>r. key r = k) rows"

definition has_key :: "('r \<Rightarrow> 'k) \<Rightarrow> 'k \<Rightarrow> 'r list \<Rightarrow> bool" where
  "has_key key k rows = list_ex (\<lambda>r. key r = k) rows"

definition update_where :: "('r \<Rightarrow> bool) \<Rightarrow> ('r \<Rightarrow> 'r) \<Rightarrow> 'r list \<Rightarrow> 'r list" where
  "update_where p f rows = map (\<lambda>r. if p r then f r else r) rows"

definition insert_ignore :: "('r \<Rightarrow> 'k) \<Rightarrow> 'r \<Rightarrow> 'r list \<Rightarrow> 'r list" where
  "insert_ignore key row rows = (if has_key key (key row) rows then rows else rows @ [row])"

definition insert_or :: "('r \<Rightarrow> 'k) \<Rightarrow> 'r \<Rightarrow> ('r \<Rightarrow> 'r) \<Rightarrow> 'r list \<Rightarrow> 'r list" where
  "insert_or key row merge rows =
     (if has_key key (key row) rows then update_where (\<lambda>r. key r = key row) merge rows
      else rows @ [row])"

definition keyed :: "('r \<Rightarrow> 'k) \<Rightarrow> 'r list \<Rightarrow> bool" where
  "keyed key rows \<longleftrightarrow> distinct (map key rows)"

definition order_by :: "('r \<Rightarrow> 'k::linorder) \<Rightarrow> 'r list \<Rightarrow> 'r list" where
  "order_by key rows = sort_key key rows"

definition order_by_desc :: "('r \<Rightarrow> time) \<Rightarrow> 'r list \<Rightarrow> 'r list" where
  "order_by_desc key rows = sort_key (\<lambda>r. - key r) rows"

lemma has_key_iff [table_simps]: "has_key key k rows \<longleftrightarrow> k \<in> key ` set rows"
  by (auto simp: has_key_def list_ex_iff)

lemma find_by_Some: "find_by key k rows = Some r \<Longrightarrow> r \<in> set rows \<and> key r = k"
  by (induction rows) (auto simp: find_by_def split: if_splits)

lemma find_by_None [table_simps]: "find_by key k rows = None \<longleftrightarrow> k \<notin> key ` set rows"
  by (induction rows) (auto simp: find_by_def)

lemma find_by_append [table_simps]:
  "find_by key k (rows @ more) = (case find_by key k rows of None \<Rightarrow> find_by key k more | Some r \<Rightarrow> Some r)"
  by (induction rows) (auto simp: find_by_def)

lemma find_by_single [table_simps]: "find_by key k [r] = (if key r = k then Some r else None)"
  by (simp add: find_by_def)

lemma find_by_Nil [table_simps]: "find_by key k [] = None"
  by (simp add: find_by_def)

lemma find_by_keyed: "keyed key rows \<Longrightarrow> find_by key k rows = Some r \<longleftrightarrow> r \<in> set rows \<and> key r = k"
  by (induction rows) (auto simp: find_by_def keyed_def image_iff)

lemma keyed_snoc [table_simps]: "keyed key (rows @ [r]) \<longleftrightarrow> keyed key rows \<and> key r \<notin> key ` set rows"
  by (auto simp: keyed_def)

lemma keyed_Nil [table_simps]: "keyed key []"
  by (simp add: keyed_def)

lemma keyed_insert_ignore [table_simps]: "keyed key rows \<Longrightarrow> keyed key (insert_ignore key r rows)"
  by (auto simp: insert_ignore_def table_simps)

lemma set_insert_ignore: "set rows \<subseteq> set (insert_ignore key r rows)"
  by (auto simp: insert_ignore_def)

lemma update_where_keys:
  "(\<And>r. p r \<Longrightarrow> key (f r) = key r) \<Longrightarrow> map key (update_where p f rows) = map key rows"
  by (auto simp: update_where_def)

lemma keyed_update_where:
  "(\<And>r. p r \<Longrightarrow> key (f r) = key r) \<Longrightarrow> keyed key (update_where p f rows) \<longleftrightarrow> keyed key rows"
  by (simp add: keyed_def update_where_keys)

lemma keyed_insert_or:
  "(\<And>r. key r = key row \<Longrightarrow> key (merge r) = key r) \<Longrightarrow> keyed key rows \<Longrightarrow>
     keyed key (insert_or key row merge rows)"
  using keyed_update_where [of "\<lambda>r. key r = key row" key merge rows]
  by (simp add: insert_or_def table_simps)

lemma find_by_update_where:
  "(\<And>r. p r \<Longrightarrow> key (f r) = key r) \<Longrightarrow>
     find_by key k (update_where p f rows) =
     map_option (\<lambda>r. if p r then f r else r) (find_by key k rows)"
  by (induction rows) (auto simp: find_by_def update_where_def)

lemma find_by_insert_or:
  assumes "\<And>r. key r = key row \<Longrightarrow> key (merge r) = key r"
  shows "find_by key k (insert_or key row merge rows) =
     (if k = key row then (case find_by key k rows of None \<Rightarrow> Some row | Some r \<Rightarrow> Some (merge r))
      else find_by key k rows)"
proof (cases "has_key key (key row) rows")
  case True
  then have "find_by key (key row) rows \<noteq> None"
    by (simp add: table_simps)
  moreover have "find_by key k (insert_or key row merge rows) =
      map_option (\<lambda>r. if key r = key row then merge r else r) (find_by key k rows)"
    using True assms find_by_update_where [of "\<lambda>r. key r = key row" key merge k rows]
    by (simp add: insert_or_def)
  ultimately show ?thesis
    by (cases "find_by key k rows") (auto dest: find_by_Some)
next
  case False
  then have "find_by key (key row) rows = None"
    by (simp add: table_simps)
  with False show ?thesis
    by (cases "find_by key k rows") (auto simp: insert_or_def find_by_append find_by_single)
qed

lemma set_update_where: "set (update_where p f rows) = (\<lambda>r. if p r then f r else r) ` set rows"
  by (simp add: update_where_def)

lemma set_order_by [simp]: "set (order_by key rows) = set rows"
  by (simp add: order_by_def)

lemma set_order_by_desc [simp]: "set (order_by_desc key rows) = set rows"
  by (simp add: order_by_desc_def)

lemma mset_order_by [simp]: "mset (order_by key rows) = mset rows"
  by (simp add: order_by_def)

lemma sorted_order_by: "sorted (map key (order_by key rows))"
  by (simp add: order_by_def)

subsection \<open>Rows\<close>

record agent_row =
  ar_name :: string
  ar_version :: string
  ar_endpoint :: string
  ar_capabilities :: string
  ar_soul_toml :: string
  ar_last_seen :: "string option"
  ar_registered_at :: string

record todo_row =
  td_id :: int
  td_agent_name :: string
  td_task :: string
  td_status :: string
  td_notes :: string
  td_created_at :: string
  td_completed_at :: "string option"

record project_todo_row =
  pt_id :: int
  pt_task :: string
  pt_assigned_to :: "string option"
  pt_status :: string
  pt_notes :: string
  pt_source_todos :: string
  pt_created_at :: string
  pt_updated_at :: string

record project_row =
  pr_id :: string
  pr_name :: string
  pr_repo_url :: string
  pr_description :: string
  pr_visibility :: string
  pr_folder_path :: string
  pr_file_glob :: string
  pr_is_active :: int
  pr_created_at :: time
  pr_updated_at :: time
  pr_onboarding_step :: "string option"
  pr_origin_gateway :: string
  pr_peer_gateway :: string
  pr_peer_project_id :: string

record agent_project_row =
  ap_agent_name :: string
  ap_project_id :: string
  ap_joined_at :: time

record object_row =
  ob_sha256 :: string
  ob_size_bytes :: int
  ob_created_at :: time

record snap_row =
  sn_id :: string
  sn_project_id :: string
  sn_gateway :: string
  sn_transcript :: string
  sn_created_at :: time

record head_row =
  hd_project_id :: string
  hd_snapshot_id :: string
  hd_updated_at :: time

record log_row =
  lr_id :: string
  lr_project_id :: string
  lr_gateway_name :: string
  lr_agent_name :: string
  lr_entry_type :: string
  lr_content :: string
  lr_cursor :: int
  lr_created_at :: time
  lr_todo_id :: "int option"
  lr_signature :: "string option"
  lr_task_status :: "string option"
  lr_valid_from :: "time option"
  lr_valid_to :: "time option"

record prop_row =
  pp_id :: string
  pp_project_id :: string
  pp_proposer_gateway :: string
  pp_proposer_agent :: string
  pp_snapshot_id :: string
  pp_description :: string
  pp_status :: string
  pp_gateway_count :: int
  pp_created_at :: time
  pp_resolved_at :: "time option"
  pp_resolved_by :: "string option"

record vote_row =
  vt_id :: string
  vt_proposal_id :: string
  vt_gateway_name :: string
  vt_agent_name :: string
  vt_vote :: string
  vt_reason :: string
  vt_voted_at :: time

record group_row =
  gr_id :: string
  gr_name :: string
  gr_description :: string
  gr_created_by :: string
  gr_created_at :: time

record member_row =
  mr_group_id :: string
  mr_gateway_name :: string
  mr_joined_at :: time
  mr_invited_by :: string

record invite_row =
  iv_token :: string
  iv_group_id :: string
  iv_created_by :: string
  iv_created_at :: time
  iv_expires_at :: time
  iv_used_at :: "time option"
  iv_used_by :: "string option"

record group_project_row =
  gp_group_id :: string
  gp_project_id :: string
  gp_added_at :: time

record fact_row =
  mf_id :: int
  mf_agent_name :: string
  mf_project_id :: "string option"
  mf_topic :: string
  mf_content :: string
  mf_created_at :: time
  mf_valid_from :: time
  mf_valid_to :: "time option"

record peer_cursor_row =
  pc_peer_name :: string
  pc_project_id :: string
  pc_last_cursor :: int
  pc_updated_at :: time

record db =
  agents :: "agent_row list"
  memories :: "(string \<times> string) list"
  todos :: "todo_row list"
  todo_serial :: int
  project_todos :: "project_todo_row list"
  project_todo_serial :: int
  projects :: "project_row list"
  agent_projects :: "agent_project_row list"
  objects :: "object_row list"
  snapshots :: "snap_row list"
  project_heads :: "head_row list"
  task_log :: "log_row list"
  proposals :: "prop_row list"
  votes :: "vote_row list"
  groups :: "group_row list"
  members :: "member_row list"
  invites :: "invite_row list"
  group_projects :: "group_project_row list"
  facts :: "fact_row list"
  fact_serial :: int
  peer_cursors :: "peer_cursor_row list"

definition empty_db :: db where
  "empty_db = \<lparr>agents = [], memories = [], todos = [], todo_serial = 1, project_todos = [],
     project_todo_serial = 1, projects = [], agent_projects = [], objects = [], snapshots = [],
     project_heads = [], task_log = [], proposals = [], votes = [], groups = [], members = [],
     invites = [], group_projects = [], facts = [], fact_serial = 1, peer_cursors = []\<rparr>"

abbreviation agent_exists :: "db \<Rightarrow> string \<Rightarrow> bool" where
  "agent_exists d n \<equiv> has_key ar_name n (agents d)"

abbreviation project_exists :: "db \<Rightarrow> string \<Rightarrow> bool" where
  "project_exists d p \<equiv> has_key pr_id p (projects d)"

end
