(* ===== verification/Identity.thy ===== *)
theory Identity
  imports Registry
begin

text \<open>
  The identity store (\<open>identity.rs\<close>): an agent's soul (written once unless forced), its memory
  (Markdown meant to be appended to) and its todos (annotated, never deleted). The operations are those of the
  store on the tables \<open>agents\<close>, \<open>memories\<close> and \<open>todos\<close>; together with
  registration and heartbeats they are the writers of these tables (\<open>agent_step\<close>).

  Lemmas: the store's rules as histories. Whatever sequence of operations runs, what was there is
  still there.
\<close>

record todo_view =
  tv_id :: int
  tv_task :: string
  tv_status :: string
  tv_notes :: string
  tv_created_at :: string
  tv_completed_at :: "string option"

subsection \<open>Soul\<close>

definition get_soul :: "string \<Rightarrow> (db, string) act" where
  "get_soul name = (\<lambda>d. case find_by ar_name name (agents d) of
      Some r \<Rightarrow> (d, Inr (ar_soul_toml r))
    | None \<Rightarrow> (d, Inl (Anyhow (''agent not found: '' @ name))))"

definition set_soul :: "string \<Rightarrow> string \<Rightarrow> bool \<Rightarrow> (db, unit) act" where
  "set_soul name content force = (\<lambda>d.
     if force
     then (d\<lparr>agents := update_where (\<lambda>r. ar_name r = name) (\<lambda>r. r\<lparr>ar_soul_toml := content\<rparr>) (agents d)\<rparr>, Inr ())
     else (d\<lparr>agents := update_where (\<lambda>r. ar_name r = name \<and> ar_soul_toml r = [])
                 (\<lambda>r. r\<lparr>ar_soul_toml := content\<rparr>) (agents d)\<rparr>, Inr ()))"

subsection \<open>Memory\<close>

definition get_memory :: "string \<Rightarrow> (db, string) act" where
  "get_memory name = (\<lambda>d. (d, Inr (case find_by fst name (memories d) of Some (_, m) \<Rightarrow> m | None \<Rightarrow> [])))"

text \<open>
  The statement's \<open>DO UPDATE SET content_md = content_md || chr(10) || excluded.content_md\<close> reads \<open>content_md\<close>
  unqualified where both the row in the table and the row \<open>excluded\<close> have a column of that name. PostgreSQL refuses
  such a statement as ambiguous when it analyses it, whatever the tables hold and whether or not the names conflict.
\<close>

definition append_memory :: "string \<Rightarrow> string \<Rightarrow> (db, unit) act" where
  "append_memory name content = (\<lambda>d. (d, Inl (Sql_err [] Ambiguous_column)))"

subsection \<open>Todos\<close>

text \<open>The serial is drawn before the foreign key is checked, so a rejected insert uses one up.\<close>

definition append_todo :: "string \<Rightarrow> string \<Rightarrow> string \<Rightarrow> (db, int) act" where
  "append_todo now name task = (\<lambda>d.
     let i = todo_serial d; d1 = d\<lparr>todo_serial := i + 1\<rparr> in
     if agent_exists d name
     then (d1\<lparr>todos := todos d @ [\<lparr>td_id = i, td_agent_name = name, td_task = task,
              td_status = ''pending'', td_notes = [], td_created_at = now, td_completed_at = None\<rparr>]\<rparr>, Inr i)
     else (d1, Inl (Sql_err [] Foreign_key_violation)))"

definition complete_todo :: "string \<Rightarrow> int \<Rightarrow> string \<Rightarrow> (db, unit) act" where
  "complete_todo now i notes = (\<lambda>d.
     if has_key td_id i (todos d)
     then (d\<lparr>todos := update_where (\<lambda>r. td_id r = i)
              (\<lambda>r. r\<lparr>td_status := ''done'', td_notes := notes, td_completed_at := Some now\<rparr>) (todos d)\<rparr>, Inr ())
     else (d, Inl (Anyhow (''todo '' @ show_int i @ '' not found''))))"

definition view_todo :: "todo_row \<Rightarrow> todo_view" where
  "view_todo r = \<lparr>tv_id = td_id r, tv_task = td_task r, tv_status = td_status r, tv_notes = td_notes r,
     tv_created_at = td_created_at r, tv_completed_at = td_completed_at r\<rparr>"

definition list_todos :: "string \<Rightarrow> bool \<Rightarrow> (db, todo_view list) act" where
  "list_todos name include_done = (\<lambda>d. (d, Inr (map view_todo
     (if include_done then order_by td_id (filter (\<lambda>r. td_agent_name r = name) (todos d))
      else order_by td_id (filter (\<lambda>r. td_agent_name r = name \<and> td_status r \<noteq> ''done'') (todos d))))))"

subsection \<open>The writers of the agent tables, as one step function\<close>

datatype agent_op =
    Upsert agent_entry
  | Heartbeat string string
  | Set_soul string string
  | Append_memory string string
  | Append_todo string string string
  | Complete_todo string int string

abbreviation on_db :: "(db, 'a) act \<Rightarrow> (registry, 'a) act" where
  "on_db \<equiv> zoomA rg_db (\<lambda>d s. s\<lparr>rg_db := d\<rparr>)"

fun agent_step :: "caps_json \<Rightarrow> agent_op \<Rightarrow> registry \<Rightarrow> registry" where
  "agent_step J (Upsert e) s = exec (upsert J e) s"
| "agent_step J (Heartbeat now n) s = exec (heartbeat now n) s"
| "agent_step J (Set_soul n c) s = exec (on_db (set_soul n c False)) s"
| "agent_step J (Append_memory n c) s = exec (on_db (append_memory n c)) s"
| "agent_step J (Append_todo now n t) s = exec (on_db (append_todo now n t)) s"
| "agent_step J (Complete_todo now i notes) s = exec (on_db (complete_todo now i notes)) s"

lemmas agent_step_defs = exec_def zoomA_def upsert_def heartbeat_def set_soul_def append_memory_def
  append_todo_def complete_todo_def Let_def

subsection \<open>Histories\<close>

definition soul_of :: "registry \<Rightarrow> string \<Rightarrow> string option" where
  "soul_of s n = map_option ar_soul_toml (find_by ar_name n (agents (rg_db s)))"

definition memory_of :: "registry \<Rightarrow> string \<Rightarrow> string option" where
  "memory_of s n = map_option snd (find_by fst n (memories (rg_db s)))"

definition todo_facts :: "registry \<Rightarrow> (int \<times> string \<times> string \<times> string) list" where
  "todo_facts s = map (\<lambda>r. (td_id r, td_agent_name r, td_task r, td_created_at r)) (todos (rg_db s))"

definition done_ids :: "registry \<Rightarrow> int set" where
  "done_ids s = td_id ` {r \<in> set (todos (rg_db s)). td_status r = ''done''}"

definition soul_kept :: "registry \<Rightarrow> registry \<Rightarrow> bool" where
  "soul_kept s t \<longleftrightarrow> (\<forall>n x. soul_of s n = Some x \<and> x \<noteq> [] \<longrightarrow> soul_of t n = Some x)"

definition memory_kept :: "registry \<Rightarrow> registry \<Rightarrow> bool" where
  "memory_kept s t \<longleftrightarrow> (\<forall>n m. memory_of s n = Some m \<longrightarrow> (\<exists>more. memory_of t n = Some (m @ more)))"

definition todos_kept :: "registry \<Rightarrow> registry \<Rightarrow> bool" where
  "todos_kept s t \<longleftrightarrow> prefix (todo_facts s) (todo_facts t) \<and> done_ids s \<subseteq> done_ids t"

lemma soul_of_heartbeat: "soul_of (exec (heartbeat now n) s) m = soul_of s m"
  by (cases "find_by ar_name m (agents (rg_db s))")
    (auto simp: soul_of_def agent_step_defs find_by_update_where)

lemma soul_of_set_soul:
  "soul_of (exec (on_db (set_soul n c force)) s) m =
     map_option (\<lambda>x. if m = n \<and> (force \<or> x = []) then c else x) (soul_of s m)"
  by (cases "find_by ar_name m (agents (rg_db s))")
    (auto simp: soul_of_def agent_step_defs find_by_update_where dest: find_by_Some)

lemma soul_of_upsert:
  "soul_of (exec (upsert J e) s) m =
     (if m = ae_name e then Some (case soul_of s m of Some x \<Rightarrow> (if x = [] then ae_soul_toml e else x)
                                 | None \<Rightarrow> ae_soul_toml e)
      else soul_of s m)"
proof -
  have [simp]: "ar_soul_toml (agent_row_of J e) = ae_soul_toml e"
    by (simp add: agent_row_of_def)
  show ?thesis
    by (auto simp: soul_of_def agent_step_defs find_agent_upsert merge_agent_def split: option.splits)
qed

text \<open>No operation writes into a memory: a registration makes an empty one, and appending fails.\<close>

lemma memory_of_step:
  "memory_of (agent_step J op s) n =
     (case op of Upsert e \<Rightarrow> if n = ae_name e \<and> memory_of s n = None then Some [] else memory_of s n | _ \<Rightarrow> memory_of s n)"
proof (cases op)
  case (Upsert e)
  moreover have "has_key fst k rows \<longleftrightarrow> find_by fst k rows \<noteq> None" for k and rows :: "(string \<times> string) list"
    by (simp add: table_simps)
  ultimately show ?thesis
    by (auto simp: memory_of_def agent_step_defs insert_ignore_def find_by_append find_by_single split: option.splits)
qed (auto simp: memory_of_def agent_step_defs split: prod.splits if_splits)

lemma soul_kept_step: "soul_kept s (agent_step J op s)"
proof (cases op)
  case (Complete_todo now i nts)
  then show ?thesis by (simp add: soul_kept_def soul_of_def agent_step_defs)
qed (auto simp: soul_kept_def soul_of_upsert soul_of_heartbeat soul_of_set_soul,
     auto simp: soul_of_def agent_step_defs)

lemma memory_kept_step: "memory_kept s (agent_step J op s)"
  by (auto simp: memory_kept_def memory_of_step split: agent_op.split)

lemma todos_kept_step: "todos_kept s (agent_step J op s)"
proof (cases op)
  case (Complete_todo now i nts)
  let ?f = "\<lambda>r. r\<lparr>td_status := ''done'', td_notes := nts, td_completed_at := Some now\<rparr>"
  have facts: "todo_facts (agent_step J op s) = todo_facts s"
    using Complete_todo update_where_keys
      [of "\<lambda>r. td_id r = i" "\<lambda>r. (td_id r, td_agent_name r, td_task r, td_created_at r)" ?f "todos (rg_db s)"]
    by (simp add: todo_facts_def agent_step_defs)
  have "k \<in> done_ids (agent_step J op s)" if k: "k \<in> done_ids s" for k
  proof -
    obtain r where r: "r \<in> set (todos (rg_db s))" "td_status r = ''done''" "td_id r = k"
      using k by (auto simp: done_ids_def)
    let ?r = "if td_id r = i then ?f r else r"
    have "td_status ?r = ''done''" "td_id ?r = k" using r by auto
    with r(1) k Complete_todo show ?thesis
      by (auto simp: done_ids_def agent_step_defs set_update_where image_iff split: if_splits)
  qed
  with facts show ?thesis
    by (auto simp: todos_kept_def)
qed (auto simp: todos_kept_def todo_facts_def done_ids_def agent_step_defs split: prod.splits if_splits)

interpretation soul_history: history_system "agent_step J" soul_kept for J
  by unfold_locales (simp add: soul_kept_def, force simp: soul_kept_def, rule soul_kept_step)

interpretation memory_history: history_system "agent_step J" memory_kept for J
proof
  fix s t u
  assume a: "memory_kept s t" and b: "memory_kept t u"
  show "memory_kept s u"
    unfolding memory_kept_def
  proof (intro allI impI)
    fix n m assume "memory_of s n = Some m"
    with a obtain x where "memory_of t n = Some (m @ x)" by (auto simp: memory_kept_def)
    with b obtain y where "memory_of u n = Some ((m @ x) @ y)" by (fastforce simp: memory_kept_def)
    then show "\<exists>more. memory_of u n = Some (m @ more)" by simp
  qed
qed (simp add: memory_kept_def, rule memory_kept_step)

interpretation todo_history: history_system "agent_step J" todos_kept for J
  by unfold_locales (simp add: todos_kept_def, force simp: todos_kept_def, rule todos_kept_step)

subsection \<open>Coherence of the registry cache\<close>

text \<open>What routing reads of an entry. Soul and registration time are left out: the table keeps the
  first ones while the cache takes those of the last registration (\<open>upsert_cache_soul\<close>).\<close>

definition route_view :: "agent_entry \<Rightarrow> string \<times> string \<times> string list \<times> string option" where
  "route_view e = (ae_version e, ae_endpoint e, ae_capabilities e, ae_last_seen e)"

definition coherent :: "caps_json \<Rightarrow> registry \<Rightarrow> bool" where
  "coherent J s \<longleftrightarrow> keyed ar_name (agents (rg_db s)) \<and>
     (\<forall>n. map_option route_view (cache_get (rg_cache s) n) =
          map_option (\<lambda>r. route_view (entry_of_row J r)) (find_by ar_name n (agents (rg_db s))))"

lemma coherent_new: "keyed ar_name (agents d) \<Longrightarrow> coherent J (registry_new J d)"
  by (auto simp: coherent_def registry_new_def cache_get_reload cache_get_def [of "[]"] find_by_Nil
      split: option.splits)

lemma route_view_row [simp]:
  assumes "caps_codec J"
  shows "route_view (entry_of_row J (agent_row_of J e)) = route_view e"
    and "route_view (entry_of_row J (merge_agent J e r)) = route_view e"
  using assms by (simp_all add: route_view_def entry_of_row_def agent_row_of_def merge_agent_def caps_codec_def)

lemma coherent_upsert:
  assumes "caps_codec J" "coherent J s"
  shows "coherent J (exec (upsert J e) s)"
  using assms unfolding coherent_def
  by (auto simp: exec_def upsert_def Let_def find_agent_upsert keyed_agents_upsert split: option.splits)

lemma coherent_heartbeat:
  assumes "coherent J s"
  shows "coherent J (exec (heartbeat now n) s)"
  unfolding coherent_def
proof (intro conjI allI)
  show "keyed ar_name (agents (rg_db (exec (heartbeat now n) s)))"
    using assms by (auto simp: coherent_def exec_def heartbeat_def keyed_update_where)
  fix m
  have *: "map_option route_view (cache_get (rg_cache s) m) =
      map_option (\<lambda>r. route_view (entry_of_row J r)) (find_by ar_name m (agents (rg_db s)))"
    using assms by (simp add: coherent_def)
  show "map_option route_view (cache_get (rg_cache (exec (heartbeat now n) s)) m) =
      map_option (\<lambda>r. route_view (entry_of_row J r)) (find_by ar_name m (agents (rg_db (exec (heartbeat now n) s))))"
    using *
    by (cases "cache_get (rg_cache s) m"; cases "find_by ar_name m (agents (rg_db s))")
      (auto simp: exec_def heartbeat_def cache_get_beat find_by_update_where route_view_def
        entry_of_row_def dest: cache_get_name find_by_Some)
qed

lemma coherent_rest:
  assumes "coherent J s" "rg_cache t = rg_cache s"
    and "agents (rg_db t) = update_where p (\<lambda>r. r\<lparr>ar_soul_toml := c\<rparr>) (agents (rg_db s)) \<or>
         agents (rg_db t) = agents (rg_db s)"
  shows "coherent J t"
proof -
  have "map_option (\<lambda>r. route_view (entry_of_row J r)) (find_by ar_name n (agents (rg_db t))) =
        map_option (\<lambda>r. route_view (entry_of_row J r)) (find_by ar_name n (agents (rg_db s)))" for n
    using assms(3)
    by (cases "find_by ar_name n (agents (rg_db s))")
      (auto simp: find_by_update_where route_view_def entry_of_row_def)
  moreover have "keyed ar_name (agents (rg_db t))"
    using assms by (auto simp: coherent_def keyed_update_where)
  ultimately show ?thesis
    using assms by (simp add: coherent_def)
qed

lemma coherent_step: "caps_codec J \<Longrightarrow> coherent J s \<Longrightarrow> coherent J (agent_step J op s)"
proof (cases op)
  case (Set_soul n c)
  moreover assume "coherent J s"
  ultimately show ?thesis
    by (auto simp: exec_def zoomA_def set_soul_def intro!: coherent_rest [of J s])
next
  case (Append_memory n c)
  moreover assume "coherent J s"
  ultimately show ?thesis
    by (auto simp: exec_def zoomA_def append_memory_def intro!: coherent_rest [of J s])
next
  case (Append_todo now n c)
  moreover assume "coherent J s"
  ultimately show ?thesis
    by (auto simp: exec_def zoomA_def append_todo_def Let_def intro!: coherent_rest [of J s])
next
  case (Complete_todo now i c)
  moreover assume "coherent J s"
  ultimately show ?thesis
    by (auto simp: exec_def zoomA_def complete_todo_def intro!: coherent_rest [of J s])
qed (simp_all add: coherent_upsert coherent_heartbeat)

interpretation registry_system: invariant_system "agent_step J" "\<lambda>s. caps_codec J \<and> coherent J s" for J
  by unfold_locales (simp add: coherent_step)

lemma coherent_lookup:
  "coherent J s \<Longrightarrow> map_option route_view (registry_get s n) =
     map_option (\<lambda>r. route_view (entry_of_row J r)) (find_by ar_name n (agents (rg_db s)))"
  by (simp add: coherent_def registry_get_def)

lemma restart_view:
  "coherent J s \<Longrightarrow> map_option route_view (registry_get (registry_new J (rg_db s)) n) =
     map_option route_view (registry_get s n)"
  by (metis coherent_def coherent_lookup coherent_new registry_new_def registry.select_convs(1))

subsection \<open>A concrete capability codec\<close>

text \<open>One codec with the documented property of serde_json, used to instantiate the parameter.\<close>

definition mark_json :: caps_json where
  "mark_json = \<lparr>cj_enc = mark_words, cj_dec = mark_dec\<rparr>"

lemma mark_json_codec: "caps_codec mark_json"
  by (simp add: caps_codec_def mark_json_def)

subsection \<open>Properties\<close>

text \<open>
  A soul is written once: once an agent's soul is non-empty, no sequence of registrations,
  heartbeats, soul writes without \<open>force\<close>, memory and todo operations changes it.
\<close>

lemma soul_written_once:
  assumes "soul_of s n = Some x" "x \<noteq> []"
  shows "soul_of (runA (agent_step J) s ops) n = Some x"
  using soul_history.run_ext [of s J ops] assms by (auto simp: soul_kept_def)

definition demo_entry :: agent_entry where
  "demo_entry = \<lparr>ae_name = ''a'', ae_version = ''1'', ae_endpoint = ''http://a'',
     ae_capabilities = [''rust''], ae_soul_toml = ''s1'', ae_last_seen = None, ae_registered_at = ''t''\<rparr>"

definition demo_registry :: registry where
  "demo_registry = exec (upsert mark_json demo_entry) (registry_new mark_json empty_db)"

lemma demo_soul: "soul_of demo_registry ''a'' = Some ''s1''"
proof -
  have "soul_of demo_registry (ae_name demo_entry) = Some (ae_soul_toml demo_entry)"
    unfolding demo_registry_def soul_of_upsert
    by (simp add: soul_of_def registry_new_def empty_db_def find_by_Nil)
  then show ?thesis by (simp add: demo_entry_def)
qed

lemma soul_written_once_witness:
  "soul_of (runA (agent_step mark_json) demo_registry
      [Upsert (demo_entry\<lparr>ae_soul_toml := ''s2''\<rparr>), Set_soul ''a'' ''s3'']) ''a'' = Some ''s1''"
  by (rule soul_written_once) (simp_all add: demo_soul)

text \<open>
  Memory is append-only: whatever operations run, the memory of an agent that had one is the
  old text followed by what was appended.
\<close>

lemma memory_append_only:
  assumes "memory_of s n = Some m"
  shows "\<exists>more. memory_of (runA (agent_step J) s ops) n = Some (m @ more)"
  using memory_history.run_ext [of s J ops] assms by (auto simp: memory_kept_def)

text \<open>
  As the statement stands nothing is ever appended, though: a memory that is there stays as it is, whatever an agent sends.
\<close>

lemma memory_never_written:
  assumes "memory_of s n = Some m"
  shows "memory_of (runA (agent_step J) s ops) n = Some m"
  using assms by (induction ops arbitrary: s) (auto simp: memory_of_step split: agent_op.split)

lemma demo_memory: "memory_of demo_registry ''a'' = Some []"
  by (simp add: demo_registry_def memory_of_def agent_step_defs registry_new_def empty_db_def
      insert_ignore_def has_key_def find_by_def demo_entry_def)

lemma memory_append_only_witness:
  "\<exists>more. memory_of (runA (agent_step mark_json) demo_registry
     [Append_memory ''a'' ''note'', Upsert demo_entry]) ''a'' = Some ([] @ more)"
  by (rule memory_append_only) (rule demo_memory)

text \<open>
  Todos are annotated, never lost: after any operations the old todos are still there in order
  with their ids, agents, tasks and creation times, and a todo that was done is still done.
\<close>

lemma todos_never_lost:
  "prefix (todo_facts s) (todo_facts (runA (agent_step J) s ops)) \<and>
   done_ids s \<subseteq> done_ids (runA (agent_step J) s ops)"
  using todo_history.run_ext [of s J ops] by (simp add: todos_kept_def)

text \<open>
  C30. A restart loses no agent: starting from any agents table and running any operations, the
  registry that a new process builds from the table routes every name exactly as the cache of the
  old process did (same version, endpoint, capabilities and last heartbeat, or absent in both).
\<close>

theorem registry_restart:
  assumes "caps_codec J" "keyed ar_name (agents d)"
  shows "let s = runA (agent_step J) (registry_new J d) ops in
         map_option route_view (registry_get (registry_new J (rg_db s)) n) =
         map_option route_view (registry_get s n)"
  using registry_system.run_inv [of J "registry_new J d" ops] assms coherent_new
  by (simp add: restart_view)

lemma registry_restart_witness:
  "let s = runA (agent_step mark_json) (registry_new mark_json empty_db) [Upsert demo_entry, Heartbeat ''t2'' ''a''] in
   map_option route_view (registry_get (registry_new mark_json (rg_db s)) ''a'') =
   map_option route_view (registry_get s ''a'')"
  by (rule registry_restart [OF mark_json_codec]) (simp add: empty_db_def table_simps)

text \<open>
  What an upsert leaves behind: the cache holds exactly the registered entry, and the table the
  registered routing data, but the soul in the table stays the first non-empty one. So after a second
  registration with another soul the cache and the table disagree on it until the next restart.
\<close>

lemma upsert_cache_soul:
  "registry_get (exec (upsert J e) s) (ae_name e) = Some e \<and>
   soul_of (exec (upsert J e) s) (ae_name e) =
     Some (case soul_of s (ae_name e) of Some x \<Rightarrow> if x = [] then ae_soul_toml e else x | None \<Rightarrow> ae_soul_toml e)"
  by (simp add: soul_of_upsert) (simp add: registry_get_def agent_step_defs)

end
