(* ===== verification/Projects.thy ===== *)
theory Projects
  imports Gateway_Db
begin

text \<open>
  The project store (\<open>projects.rs\<close>): visibility levels and their transitions, the CRUD operations on
  \<open>projects\<close> and \<open>agent_projects\<close>, and the row mapping. Parameters: fresh ids, the clock, and the file
  system answers of \<open>set_folder_path\<close> (\<open>canonicalize\<close> and \<open>is_dir\<close>).

  Lemmas: visibility strings are a codec and levels a linear order; the store's invariant (unique ids,
  unique names, decodable visibilities) and what each operation does to one project's row.
\<close>

subsection \<open>Visibility\<close>

datatype visibility = LanOnly | Group | Public

fun visibility_as_str :: "visibility \<Rightarrow> string" where
  "visibility_as_str LanOnly = ''lan-only''"
| "visibility_as_str Group = ''group''"
| "visibility_as_str Public = ''public''"

definition visibility_from_str :: "string \<Rightarrow> err + visibility" where
  "visibility_from_str s =
     (if s = ''lan-only'' then Inr LanOnly
      else if s = ''group'' then Inr Group
      else if s = ''public'' then Inr Public
      else Inl (Anyhow (''unknown visibility '' @ [CHR 0x27] @ s @ [CHR 0x27])))"

fun can_transition_to :: "visibility \<Rightarrow> visibility \<Rightarrow> bool" where
  "can_transition_to LanOnly Group = True"
| "can_transition_to Group LanOnly = True"
| "can_transition_to Group Public = True"
| "can_transition_to Public Group = True"
| "can_transition_to _ _ = False"

definition right_option :: "'e + 'a \<Rightarrow> 'a option" where
  "right_option r = (case r of Inl _ \<Rightarrow> None | Inr x \<Rightarrow> Some x)"

interpretation visibility_codec: string_codec visibility_as_str "\<lambda>s. right_option (visibility_from_str s)"
proof
  fix v show "right_option (visibility_from_str (visibility_as_str v)) = Some v"
    by (cases v) (simp_all add: visibility_from_str_def right_option_def)
qed

text \<open>The levels are linearly ordered by how many gateways see the project.\<close>

fun level :: "visibility \<Rightarrow> nat" where
  "level LanOnly = 0"
| "level Group = 1"
| "level Public = 2"

lemma level_inj: "level v = level w \<longleftrightarrow> v = w"
  by (cases v; cases w) simp_all

instantiation visibility :: linorder
begin

definition less_eq_visibility :: "visibility \<Rightarrow> visibility \<Rightarrow> bool" where
  "less_eq_visibility v w \<longleftrightarrow> level v \<le> level w"

definition less_visibility :: "visibility \<Rightarrow> visibility \<Rightarrow> bool" where
  "less_visibility v w \<longleftrightarrow> level v < level w"

instance
  by standard (auto simp: less_eq_visibility_def less_visibility_def level_inj)

end

lemma can_transition_level:
  "can_transition_to v w \<longleftrightarrow> level w = level v + 1 \<or> level v = level w + 1"
  by (cases v; cases w) simp_all

subsection \<open>Projects\<close>

record project =
  pj_id :: string
  pj_name :: string
  pj_repo_url :: string
  pj_description :: string
  pj_visibility :: visibility
  pj_folder_path :: string
  pj_file_glob :: string
  pj_is_active :: bool
  pj_created_at :: time
  pj_updated_at :: time
  pj_onboarding_step :: "string option"
  pj_origin_gateway :: string
  pj_peer_gateway :: string
  pj_peer_project_id :: string

definition project_of_row :: "project_row \<Rightarrow> project" where
  "project_of_row r = \<lparr>pj_id = pr_id r, pj_name = pr_name r, pj_repo_url = pr_repo_url r,
     pj_description = pr_description r,
     pj_visibility = (case visibility_from_str (pr_visibility r) of Inr v \<Rightarrow> v | Inl _ \<Rightarrow> LanOnly),
     pj_folder_path = pr_folder_path r, pj_file_glob = pr_file_glob r, pj_is_active = (pr_is_active r \<noteq> 0),
     pj_created_at = pr_created_at r, pj_updated_at = pr_updated_at r,
     pj_onboarding_step = pr_onboarding_step r, pj_origin_gateway = pr_origin_gateway r,
     pj_peer_gateway = pr_peer_gateway r, pj_peer_project_id = pr_peer_project_id r\<rparr>"

subsection \<open>Reading\<close>

definition get_project :: "db \<Rightarrow> string \<Rightarrow> project option" where
  "get_project d i = map_option project_of_row (find_by pr_id i (projects d))"

definition get_by_name :: "db \<Rightarrow> string \<Rightarrow> project option" where
  "get_by_name d n = map_option project_of_row (find_by pr_name n (projects d))"

definition list_projects :: "db \<Rightarrow> project list" where
  "list_projects d = map project_of_row (order_by_desc pr_created_at (projects d))"

definition list_by_visibility :: "db \<Rightarrow> visibility \<Rightarrow> project list" where
  "list_by_visibility d vis = map project_of_row
     (order_by_desc pr_created_at (filter (\<lambda>r. pr_visibility r = visibility_as_str vis) (projects d)))"

definition list_pending_onboarding :: "db \<Rightarrow> project list" where
  "list_pending_onboarding d = map project_of_row
     (order_by pr_created_at (filter (\<lambda>r. pr_onboarding_step r \<noteq> None) (projects d)))"

subsection \<open>Writing\<close>

definition project_row_new ::
  "string \<Rightarrow> time \<Rightarrow> string \<Rightarrow> string \<Rightarrow> string \<Rightarrow> string \<Rightarrow> string \<Rightarrow> string \<Rightarrow> project_row" where
  "project_row_new i now name repo_url description origin_gateway peer_gateway peer_project_id =
     \<lparr>pr_id = i, pr_name = name, pr_repo_url = repo_url, pr_description = description,
      pr_visibility = ''lan-only'', pr_folder_path = [], pr_file_glob = ''**/*'', pr_is_active = 0,
      pr_created_at = now, pr_updated_at = now,
      pr_onboarding_step = (if peer_gateway = [] then None else Some ''awaiting_folder''),
      pr_origin_gateway = origin_gateway, pr_peer_gateway = peer_gateway,
      pr_peer_project_id = peer_project_id\<rparr>"

definition create_project ::
  "string \<Rightarrow> time \<Rightarrow> string \<Rightarrow> string \<Rightarrow> string \<Rightarrow> string \<Rightarrow> string \<Rightarrow> string \<Rightarrow> (db, project) act" where
  "create_project i now name repo_url description origin_gateway peer_gateway peer_project_id = (\<lambda>d.
     if has_key pr_id i (projects d) \<or> has_key pr_name name (projects d)
     then (d, Inl (Sql_err ''insert project'' Unique_violation))
     else
       let d1 = d\<lparr>projects := projects d @ [project_row_new i now name repo_url description
             origin_gateway peer_gateway peer_project_id]\<rparr>
       in (case get_project d1 i of
             Some p \<Rightarrow> (d1, Inr p)
           | None \<Rightarrow> (d1, Inl (Anyhow ''project not found after insert''))))"

definition update_project :: "string \<Rightarrow> time \<Rightarrow> (project_row \<Rightarrow> project_row) \<Rightarrow> db \<Rightarrow> db" where
  "update_project i now f d =
     d\<lparr>projects := update_where (\<lambda>r. pr_id r = i) (\<lambda>r. (f r)\<lparr>pr_updated_at := now\<rparr>) (projects d)\<rparr>"

definition set_visibility :: "time \<Rightarrow> string \<Rightarrow> visibility \<Rightarrow> (db, unit) act" where
  "set_visibility now i next_vis = (\<lambda>d.
     case get_project d i of
       None \<Rightarrow> (d, Inl (Anyhow ''project not found''))
     | Some project \<Rightarrow>
         if pj_is_active project
         then (d, Inl (Anyhow ''cannot change visibility while project is active''))
         else if \<not> can_transition_to (pj_visibility project) next_vis
         then (d, Inl (Anyhow (''project is already at visibility '' @ [CHR 0x27] @
                visibility_as_str next_vis @ [CHR 0x27])))
         else (update_project i now (\<lambda>r. r\<lparr>pr_visibility := visibility_as_str next_vis\<rparr>) d, Inr ()))"

definition set_folder_path ::
  "(string \<Rightarrow> string option) \<Rightarrow> (string \<Rightarrow> bool) \<Rightarrow> time \<Rightarrow> string \<Rightarrow> string \<Rightarrow> (db, unit) act" where
  "set_folder_path canonicalize is_dir now i path = (\<lambda>d.
     case canonicalize path of
       None \<Rightarrow> (d, Inl (Anyhow (''folder path does not exist or is inaccessible: '' @ path)))
     | Some canonical \<Rightarrow>
         if \<not> is_dir canonical then (d, Inl (Anyhow (''folder path is not a directory: '' @ canonical)))
         else (update_project i now (\<lambda>r. r\<lparr>pr_folder_path := canonical\<rparr>) d, Inr ()))"

definition set_file_glob :: "time \<Rightarrow> string \<Rightarrow> string \<Rightarrow> (db, unit) act" where
  "set_file_glob now i glob = (\<lambda>d. (update_project i now (\<lambda>r. r\<lparr>pr_file_glob := glob\<rparr>) d, Inr ()))"

definition set_onboarding_step :: "time \<Rightarrow> string \<Rightarrow> string option \<Rightarrow> (db, unit) act" where
  "set_onboarding_step now i step = (\<lambda>d. (update_project i now (\<lambda>r. r\<lparr>pr_onboarding_step := step\<rparr>) d, Inr ()))"

definition set_active :: "time \<Rightarrow> string \<Rightarrow> bool \<Rightarrow> (db, unit) act" where
  "set_active now i active = (\<lambda>d.
     (update_project i now (\<lambda>r. r\<lparr>pr_is_active := (if active then 1 else 0)\<rparr>) d, Inr ()))"

subsection \<open>Agent membership\<close>

definition add_agent :: "time \<Rightarrow> string \<Rightarrow> string \<Rightarrow> (db, unit) act" where
  "add_agent now agent_name project_id = (\<lambda>d.
     (d\<lparr>agent_projects := insert_ignore (\<lambda>r. (ap_agent_name r, ap_project_id r))
          \<lparr>ap_agent_name = agent_name, ap_project_id = project_id, ap_joined_at = now\<rparr> (agent_projects d)\<rparr>, Inr ()))"

definition list_agents :: "db \<Rightarrow> string \<Rightarrow> string list" where
  "list_agents d project_id = map ap_agent_name (filter (\<lambda>r. ap_project_id r = project_id) (agent_projects d))"

definition agent_project :: "db \<Rightarrow> string \<Rightarrow> project option" where
  "agent_project d agent_name =
     (case order_by_desc ap_joined_at (filter (\<lambda>r. ap_agent_name r = agent_name \<and>
             project_exists d (ap_project_id r)) (agent_projects d)) of
        [] \<Rightarrow> None
      | ap # _ \<Rightarrow> get_project d (ap_project_id ap))"

subsection \<open>The writers, as one step function\<close>

datatype project_op =
    Create string time string string string string string string
  | Set_visibility time string visibility
  | Set_folder_path time string string
  | Set_file_glob time string string
  | Set_onboarding_step time string "string option"
  | Set_active time string bool
  | Add_agent time string string

record fs_env =
  fe_canonicalize :: "string \<Rightarrow> string option"
  fe_is_dir :: "string \<Rightarrow> bool"

fun project_step :: "fs_env \<Rightarrow> project_op \<Rightarrow> db \<Rightarrow> db" where
  "project_step F (Create i now name url desc og pg pp) d = exec (create_project i now name url desc og pg pp) d"
| "project_step F (Set_visibility now i v) d = exec (set_visibility now i v) d"
| "project_step F (Set_folder_path now i path) d =
     exec (set_folder_path (fe_canonicalize F) (fe_is_dir F) now i path) d"
| "project_step F (Set_file_glob now i g) d = exec (set_file_glob now i g) d"
| "project_step F (Set_onboarding_step now i st) d = exec (set_onboarding_step now i st) d"
| "project_step F (Set_active now i a) d = exec (set_active now i a) d"
| "project_step F (Add_agent now a i) d = exec (add_agent now a i) d"

definition visibility_at :: "db \<Rightarrow> string \<Rightarrow> visibility option" where
  "visibility_at d i = map_option pj_visibility (get_project d i)"

definition project_inv :: "db \<Rightarrow> bool" where
  "project_inv d \<longleftrightarrow> keyed pr_id (projects d) \<and> keyed pr_name (projects d) \<and>
     (\<forall>r \<in> set (projects d). \<exists>v. pr_visibility r = visibility_as_str v)"

subsection \<open>What the operations do to one project\<close>

lemma from_as_str [simp]: "visibility_from_str (visibility_as_str v) = Inr v"
  by (cases v) (simp_all add: visibility_from_str_def)

lemma from_str_lan [simp]: "visibility_from_str ''lan-only'' = Inr LanOnly"
  by (simp add: visibility_from_str_def)

lemma project_of_row_sel [simp]:
  "pj_visibility (project_of_row r) = (case visibility_from_str (pr_visibility r) of Inr v \<Rightarrow> v | Inl _ \<Rightarrow> LanOnly)"
  "pj_is_active (project_of_row r) = (pr_is_active r \<noteq> 0)"
  "pj_id (project_of_row r) = pr_id r"
  by (simp_all add: project_of_row_def)

lemma get_update_project:
  "(\<And>r. pr_id (f r) = pr_id r) \<Longrightarrow> get_project (update_project i now f d) j =
     (if j = i then map_option (\<lambda>r. project_of_row ((f r)\<lparr>pr_updated_at := now\<rparr>)) (find_by pr_id i (projects d))
      else get_project d j)"
  by (cases "find_by pr_id j (projects d)")
    (auto simp: get_project_def update_project_def find_by_update_where dest: find_by_Some)

lemma get_create:
  "get_project (exec (create_project i now n u de og pg pp) d) j =
     (if j = i \<and> \<not> has_key pr_id i (projects d) \<and> \<not> has_key pr_name n (projects d)
      then Some (project_of_row (project_row_new i now n u de og pg pp)) else get_project d j)"
  by (auto simp: create_project_def exec_def Let_def get_project_def find_by_append find_by_single
      project_row_new_def has_key_iff split: option.splits dest: find_by_Some)

lemma visibility_update:
  assumes "\<And>r. pr_id (f r) = pr_id r" "\<And>r. pr_visibility (f r) = pr_visibility r"
  shows "visibility_at (update_project i now f d) j = visibility_at d j"
  unfolding visibility_at_def get_update_project [of f, OF assms(1)]
  by (cases "find_by pr_id i (projects d)") (auto simp: get_project_def assms(2))

lemma visibility_step:
  assumes "visibility_at d j = Some v"
  shows "\<exists>w. visibility_at (project_step F op d) j = Some w \<and>
     (w = v \<or> can_transition_to v w \<and>
       (\<exists>now p. op = Set_visibility now j w \<and> get_project d j = Some p \<and> \<not> pj_is_active p))"
proof (cases op)
  case (Create i now n u de og pg pp)
  have "j \<noteq> i \<or> has_key pr_id i (projects d)"
    using assms by (auto simp: visibility_at_def get_project_def table_simps dest: find_by_Some)
  with assms Create show ?thesis
    by (auto simp: visibility_at_def get_create)
next
  case (Set_visibility now i next_vis)
  show ?thesis
  proof (cases "get_project d i")
    case None
    with assms Set_visibility show ?thesis by (simp add: exec_def set_visibility_def)
  next
    case (Some p)
    then obtain r where r: "find_by pr_id i (projects d) = Some r" "p = project_of_row r"
      by (auto simp: get_project_def)
    with Some assms Set_visibility show ?thesis
      by (cases "j = i")
        (auto simp: exec_def set_visibility_def visibility_at_def get_update_project)
  qed
next
  case (Set_folder_path now i path)
  with assms show ?thesis
    by (auto simp: exec_def set_folder_path_def visibility_update split: option.splits)
qed (use assms in \<open>simp_all add: exec_def set_file_glob_def set_onboarding_step_def set_active_def
       visibility_update add_agent_def\<close>, simp_all add: visibility_at_def get_project_def)

subsection \<open>The invariant\<close>

lemma project_inv_update:
  assumes "project_inv d" "\<And>r. pr_id (f r) = pr_id r" "\<And>r. pr_name (f r) = pr_name r"
    and "\<And>r. (\<exists>v. pr_visibility r = visibility_as_str v) \<Longrightarrow> \<exists>v. pr_visibility (f r) = visibility_as_str v"
  shows "project_inv (update_project i now f d)"
  using assms by (auto simp: project_inv_def update_project_def keyed_update_where set_update_where)

lemma project_inv_create: "project_inv d \<Longrightarrow> project_inv (exec (create_project i now n u de og pg pp) d)"
  by (auto simp: create_project_def exec_def Let_def project_inv_def project_row_new_def table_simps
      intro: exI [of _ LanOnly] split: option.splits)

lemma project_inv_step: "project_inv d \<Longrightarrow> project_inv (project_step F op d)"
proof (cases op)
  case (Add_agent now a i)
  then show "project_inv d \<Longrightarrow> ?thesis" by (simp add: exec_def add_agent_def project_inv_def)
next
  case (Create i now n u de og pg pp)
  then show "project_inv d \<Longrightarrow> ?thesis" by (simp add: project_inv_create)
qed (auto simp: exec_def set_visibility_def set_folder_path_def set_file_glob_def
       set_onboarding_step_def set_active_def intro!: project_inv_update split: option.splits)

interpretation project_system: invariant_system "project_step F" project_inv for F
  by unfold_locales (rule project_inv_step)

subsection \<open>Runs\<close>

lemma can_transition_sym: "can_transition_to v w \<longleftrightarrow> can_transition_to w v"
  by (cases v; cases w) simp_all

text \<open>A run that starts strictly below a level and ends strictly above it stops at it.\<close>

lemma run_through_group:
  assumes "visibility_at d j = Some v" "v < Group"
    and "visibility_at (runA (project_step F) d ops) j = Some Public"
  shows "\<exists>k \<le> length ops. visibility_at (runA (project_step F) d (take k ops)) j = Some Group"
  using assms
proof (induction ops arbitrary: d v)
  case Nil
  then show ?case by (auto simp: less_visibility_def)
next
  case (Cons op ops)
  obtain w where w: "visibility_at (project_step F op d) j = Some w" "w = v \<or> can_transition_to v w"
    using visibility_step [OF Cons.prems(1)] by blast
  have "v = LanOnly"
    using Cons.prems(2) by (cases v) (simp_all add: less_visibility_def)
  with w have "w = LanOnly \<or> w = Group" by (cases w) auto
  then show ?case
  proof
    assume "w = LanOnly"
    then obtain k where "k \<le> length ops"
      "visibility_at (runA (project_step F) (project_step F op d) (take k ops)) j = Some Group"
      using Cons.IH [of "project_step F op d" w] w Cons.prems(3) by (auto simp: less_visibility_def)
    then show ?thesis by (intro exI [of _ "Suc k"]) simp
  next
    assume "w = Group"
    with w show ?thesis by (intro exI [of _ "Suc 0"]) simp
  qed
qed

subsection \<open>Properties\<close>

text \<open>
  C17. Visibility moves one level at a time and only while the project is idle: whatever operation of the
  store runs, a project's visibility stays the same, or the operation is a \<open>set_visibility\<close> of this project
  to an adjacent level and the project was not active. (In particular no operation loses the project.)
\<close>

theorem visibility_one_step:
  assumes "visibility_at d j = Some v"
  shows "\<exists>w. visibility_at (project_step F op d) j = Some w \<and>
     (w = v \<or> (level w = level v + 1 \<or> level v = level w + 1) \<and>
       (\<exists>now p. op = Set_visibility now j w \<and> get_project d j = Some p \<and> \<not> pj_is_active p))"
  using visibility_step [OF assms] by (auto simp: can_transition_level)

definition demo_fs :: fs_env where
  "demo_fs = \<lparr>fe_canonicalize = Some, fe_is_dir = (\<lambda>_. True)\<rparr>"

definition one_project :: db where
  "one_project = empty_db\<lparr>projects := [project_row_new ''p'' 0 ''n'' ''u'' [] ''gw'' [] []]\<rparr>"

lemma one_project_vis: "visibility_at one_project ''p'' = Some LanOnly"
  by (simp add: visibility_at_def get_project_def one_project_def project_row_new_def find_by_def)

lemma visibility_one_step_witness:
  "\<exists>w. visibility_at (project_step demo_fs (Set_visibility 1 ''p'' Group) one_project) ''p'' = Some w \<and>
     (w = LanOnly \<or> (level w = level LanOnly + 1 \<or> level LanOnly = level w + 1) \<and>
       (\<exists>now p. Set_visibility 1 ''p'' Group = Set_visibility now ''p'' w \<and>
          get_project one_project ''p'' = Some p \<and> \<not> pj_is_active p))"
  by (rule visibility_one_step) (rule one_project_vis)

text \<open>
  No run of store operations takes a project from lan-only to public without passing through a state in
  which it is visible to its groups.
\<close>

lemma public_only_through_group:
  assumes "visibility_at d j = Some LanOnly"
    and "visibility_at (runA (project_step F) d ops) j = Some Public"
  shows "\<exists>k \<le> length ops. visibility_at (runA (project_step F) d (take k ops)) j = Some Group"
  using run_through_group [OF assms(1) _ assms(2)] by (simp add: less_visibility_def)

lemma public_only_through_group_witness:
  "\<exists>k \<le> length [Set_visibility 1 ''p'' Group, Set_visibility 2 ''p'' Public].
     visibility_at (runA (project_step demo_fs) one_project
       (take k [Set_visibility 1 ''p'' Group, Set_visibility 2 ''p'' Public])) ''p'' = Some Group"
  by (rule public_only_through_group [OF one_project_vis])
    (simp add: exec_def set_visibility_def visibility_at_def get_project_def one_project_def
      project_row_new_def find_by_def update_project_def update_where_def visibility_from_str_def)

text \<open>
  Every state the store can reach from a good one is good: project ids are unique, project names are
  unique, and every stored visibility is one of the three levels, so the row mapping never falls back.
\<close>

lemma project_store_invariant:
  assumes "project_inv d"
  shows "project_inv (runA (project_step F) d ops)"
  by (rule project_system.run_inv) (rule assms)

lemma project_store_invariant_witness:
  "project_inv (runA (project_step demo_fs) empty_db
     [Create ''p'' 0 ''n'' ''u'' [] ''gw'' [] [], Create ''q'' 1 ''n'' ''u'' [] ''gw'' [] []])"
  by (rule project_store_invariant) (simp add: project_inv_def empty_db_def table_simps)

text \<open>
  Creating a project succeeds exactly when the id and the name are new; the result is what reading the
  project back returns: lan-only, idle, with no folder, and onboarding iff it comes from a peer. On failure
  nothing is written.
\<close>

lemma create_project_spec:
  "case create_project i now n u de og pg pp d of
     (d', Inr p) \<Rightarrow>
       i \<notin> pr_id ` set (projects d) \<and> n \<notin> pr_name ` set (projects d) \<and> get_project d' i = Some p \<and>
       pj_id p = i \<and> pj_visibility p = LanOnly \<and> \<not> pj_is_active p \<and> pj_folder_path p = [] \<and>
       pj_onboarding_step p = (if pg = [] then None else Some ''awaiting_folder'')
   | (d', Inl e) \<Rightarrow> d' = d \<and> (i \<in> pr_id ` set (projects d) \<or> n \<in> pr_name ` set (projects d))"
proof (cases "has_key pr_id i (projects d) \<or> has_key pr_name n (projects d)")
  case True
  then show ?thesis by (auto simp: create_project_def table_simps)
next
  case False
  let ?row = "project_row_new i now n u de og pg pp"
  have "find_by pr_id i (projects d) = None"
    using False by (simp add: table_simps)
  then have "get_project (d\<lparr>projects := projects d @ [?row]\<rparr>) i = Some (project_of_row ?row)"
    by (simp add: get_project_def find_by_append find_by_single project_row_new_def)
  moreover from this have "create_project i now n u de og pg pp d =
      (d\<lparr>projects := projects d @ [?row]\<rparr>, Inr (project_of_row ?row))"
    using False by (simp add: create_project_def Let_def)
  ultimately show ?thesis
    using False by (simp add: has_key_iff project_row_new_def project_of_row_def)
qed

end
