(* ===== verification/Task_Log.thy ===== *)
theory Task_Log
  imports Gateway_Db
begin

text \<open>
  The distributed task log (\<open>task_log.rs\<close>): entry types, task states, the append with its per-project
  cursor, the signature over the canonical string, the reads and the idempotent insertion of
  peer entries. HMAC-SHA256 with hex encoding is a parameter (\<open>mac\<close> below, key and message to hex text).
  Fresh ids and the clock are parameters.

  Lemmas: the log only grows; cursors of local appends; the reads as a delta log (\<open>delta_log\<close>);
  what the signature covers.
\<close>

subsection \<open>Entry types and task states\<close>

datatype entry_type = Focus | Done | Blocked | Note

fun entry_type_as_str :: "entry_type \<Rightarrow> string" where
  "entry_type_as_str Focus = ''focus''"
| "entry_type_as_str Done = ''done''"
| "entry_type_as_str Blocked = ''blocked''"
| "entry_type_as_str Note = ''note''"

definition entry_type_from_str :: "string \<Rightarrow> entry_type" where
  "entry_type_from_str s =
     (if s = ''done'' then Done else if s = ''blocked'' then Blocked
      else if s = ''note'' then Note else Focus)"

datatype task_status = Created | Queued | InProgress | WaitingForInput | BlockedTask | Completed
  | Failed | Cancelled | TimedOut | Delegated

fun task_status_as_str :: "task_status \<Rightarrow> string" where
  "task_status_as_str Created = ''created''"
| "task_status_as_str Queued = ''queued''"
| "task_status_as_str InProgress = ''in_progress''"
| "task_status_as_str WaitingForInput = ''waiting_for_input''"
| "task_status_as_str BlockedTask = ''blocked''"
| "task_status_as_str Completed = ''completed''"
| "task_status_as_str Failed = ''failed''"
| "task_status_as_str Cancelled = ''cancelled''"
| "task_status_as_str TimedOut = ''timed_out''"
| "task_status_as_str Delegated = ''delegated''"

definition task_status_from_str :: "string \<Rightarrow> task_status option" where
  "task_status_from_str s =
     (if s = ''created'' then Some Created else if s = ''queued'' then Some Queued
      else if s = ''in_progress'' then Some InProgress
      else if s = ''waiting_for_input'' then Some WaitingForInput
      else if s = ''blocked'' then Some BlockedTask else if s = ''completed'' then Some Completed
      else if s = ''failed'' then Some Failed else if s = ''cancelled'' then Some Cancelled
      else if s = ''timed_out'' then Some TimedOut else if s = ''delegated'' then Some Delegated
      else None)"

fun is_terminal :: "task_status \<Rightarrow> bool" where
  "is_terminal Completed = True"
| "is_terminal Failed = True"
| "is_terminal Cancelled = True"
| "is_terminal TimedOut = True"
| "is_terminal _ = False"

interpretation entry_type_codec: total_codec entry_type_as_str entry_type_from_str
proof
  fix t show "entry_type_from_str (entry_type_as_str t) = t"
    by (cases t) (simp_all add: entry_type_from_str_def)
qed

interpretation task_status_codec: string_codec task_status_as_str task_status_from_str
proof
  fix t show "task_status_from_str (task_status_as_str t) = Some t"
    by (cases t) (simp_all add: task_status_from_str_def)
qed

subsection \<open>Entries\<close>

record log_entry =
  le_id :: string
  le_project_id :: string
  le_gateway_name :: string
  le_agent_name :: string
  le_entry_type :: entry_type
  le_content :: string
  le_cursor :: int
  le_created_at :: time
  le_todo_id :: "int option"
  le_signature :: "string option"
  le_task_status :: "task_status option"
  le_valid_from :: "time option"
  le_valid_to :: "time option"

definition log_entry_of_row :: "log_row \<Rightarrow> log_entry" where
  "log_entry_of_row r = \<lparr>le_id = lr_id r, le_project_id = lr_project_id r, le_gateway_name = lr_gateway_name r,
     le_agent_name = lr_agent_name r, le_entry_type = entry_type_from_str (lr_entry_type r),
     le_content = lr_content r, le_cursor = lr_cursor r, le_created_at = lr_created_at r,
     le_todo_id = lr_todo_id r, le_signature = lr_signature r,
     le_task_status = Option.bind (lr_task_status r) task_status_from_str,
     le_valid_from = lr_valid_from r, le_valid_to = lr_valid_to r\<rparr>"

text \<open>The columns that an insert binds: for a local append and for a peer's entry alike.\<close>

definition log_row_of :: "string \<Rightarrow> log_entry \<Rightarrow> log_row" where
  "log_row_of pid e = \<lparr>lr_id = le_id e, lr_project_id = pid, lr_gateway_name = le_gateway_name e,
     lr_agent_name = le_agent_name e, lr_entry_type = entry_type_as_str (le_entry_type e),
     lr_content = le_content e, lr_cursor = le_cursor e, lr_created_at = le_created_at e,
     lr_todo_id = le_todo_id e, lr_signature = le_signature e,
     lr_task_status = map_option task_status_as_str (le_task_status e),
     lr_valid_from = le_valid_from e, lr_valid_to = le_valid_to e\<rparr>"

subsection \<open>Signatures\<close>

type_synonym mac = "string \<Rightarrow> string \<Rightarrow> string"

definition canonical :: "string \<Rightarrow> string \<Rightarrow> string \<Rightarrow> string \<Rightarrow> time \<Rightarrow> string" where
  "canonical i project_id gateway content ts =
     i @ ''|'' @ project_id @ ''|'' @ gateway @ ''|'' @ content @ ''|'' @ show_int (int (f64_as_u64 ts))"

definition sign :: "mac \<Rightarrow> string \<Rightarrow> string \<Rightarrow> string \<Rightarrow> string \<Rightarrow> string \<Rightarrow> time \<Rightarrow> string" where
  "sign H secret i project_id gateway content ts = H secret (canonical i project_id gateway content ts)"

definition verify_entry :: "mac \<Rightarrow> string \<Rightarrow> log_entry \<Rightarrow> bool" where
  "verify_entry H secret e =
     (case le_signature e of
        None \<Rightarrow> False
      | Some sig \<Rightarrow> sig = sign H secret (le_id e) (le_project_id e) (le_gateway_name e) (le_content e) (le_created_at e))"

subsection \<open>Reading\<close>

definition project_log :: "db \<Rightarrow> string \<Rightarrow> log_row list" where
  "project_log d pid = filter (\<lambda>r. lr_project_id r = pid) (task_log d)"

definition head_cursor :: "db \<Rightarrow> string \<Rightarrow> int" where
  "head_cursor d pid = (case map lr_cursor (project_log d pid) of [] \<Rightarrow> 0 | c # cs \<Rightarrow> Max (set (c # cs)))"

definition since :: "db \<Rightarrow> string \<Rightarrow> int \<Rightarrow> log_entry list" where
  "since d pid after_cursor = map log_entry_of_row
     (order_by lr_cursor (filter (\<lambda>r. lr_project_id r = pid \<and> after_cursor < lr_cursor r) (task_log d)))"

definition list_log :: "db \<Rightarrow> string \<Rightarrow> log_entry list" where
  "list_log d pid = since d pid 0"

definition by_status :: "time \<Rightarrow> db \<Rightarrow> string \<Rightarrow> task_status \<Rightarrow> log_entry list" where
  "by_status now d pid status = map log_entry_of_row
     (order_by lr_cursor (filter (\<lambda>r. lr_project_id r = pid \<and> lr_task_status r = Some (task_status_as_str status) \<and>
        (case lr_valid_to r of None \<Rightarrow> True | Some t \<Rightarrow> now < t)) (task_log d)))"

subsection \<open>Writing\<close>

definition todo_known :: "db \<Rightarrow> int option \<Rightarrow> bool" where
  "todo_known d t = (case t of None \<Rightarrow> True | Some i \<Rightarrow> has_key td_id i (todos d))"

text \<open>
  \<open>decodes\<close> says whether sqlx reads the column of \<open>RETURNING cursor\<close> as an \<open>i64\<close>. Where it does not, the call fails after
  PostgreSQL has committed the row. With the column types of the migrations it does not (\<open>cursor_decodes\<close> and \<open>append_spec\<close> in
  theory \<open>Schema_Rows\<close>); the callers of an append are modelled for a column that decodes.
\<close>

definition append_with_status ::
  "bool \<Rightarrow> mac \<Rightarrow> string \<Rightarrow> string \<Rightarrow> time \<Rightarrow> string \<Rightarrow> string \<Rightarrow> string \<Rightarrow> entry_type \<Rightarrow> string \<Rightarrow> int option \<Rightarrow>
     task_status option \<Rightarrow> time option \<Rightarrow> (db, log_entry) act" where
  "append_with_status decodes H secret i now project_id gateway_name agent_name etype content todo_id status valid_to = (\<lambda>d.
     let sig = sign H secret i project_id gateway_name content now;
         cursor = head_cursor d project_id + 1;
         e = \<lparr>le_id = i, le_project_id = project_id, le_gateway_name = gateway_name, le_agent_name = agent_name,
              le_entry_type = etype, le_content = content, le_cursor = cursor, le_created_at = now,
              le_todo_id = todo_id, le_signature = Some sig, le_task_status = status,
              le_valid_from = Some now, le_valid_to = valid_to\<rparr>
     in if has_key lr_id i (task_log d) then (d, Inl (Sql_err ''insert log entry'' Unique_violation))
        else if \<not> project_exists d project_id \<or> \<not> todo_known d todo_id
        then (d, Inl (Sql_err ''insert log entry'' Foreign_key_violation))
        else (d\<lparr>task_log := task_log d @ [log_row_of project_id e]\<rparr>,
              if decodes then Inr e else Inl (Anyhow ''insert log entry'')))"

definition append_entry ::
  "mac \<Rightarrow> string \<Rightarrow> string \<Rightarrow> time \<Rightarrow> string \<Rightarrow> string \<Rightarrow> string \<Rightarrow> entry_type \<Rightarrow> string \<Rightarrow> int option \<Rightarrow>
     (db, log_entry) act" where
  "append_entry H secret i now project_id gateway_name agent_name etype content todo_id =
     append_with_status True H secret i now project_id gateway_name agent_name etype content todo_id None None"

text \<open>\<open>ON CONFLICT (id) DO NOTHING\<close>: a known id is skipped before the foreign keys are looked at.\<close>

definition insert_peer_entry :: "string \<Rightarrow> log_entry \<Rightarrow> string \<Rightarrow> (db, unit) act" where
  "insert_peer_entry project_id e source_gateway = (\<lambda>d.
     if has_key lr_id (le_id e) (task_log d) then (d, Inr ())
     else if \<not> project_exists d project_id \<or> \<not> todo_known d (le_todo_id e)
     then (d, Inl (Sql_err ''insert peer entry'' Foreign_key_violation))
     else (d\<lparr>task_log := task_log d @ [log_row_of project_id e]\<rparr>, Inr ()))"

subsection \<open>The writers, as one step function\<close>

datatype log_op =
    Append string time string string string entry_type string "int option" "task_status option" "time option"
  | Insert_peer string log_entry string

fun log_step :: "mac \<Rightarrow> string \<Rightarrow> log_op \<Rightarrow> db \<Rightarrow> db" where
  "log_step H k (Append i now p g a t c td st vt) d = exec (append_with_status True H k i now p g a t c td st vt) d"
| "log_step H k (Insert_peer p e g) d = exec (insert_peer_entry p e g) d"

fun is_append :: "log_op \<Rightarrow> bool" where
  "is_append (Append _ _ _ _ _ _ _ _ _ _) = True"
| "is_append (Insert_peer _ _ _) = False"

subsection \<open>Rows and entries\<close>

lemma log_row_entry [simp]: "log_entry_of_row (log_row_of pid e) = e\<lparr>le_project_id := pid\<rparr>"
  by (simp add: log_entry_of_row_def log_row_of_def entry_type_codec.dec0_enc task_status_codec.dec_map_option)

lemma log_row_sel [simp]:
  "lr_project_id (log_row_of pid e) = pid" "lr_cursor (log_row_of pid e) = le_cursor e"
  "lr_id (log_row_of pid e) = le_id e"
  by (simp_all add: log_row_of_def)

lemma le_cursor_row [simp]: "le_cursor (log_entry_of_row r) = lr_cursor r"
  by (simp add: log_entry_of_row_def)

subsection \<open>Head and delta\<close>

lemma head_cursor_ge: "r \<in> set (project_log d pid) \<Longrightarrow> lr_cursor r \<le> head_cursor d pid"
  by (auto simp: head_cursor_def split: list.split)

text \<open>The reads of one project form a delta log: what a puller at cursor \<open>c\<close> is given.\<close>

locale delta_log =
  fixes entries :: "'s \<Rightarrow> 'e list" and cursor_of :: "'e \<Rightarrow> int"
    and delta :: "'s \<Rightarrow> int \<Rightarrow> 'e list" and head_of :: "'s \<Rightarrow> int"
  assumes delta_set: "set (delta s c) = {e \<in> set (entries s). c < cursor_of e}"
    and delta_sorted: "sorted (map cursor_of (delta s c))"
    and head_max: "e \<in> set (entries s) \<Longrightarrow> cursor_of e \<le> head_of s"
begin

lemma delta_head: "head_of s \<le> c \<Longrightarrow> delta s c = []"
  using delta_set [of s c] head_max [of _ s] by (force simp flip: set_empty)

text \<open>A puller that stops at any cursor and resumes from there misses nothing.\<close>

lemma delta_resume:
  "c \<le> m \<Longrightarrow> set (delta s c) = {e \<in> set (delta s c). cursor_of e \<le> m} \<union> set (delta s m)"
  by (auto simp: delta_set)

lemma delta_last:
  "delta s c \<noteq> [] \<Longrightarrow> delta s (cursor_of (last (delta s c))) = []"
proof -
  assume ne: "delta s c \<noteq> []"
  then obtain xs y where xs: "delta s c = xs @ [y]"
    by (cases "delta s c" rule: rev_cases) auto
  have "sorted (map cursor_of xs @ [cursor_of y])"
    using delta_sorted [of s c] xs by simp
  then have le: "cursor_of e \<le> cursor_of y" if "e \<in> set (delta s c)" for e
    using that xs by (auto simp: sorted_append)
  have "c < cursor_of y"
    using delta_set [of s c] xs by auto
  with le have "e \<notin> set (delta s (cursor_of y))" for e
    using delta_set [of s c] delta_set [of s "cursor_of y"] by force
  then have "set (delta s (cursor_of y)) = {}"
    by (intro equals0I) blast
  then show ?thesis
    using xs by simp
qed

end

interpretation task_delta: delta_log "\<lambda>d. map log_entry_of_row (project_log d pid)" le_cursor
    "\<lambda>d c. since d pid c" "\<lambda>d. head_cursor d pid" for pid
proof
  fix s c
  show "set (since s pid c) = {e \<in> set (map log_entry_of_row (project_log s pid)). c < le_cursor e}"
    by (auto simp: since_def project_log_def)
  show "sorted (map le_cursor (since s pid c))"
    by (simp add: since_def comp_def sorted_order_by)
qed (auto simp: head_cursor_ge)

subsection \<open>Appends\<close>

lemma project_log_snoc:
  "project_log (d\<lparr>task_log := task_log d @ [r]\<rparr>) q =
     project_log d q @ (if lr_project_id r = q then [r] else [])"
  by (simp add: project_log_def)

lemma head_cursor_snoc:
  assumes "head_cursor d (lr_project_id r) \<le> lr_cursor r" "0 \<le> lr_cursor r"
  shows "head_cursor (d\<lparr>task_log := task_log d @ [r]\<rparr>) (lr_project_id r) = lr_cursor r"
proof (cases "project_log d (lr_project_id r)")
  case Nil
  then show ?thesis by (simp add: head_cursor_def project_log_snoc)
next
  case (Cons a as)
  have "Max (set (map lr_cursor (a # as))) = head_cursor d (lr_project_id r)"
    by (simp add: head_cursor_def Cons)
  with assms(1) have "\<forall>x \<in> set (map lr_cursor (a # as)). x \<le> lr_cursor r"
    by (metis List.finite_set Max_ge order_trans)
  then have "Max (set (map lr_cursor (a # as @ [r]))) = lr_cursor r"
    by (intro Max_eqI) auto
  then show ?thesis
    unfolding head_cursor_def project_log_snoc Cons by simp
qed

text \<open>One append: either the database refuses it, or one row with the next cursor is added at the end.\<close>

lemma append_cases:
  obtains (err) v where "append_with_status b H k i now p g a t c td st vt d =
      (d, Inl (Sql_err ''insert log entry'' v))"
    "i \<in> lr_id ` set (task_log d) \<or> \<not> project_exists d p \<or> \<not> todo_known d td"
  | (ok) e where "append_with_status b H k i now p g a t c td st vt d =
      (d\<lparr>task_log := task_log d @ [log_row_of p e]\<rparr>, if b then Inr e else Inl (Anyhow ''insert log entry''))"
    "le_cursor e = head_cursor d p + 1" "le_project_id e = p" "verify_entry H k e"
    "i \<notin> lr_id ` set (task_log d)" "le_id e = i" "project_exists d p" "todo_known d td"
proof (cases "has_key lr_id i (task_log d) \<or> \<not> project_exists d p \<or> \<not> todo_known d td")
  case True
  then have "\<exists>v. append_with_status b H k i now p g a t c td st vt d = (d, Inl (Sql_err ''insert log entry'' v))"
    unfolding append_with_status_def Let_def by auto
  with err True show ?thesis by (auto simp: has_key_iff)
next
  case False
  let ?e = "\<lparr>le_id = i, le_project_id = p, le_gateway_name = g, le_agent_name = a, le_entry_type = t,
    le_content = c, le_cursor = head_cursor d p + 1, le_created_at = now, le_todo_id = td,
    le_signature = Some (sign H k i p g c now), le_task_status = st, le_valid_from = Some now, le_valid_to = vt\<rparr>"
  have "append_with_status b H k i now p g a t c td st vt d =
      (d\<lparr>task_log := task_log d @ [log_row_of p ?e]\<rparr>, if b then Inr ?e else Inl (Anyhow ''insert log entry''))"
    using False by (simp only: append_with_status_def Let_def if_False simp_thms de_Morgan_disj not_not)
  then show ?thesis
    by (rule ok) (use False in \<open>simp_all add: verify_entry_def has_key_iff\<close>)
qed

lemma since_snoc:
  assumes "head_cursor d (lr_project_id r) < lr_cursor r"
  shows "since (d\<lparr>task_log := task_log d @ [r]\<rparr>) (lr_project_id r) (head_cursor d (lr_project_id r)) = [log_entry_of_row r]"
proof -
  have "filter (\<lambda>x. lr_project_id x = lr_project_id r \<and> head_cursor d (lr_project_id r) < lr_cursor x) (task_log d) = []"
    using head_cursor_ge [of _ d "lr_project_id r"] by (force simp: filter_empty_conv project_log_def)
  with assms show ?thesis
    by (simp add: since_def order_by_def)
qed

lemma log_kept_step: "prefix (task_log d) (task_log (log_step H k op d))"
proof (cases op)
  case (Append i now p g a t c td st vt)
  then show ?thesis
    by (cases rule: append_cases [of True H k i now p g a t c td st vt d]) (simp_all add: exec_def)
qed (simp add: exec_def insert_peer_entry_def)

interpretation log_history: history_system "log_step H k" "\<lambda>d d'. prefix (task_log d) (task_log d')" for H k
  by unfold_locales (simp, erule prefix_order.trans, assumption, rule log_kept_step)

lemma log_ids_step: "keyed lr_id (task_log d) \<Longrightarrow> keyed lr_id (task_log (log_step H k op d))"
proof (cases op)
  case (Append i now p g a t c td st vt)
  assume "keyed lr_id (task_log d)"
  with Append show ?thesis
    by (cases rule: append_cases [of True H k i now p g a t c td st vt d]) (auto simp: exec_def keyed_snoc)
next
  case (Insert_peer p e g)
  assume "keyed lr_id (task_log d)"
  with Insert_peer show ?thesis
    by (auto simp: exec_def insert_peer_entry_def table_simps)
qed

interpretation log_ids: invariant_system "log_step H k" "\<lambda>d. keyed lr_id (task_log d)" for H k
  by unfold_locales (rule log_ids_step)

text \<open>A run of local appends numbers the new entries of a project consecutively from the head.\<close>

definition numbered_from :: "db \<Rightarrow> string \<Rightarrow> db \<Rightarrow> bool" where
  "numbered_from d0 p d \<longleftrightarrow> (\<exists>rows. task_log d = task_log d0 @ rows \<and>
     map lr_cursor (filter (\<lambda>r. lr_project_id r = p) rows) =
       [head_cursor d0 p + 1 .. head_cursor d p] \<and> head_cursor d0 p \<le> head_cursor d p)"

lemma numbered_step:
  assumes "numbered_from d0 p d" "is_append op" "0 \<le> head_cursor d0 p"
  shows "numbered_from d0 p (log_step H k op d)"
proof (cases op)
  case (Append i now q g a t c td st vt)
  show ?thesis
  proof (cases rule: append_cases [of True H k i now q g a t c td st vt d])
    case (err v)
    with assms Append show ?thesis by (simp add: exec_def)
  next
    case (ok e)
    let ?d = "d\<lparr>task_log := task_log d @ [log_row_of q e]\<rparr>"
    obtain rows where rows: "task_log d = task_log d0 @ rows"
      "map lr_cursor (filter (\<lambda>r. lr_project_id r = p) rows) = [head_cursor d0 p + 1 .. head_cursor d p]"
      "head_cursor d0 p \<le> head_cursor d p"
      using assms(1) by (auto simp: numbered_from_def)
    have "head_cursor ?d q = head_cursor d q + 1" if "p = q"
      using head_cursor_snoc [of d "log_row_of q e"] ok(2) rows(3) assms(3) that by simp
    moreover have "head_cursor ?d p = head_cursor d p" if "p \<noteq> q"
      using that by (simp add: head_cursor_def project_log_snoc)
    ultimately have head: "head_cursor ?d p = (if p = q then head_cursor d p + 1 else head_cursor d p)"
      by simp
    have "numbered_from d0 p ?d"
      unfolding numbered_from_def head
      using rows ok(2) by (intro exI [of _ "rows @ [log_row_of q e]"]) (auto simp: upto_rec2)
    with ok Append show ?thesis by (simp add: exec_def)
  qed
qed (use assms in simp)

lemma numbered_run:
  "list_all is_append ops \<Longrightarrow> 0 \<le> head_cursor d0 p \<Longrightarrow> numbered_from d0 p (runA (log_step H k) d0 ops)"
proof (induction ops rule: rev_induct)
  case Nil
  then show ?case by (simp add: numbered_from_def)
next
  case (snoc op ops)
  then show ?case by (simp add: runA_append numbered_step)
qed

lemma since_numbered:
  assumes "numbered_from d0 p d"
  shows "since d p (head_cursor d0 p) =
      map log_entry_of_row (filter (\<lambda>r. lr_project_id r = p) (drop (length (task_log d0)) (task_log d)))"
    and "map le_cursor (since d p (head_cursor d0 p)) = [head_cursor d0 p + 1 .. head_cursor d p]"
proof -
  obtain rows where rows: "task_log d = task_log d0 @ rows"
    "map lr_cursor (filter (\<lambda>r. lr_project_id r = p) rows) = [head_cursor d0 p + 1 .. head_cursor d p]"
    using assms by (auto simp: numbered_from_def)
  let ?new = "filter (\<lambda>r. lr_project_id r = p) rows"
  have "filter (\<lambda>r. lr_project_id r = p \<and> head_cursor d0 p < lr_cursor r) (task_log d0) = []"
    using head_cursor_ge [of _ d0 p] by (force simp: filter_empty_conv project_log_def)
  moreover have "filter (\<lambda>r. lr_project_id r = p \<and> head_cursor d0 p < lr_cursor r) rows = ?new"
  proof (rule filter_cong [OF refl])
    fix r assume "r \<in> set rows"
    then have "lr_project_id r = p \<Longrightarrow> lr_cursor r \<in> set [head_cursor d0 p + 1 .. head_cursor d p]"
      unfolding rows(2) [symmetric] by auto
    then show "(lr_project_id r = p \<and> head_cursor d0 p < lr_cursor r) = (lr_project_id r = p)" by auto
  qed
  moreover have "order_by lr_cursor ?new = ?new"
    unfolding order_by_def by (rule sort_key_id_if_sorted) (simp add: rows(2))
  ultimately show eq: "since d p (head_cursor d0 p) =
      map log_entry_of_row (filter (\<lambda>r. lr_project_id r = p) (drop (length (task_log d0)) (task_log d)))"
    by (simp add: since_def rows(1))
  show "map le_cursor (since d p (head_cursor d0 p)) = [head_cursor d0 p + 1 .. head_cursor d p]"
    by (simp add: eq rows comp_def)
qed

subsection \<open>What the signature covers\<close>

lemma show_int_no_bar: "CHR ''|'' \<notin> set (show_int (int n))"
  using show_radix_is_digit [of 10 "CHR ''|''" n] by (auto simp: show_int_def is_digit_def less_eq_char_def)

lemma canonical_inj:
  assumes "canonical i p g c t = canonical i' p' g' c' t'"
    and "CHR ''|'' \<notin> set (i @ p @ g)" "CHR ''|'' \<notin> set (i' @ p' @ g')"
  shows "i = i' \<and> p = p' \<and> g = g' \<and> c = c' \<and> f64_as_u64 t = f64_as_u64 t'"
proof -
  let ?B = "CHR ''|''"
  let ?n = "\<lambda>t. show_int (int (f64_as_u64 t))"
  have "i @ ?B # (p @ ?B # (g @ ?B # (c @ ?B # ?n t))) = i' @ ?B # (p' @ ?B # (g' @ ?B # (c' @ ?B # ?n t')))"
    using assms(1) by (simp add: canonical_def)
  note one = field_eq [OF this]
  then have "i = i'" and "p @ ?B # (g @ ?B # (c @ ?B # ?n t)) = p' @ ?B # (g' @ ?B # (c' @ ?B # ?n t'))"
    using assms by auto
  moreover from field_eq [OF this(2)] have "p = p'" and "g @ ?B # (c @ ?B # ?n t) = g' @ ?B # (c' @ ?B # ?n t')"
    using assms by auto
  moreover from field_eq [OF this(2)] have "g = g'" and last: "c @ ?B # ?n t = c' @ ?B # ?n t'"
    using assms by auto
  moreover from last_field_eq [OF last] have "c = c'" "?n t = ?n t'"
    using show_int_no_bar by auto
  moreover from this(2) have "f64_as_u64 t = f64_as_u64 t'"
    by (simp add: show_int_def show_radix_inj)
  ultimately show ?thesis by simp
qed

subsection \<open>Properties\<close>

text \<open>
  The log is append-only and its ids stay unique under any mix of local appends and peer insertions.
\<close>

lemma task_log_append_only:
  assumes "keyed lr_id (task_log d)"
  shows "prefix (task_log d) (task_log (runA (log_step H k) d ops)) \<and>
    keyed lr_id (task_log (runA (log_step H k) d ops))"
  using log_history.run_ext [of d H k ops] log_ids.run_inv [of d H k ops] assms by simp

definition demo_mac :: mac where
  "demo_mac k m = k @ m"

definition demo_log_ops :: "log_op list" where
  "demo_log_ops = [Append ''1'' 10 ''p'' ''gw'' ''a'' Focus ''x'' None None None,
     Append ''2'' 20 ''p'' ''gw'' ''a'' Done ''y'' None (Some Completed) None]"

definition log_db :: db where
  "log_db = empty_db\<lparr>projects := [\<lparr>pr_id = ''p'', pr_name = ''n'', pr_repo_url = [], pr_description = [],
     pr_visibility = ''group'', pr_folder_path = [], pr_file_glob = [], pr_is_active = 0, pr_created_at = 0,
     pr_updated_at = 0, pr_onboarding_step = None, pr_origin_gateway = [], pr_peer_gateway = [],
     pr_peer_project_id = []\<rparr>]\<rparr>"

lemma task_log_append_only_witness:
  "prefix (task_log log_db) (task_log (runA (log_step demo_mac ''k'') log_db demo_log_ops)) \<and>
    keyed lr_id (task_log (runA (log_step demo_mac ''k'') log_db demo_log_ops))"
  by (rule task_log_append_only) (simp add: log_db_def empty_db_def table_simps)

text \<open>
  Delta sync of local entries: after any run of local appends, a peer that pulls from the cursor it had
  seen before is given exactly the entries appended to this project since, in order, and
  their cursors are the consecutive numbers after the old head.
\<close>

lemma delta_after_appends:
  assumes "list_all is_append ops" "0 \<le> head_cursor d p"
  shows "since (runA (log_step H k) d ops) p (head_cursor d p) =
       map log_entry_of_row (filter (\<lambda>r. lr_project_id r = p)
         (drop (length (task_log d)) (task_log (runA (log_step H k) d ops)))) \<and>
     map le_cursor (since (runA (log_step H k) d ops) p (head_cursor d p)) =
       [head_cursor d p + 1 .. head_cursor (runA (log_step H k) d ops) p]"
  using since_numbered [OF numbered_run [OF assms, of H k]] by blast

lemma delta_after_appends_witness:
  "since (runA (log_step demo_mac ''k'') log_db demo_log_ops) ''p'' (head_cursor log_db ''p'') =
       map log_entry_of_row (filter (\<lambda>r. lr_project_id r = ''p'')
         (drop (length (task_log log_db)) (task_log (runA (log_step demo_mac ''k'') log_db demo_log_ops)))) \<and>
     map le_cursor (since (runA (log_step demo_mac ''k'') log_db demo_log_ops) ''p'' (head_cursor log_db ''p'')) =
       [head_cursor log_db ''p'' + 1 .. head_cursor (runA (log_step demo_mac ''k'') log_db demo_log_ops) ''p'']"
  by (rule delta_after_appends)
    (simp_all add: demo_log_ops_def log_db_def empty_db_def head_cursor_def project_log_def)

text \<open>
  A puller that follows the log, taking each time the last cursor it was given as its next starting
  point, misses nothing and then has everything: splitting a pull at any cursor loses no entry, and a
  pull from the last cursor received is empty.
\<close>

lemma delta_pull_complete:
  assumes "c \<le> m" "since d p c \<noteq> []"
  shows "set (since d p c) = {e \<in> set (since d p c). le_cursor e \<le> m} \<union> set (since d p m) \<and>
     since d p (le_cursor (last (since d p c))) = []"
  using task_delta.delta_resume [OF assms(1)] task_delta.delta_last [OF assms(2)] by blast

definition pull_db :: db where
  "pull_db = log_db\<lparr>task_log := [log_row_of ''p'' \<lparr>le_id = ''1'', le_project_id = ''p'', le_gateway_name = ''g'',
     le_agent_name = ''a'', le_entry_type = Focus, le_content = ''x'', le_cursor = 1, le_created_at = 0,
     le_todo_id = None, le_signature = None, le_task_status = None, le_valid_from = None, le_valid_to = None\<rparr>]\<rparr>"

lemma delta_pull_complete_witness:
  "set (since pull_db ''p'' 0) = {e \<in> set (since pull_db ''p'' 0). le_cursor e \<le> 1} \<union> set (since pull_db ''p'' 1) \<and>
     since pull_db ''p'' (le_cursor (last (since pull_db ''p'' 0))) = []"
  by (rule delta_pull_complete) (simp_all add: since_def pull_db_def order_by_def)

text \<open>
  C25. When the MAC has no collisions, a valid signature pins down id, project, gateway, content and the
  second of the timestamp: two entries that verify under the same signature agree on all five, provided
  their ids, project ids and gateway names contain no vertical bar.
\<close>

theorem signature_binds_fields:
  assumes "\<And>x y. H k x = H k y \<Longrightarrow> x = y"
    and "verify_entry H k e" "verify_entry H k e'" "le_signature e = le_signature e'"
    and "CHR ''|'' \<notin> set (le_id e @ le_project_id e @ le_gateway_name e)"
    and "CHR ''|'' \<notin> set (le_id e' @ le_project_id e' @ le_gateway_name e')"
  shows "le_id e = le_id e' \<and> le_project_id e = le_project_id e' \<and> le_gateway_name e = le_gateway_name e' \<and>
     le_content e = le_content e' \<and> f64_as_u64 (le_created_at e) = f64_as_u64 (le_created_at e')"
proof -
  have "H k (canonical (le_id e) (le_project_id e) (le_gateway_name e) (le_content e) (le_created_at e)) =
        H k (canonical (le_id e') (le_project_id e') (le_gateway_name e') (le_content e') (le_created_at e'))"
    using assms(2-4) by (auto simp: verify_entry_def sign_def split: option.splits)
  from canonical_inj [OF assms(1) [OF this] assms(5,6)] show ?thesis .
qed

definition signed_demo :: "entry_type \<Rightarrow> log_entry" where
  "signed_demo t = \<lparr>le_id = ''1'', le_project_id = ''p'', le_gateway_name = ''g'',
     le_agent_name = ''a'', le_entry_type = t, le_content = ''x|y'', le_cursor = 1, le_created_at = 7,
     le_todo_id = None, le_signature = Some (sign demo_mac ''k'' ''1'' ''p'' ''g'' ''x|y'' 7),
     le_task_status = None, le_valid_from = None, le_valid_to = None\<rparr>"

lemma signature_binds_fields_witness:
  "le_id (signed_demo Focus) = le_id (signed_demo Done) \<and> le_project_id (signed_demo Focus) = le_project_id (signed_demo Done) \<and>
   le_gateway_name (signed_demo Focus) = le_gateway_name (signed_demo Done) \<and>
   le_content (signed_demo Focus) = le_content (signed_demo Done) \<and>
   f64_as_u64 (le_created_at (signed_demo Focus)) = f64_as_u64 (le_created_at (signed_demo Done))"
  by (rule signature_binds_fields [where H = demo_mac and k = "''k''"])
    (simp_all add: signed_demo_def verify_entry_def demo_mac_def)

text \<open>
  What it does not pin down: a bar moves text between gateway name and content without changing
  the signature, and agent, type, cursor, todo, status and validity are not covered at all.
\<close>

lemma signature_gaps:
  "sign H k i p (g @ ''|'' @ x) c t = sign H k i p g (x @ ''|'' @ c) t \<and>
   verify_entry H k (e\<lparr>le_agent_name := a, le_entry_type := et, le_cursor := n, le_todo_id := td,
     le_task_status := st, le_valid_from := vf, le_valid_to := vt\<rparr>) = verify_entry H k e"
  by (cases "le_signature e") (simp_all add: sign_def canonical_def verify_entry_def)

end
