(* ===== verification/Onboarding.thy ===== *)
theory Onboarding
  imports Registry Projects Task_Log
begin

text \<open>
  Onboarding of peer projects (\<open>onboarding.rs\<close>) and the context builder that the gateway dispatches to one of
  its own agents (\<open>context_builder.rs\<close>). The state is the registry with its database, the pending prompts (a
  map keyed by project), the notifications pushed to the webhook and the context builds spawned.
  Parameters (\<open>on_env\<close>): clock, fresh id, MAC, file system answers, and the agents' HTTP answers.

  Lemmas: what an answer does to the onboarding step; which agent is selected.
\<close>

record prompt =
  op_project_id :: string
  op_project_name :: string
  op_step :: string
  op_message :: string
  op_default_value :: string
  op_created_at :: time

record answer =
  an_project_id :: string
  an_step :: string
  an_value :: string

record on_state =
  on_reg :: registry
  on_pending :: "prompt list"
  on_pushed :: "(string \<times> string) list"
  on_spawned :: "(string \<times> string) list"

text \<open>An HTTP answer: the status code, how the status prints, and the body.\<close>

datatype http_answer = Unreachable | Answered nat string string

record on_env =
  ne_gateway :: string
  ne_webhook :: "string option"
  ne_context_builder :: bool
  ne_now :: time
  ne_fresh_id :: string
  ne_mac :: mac
  ne_secret :: string
  ne_canonicalize :: "string \<Rightarrow> string option"
  ne_is_dir :: "string \<Rightarrow> bool"
  ne_invoke :: "string \<Rightarrow> http_answer"

abbreviation on_db :: "on_state \<Rightarrow> db" where
  "on_db s \<equiv> rg_db (on_reg s)"

abbreviation odb :: "(db, 'a) act \<Rightarrow> (on_state, 'a) act" where
  "odb \<equiv> zoomA on_db (\<lambda>d s. s\<lparr>on_reg := (on_reg s)\<lparr>rg_db := d\<rparr>\<rparr>)"

text \<open>The question mark of every prompt reads \<open>$1\<close>, as in the source.\<close>

definition lf :: string where "lf = [CHR 0x0A]"
definition quote :: string where "quote = [CHR 0x27]"

subsection \<open>Prompts and notifications\<close>

definition push_notification :: "on_env \<Rightarrow> string \<Rightarrow> string \<Rightarrow> on_state \<Rightarrow> on_state" where
  "push_notification E message event_type s =
     (case ne_webhook E of None \<Rightarrow> s | Some _ \<Rightarrow> s\<lparr>on_pushed := on_pushed s @ [(message, event_type)]\<rparr>)"

definition emit_prompt :: "on_env \<Rightarrow> prompt \<Rightarrow> (on_state, unit) act" where
  "emit_prompt E p = (\<lambda>s. (push_notification E (op_message p) (op_step p)
     (s\<lparr>on_pending := insert_or op_project_id p (\<lambda>_. p) (on_pending s)\<rparr>), Inr ()))"

definition clear_prompt :: "string \<Rightarrow> on_state \<Rightarrow> on_state" where
  "clear_prompt pid s = s\<lparr>on_pending := filter (\<lambda>p. op_project_id p \<noteq> pid) (on_pending s)\<rparr>"

definition take_prompt :: "string \<Rightarrow> on_state \<Rightarrow> on_state \<times> prompt option" where
  "take_prompt pid s = (clear_prompt pid s, find_by op_project_id pid (on_pending s))"

definition peek_prompt :: "string \<Rightarrow> on_state \<Rightarrow> prompt option" where
  "peek_prompt pid s = find_by op_project_id pid (on_pending s)"

definition all_pending :: "on_state \<Rightarrow> prompt list" where
  "all_pending s = on_pending s"

definition need_project :: "string \<Rightarrow> (on_state, project) act" where
  "need_project pid = bindA (askA (\<lambda>s. get_project (on_db s) pid)) (needA (Anyhow ''project not found''))"

subsection \<open>Steps\<close>

definition start_onboarding :: "on_env \<Rightarrow> string \<Rightarrow> (on_state, unit) act" where
  "start_onboarding E pid = bindA (need_project pid) (\<lambda>p. emit_prompt E
     \<lparr>op_project_id = pj_id p, op_project_name = pj_name p, op_step = ''awaiting_folder'',
      op_message = ''New peer project '' @ quote @ pj_name p @ quote @ '' added from '' @ pj_peer_gateway p @
        ''. Where should the project folder be placed on this gateway$1'',
      op_default_value = ''data/projects/'' @ pj_name p, op_created_at = ne_now E\<rparr>)"

definition handle_folder_answer :: "on_env \<Rightarrow> string \<Rightarrow> string \<Rightarrow> (on_state, unit) act" where
  "handle_folder_answer E pid folder_path =
     bindA (if trim folder_path = [] then bindA (need_project pid) (\<lambda>p. ret (''data/projects/'' @ pj_name p))
            else ret (trim folder_path)) (\<lambda>path.
     bindA (odb (set_folder_path (ne_canonicalize E) (ne_is_dir E) (ne_now E) pid path)) (\<lambda>_.
     bindA (odb (set_onboarding_step (ne_now E) pid (Some ''awaiting_files''))) (\<lambda>_.
     bindA (need_project pid) (\<lambda>p. emit_prompt E
       \<lparr>op_project_id = pid, op_project_name = pj_name p, op_step = ''awaiting_files'',
        op_message = ''Project folder set to '' @ quote @ path @ quote @
          ''. Which files should be included in the sync$1 Use a glob pattern (e.g. **/*.rs, **/*.md, **/*)'',
        op_default_value = ''**/*'', op_created_at = ne_now E\<rparr>))))"

definition handle_files_answer :: "on_env \<Rightarrow> string \<Rightarrow> string \<Rightarrow> (on_state, unit) act" where
  "handle_files_answer E pid glob0 =
     (let glob = (if trim glob0 = [] then ''**/*'' else trim glob0) in
      bindA (odb (set_file_glob (ne_now E) pid glob)) (\<lambda>_.
      bindA (odb (set_onboarding_step (ne_now E) pid (Some ''building_context''))) (\<lambda>_.
      bindA (need_project pid) (\<lambda>p.
      bindA (odb (append_entry (ne_mac E) (ne_secret E) (ne_fresh_id E) (ne_now E) pid (ne_gateway E) ''gateway'' Note
        (''Onboarding: building context for '' @ quote @ pj_name p @ quote @ '' with glob '' @ quote @ glob @ quote) None)) (\<lambda>_ s.
        (push_notification E (''Building context for '' @ quote @ pj_name p @ quote @ '' '' @
             [CHR 0xE2, CHR 0x80, CHR 0x94] @ '' your agent is analysing the project now.'') ''onboarding''
           (if ne_context_builder E then s\<lparr>on_spawned := on_spawned s @ [(pid, pj_name p)]\<rparr> else s), Inr ()))))))"

definition handle_user_task :: "on_env \<Rightarrow> string \<Rightarrow> string \<Rightarrow> (on_state, unit) act" where
  "handle_user_task E pid task =
     (if trim task = [] then ret ()
      else
       bindA (need_project pid) (\<lambda>p.
       bindA (odb (append_entry (ne_mac E) (ne_secret E) (ne_fresh_id E) (ne_now E) pid (ne_gateway E) ''user'' Focus task None)) (\<lambda>_.
       bindA (odb (set_onboarding_step (ne_now E) pid None)) (\<lambda>_ s.
         (push_notification E (''Onboarding complete for '' @ quote @ pj_name p @ quote @ ''. Task logged: '' @ task)
            ''onboarding'' (clear_prompt pid s), Inr ())))))"

definition answer_onboarding :: "on_env \<Rightarrow> answer \<Rightarrow> (on_state, unit) act" where
  "answer_onboarding E ans =
     (if an_step ans = ''awaiting_folder'' then handle_folder_answer E (an_project_id ans) (an_value ans)
      else if an_step ans = ''awaiting_files'' then handle_files_answer E (an_project_id ans) (an_value ans)
      else if an_step ans = ''awaiting_user_input'' then handle_user_task E (an_project_id ans) (an_value ans)
      else ret ())"

definition context_ready :: "on_env \<Rightarrow> string \<Rightarrow> string \<Rightarrow> (on_state, unit) act" where
  "context_ready E pid summary =
     bindA (odb (set_onboarding_step (ne_now E) pid (Some ''awaiting_user_input''))) (\<lambda>_.
     bindA (need_project pid) (\<lambda>p. emit_prompt E
       \<lparr>op_project_id = pid, op_project_name = pj_name p, op_step = ''awaiting_user_input'',
        op_message = ''Context analysis complete for '' @ quote @ pj_name p @ quote @ ''.'' @ lf @ lf @ summary @ lf @ lf @
          ''What would you like to work on or contribute$1'',
        op_default_value = [], op_created_at = ne_now E\<rparr>))"

subsection \<open>The context builder\<close>

definition select_agent :: "registry \<Rightarrow> agent_entry option" where
  "select_agent reg =
     (let agents = order_by ae_name (registry_list reg) in
      if agents = [] then None
      else case List.find (\<lambda>a. list_ex (\<lambda>c. c = ''context_building'') (ae_capabilities a)) agents of
          Some a \<Rightarrow> Some a
        | None \<Rightarrow> (case List.find (\<lambda>a. list_ex (\<lambda>c. contains ''orchestrat'' c) (ae_capabilities a)) agents of
            Some a \<Rightarrow> Some a
          | None \<Rightarrow> Some (hd agents)))"

text \<open>\<open>dispatch\<close>: the request (agent endpoint and the log entries shown) and the result.\<close>

definition dispatch :: "on_env \<Rightarrow> registry \<Rightarrow> string \<Rightarrow> string \<Rightarrow> (string \<times> log_entry list) option \<times> (err + string)" where
  "dispatch E reg pid project_name =
     (case select_agent reg of
        None \<Rightarrow> (None, Inl (Anyhow (''no agents registered '' @ [CHR 0xE2, CHR 0x80, CHR 0x94] @ '' cannot build context'')))
      | Some agent \<Rightarrow>
          let url = ae_endpoint agent @ ''/invoke''; shown = take 50 (since (rg_db reg) pid 0) in
          (Some (url, shown),
           case ne_invoke E url of
             Unreachable \<Rightarrow> Inl (Anyhow (''calling agent '' @ quote @ ae_name agent @ quote @ '' at '' @ ae_endpoint agent))
           | Answered code status body \<Rightarrow>
               if 200 \<le> code \<and> code < 300 then Inr (ae_name agent)
               else Inl (Anyhow (''agent '' @ quote @ ae_name agent @ quote @ '' returned '' @ status @ '': '' @ body))))"

subsection \<open>The onboarding step of a project\<close>

definition onboarding_at :: "db \<Rightarrow> string \<Rightarrow> string option option" where
  "onboarding_at d i = map_option pj_onboarding_step (get_project d i)"

lemma odb_Inr_iff: "odb m s = (s', Inr y) \<longleftrightarrow>
    (\<exists>d. m (on_db s) = (d, Inr y) \<and> s' = s\<lparr>on_reg := (on_reg s)\<lparr>rg_db := d\<rparr>\<rparr>)"
  by (auto simp: zoomA_def split: prod.splits)

lemma need_project_Inr_iff: "need_project i s = (s', Inr p) \<longleftrightarrow> get_project (on_db s) i = Some p \<and> s' = s"
  by (auto simp: need_project_def act_simps split: option.splits)

lemma on_db_emit [simp]: "on_db (push_notification E m t s) = on_db s" "on_db (clear_prompt i s) = on_db s"
  by (simp_all add: push_notification_def clear_prompt_def split: option.split)

lemma emit_Inr_iff: "emit_prompt E p s = (s', Inr ()) \<Longrightarrow> on_db s' = on_db s"
  by (auto simp: emit_prompt_def)

lemma onboarding_update:
  assumes "\<And>r. pr_id (f r) = pr_id r"
  shows "onboarding_at (update_project i now f d) j =
    (if j = i then map_option (\<lambda>r. pr_onboarding_step (f r)) (find_by pr_id i (projects d)) else onboarding_at d j)"
  unfolding onboarding_at_def get_update_project [of f, OF assms]
  by (simp add: option.map_comp comp_def project_of_row_def)

lemma onboarding_at_find: "onboarding_at d i = map_option pr_onboarding_step (find_by pr_id i (projects d))"
  by (simp add: onboarding_at_def get_project_def option.map_comp comp_def project_of_row_def)

lemma onboarding_set_step:
  assumes "set_onboarding_step now i st d = (d', r)"
  shows "onboarding_at d' i = map_option (\<lambda>_. st) (onboarding_at d i)"
proof -
  have "d' = update_project i now (\<lambda>r. r\<lparr>pr_onboarding_step := st\<rparr>) d"
    using assms by (simp add: set_onboarding_step_def)
  then show ?thesis
    by (simp add: onboarding_update) (simp add: onboarding_at_find option.map_comp comp_def)
qed

lemma onboarding_kept:
  assumes "\<And>r. pr_id (f r) = pr_id r" "\<And>r. pr_onboarding_step (f r) = pr_onboarding_step r"
  shows "onboarding_at (update_project i now f d) j = onboarding_at d j"
  using assms by (simp add: onboarding_update) (simp add: onboarding_at_find)

lemma onboarding_other:
  "set_folder_path cn dr now i path d = (d', r) \<Longrightarrow> onboarding_at d' j = onboarding_at d j"
  "set_file_glob now i g d = (d', r) \<Longrightarrow> onboarding_at d' j = onboarding_at d j"
  by (auto simp: set_folder_path_def set_file_glob_def onboarding_kept split: option.splits if_splits)

lemma onboarding_append:
  "append_entry H k i now p g a t c td d = (d', r) \<Longrightarrow> onboarding_at d' j = onboarding_at d j"
  unfolding append_entry_def
  by (cases rule: append_cases [of True H k i now p g a t c td None None d])
    (auto simp: onboarding_at_def get_project_def)

lemmas onboarding_runs = bindA_Inr_iff odb_Inr_iff need_project_Inr_iff

lemma folder_answer_step:
  assumes "handle_folder_answer E i path s = (s', Inr ())"
  shows "onboarding_at (on_db s') i = map_option (\<lambda>_. Some ''awaiting_files'') (onboarding_at (on_db s) i)"
  using assms unfolding handle_folder_answer_def
  by (auto simp: onboarding_runs ret_def split: if_splits
      dest!: emit_Inr_iff onboarding_set_step onboarding_other(1) [where j = i])

lemma files_answer_step:
  assumes "handle_files_answer E i glob s = (s', Inr ())"
  shows "onboarding_at (on_db s') i = map_option (\<lambda>_. Some ''building_context'') (onboarding_at (on_db s) i)"
  using assms unfolding handle_files_answer_def Let_def
  by (auto simp: onboarding_runs dest!: onboarding_set_step onboarding_other(2) [where j = i]
      onboarding_append [where j = i])

lemma user_task_step:
  assumes "handle_user_task E i task s = (s', Inr ())"
  shows "onboarding_at (on_db s') i =
     (if trim task = [] then onboarding_at (on_db s) i else map_option (\<lambda>_. None) (onboarding_at (on_db s) i))"
  using assms unfolding handle_user_task_def
  by (auto simp: onboarding_runs ret_def dest!: onboarding_set_step onboarding_append [where j = i])

text \<open>The preferred agents, as the code's documentation lists them.\<close>

lemma select_agent_listed: "select_agent reg = Some a \<Longrightarrow> a \<in> set (registry_list reg)"
  unfolding select_agent_def Let_def
  by (auto simp: find_Some_iff split: if_splits option.splits)
    (metis hd_in_set nth_mem order_by_def set_order_by set_empty)+

lemma select_agent_capable:
  assumes "select_agent reg = Some a" "b \<in> set (registry_list reg)" "''context_building'' \<in> set (ae_capabilities b)"
  shows "''context_building'' \<in> set (ae_capabilities a)"
proof -
  let ?P = "\<lambda>a. list_ex (\<lambda>c. c = ''context_building'') (ae_capabilities a)"
  have "List.find ?P (order_by ae_name (registry_list reg)) \<noteq> None"
    using assms(2,3) by (auto simp: find_None_iff list_ex_iff)
  then obtain x where x: "List.find ?P (order_by ae_name (registry_list reg)) = Some x" by blast
  then have "?P x" by (auto simp: find_Some_iff)
  then show ?thesis
    using assms(1) x by (auto simp: select_agent_def Let_def list_ex_iff split: if_splits)
qed

subsection \<open>Properties\<close>

text \<open>
  C35. An accepted onboarding answer moves its project by the step the answer names, whatever step the
  project is at: a folder answer to awaiting files, a files answer to building the context, a stated task to
  done (a blank one changes nothing), any other step name changes nothing.
\<close>

theorem onboarding_answer_step:
  assumes "answer_onboarding E ans s = (s', Inr ())" "onboarding_at (on_db s) (an_project_id ans) = Some st"
  shows "onboarding_at (on_db s') (an_project_id ans) = Some
    (if an_step ans = ''awaiting_folder'' then Some ''awaiting_files''
     else if an_step ans = ''awaiting_files'' then Some ''building_context''
     else if an_step ans = ''awaiting_user_input'' \<and> trim (an_value ans) \<noteq> [] then None
     else st)"
  using assms unfolding answer_onboarding_def
  by (auto simp: ret_def split: if_splits dest!: folder_answer_step files_answer_step user_task_step)

definition demo_on_env :: on_env where
  "demo_on_env = \<lparr>ne_gateway = ''gw'', ne_webhook = None, ne_context_builder = False, ne_now = 5, ne_fresh_id = ''e'',
     ne_mac = (\<lambda>k m. k @ m), ne_secret = ''k'', ne_canonicalize = Some, ne_is_dir = (\<lambda>_. True), ne_invoke = (\<lambda>_. Unreachable)\<rparr>"

definition demo_on_state :: on_state where
  "demo_on_state = \<lparr>on_reg = \<lparr>rg_db = one_project, rg_cache = []\<rparr>, on_pending = [], on_pushed = [], on_spawned = []\<rparr>"

definition demo_answer :: answer where
  "demo_answer = \<lparr>an_project_id = ''p'', an_step = ''awaiting_folder'', an_value = ''f''\<rparr>"

lemma demo_answer_ok: "snd (answer_onboarding demo_on_env demo_answer demo_on_state) = Inr ()"
  by (simp add: answer_onboarding_def demo_answer_def demo_on_state_def demo_on_env_def handle_folder_answer_def
      trim_def is_space_def act_simps zoomA_def set_folder_path_def set_onboarding_step_def need_project_def
      update_project_def update_where_def one_project_def project_row_new_def get_project_def find_by_def
      emit_prompt_def)

lemma onboarding_answer_step_witness:
  "onboarding_at (on_db (fst (answer_onboarding demo_on_env demo_answer demo_on_state))) (an_project_id demo_answer) = Some
    (if an_step demo_answer = ''awaiting_folder'' then Some ''awaiting_files''
     else if an_step demo_answer = ''awaiting_files'' then Some ''building_context''
     else if an_step demo_answer = ''awaiting_user_input'' \<and> trim (an_value demo_answer) \<noteq> [] then None
     else None)"
proof (rule onboarding_answer_step)
  show "answer_onboarding demo_on_env demo_answer demo_on_state =
      (fst (answer_onboarding demo_on_env demo_answer demo_on_state), Inr ())"
    using demo_answer_ok by (metis prod.collapse)
qed (simp add: onboarding_at_def demo_on_state_def demo_answer_def one_project_def get_project_def find_by_def
    project_row_new_def project_of_row_def)

end
