(* ===== verification/Contributions.thy ===== *)
theory Contributions
  imports Gateway_Db
begin

text \<open>
  Contribution proposals (\<open>contributions.rs\<close>): opening, voting, and the review of a proposal between two
  gateways. The number of gateways is an argument of \<open>open_proposal\<close>, as in the code.

  Lemmas: the status machine (\<open>status_move\<close>) that every operation follows, the invariant of the
  proposal and vote tables, and the tally.
\<close>

subsection \<open>Status and votes\<close>

datatype proposal_status = OpenProposal | Voting | PrPending | PrAccepted | Accepted | Rejected

fun status_as_str :: "proposal_status \<Rightarrow> string" where
  "status_as_str OpenProposal = ''open''"
| "status_as_str Voting = ''voting''"
| "status_as_str PrPending = ''pr_pending''"
| "status_as_str PrAccepted = ''pr_accepted''"
| "status_as_str Accepted = ''accepted''"
| "status_as_str Rejected = ''rejected''"

definition status_from_str :: "string \<Rightarrow> proposal_status" where
  "status_from_str s =
     (if s = ''voting'' then Voting else if s = ''pr_pending'' then PrPending
      else if s = ''pr_accepted'' then PrAccepted else if s = ''accepted'' then Accepted
      else if s = ''rejected'' then Rejected else OpenProposal)"

datatype vote_kind = Approve | Reject

fun vote_as_str :: "vote_kind \<Rightarrow> string" where
  "vote_as_str Approve = ''approve''"
| "vote_as_str Reject = ''reject''"

definition vote_from_str :: "string \<Rightarrow> vote_kind" where
  "vote_from_str s = (if s = ''reject'' then Reject else Approve)"

interpretation status_codec: total_codec status_as_str status_from_str
proof
  fix s show "status_from_str (status_as_str s) = s"
    by (cases s) (simp_all add: status_from_str_def)
qed

interpretation vote_codec: total_codec vote_as_str vote_from_str
proof
  fix v show "vote_from_str (vote_as_str v) = v"
    by (cases v) (simp_all add: vote_from_str_def)
qed

record proposal =
  po_id :: string
  po_project_id :: string
  po_proposer_gateway :: string
  po_proposer_agent :: string
  po_snapshot_id :: string
  po_description :: string
  po_status :: proposal_status
  po_gateway_count :: int
  po_created_at :: time
  po_resolved_at :: "time option"
  po_resolved_by :: "string option"

record vote =
  vo_id :: string
  vo_proposal_id :: string
  vo_gateway_name :: string
  vo_agent_name :: string
  vo_vote :: vote_kind
  vo_reason :: string
  vo_voted_at :: time

datatype vote_outcome = VoteAccepted | VoteRejected | VotePending int int int

definition proposal_of_row :: "prop_row \<Rightarrow> proposal" where
  "proposal_of_row r = \<lparr>po_id = pp_id r, po_project_id = pp_project_id r,
     po_proposer_gateway = pp_proposer_gateway r, po_proposer_agent = pp_proposer_agent r,
     po_snapshot_id = pp_snapshot_id r, po_description = pp_description r,
     po_status = status_from_str (pp_status r), po_gateway_count = pp_gateway_count r,
     po_created_at = pp_created_at r, po_resolved_at = pp_resolved_at r, po_resolved_by = pp_resolved_by r\<rparr>"

definition vote_row_of :: "vote \<Rightarrow> vote_row" where
  "vote_row_of v = \<lparr>vt_id = vo_id v, vt_proposal_id = vo_proposal_id v, vt_gateway_name = vo_gateway_name v,
     vt_agent_name = vo_agent_name v, vt_vote = vote_as_str (vo_vote v), vt_reason = vo_reason v,
     vt_voted_at = vo_voted_at v\<rparr>"

subsection \<open>Operations\<close>

definition get_proposal :: "db \<Rightarrow> string \<Rightarrow> proposal option" where
  "get_proposal d i = map_option proposal_of_row (find_by pp_id i (proposals d))"

definition list_proposals :: "db \<Rightarrow> string \<Rightarrow> proposal list" where
  "list_proposals d project_id = map proposal_of_row
     (order_by_desc pp_created_at (filter (\<lambda>r. pp_project_id r = project_id) (proposals d)))"

definition open_proposal ::
  "string \<Rightarrow> time \<Rightarrow> string \<Rightarrow> string \<Rightarrow> string \<Rightarrow> string \<Rightarrow> string \<Rightarrow> int \<Rightarrow> (db, proposal) act" where
  "open_proposal i now project_id gateway agent snapshot_id description gateway_count = (\<lambda>d.
     let status = (if 2 < gateway_count then Voting else PrPending);
         r = \<lparr>pp_id = i, pp_project_id = project_id, pp_proposer_gateway = gateway,
              pp_proposer_agent = agent, pp_snapshot_id = snapshot_id, pp_description = description,
              pp_status = status_as_str status, pp_gateway_count = gateway_count, pp_created_at = now,
              pp_resolved_at = None, pp_resolved_by = None\<rparr>
     in if has_key pp_id i (proposals d) then (d, Inl (Sql_err ''open proposal'' Unique_violation))
        else if \<not> project_exists d project_id \<or> \<not> has_key sn_id snapshot_id (snapshots d)
        then (d, Inl (Sql_err ''open proposal'' Foreign_key_violation))
        else (d\<lparr>proposals := proposals d @ [r]\<rparr>, Inr (proposal_of_row r)))"

definition set_status :: "string \<Rightarrow> proposal_status \<Rightarrow> db \<Rightarrow> db" where
  "set_status i status d =
     d\<lparr>proposals := update_where (\<lambda>r. pp_id r = i) (\<lambda>r. r\<lparr>pp_status := status_as_str status\<rparr>) (proposals d)\<rparr>"

definition resolve :: "time \<Rightarrow> string \<Rightarrow> proposal_status \<Rightarrow> string \<Rightarrow> db \<Rightarrow> db" where
  "resolve now i status resolved_by d =
     d\<lparr>proposals := update_where (\<lambda>r. pp_id r = i)
         (\<lambda>r. r\<lparr>pp_status := status_as_str status, pp_resolved_at := Some now, pp_resolved_by := Some resolved_by\<rparr>)
         (proposals d)\<rparr>"

definition tally :: "db \<Rightarrow> string \<Rightarrow> vote_kind \<Rightarrow> int" where
  "tally d proposal_id k = int (length (filter (\<lambda>r. vt_proposal_id r = proposal_id \<and> vt_vote r = vote_as_str k) (votes d)))"

definition majority_of :: "int \<Rightarrow> int" where
  "majority_of gateways = gateways div 2 + 1"

definition check_vote_outcome :: "time \<Rightarrow> string \<Rightarrow> proposal \<Rightarrow> (db, vote_outcome) act" where
  "check_vote_outcome now proposal_id proposal = (\<lambda>d.
     let approvals = tally d proposal_id Approve; rejections = tally d proposal_id Reject;
         majority = majority_of (po_gateway_count proposal)
     in if majority \<le> approvals then (resolve now proposal_id Accepted ''vote-majority'' d, Inr VoteAccepted)
        else if majority \<le> rejections then (resolve now proposal_id Rejected ''vote-majority'' d, Inr VoteRejected)
        else (d, Inr (VotePending approvals rejections majority)))"

abbreviation voter_key :: "vote_row \<Rightarrow> string \<times> string \<times> string" where
  "voter_key r \<equiv> (vt_proposal_id r, vt_gateway_name r, vt_agent_name r)"

definition cast_vote ::
  "string \<Rightarrow> time \<Rightarrow> string \<Rightarrow> string \<Rightarrow> string \<Rightarrow> vote_kind \<Rightarrow> string \<Rightarrow> (db, vote_outcome) act" where
  "cast_vote i now proposal_id gateway_name agent_name kind reason = (\<lambda>d.
     case get_proposal d proposal_id of
       None \<Rightarrow> (d, Inl (Anyhow ''proposal not found''))
     | Some proposal \<Rightarrow>
         if po_status proposal \<noteq> Voting
         then (d, Inl (Anyhow (''proposal is not in voting state (status='' @ status_as_str (po_status proposal) @ '')'')))
         else
           let row = vote_row_of \<lparr>vo_id = i, vo_proposal_id = proposal_id, vo_gateway_name = gateway_name,
                 vo_agent_name = agent_name, vo_vote = kind, vo_reason = reason, vo_voted_at = now\<rparr>
           in if has_key voter_key (voter_key row) (votes d) then check_vote_outcome now proposal_id proposal d
              else if has_key vt_id i (votes d) then (d, Inl (Sql_err ''insert vote'' Unique_violation))
              else check_vote_outcome now proposal_id proposal (d\<lparr>votes := votes d @ [row]\<rparr>))"

definition accept_pr :: "time \<Rightarrow> string \<Rightarrow> string \<Rightarrow> (db, unit) act" where
  "accept_pr now proposal_id reviewer_gateway = (\<lambda>d.
     case get_proposal d proposal_id of
       None \<Rightarrow> (d, Inl (Anyhow ''proposal not found''))
     | Some proposal \<Rightarrow>
         if po_status proposal \<noteq> PrPending then (d, Inl (Anyhow ''proposal is not in pr_pending state''))
         else (resolve now proposal_id Accepted reviewer_gateway (set_status proposal_id PrAccepted d), Inr ()))"

definition reject_pr :: "time \<Rightarrow> string \<Rightarrow> string \<Rightarrow> (db, unit) act" where
  "reject_pr now proposal_id reviewer_gateway = (\<lambda>d.
     case get_proposal d proposal_id of
       None \<Rightarrow> (d, Inl (Anyhow ''proposal not found''))
     | Some proposal \<Rightarrow>
         if po_status proposal \<noteq> PrPending then (d, Inl (Anyhow ''proposal is not in pr_pending state''))
         else (resolve now proposal_id Rejected reviewer_gateway d, Inr ()))"

subsection \<open>The status machine\<close>

inductive status_move :: "proposal_status \<Rightarrow> proposal_status \<Rightarrow> bool" where
  vote_accepts: "status_move Voting Accepted"
| vote_rejects: "status_move Voting Rejected"
| pr_accepts: "status_move PrPending Accepted"
| pr_rejects: "status_move PrPending Rejected"

inductive_cases from_accepted: "status_move Accepted s"
inductive_cases from_rejected: "status_move Rejected s"
inductive_simps status_move_iff: "status_move s t"

definition status_of :: "db \<Rightarrow> string \<Rightarrow> proposal_status option" where
  "status_of d i = map_option po_status (get_proposal d i)"

datatype proposal_op =
    Open_proposal string time string string string string string int
  | Cast_vote string time string string string vote_kind string
  | Accept_pr time string string
  | Reject_pr time string string

fun proposal_step :: "proposal_op \<Rightarrow> db \<Rightarrow> db" where
  "proposal_step (Open_proposal i now p g a sn de n) d = exec (open_proposal i now p g a sn de n) d"
| "proposal_step (Cast_vote i now p g a k r) d = exec (cast_vote i now p g a k r) d"
| "proposal_step (Accept_pr now p g) d = exec (accept_pr now p g) d"
| "proposal_step (Reject_pr now p g) d = exec (reject_pr now p g) d"

lemma majority_iff: "majority_of n \<le> v \<longleftrightarrow> n < 2 * v"
  by (simp add: majority_of_def) presburger

lemma po_status_row [simp]: "po_status (proposal_of_row r) = status_from_str (pp_status r)"
  by (simp add: proposal_of_row_def)

lemma status_update:
  assumes "\<And>r. pp_id (f r) = pp_id r" "\<And>r. pp_status (f r) = status_as_str st"
  shows "status_of (d\<lparr>proposals := update_where (\<lambda>r. pp_id r = i) f (proposals d)\<rparr>) j =
     (if j = i then map_option (\<lambda>_. st) (status_of d i) else status_of d j)"
  using assms by (cases "find_by pp_id j (proposals d)")
    (auto simp: status_of_def get_proposal_def find_by_update_where status_codec.dec0_enc dest: find_by_Some)

lemma status_resolve:
  "status_of (resolve now i st by d) j = (if j = i then map_option (\<lambda>_. st) (status_of d i) else status_of d j)"
  unfolding resolve_def by (rule status_update) simp_all

lemma status_set:
  "status_of (set_status i st d) j = (if j = i then map_option (\<lambda>_. st) (status_of d i) else status_of d j)"
  unfolding set_status_def by (rule status_update) simp_all

lemma status_votes [simp]: "status_of (d\<lparr>votes := vs\<rparr>) j = status_of d j"
  by (simp add: status_of_def get_proposal_def)

lemma check_outcome_status:
  "status_of (exec (check_vote_outcome now i p) d) j = status_of d j \<or>
     j = i \<and> (status_of (exec (check_vote_outcome now i p) d) i = map_option (\<lambda>_. Accepted) (status_of d i) \<or>
       status_of (exec (check_vote_outcome now i p) d) i = map_option (\<lambda>_. Rejected) (status_of d i))"
  by (auto simp: exec_def check_vote_outcome_def Let_def status_resolve)

lemma status_open:
  "status_of d j = Some s \<Longrightarrow> status_of (exec (open_proposal i now p g a sn de n) d) j = Some s"
  by (auto simp: status_of_def get_proposal_def exec_def open_proposal_def Let_def find_by_append)

lemma proposal_status_step:
  assumes "status_of d j = Some s"
  shows "\<exists>t. status_of (proposal_step op d) j = Some t \<and> (t = s \<or> status_move s t)"
proof (cases op)
  case (Open_proposal i now p g a sn de n)
  then show ?thesis using status_open [OF assms] by simp
next
  case (Cast_vote i now p g a k r)
  show ?thesis
  proof (cases "status_of d p = Some Voting")
    case False
    then have "exec (cast_vote i now p g a k r) d = d"
      by (auto simp: exec_def cast_vote_def status_of_def split: option.splits)
    with Cast_vote assms show ?thesis by simp
  next
    case True
    then obtain pr where pr: "get_proposal d p = Some pr" "po_status pr = Voting"
      by (auto simp: status_of_def)
    let ?row = "vote_row_of \<lparr>vo_id = i, vo_proposal_id = p, vo_gateway_name = g, vo_agent_name = a,
      vo_vote = k, vo_reason = r, vo_voted_at = now\<rparr>"
    have "exec (cast_vote i now p g a k r) d \<in>
        {d, exec (check_vote_outcome now p pr) d, exec (check_vote_outcome now p pr) (d\<lparr>votes := votes d @ [?row]\<rparr>)}"
      using pr by (auto simp: exec_def cast_vote_def Let_def)
    then show ?thesis
      using assms True check_outcome_status [of now p pr d j]
        check_outcome_status [of now p pr "d\<lparr>votes := votes d @ [?row]\<rparr>" j] Cast_vote
      by (auto simp: status_move_iff)
  qed
next
  case (Accept_pr now p g)
  with assms show ?thesis
    by (auto simp: exec_def accept_pr_def status_resolve status_set status_move_iff status_of_def [of d]
        split: option.splits)
next
  case (Reject_pr now p g)
  with assms show ?thesis
    by (auto simp: exec_def reject_pr_def status_resolve status_move_iff status_of_def [of d] split: option.splits)
qed

text \<open>The statuses of one state and a later one: a proposal is kept, and has moved at most once.\<close>

definition status_followed :: "db \<Rightarrow> db \<Rightarrow> bool" where
  "status_followed d d' \<longleftrightarrow>
     (\<forall>j s. status_of d j = Some s \<longrightarrow> (\<exists>t. status_of d' j = Some t \<and> (t = s \<or> status_move s t)))"

lemma status_move_once: "status_move s t \<Longrightarrow> \<not> status_move t u"
  by (auto simp: status_move_iff)

lemma status_followed_same:
  assumes "proposals d' = proposals d"
  shows "status_followed d d'"
proof -
  have "status_of d' = status_of d"
    using assms by (simp add: fun_eq_iff status_of_def get_proposal_def)
  then show ?thesis by (simp add: status_followed_def)
qed

interpretation proposal_history: history_system proposal_step status_followed
proof
  show "status_followed s t \<Longrightarrow> status_followed t u \<Longrightarrow> status_followed s u" for s t u
    unfolding status_followed_def by (metis status_move_once)
  show "status_followed s (proposal_step op s)" for op s
    by (simp add: status_followed_def proposal_status_step)
qed (simp add: status_followed_same)

subsection \<open>Ballots\<close>

text \<open>A vote with its id, time, voter (gateway and agent), kind and reason.\<close>

type_synonym ballot = "string \<times> time \<times> string \<times> string \<times> vote_kind \<times> string"

fun cast_of :: "string \<Rightarrow> ballot \<Rightarrow> proposal_op" where
  "cast_of p (i, now, g, a, k, r) = Cast_vote i now p g a k r"

fun row_of :: "string \<Rightarrow> ballot \<Rightarrow> vote_row" where
  "row_of p (i, now, g, a, k, r) = vote_row_of \<lparr>vo_id = i, vo_proposal_id = p, vo_gateway_name = g, vo_agent_name = a,
     vo_vote = k, vo_reason = r, vo_voted_at = now\<rparr>"

definition kind_of :: "ballot \<Rightarrow> vote_kind" where
  "kind_of b = fst (snd (snd (snd (snd b))))"

definition still_open :: "db \<Rightarrow> string \<Rightarrow> int \<Rightarrow> ballot list \<Rightarrow> db \<Rightarrow> bool" where
  "still_open d0 p n bs d \<longleftrightarrow> map_option po_gateway_count (get_proposal d p) = Some n \<and>
     votes d = votes d0 @ map (row_of p) bs \<and>
     (bs = [] \<or> 2 * tally d p Approve \<le> n \<and> 2 * tally d p Reject \<le> n)"

lemma row_of_sel [simp]: "vt_id (row_of p b) = fst b" "vt_proposal_id (row_of p b) = p"
  "vt_vote (row_of p b) = vote_as_str (kind_of b)"
  by (cases b; simp add: vote_row_of_def kind_of_def)+

lemma row_ids: "vt_id ` row_of p ` set bs = fst ` set bs"
  by (simp add: image_comp comp_def)

lemma tally_ballots:
  assumes "votes d = votes d0 @ map (row_of p) bs" "filter (\<lambda>r. vt_proposal_id r = p) (votes d0) = []"
  shows "tally d p k = int (length (filter (\<lambda>b. kind_of b = k) bs))"
proof -
  have "filter (\<lambda>r. vt_proposal_id r = p \<and> vt_vote r = vote_as_str k) (votes d0) = []"
    using assms(2) by (auto simp: filter_empty_conv)
  then show ?thesis
    by (simp add: tally_def assms(1) filter_map comp_def vote_codec.enc_inj)
qed

lemma kinds_partition:
  "length (filter (\<lambda>b. kind_of b = Approve) bs) + length (filter (\<lambda>b. kind_of b = Reject) bs) = length bs"
proof -
  have "(kind_of b = Reject) = (\<not> kind_of b = Approve)" for b
    by (cases "kind_of b") auto
  then show ?thesis by (simp add: sum_length_filter_compl)
qed

lemma half: "2 * x \<le> n \<Longrightarrow> x \<le> n div 2" for x n :: int
  by presburger

lemma cast_still_open:
  assumes open_: "status_of d p = Some Voting" "still_open d0 p n bs d"
    and fresh: "fst b \<notin> vt_id ` set (votes d)" "voter_key (row_of p b) \<notin> voter_key ` set (votes d)"
    and after: "status_of (proposal_step (cast_of p b) d) p = Some Voting"
  shows "still_open d0 p n (bs @ [b]) (proposal_step (cast_of p b) d)"
proof -
  obtain i now g a k r where b: "b = (i, now, g, a, k, r)" by (cases b)
  obtain pr where pr: "get_proposal d p = Some pr" "po_status pr = Voting" "po_gateway_count pr = n"
    using open_ by (auto simp: status_of_def still_open_def)
  let ?d = "d\<lparr>votes := votes d @ [row_of p b]\<rparr>"
  have step: "proposal_step (cast_of p b) d = exec (check_vote_outcome now p pr) ?d"
    using pr fresh b by (simp add: exec_def cast_vote_def Let_def has_key_iff)
  have "\<not> majority_of n \<le> tally ?d p Approve \<and> \<not> majority_of n \<le> tally ?d p Reject"
    using after open_(1) pr(3) unfolding step
    by (auto simp: exec_def check_vote_outcome_def Let_def status_resolve split: if_splits)
  then have "proposal_step (cast_of p b) d = ?d" "2 * tally ?d p Approve \<le> n" "2 * tally ?d p Reject \<le> n"
    unfolding step using pr(3) by (simp_all add: exec_def check_vote_outcome_def Let_def majority_iff not_less)
  then show ?thesis
    using open_(2) by (simp add: still_open_def get_proposal_def)
qed

lemma voting_run:
  assumes "map_option po_gateway_count (get_proposal d p) = Some n" "status_of d p = Some Voting"
    and none: "filter (\<lambda>r. vt_proposal_id r = p) (votes d) = []"
    and ids: "distinct (map fst bs)" "fst ` set bs \<inter> vt_id ` set (votes d) = {}"
    and voters: "distinct (map (voter_key \<circ> row_of p) bs)"
  shows "status_of (runA proposal_step d (map (cast_of p) bs)) p = Some Voting \<Longrightarrow>
    still_open d p n bs (runA proposal_step d (map (cast_of p) bs))"
  using ids voters
proof (induction bs rule: rev_induct)
  case Nil
  then show ?case using assms(1) by (simp add: still_open_def)
next
  case (snoc b bs)
  let ?e = "runA proposal_step d (map (cast_of p) bs)"
  have final: "status_of (proposal_step (cast_of p b) ?e) p = Some Voting"
    using snoc.prems(1) by (simp add: runA_append)
  have "status_of ?e p = Some Voting"
    using proposal_history.run_ext [of d "map (cast_of p) bs"] proposal_history.step_ext [of ?e "cast_of p b"] assms(2) final
    by (fastforce simp: status_followed_def status_move_iff)
  moreover from this have "still_open d p n bs ?e"
    using snoc by (auto simp: runA_append)
  moreover from this have v: "votes ?e = votes d @ map (row_of p) bs"
    by (simp add: still_open_def)
  have "fst b \<notin> vt_id ` set (votes ?e)"
    using snoc.prems(2,3) row_ids [of p bs] by (simp add: v image_Un)
  moreover have "voter_key (row_of p b) \<notin> voter_key ` set (votes ?e)"
  proof -
    have "voter_key (row_of p b) \<notin> voter_key ` set (votes d)"
      using none by (auto simp: filter_empty_conv)
    moreover have "voter_key (row_of p b) \<notin> (\<lambda>x. voter_key (row_of p x)) ` set bs"
      using snoc.prems(4) by (simp add: comp_def)
    ultimately show ?thesis
      by (simp only: v set_append set_map image_Un image_image Un_iff) simp
  qed
  ultimately show ?case
    using cast_still_open final by (simp add: runA_append)
qed

subsection \<open>Properties\<close>

text \<open>
  C11. A proposal's status follows the documented machine for ever: under any operations by anybody, a
  voting or pending proposal stays as it is or is accepted or rejected once, and a decided proposal
  never changes again. No operation loses the proposal.
\<close>

theorem proposal_status_machine:
  assumes "status_of d j = Some s"
  shows "\<exists>t. status_of (runA proposal_step d ops) j = Some t \<and>
     (t = s \<or> s \<in> {Voting, PrPending} \<and> t \<in> {Accepted, Rejected})"
  using proposal_history.run_ext [of d ops] assms by (auto simp: status_followed_def status_move_iff)

definition vote_db :: db where
  "vote_db = empty_db\<lparr>proposals := [\<lparr>pp_id = ''x'', pp_project_id = ''p'', pp_proposer_gateway = ''g1'',
     pp_proposer_agent = ''a'', pp_snapshot_id = ''s'', pp_description = [], pp_status = ''voting'',
     pp_gateway_count = 3, pp_created_at = 0, pp_resolved_at = None, pp_resolved_by = None\<rparr>]\<rparr>"

lemma vote_db_status: "status_of vote_db ''x'' = Some Voting"
  by (simp add: status_of_def get_proposal_def vote_db_def find_by_def status_from_str_def)

lemma proposal_status_machine_witness:
  "\<exists>t. status_of (runA proposal_step vote_db [Cast_vote ''1'' 1 ''x'' ''g1'' ''a'' Approve []]) ''x'' = Some t \<and>
     (t = Voting \<or> Voting \<in> {Voting, PrPending} \<and> t \<in> {Accepted, Rejected})"
  by (rule proposal_status_machine) (rule vote_db_status)

text \<open>
  C12. Voting decides by strict majority of the number of gateways fixed when the proposal was opened: a vote on a
  voting proposal leaves it accepted exactly when the approvals reach the majority, rejected
  when only the rejections do, and open otherwise, reporting the tallies; a failed vote changes nothing.
\<close>

theorem cast_vote_spec:
  assumes "get_proposal d p = Some pr" "po_status pr = Voting"
  shows "case cast_vote i now p g a k r d of
     (d', Inr VoteAccepted) \<Rightarrow> po_gateway_count pr < 2 * tally d' p Approve \<and> status_of d' p = Some Accepted
   | (d', Inr VoteRejected) \<Rightarrow> 2 * tally d' p Approve \<le> po_gateway_count pr \<and>
       po_gateway_count pr < 2 * tally d' p Reject \<and> status_of d' p = Some Rejected
   | (d', Inr (VotePending y n m)) \<Rightarrow> y = tally d' p Approve \<and> n = tally d' p Reject \<and>
       m = po_gateway_count pr div 2 + 1 \<and> y < m \<and> n < m \<and> status_of d' p = Some Voting
   | (d', Inl _) \<Rightarrow> d' = d"
proof -
  have st: "status_of d p = Some Voting"
    using assms by (simp add: status_of_def)
  have tally_resolve: "tally (resolve now p s b e) = tally e" for s b e
    by (simp add: fun_eq_iff tally_def resolve_def)
  have check: "case check_vote_outcome now p pr e of
     (d', Inr VoteAccepted) \<Rightarrow> po_gateway_count pr < 2 * tally d' p Approve \<and> status_of d' p = Some Accepted
   | (d', Inr VoteRejected) \<Rightarrow> 2 * tally d' p Approve \<le> po_gateway_count pr \<and>
       po_gateway_count pr < 2 * tally d' p Reject \<and> status_of d' p = Some Rejected
   | (d', Inr (VotePending y n m)) \<Rightarrow> y = tally d' p Approve \<and> n = tally d' p Reject \<and>
       m = po_gateway_count pr div 2 + 1 \<and> y < m \<and> n < m \<and> status_of d' p = Some Voting
   | (d', Inl _) \<Rightarrow> d' = d" if "status_of e p = Some Voting" for e
    using that
    by (simp add: check_vote_outcome_def Let_def status_resolve tally_resolve majority_iff not_less)
      (auto simp: majority_of_def)
  show ?thesis
    using check [OF st] check [of "d\<lparr>votes := vs\<rparr>" for vs] st assms
    by (simp add: cast_vote_def Let_def)
qed

lemma vote_db_proposal: "get_proposal vote_db ''x'' = Some (proposal_of_row (hd (proposals vote_db)))"
  by (simp add: get_proposal_def vote_db_def find_by_def)

lemma cast_vote_spec_witness:
  "case cast_vote ''1'' 1 ''x'' ''g1'' ''a'' Approve [] vote_db of
     (d', Inr VoteAccepted) \<Rightarrow> po_gateway_count (proposal_of_row (hd (proposals vote_db))) < 2 * tally d' ''x'' Approve \<and>
       status_of d' ''x'' = Some Accepted
   | (d', Inr VoteRejected) \<Rightarrow> 2 * tally d' ''x'' Approve \<le> po_gateway_count (proposal_of_row (hd (proposals vote_db))) \<and>
       po_gateway_count (proposal_of_row (hd (proposals vote_db))) < 2 * tally d' ''x'' Reject \<and> status_of d' ''x'' = Some Rejected
   | (d', Inr (VotePending y n m)) \<Rightarrow> y = tally d' ''x'' Approve \<and> n = tally d' ''x'' Reject \<and>
       m = po_gateway_count (proposal_of_row (hd (proposals vote_db))) div 2 + 1 \<and> y < m \<and> n < m \<and>
       status_of d' ''x'' = Some Voting
   | (d', Inl _) \<Rightarrow> d' = vote_db"
  by (rule cast_vote_spec [OF vote_db_proposal])
    (simp add: vote_db_def status_from_str_def)

text \<open>
  Votes are counted per agent, not per gateway: on a proposal between three gateways, two agents of one
  gateway reach the majority and have it accepted alone.
\<close>

lemma one_gateway_majority:
  "status_of (runA proposal_step vote_db
     [Cast_vote ''1'' 1 ''x'' ''g1'' ''a'' Approve [], Cast_vote ''2'' 2 ''x'' ''g1'' ''b'' Approve []]) ''x'' = Some Accepted"
  by (simp add: exec_def cast_vote_def check_vote_outcome_def Let_def get_proposal_def vote_db_def find_by_def
      has_key_def empty_db_def tally_def majority_of_def resolve_def update_where_def status_of_def
      proposal_of_row_def status_from_str_def vote_row_of_def)

text \<open>
  C13. Voting ends: once more votes than twice half the number of gateways (rounded down) have been cast by different
  voters, in any order and whatever they say, the proposal is accepted or rejected. With an even number of
  gateways one vote each is not enough (\<open>tie_stays_open\<close>).
\<close>

theorem voting_decides:
  assumes "get_proposal d p = Some pr" "po_status pr = Voting" "filter (\<lambda>r. vt_proposal_id r = p) (votes d) = []"
    and "distinct (map fst bs)" "fst ` set bs \<inter> vt_id ` set (votes d) = {}" "distinct (map (voter_key \<circ> row_of p) bs)"
    and "bs \<noteq> []" "2 * (po_gateway_count pr div 2) < int (length bs)"
  shows "status_of (runA proposal_step d (map (cast_of p) bs)) p \<in> {Some Accepted, Some Rejected}"
proof -
  let ?e = "runA proposal_step d (map (cast_of p) bs)"
  have "status_of ?e p \<noteq> Some Voting"
  proof
    assume "status_of ?e p = Some Voting"
    then have o: "still_open d p (po_gateway_count pr) bs ?e"
      using assms by (intro voting_run) (simp_all add: status_of_def)
    then have "tally ?e p k = int (length (filter (\<lambda>b. kind_of b = k) bs))" for k
      using assms(3) by (intro tally_ballots) (simp_all add: still_open_def)
    with o assms(7) have "2 * int (length (filter (\<lambda>b. kind_of b = k) bs)) \<le> po_gateway_count pr" for k
      by (cases k) (simp_all add: still_open_def)
    then have "int (length (filter (\<lambda>b. kind_of b = k) bs)) \<le> po_gateway_count pr div 2" for k
      by (rule half)
    from this [of Approve] this [of Reject] assms(8) show False
      using kinds_partition [of bs] by linarith
  qed
  then show ?thesis
    using proposal_history.run_ext [of d "map (cast_of p) bs"] assms(1,2)
    by (auto simp: status_followed_def status_move_iff status_of_def [of d])
qed

definition three_ballots :: "ballot list" where
  "three_ballots = [(''1'', 1, ''g1'', ''a'', Approve, []), (''2'', 2, ''g2'', ''b'', Reject, []), (''3'', 3, ''g3'', ''c'', Approve, [])]"

lemma voting_decides_witness:
  "status_of (runA proposal_step vote_db (map (cast_of ''x'') three_ballots)) ''x'' \<in> {Some Accepted, Some Rejected}"
  by (rule voting_decides [OF vote_db_proposal])
    (simp_all add: vote_db_def empty_db_def status_from_str_def three_ballots_def proposal_of_row_def vote_row_of_def)

lemma tie_stays_open:
  "status_of (runA proposal_step (vote_db\<lparr>proposals := map (\<lambda>r. r\<lparr>pp_gateway_count := 2\<rparr>) (proposals vote_db)\<rparr>)
     [Cast_vote ''1'' 1 ''x'' ''g1'' ''a'' Approve [], Cast_vote ''2'' 2 ''x'' ''g2'' ''b'' Reject []]) ''x'' = Some Voting"
  by (simp add: exec_def cast_vote_def check_vote_outcome_def Let_def get_proposal_def vote_db_def find_by_def
      has_key_def empty_db_def tally_def majority_of_def status_of_def
      proposal_of_row_def status_from_str_def vote_row_of_def)

end
