(* ===== verification/Object_Store.thy ===== *)
theory Object_Store
  imports Gateway_Db
begin

text \<open>
  The content-addressed object store and the snapshot transcripts (\<open>object_store.rs\<close>). The disk is a map
  from paths to contents; SHA-256 in hex and which paths can be written are parameters, and so is
  the directory tree that a scan walks (symbolic links are neither files nor directories to the scan). A file that is there
  can be read, and a write happens as a whole or not at all; a row that PostgreSQL refuses after the write (a size beyond
  its \<open>INTEGER\<close> column) is not modelled.

  Lemmas: the store as a \<open>content_store\<close> (what was put stays, nothing else appears), the paths of
  validated hashes, and the round trips of transcript lines and transcripts.
\<close>

subsection \<open>Objects\<close>

record obj_env =
  oe_sha256_hex :: "string \<Rightarrow> string"
  oe_root :: string
  oe_writable :: "string \<Rightarrow> bool"

record obj_state =
  os_db :: db
  os_disk :: "string \<Rightarrow> string option"

text \<open>\<open>PathBuf::join\<close>: an absolute path replaces the base.\<close>

definition path_join :: "string \<Rightarrow> string \<Rightarrow> string" where
  "path_join a b = (if starts_with ''/'' b then b else if a = [] \<or> ends_with ''/'' a then a @ b else a @ ''/'' @ b)"

definition object_path :: "obj_env \<Rightarrow> string \<Rightarrow> string" where
  "object_path E h = path_join (path_join (oe_root E) (take 2 h)) (drop 2 h)"

text \<open>A byte offset is a character boundary unless a UTF-8 continuation byte stands there.\<close>

definition is_char_boundary :: "string \<Rightarrow> nat \<Rightarrow> bool" where
  "is_char_boundary s n \<longleftrightarrow> n = length s \<or> n < length s \<and>
     \<not> (128 \<le> (of_char (s ! n) :: nat) \<and> (of_char (s ! n) :: nat) < 192)"

definition validate_hash :: "string \<Rightarrow> err + unit" where
  "validate_hash h =
     (if length h < 4 \<or> \<not> list_all is_hex_digit h
      then if is_char_boundary h (min (length h) 20)
        then Inl (Anyhow (''invalid object hash: must be hex string, got '' @ [CHR 0x27] @
               take (min (length h) 20) h @ [CHR 0x27]))
        else Inl (Panicked ''byte index is not a char boundary'')
      else Inr ())"

definition exists_db :: "obj_state \<Rightarrow> string \<Rightarrow> bool" where
  "exists_db s h = has_key ob_sha256 h (objects (os_db s))"

definition put_object :: "obj_env \<Rightarrow> time \<Rightarrow> string \<Rightarrow> (obj_state, string) act" where
  "put_object E now content = (\<lambda>s.
     let h = oe_sha256_hex E content in
     if exists_db s h then (s, Inr h)
     else let path = object_path E h in
       if \<not> oe_writable E path then (s, Inl (Anyhow ''write object''))
       else (s\<lparr>os_disk := (os_disk s)(path \<mapsto> content),
               os_db := (os_db s)\<lparr>objects := insert_ignore ob_sha256
                 \<lparr>ob_sha256 = h, ob_size_bytes = int (length content), ob_created_at = now\<rparr>
                 (objects (os_db s))\<rparr>\<rparr>, Inr h))"

definition get_object :: "obj_env \<Rightarrow> string \<Rightarrow> (obj_state, string option) act" where
  "get_object E h = (\<lambda>s.
     case validate_hash h of
       Inl e \<Rightarrow> (s, Inl e)
     | Inr _ \<Rightarrow> (s, Inr (os_disk s (object_path E h))))"

definition exists_object :: "obj_state \<Rightarrow> string \<Rightarrow> bool" where
  "exists_object s h = exists_db s h"

definition missing :: "obj_state \<Rightarrow> string list \<Rightarrow> string list" where
  "missing s want = filter (\<lambda>h. \<not> exists_db s h) want"

subsection \<open>Transcripts\<close>

record transcript_entry =
  te_path :: string
  te_sha256 :: string
  te_size :: "64 word"
  te_mode :: "32 word"
  te_mtime :: "64 word"

definition to_line :: "transcript_entry \<Rightarrow> string" where
  "to_line e = join_with ''|'' [''F'', te_path e, te_sha256 e, show_radix 10 (unat (te_size e)),
     show_radix 8 (unat (te_mode e)), show_radix 10 (unat (te_mtime e))]"

definition from_line :: "string \<Rightarrow> transcript_entry option" where
  "from_line line =
     (let parts = split_on (\<lambda>c. c = CHR ''|'') line in
      if length parts \<noteq> 6 \<or> parts ! 0 \<noteq> ''F'' then None
      else case parse_radix 10 (2 ^ 64) (parts ! 3) of
          None \<Rightarrow> None
        | Some size_n \<Rightarrow> (case parse_radix 8 (2 ^ 32) (parts ! 4) of
            None \<Rightarrow> None
          | Some mode_n \<Rightarrow> (case parse_radix 10 (2 ^ 64) (parts ! 5) of
              None \<Rightarrow> None
            | Some mtime_n \<Rightarrow> Some \<lparr>te_path = parts ! 1, te_sha256 = parts ! 2, te_size = of_nat size_n,
                te_mode = of_nat mode_n, te_mtime = of_nat mtime_n\<rparr>)))"

definition build_transcript :: "transcript_entry list \<Rightarrow> string" where
  "build_transcript entries = join_with [CHR 0x0A] (map to_line (order_by te_path entries))"

definition parse_transcript :: "string \<Rightarrow> transcript_entry list" where
  "parse_transcript t = List.map_filter from_line (lines_of t)"

definition transcript_id :: "obj_env \<Rightarrow> string \<Rightarrow> string" where
  "transcript_id E t = oe_sha256_hex E t"

subsection \<open>Scanning\<close>

definition matches_glob :: "string \<Rightarrow> string \<Rightarrow> bool" where
  "matches_glob rel_path glob =
     (if glob = ''**/*'' \<or> glob = ''*'' then True
      else if starts_with ''*.'' glob then ends_with (drop 1 glob) rel_path
      else rel_path = glob)"

text \<open>A directory entry: a directory, a file with content and modification time, or anything else.\<close>

datatype fs_entry = Fs_dir string "fs_entry list" | Fs_file string string nat | Fs_other string

fun scan_dir_recursive :: "obj_env \<Rightarrow> time \<Rightarrow> string \<Rightarrow> string \<Rightarrow> fs_entry list \<Rightarrow> (obj_state, transcript_entry list) act" where
  "scan_dir_recursive E now glob dir [] = ret []"
| "scan_dir_recursive E now glob dir (Fs_dir n sub # rest) =
     bindA (scan_dir_recursive E now glob (dir @ n @ ''/'') sub) (\<lambda>out.
     bindA (scan_dir_recursive E now glob dir rest) (\<lambda>more. ret (out @ more)))"
| "scan_dir_recursive E now glob dir (Fs_file n content mtime # rest) =
     (let rel = dir @ n in
      if \<not> matches_glob rel glob then scan_dir_recursive E now glob dir rest
      else bindA (put_object E now content) (\<lambda>sha.
        bindA (scan_dir_recursive E now glob dir rest) (\<lambda>more.
        ret (\<lparr>te_path = rel, te_sha256 = sha, te_size = of_nat (length content), te_mode = 420,
              te_mtime = of_nat mtime\<rparr> # more))))"
| "scan_dir_recursive E now glob dir (Fs_other n # rest) = scan_dir_recursive E now glob dir rest"

definition scan_directory :: "obj_env \<Rightarrow> time \<Rightarrow> fs_entry list \<Rightarrow> string \<Rightarrow> (obj_state, transcript_entry list) act" where
  "scan_directory E now tree glob = scan_dir_recursive E now glob [] tree"

subsection \<open>Transcript lines\<close>

text \<open>What a path and a hash must not contain for the line format to carry them.\<close>

definition clean_entry :: "transcript_entry \<Rightarrow> bool" where
  "clean_entry e \<longleftrightarrow> set (te_path e @ te_sha256 e) \<inter> {CHR ''|'', CHR 0x0A} = {}"

lemma digits_clean:
  assumes "2 \<le> b" "b \<le> 10"
  shows "set (show_radix b n) \<inter> {CHR ''|'', CHR 0x0A, CHR 0x0D} = {}"
proof -
  have "\<not> is_digit (CHR ''|'')" "\<not> is_digit (CHR 0x0A)" "\<not> is_digit (CHR 0x0D)"
    by (simp_all add: is_digit_def less_eq_char_def)
  then show ?thesis
    using show_radix_is_digit [OF assms] by blast
qed

lemma from_to_line:
  assumes "clean_entry e"
  shows "from_line (to_line e) = Some e"
proof -
  let ?parts = "[''F'', te_path e, te_sha256 e, show_radix 10 (unat (te_size e)),
     show_radix 8 (unat (te_mode e)), show_radix 10 (unat (te_mtime e))]"
  have "split_on (\<lambda>c. c = CHR ''|'') (to_line e) = ?parts"
    unfolding to_line_def
    using assms digits_clean [of 10] digits_clean [of 8]
    by (intro split_on_join) (auto simp: clean_entry_def)
  moreover have "unat (te_size e) < 2 ^ 64" "unat (te_mode e) < 2 ^ 32" "unat (te_mtime e) < 2 ^ 64"
    by (rule order_less_le_trans [OF unsigned_less], simp)+
  ultimately show ?thesis
    by (simp add: from_line_def parse_show_radix del: numeral_power_eq_of_nat_cancel_iff)
qed

lemma to_line_chars:
  assumes "clean_entry e"
  shows "CHR 0x0A \<notin> set (to_line e)" "to_line e \<noteq> []" "last (to_line e) \<noteq> CHR 0x0D"
proof -
  show "CHR 0x0A \<notin> set (to_line e)"
    using assms digits_clean [of 10] digits_clean [of 8] by (auto simp: to_line_def clean_entry_def)
  show "to_line e \<noteq> []" by (simp add: to_line_def)
  have "last (to_line e) = last (show_radix 10 (unat (te_mtime e)))"
    by (simp add: to_line_def)
  moreover have "is_digit (last (show_radix 10 (unat (te_mtime e))))"
    by (rule show_radix_last_digit) simp_all
  moreover have "\<not> is_digit (CHR 0x0D)"
    by (simp add: is_digit_def less_eq_char_def)
  ultimately show "last (to_line e) \<noteq> CHR 0x0D"
    by metis
qed

lemma lines_of_join:
  assumes "\<And>w. w \<in> set ws \<Longrightarrow> CHR 0x0A \<notin> set w \<and> w \<noteq> [] \<and> last w \<noteq> CHR 0x0D"
  shows "lines_of (join_with [CHR 0x0A] ws) = ws"
proof (cases "ws = []")
  case True
  then show ?thesis by (simp add: lines_of_def)
next
  case False
  then have "split_on (\<lambda>c. c = CHR 0x0A) (join_with [CHR 0x0A] ws) = ws"
    using assms by (intro split_on_join) auto
  moreover have "map strip_cr (butlast ws) = butlast ws"
    using assms by (intro map_idI) (auto simp: strip_cr_def dest: in_set_butlastD)
  moreover have "last ws \<noteq> []"
    using False assms last_in_set by blast
  ultimately show ?thesis
    using False by (simp add: lines_of_def)
qed

lemma map_filter_id: "(\<And>x. x \<in> set xs \<Longrightarrow> g (f x) = Some x) \<Longrightarrow> List.map_filter g (map f xs) = xs"
  by (induction xs) (simp_all add: List.map_filter_simps)

lemma parse_build:
  assumes "\<And>e. e \<in> set es \<Longrightarrow> clean_entry e"
  shows "parse_transcript (build_transcript es) = order_by te_path es"
proof -
  let ?s = "order_by te_path es"
  have "lines_of (join_with [CHR 0x0A] (map to_line ?s)) = map to_line ?s"
    using assms to_line_chars by (intro lines_of_join) auto
  then show ?thesis
    using assms map_filter_id [of ?s from_line to_line]
    by (simp add: parse_transcript_def build_transcript_def from_to_line)
qed

subsection \<open>Paths of validated hashes\<close>

definition root_prefix :: "string \<Rightarrow> string" where
  "root_prefix r = (if r = [] \<or> ends_with ''/'' r then r else r @ ''/'')"

lemma validate_hash_ok:
  "validate_hash h = Inr () \<longleftrightarrow> 4 \<le> length h \<and> list_all is_hex_digit h"
  by (auto simp: validate_hash_def not_le)

lemma hex_no_slash: "is_hex_digit c \<Longrightarrow> c \<noteq> CHR ''/'' \<and> c \<noteq> CHR ''.''"
  by (auto simp: is_hex_digit_def is_digit_def less_eq_char_def)

lemma object_path_hex:
  assumes "validate_hash h = Inr ()"
  shows "object_path E h = root_prefix (oe_root E) @ take 2 h @ ''/'' @ drop 2 h"
proof -
  obtain a b c d t where h: "h = a # b # c # d # t"
    using assms by (auto simp: validate_hash_ok Suc_le_length_iff numeral_eq_Suc)
  then have "a \<noteq> CHR ''/''" "b \<noteq> CHR ''/''" "c \<noteq> CHR ''/''"
    using assms hex_no_slash by (auto simp: validate_hash_ok)
  with h show ?thesis
    by (simp add: object_path_def path_join_def root_prefix_def starts_with_def ends_with_def)
qed

lemma object_path_inj:
  assumes "validate_hash h = Inr ()" "validate_hash h' = Inr ()" "object_path E h = object_path E h'"
  shows "h = h'"
proof -
  have "take 2 h @ ''/'' @ drop 2 h = take 2 h' @ ''/'' @ drop 2 h'"
    using assms by (simp add: object_path_hex)
  moreover have "length (take 2 h) = 2" "length (take 2 h') = 2"
    using assms by (auto simp: validate_hash_ok)
  ultimately have "take 2 h = take 2 h'" "drop 2 h = drop 2 h'"
    by (auto simp: append_eq_append_conv)
  then show ?thesis by (metis append_take_drop_id)
qed

subsection \<open>The store keeps what it was given\<close>

text \<open>The documented shape of a SHA-256 digest in hex.\<close>

definition hex_digest :: "obj_env \<Rightarrow> bool" where
  "hex_digest E \<longleftrightarrow> (\<forall>x. length (oe_sha256_hex E x) = 64 \<and> list_all is_hex_digit (oe_sha256_hex E x))"

definition fetch :: "obj_env \<Rightarrow> obj_state \<Rightarrow> string \<Rightarrow> string option" where
  "fetch E s h = (case result (get_object E h) s of Inr v \<Rightarrow> v | Inl _ \<Rightarrow> None)"

text \<open>Every recorded object is on disk, and a file where a hash belongs has that hash.\<close>

definition objects_inv :: "obj_env \<Rightarrow> obj_state \<Rightarrow> bool" where
  "objects_inv E s \<longleftrightarrow>
     (\<forall>r \<in> set (objects (os_db s)). fetch E s (ob_sha256 r) \<noteq> None) \<and>
     (\<forall>h x. fetch E s h = Some x \<longrightarrow> oe_sha256_hex E x = h)"

locale content_store =
  fixes put :: "'c \<Rightarrow> 's \<Rightarrow> 's" and fetch_at :: "'s \<Rightarrow> 'h \<Rightarrow> 'c option" and hash_of :: "'c \<Rightarrow> 'h"
    and good :: "'s \<Rightarrow> bool"
  assumes put_good: "good s \<Longrightarrow> good (put c s)"
    and put_keeps: "good s \<Longrightarrow> fetch_at s h \<noteq> None \<Longrightarrow> fetch_at (put c s) h \<noteq> None"
    and fetch_hash: "good s \<Longrightarrow> fetch_at s h = Some x \<Longrightarrow> hash_of x = h"
begin

lemma run_good: "good s \<Longrightarrow> good (runA put s cs)"
  by (induction cs arbitrary: s) (auto intro: put_good)

lemma run_keeps: "good s \<Longrightarrow> fetch_at s h \<noteq> None \<Longrightarrow> fetch_at (runA put s cs) h \<noteq> None"
  by (induction cs arbitrary: s) (simp_all add: put_good put_keeps del: not_None_eq)

text \<open>Content whose hash nobody else has stays readable, unchanged.\<close>

lemma run_fetch:
  assumes "good s" "fetch_at s (hash_of c) \<noteq> None" "\<And>x. hash_of x = hash_of c \<Longrightarrow> x = c"
  shows "fetch_at (runA put s cs) (hash_of c) = Some c"
  using run_keeps [OF assms(1,2), of cs] fetch_hash [OF run_good [OF assms(1), of cs]] assms(3) by blast

end

lemma fetch_disk:
  "fetch E s h = (if validate_hash h = Inr () then os_disk s (object_path E h) else None)"
  by (auto simp: fetch_def get_object_def result_def split: sum.split)

lemma hex_digest_valid: "hex_digest E \<Longrightarrow> validate_hash (oe_sha256_hex E x) = Inr ()"
  by (simp add: hex_digest_def validate_hash_ok)

lemma put_object_fetch:
  assumes "hex_digest E"
  shows "fetch E (exec (put_object E now c) s) h =
     (if h = oe_sha256_hex E c \<and> \<not> exists_db s h \<and> oe_writable E (object_path E h) then Some c
      else fetch E s h)"
  using hex_digest_valid [OF assms, of c] object_path_inj [of h "oe_sha256_hex E c" E]
  by (auto simp: fetch_disk exec_def put_object_def Let_def)

lemma put_object_rows:
  "ob_sha256 ` set (objects (os_db (exec (put_object E now c) s))) =
     ob_sha256 ` set (objects (os_db s)) \<union>
     (if oe_writable E (object_path E (oe_sha256_hex E c)) then {oe_sha256_hex E c} else {}) \<union>
     (if exists_db s (oe_sha256_hex E c) then {oe_sha256_hex E c} else {})"
  by (auto simp: exec_def put_object_def Let_def insert_ignore_def exists_db_def table_simps image_iff)

lemma objects_inv_rows:
  "(\<forall>r \<in> set (objects (os_db s)). fetch E s (ob_sha256 r) \<noteq> None) \<longleftrightarrow>
     (\<forall>h \<in> ob_sha256 ` set (objects (os_db s)). fetch E s h \<noteq> None)"
  by auto

lemma objects_inv_put:
  assumes "hex_digest E" "objects_inv E s"
  shows "objects_inv E (exec (put_object E now c) s)"
proof -
  have rows: "\<And>h. h \<in> ob_sha256 ` set (objects (os_db s)) \<Longrightarrow> fetch E s h \<noteq> None"
    and hash: "\<And>h x. fetch E s h = Some x \<Longrightarrow> oe_sha256_hex E x = h"
    using assms(2) by (auto simp: objects_inv_def)
  have "fetch E (exec (put_object E now c) s) h \<noteq> None"
    if "h \<in> ob_sha256 ` set (objects (os_db (exec (put_object E now c) s)))" for h
    using that rows [of h]
    unfolding put_object_rows put_object_fetch [OF assms(1)] exists_db_def has_key_iff
    by (auto simp del: not_None_eq split: if_splits)
  moreover have "oe_sha256_hex E x = h" if "fetch E (exec (put_object E now c) s) h = Some x" for h x
    using that hash by (auto simp: put_object_fetch [OF assms(1)] split: if_splits)
  ultimately show ?thesis
    unfolding objects_inv_def by blast
qed

interpretation object_content: content_store "\<lambda>c. exec (put_object E now c)" "fetch E" "oe_sha256_hex E"
    "\<lambda>s. hex_digest E \<and> objects_inv E s" for E now
proof
  fix s c h x
  assume good: "hex_digest E \<and> objects_inv E s"
  then show "hex_digest E \<and> objects_inv E (exec (put_object E now c) s)"
    by (simp add: objects_inv_put)
  show "fetch E s h \<noteq> None \<Longrightarrow> fetch E (exec (put_object E now c) s) h \<noteq> None"
    using good by (simp add: put_object_fetch)
  show "fetch E s h = Some x \<Longrightarrow> oe_sha256_hex E x = h"
    using good by (simp add: objects_inv_def)
qed

subsection \<open>Properties\<close>

text \<open>
  C26. Content that was stored can be read back, for ever: after a successful put of \<open>c\<close> and any further
  puts, reading its hash gives \<open>c\<close>, provided no other content has this SHA-256. Storing is
  idempotent on the hash: the returned name is the hash of the content.
\<close>

theorem object_put_get:
  assumes "hex_digest E" "objects_inv E s" "\<And>x. oe_sha256_hex E x = oe_sha256_hex E c \<Longrightarrow> x = c"
    and "put_object E now c s = (s', Inr h)"
  shows "h = oe_sha256_hex E c \<and>
     result (get_object E h) (runA (\<lambda>x. exec (put_object E now x)) s' cs) = Inr (Some c)"
proof -
  have h: "h = oe_sha256_hex E c"
    using assms(4) by (auto simp: put_object_def Let_def split: if_splits)
  have s': "s' = exec (put_object E now c) s"
    using assms(4) by (simp add: exec_def)
  have "exists_db s h \<or> oe_writable E (object_path E h)"
    using assms(4) h by (auto simp: put_object_def Let_def split: if_splits)
  then have "fetch E s' h \<noteq> None"
    using assms(2) unfolding s' put_object_fetch [OF assms(1)]
    by (auto simp: h objects_inv_def exists_db_def table_simps)
  then have "fetch E (runA (\<lambda>x. exec (put_object E now x)) s' cs) h = Some c"
    using object_content.run_fetch [of E s' c now cs] assms h s' objects_inv_put by blast
  then show ?thesis
    using h hex_digest_valid [OF assms(1), of c]
    by (auto simp: fetch_disk get_object_def result_def)
qed

definition demo_obj_env :: obj_env where
  "demo_obj_env = \<lparr>oe_sha256_hex = (\<lambda>x. replicate 64 (if x = ''a'' then CHR ''0'' else CHR ''1'')),
     oe_root = ''data/objects'', oe_writable = (\<lambda>_. True)\<rparr>"

definition no_objects :: obj_state where
  "no_objects = \<lparr>os_db = empty_db, os_disk = (\<lambda>_. None)\<rparr>"

lemma demo_hex_digest: "hex_digest demo_obj_env"
  by (simp add: hex_digest_def demo_obj_env_def list_all_iff is_hex_digit_def is_digit_def less_eq_char_def)

lemma no_objects_inv: "objects_inv E no_objects"
  by (simp add: objects_inv_def no_objects_def empty_db_def fetch_disk)

lemma object_put_get_witness:
  "replicate 64 (CHR ''0'') = oe_sha256_hex demo_obj_env ''a'' \<and>
   result (get_object demo_obj_env (replicate 64 (CHR ''0'')))
     (runA (\<lambda>x. exec (put_object demo_obj_env 0 x)) (exec (put_object demo_obj_env 0 ''a'') no_objects) [''b'', ''a'']) =
     Inr (Some ''a'')"
proof (rule object_put_get [OF demo_hex_digest no_objects_inv])
  show "\<And>x. oe_sha256_hex demo_obj_env x = oe_sha256_hex demo_obj_env ''a'' \<Longrightarrow> x = ''a''"
    by (simp add: demo_obj_env_def split: if_splits)
  show "put_object demo_obj_env 0 ''a'' no_objects =
      (exec (put_object demo_obj_env 0 ''a'') no_objects, Inr (replicate 64 (CHR ''0'')))"
    by (simp add: exec_def put_object_def Let_def exists_db_def has_key_def no_objects_def empty_db_def demo_obj_env_def)
qed

text \<open>
  What a caller can reach through \<open>get\<close>: a name of at least four hex digits reads the file
  \<open>root/xx/rest\<close> and nothing else; any other name is refused before the disk is touched. The refusal
  itself panics when the twentieth byte of the name is inside a character.
\<close>

lemma get_object_spec:
  "get_object E h s = (s,
     if 4 \<le> length h \<and> list_all is_hex_digit h
     then Inr (os_disk s (root_prefix (oe_root E) @ take 2 h @ ''/'' @ drop 2 h))
     else if is_char_boundary h (min (length h) 20)
     then Inl (Anyhow (''invalid object hash: must be hex string, got '' @ [CHR 0x27] @
            take (min (length h) 20) h @ [CHR 0x27]))
     else Inl (Panicked ''byte index is not a char boundary''))"
proof (cases "validate_hash h = Inr ()")
  case True
  with object_path_hex [OF True, of E] show ?thesis
    by (simp add: get_object_def validate_hash_ok [symmetric])
next
  case False
  then show ?thesis
    by (auto simp: get_object_def validate_hash_def split: if_splits)
qed

text \<open>
  C27. Transcripts survive the wire: parsing the text built from any entries gives these entries sorted by
  path, as long as no path or hash contains a vertical bar or a newline.
\<close>

theorem transcript_roundtrip:
  assumes "list_all clean_entry es"
  shows "parse_transcript (build_transcript es) = order_by te_path es"
  using assms by (intro parse_build) (simp add: list_all_iff)

definition demo_entries :: "transcript_entry list" where
  "demo_entries = [\<lparr>te_path = ''b'', te_sha256 = ''00'', te_size = 1, te_mode = 420, te_mtime = 5\<rparr>,
     \<lparr>te_path = ''a'', te_sha256 = ''11'', te_size = 2, te_mode = 420, te_mtime = 6\<rparr>]"

lemma transcript_roundtrip_witness:
  "parse_transcript (build_transcript demo_entries) = order_by te_path demo_entries"
  by (rule transcript_roundtrip) (simp add: demo_entries_def clean_entry_def)

text \<open>
  A snapshot id identifies the file set: two clean file sets with the same id have the same entries,
  provided no other text has the SHA-256 of the first one's transcript.
\<close>

lemma transcript_id_identifies:
  assumes "list_all clean_entry es" "list_all clean_entry es'"
    and "\<And>x. oe_sha256_hex E x = oe_sha256_hex E (build_transcript es) \<Longrightarrow> x = build_transcript es"
    and "transcript_id E (build_transcript es') = transcript_id E (build_transcript es)"
  shows "mset es' = mset es"
proof -
  have "build_transcript es' = build_transcript es"
    using assms(3,4) by (simp add: transcript_id_def)
  then have "order_by te_path es' = order_by te_path es"
    using assms(1,2) by (metis list_all_iff parse_build)
  then show ?thesis by (metis mset_order_by)
qed

definition empty_set_env :: obj_env where
  "empty_set_env = demo_obj_env\<lparr>oe_sha256_hex := (\<lambda>x. replicate 64 (if x = [] then CHR ''0'' else CHR ''1''))\<rparr>"

lemma transcript_id_identifies_witness: "mset ([] :: transcript_entry list) = mset []"
  by (rule transcript_id_identifies [where E = empty_set_env and es = "[]"])
    (simp_all add: empty_set_env_def build_transcript_def order_by_def split: if_splits)

end
