(* ===== verification/File_Sync.thy ===== *)
theory File_Sync
  imports Object_Store Projects
begin

text \<open>
  The file sync engine (\<open>file_sync.rs\<close>): snapshots of project folders, project heads, and the diff of two
  transcripts. The folder on disk is a parameter (\<open>tree\<close>: path to directory entries, \<open>None\<close> when the path does not exist).
  The \<open>HashMap\<close>s of the diff are tables keyed by path; their iteration order does not matter, because
  every list is sorted by path at the end.

  Lemmas: what the diff says about every path; heads point to stored snapshots of their project;
  snapshots are never changed.
\<close>

record snapshot =
  ss_id :: string
  ss_project_id :: string
  ss_gateway :: string
  ss_transcript :: string
  ss_created_at :: time

record snapshot_diff =
  df_added :: "transcript_entry list"
  df_removed :: "transcript_entry list"
  df_modified :: "(transcript_entry \<times> transcript_entry) list"

definition diff_is_empty :: "snapshot_diff \<Rightarrow> bool" where
  "diff_is_empty d \<longleftrightarrow> df_added d = [] \<and> df_removed d = [] \<and> df_modified d = []"

definition required_objects :: "snapshot_diff \<Rightarrow> string list" where
  "required_objects d = map te_sha256 (df_added d) @ map (\<lambda>(_, n). te_sha256 n) (df_modified d)"

subsection \<open>Diff\<close>

definition entries_by_path :: "string option \<Rightarrow> transcript_entry list" where
  "entries_by_path text = (case text of None \<Rightarrow> []
     | Some t \<Rightarrow> foldl (\<lambda>m e. insert_or te_path e (\<lambda>_. e) m) [] (parse_transcript t))"

definition compute_diff :: "string option \<Rightarrow> string \<Rightarrow> snapshot_diff" where
  "compute_diff old_text new_text =
     (let old_entries = entries_by_path old_text; new_entries = entries_by_path (Some new_text);
        added = filter (\<lambda>e. find_by te_path (te_path e) old_entries = None) new_entries;
        modified = concat (map (\<lambda>e. case find_by te_path (te_path e) old_entries of
            None \<Rightarrow> [] | Some old_e \<Rightarrow> if te_sha256 old_e \<noteq> te_sha256 e then [(old_e, e)] else []) new_entries);
        removed = filter (\<lambda>e. \<not> has_key te_path (te_path e) new_entries) old_entries
      in \<lparr>df_added = order_by te_path added, df_removed = order_by te_path removed,
          df_modified = order_by (\<lambda>m. te_path (fst m)) modified\<rparr>)"

subsection \<open>Reading\<close>

definition snapshot_of_row :: "snap_row \<Rightarrow> snapshot" where
  "snapshot_of_row r = \<lparr>ss_id = sn_id r, ss_project_id = sn_project_id r, ss_gateway = sn_gateway r,
     ss_transcript = sn_transcript r, ss_created_at = sn_created_at r\<rparr>"

definition get_snapshot :: "db \<Rightarrow> string \<Rightarrow> snapshot option" where
  "get_snapshot d i = map_option snapshot_of_row (find_by sn_id i (snapshots d))"

definition head_snapshot :: "db \<Rightarrow> string \<Rightarrow> snapshot option" where
  "head_snapshot d pid =
     (case find_by hd_project_id pid (project_heads d) of
        None \<Rightarrow> None | Some r \<Rightarrow> get_snapshot d (hd_snapshot_id r))"

definition list_snapshots :: "db \<Rightarrow> string \<Rightarrow> snapshot list" where
  "list_snapshots d pid = map snapshot_of_row
     (order_by_desc sn_created_at (filter (\<lambda>r. sn_project_id r = pid) (snapshots d)))"

definition head_transcript :: "db \<Rightarrow> string \<Rightarrow> string option" where
  "head_transcript d pid = map_option ss_transcript (head_snapshot d pid)"

definition diff_against_head :: "db \<Rightarrow> string \<Rightarrow> string \<Rightarrow> snapshot_diff" where
  "diff_against_head d pid new_transcript = compute_diff (head_transcript d pid) new_transcript"

subsection \<open>Writing\<close>

definition insert_snapshot :: "string \<Rightarrow> snap_row \<Rightarrow> (db, unit) act" where
  "insert_snapshot ctx r = (\<lambda>d.
     if has_key sn_id (sn_id r) (snapshots d) then (d, Inl (Sql_err ctx Unique_violation))
     else if \<not> project_exists d (sn_project_id r) then (d, Inl (Sql_err ctx Foreign_key_violation))
     else (d\<lparr>snapshots := snapshots d @ [r]\<rparr>, Inr ()))"

definition write_snapshot :: "string \<Rightarrow> time \<Rightarrow> string \<Rightarrow> string \<Rightarrow> string \<Rightarrow> (db, snapshot) act" where
  "write_snapshot gateway now pid snap_id transcript =
     (let r = \<lparr>sn_id = snap_id, sn_project_id = pid, sn_gateway = gateway, sn_transcript = transcript,
              sn_created_at = now\<rparr>
      in bindA (insert_snapshot ''write snapshot'' r) (\<lambda>_. ret (snapshot_of_row r)))"

definition advance_head :: "time \<Rightarrow> string \<Rightarrow> string \<Rightarrow> (db, unit) act" where
  "advance_head now pid snap_id = (\<lambda>d.
     if \<not> project_exists d pid \<or> \<not> has_key sn_id snap_id (snapshots d)
     then (d, Inl (Sql_err ''advance project head'' Foreign_key_violation))
     else (d\<lparr>project_heads := insert_or hd_project_id
              \<lparr>hd_project_id = pid, hd_snapshot_id = snap_id, hd_updated_at = now\<rparr>
              (\<lambda>r. r\<lparr>hd_snapshot_id := snap_id, hd_updated_at := now\<rparr>) (project_heads d)\<rparr>, Inr ()))"

definition apply_peer_snapshot :: "time \<Rightarrow> string \<Rightarrow> string \<Rightarrow> string \<Rightarrow> string \<Rightarrow> (db, snapshot) act" where
  "apply_peer_snapshot now pid snap_id transcript from_gateway =
     (let r = \<lparr>sn_id = snap_id, sn_project_id = pid, sn_gateway = from_gateway, sn_transcript = transcript,
              sn_created_at = now\<rparr>
      in bindA (insert_snapshot ''insert peer snapshot'' r) (\<lambda>_.
         bindA (advance_head now pid snap_id) (\<lambda>_. ret (snapshot_of_row r))))"

abbreviation in_db :: "(db, 'a) act \<Rightarrow> (obj_state, 'a) act" where
  "in_db \<equiv> zoomA os_db (\<lambda>d s. s\<lparr>os_db := d\<rparr>)"

definition scan_and_snapshot ::
  "obj_env \<Rightarrow> (string \<Rightarrow> fs_entry list option) \<Rightarrow> string \<Rightarrow> time \<Rightarrow> string \<Rightarrow> (obj_state, snapshot option) act" where
  "scan_and_snapshot E tree gateway now pid = (\<lambda>s.
     case get_project (os_db s) pid of
       None \<Rightarrow> (s, Inl (Anyhow ''project not found''))
     | Some project \<Rightarrow>
         if pj_folder_path project = [] then (s, Inr None)
         else (case tree (pj_folder_path project) of
             None \<Rightarrow> (s, Inl (Anyhow (''project folder does not exist: '' @ pj_folder_path project)))
           | Some files \<Rightarrow>
               bindA (scan_directory E now files (pj_file_glob project)) (\<lambda>entries.
                 let transcript = build_transcript entries; snap_id = transcript_id E transcript in
                 bindA (askA (\<lambda>s. has_key sn_id snap_id (snapshots (os_db s)))) (\<lambda>existing.
                 if existing then askA (\<lambda>s. get_snapshot (os_db s) snap_id)
                 else
                   bindA (in_db (write_snapshot gateway now pid snap_id transcript)) (\<lambda>snap.
                   bindA (in_db (advance_head now pid snap_id)) (\<lambda>_. ret (Some snap))))) s))"

subsection \<open>The diff, path by path\<close>

lemma keyed_entries_by_path: "keyed te_path (entries_by_path t)"
proof -
  have "keyed te_path m \<Longrightarrow> keyed te_path (foldl (\<lambda>m e. insert_or te_path e (\<lambda>_. e) m) m es)" for m es :: "transcript_entry list"
    by (induction es arbitrary: m) (simp_all add: keyed_insert_or)
  then show ?thesis
    by (auto simp: entries_by_path_def table_simps split: option.split)
qed

text \<open>The content of a transcript: which hash it has at a path.\<close>

definition content_at :: "string option \<Rightarrow> string \<Rightarrow> string option" where
  "content_at t p = map_option te_sha256 (find_by te_path p (entries_by_path t))"

definition diff_at :: "snapshot_diff \<Rightarrow> string \<Rightarrow> string option \<Rightarrow> string option" where
  "diff_at d p old = (case find_by te_path p (df_added d) of Some e \<Rightarrow> Some (te_sha256 e)
     | None \<Rightarrow> (case find_by (\<lambda>m. te_path (snd m)) p (df_modified d) of Some m \<Rightarrow> Some (te_sha256 (snd m))
        | None \<Rightarrow> if p \<in> te_path ` set (df_removed d) then None else old))"

lemma entry_unique:
  "e \<in> set (entries_by_path t) \<Longrightarrow> e' \<in> set (entries_by_path t) \<Longrightarrow> te_path e = te_path e' \<Longrightarrow> e = e'"
  using keyed_entries_by_path [of t] by (auto simp: keyed_def distinct_map inj_on_def)

lemma diff_sets:
  fixes t :: "string option" and n :: string
  defines "old \<equiv> entries_by_path t" and "new \<equiv> entries_by_path (Some n)"
  shows "set (df_added (compute_diff t n)) = {e \<in> set new. te_path e \<notin> te_path ` set old}"
    and "set (df_removed (compute_diff t n)) = {e \<in> set old. te_path e \<notin> te_path ` set new}"
    and "set (df_modified (compute_diff t n)) =
      {(o', e) | o' e. e \<in> set new \<and> o' \<in> set old \<and> te_path o' = te_path e \<and> te_sha256 o' \<noteq> te_sha256 e}"
proof -
  show "set (df_added (compute_diff t n)) = {e \<in> set new. te_path e \<notin> te_path ` set old}"
    and "set (df_removed (compute_diff t n)) = {e \<in> set old. te_path e \<notin> te_path ` set new}"
    by (auto simp: compute_diff_def Let_def table_simps old_def new_def)
  define g where "g e = (case find_by te_path (te_path e) old of None \<Rightarrow> []
    | Some o' \<Rightarrow> if te_sha256 o' \<noteq> te_sha256 e then [(o', e)] else [])" for e :: transcript_entry
  have gs: "set (g e) = {(o', e) | o'. o' \<in> set old \<and> te_path o' = te_path e \<and> te_sha256 o' \<noteq> te_sha256 e}" for e
  proof (cases "find_by te_path (te_path e) old")
    case None
    then have "te_path e \<notin> te_path ` set old"
      by (simp only: find_by_None not_False_eq_True)
    then have "{(o', e) | o'. o' \<in> set old \<and> te_path o' = te_path e \<and> te_sha256 o' \<noteq> te_sha256 e} = {}"
      by (auto simp: image_iff)
    with None show ?thesis by (simp add: g_def)
  next
    case (Some x)
    then have x: "x \<in> set old" "te_path x = te_path e"
      by (auto dest: find_by_Some)
    have iff: "o' \<in> set old \<and> te_path o' = te_path e \<and> te_sha256 o' \<noteq> te_sha256 e \<longleftrightarrow>
        o' = x \<and> te_sha256 x \<noteq> te_sha256 e" for o'
      using entry_unique [of o' t x] x unfolding old_def by metis
    have "{(o', e) | o'. o' \<in> set old \<and> te_path o' = te_path e \<and> te_sha256 o' \<noteq> te_sha256 e} =
        (if te_sha256 x \<noteq> te_sha256 e then {(x, e)} else {})"
      unfolding iff by simp
    with Some show ?thesis by (simp add: g_def)
  qed
  have "set (df_modified (compute_diff t n)) = (\<Union>e \<in> set new. set (g e))"
    by (simp add: compute_diff_def Let_def old_def new_def g_def)
  then show "set (df_modified (compute_diff t n)) =
      {(o', e) | o' e. e \<in> set new \<and> o' \<in> set old \<and> te_path o' = te_path e \<and> te_sha256 o' \<noteq> te_sha256 e}"
    unfolding gs by blast
qed

lemma content_at_iff:
  "content_at t p = Some h \<longleftrightarrow> (\<exists>e \<in> set (entries_by_path t). te_path e = p \<and> te_sha256 e = h)"
  by (auto simp: content_at_def find_by_keyed [OF keyed_entries_by_path])

lemma content_at_None: "content_at t p = None \<longleftrightarrow> p \<notin> te_path ` set (entries_by_path t)"
  by (simp add: content_at_def table_simps)

lemma diff_at_new: "diff_at (compute_diff t n) p (content_at t p) = content_at (Some n) p"
proof (cases "find_by te_path p (df_added (compute_diff t n))")
  case (Some e)
  then have "e \<in> set (entries_by_path (Some n))" "te_path e = p"
    using find_by_Some [OF Some] by (auto simp: diff_sets)
  then have "content_at (Some n) p = Some (te_sha256 e)"
    by (auto simp: content_at_iff)
  with Some show ?thesis by (simp add: diff_at_def)
next
  case None
  then have na: "p \<notin> te_path ` set (df_added (compute_diff t n))"
    by (simp add: table_simps)
  show ?thesis
  proof (cases "find_by (\<lambda>m. te_path (snd m)) p (df_modified (compute_diff t n))")
    case (Some m)
    then have "snd m \<in> set (entries_by_path (Some n))" "te_path (snd m) = p"
      using find_by_Some [OF Some] by (auto simp: diff_sets)
    then have "content_at (Some n) p = Some (te_sha256 (snd m))"
      by (auto simp: content_at_iff)
    with Some None show ?thesis by (simp add: diff_at_def)
  next
    case none: None
    then have nm: "p \<notin> (\<lambda>m. te_path (snd m)) ` set (df_modified (compute_diff t n))"
      by (simp add: table_simps)
    show ?thesis
    proof (cases "p \<in> te_path ` set (df_removed (compute_diff t n))")
      case True
      then have "content_at (Some n) p = None"
        by (auto simp: content_at_None diff_sets)
      with True None none show ?thesis by (simp add: diff_at_def)
    next
      case False
      have "content_at t p = content_at (Some n) p"
      proof (cases "content_at (Some n) p")
        case None
        with False have "p \<notin> te_path ` set (entries_by_path t)"
          by (auto simp: content_at_None diff_sets)
        then have "content_at t p = None" by (simp only: content_at_None not_False_eq_True)
        with None show ?thesis by simp
      next
        case (Some h)
        then obtain e where e: "e \<in> set (entries_by_path (Some n))" "te_path e = p" "te_sha256 e = h"
          by (auto simp: content_at_iff)
        with na have "p \<in> te_path ` set (entries_by_path t)"
          unfolding diff_sets by blast
        then obtain o' where o': "o' \<in> set (entries_by_path t)" "te_path o' = p"
          by auto
        with e nm have "te_sha256 o' = h"
          by (force simp: diff_sets)
        with o' have "content_at t p = Some h" by (auto simp: content_at_iff)
        with Some show ?thesis by simp
      qed
      with False None none show ?thesis by (simp add: diff_at_def)
    qed
  qed
qed

lemma required_set:
  "set (required_objects (compute_diff t n)) =
     {h. \<exists>p. content_at (Some n) p = Some h \<and> content_at t p \<noteq> Some h}"
proof -
  have "h \<in> set (required_objects (compute_diff t n)) \<longleftrightarrow>
      (\<exists>p. content_at (Some n) p = Some h \<and> content_at t p \<noteq> Some h)" for h
  proof
    assume "h \<in> set (required_objects (compute_diff t n))"
    then obtain e where e: "e \<in> set (entries_by_path (Some n))" "te_sha256 e = h"
      and old: "te_path e \<notin> te_path ` set (entries_by_path t) \<or>
        (\<exists>o' \<in> set (entries_by_path t). te_path o' = te_path e \<and> te_sha256 o' \<noteq> h)"
      by (auto simp: required_objects_def diff_sets)
    from old have "content_at t (te_path e) \<noteq> Some h"
      unfolding content_at_iff using entry_unique by (metis image_eqI)
    with e show "\<exists>p. content_at (Some n) p = Some h \<and> content_at t p \<noteq> Some h"
      by (auto simp: content_at_iff)
  next
    assume "\<exists>p. content_at (Some n) p = Some h \<and> content_at t p \<noteq> Some h"
    then obtain e where e: "e \<in> set (entries_by_path (Some n))" "te_sha256 e = h"
      and old: "content_at t (te_path e) \<noteq> Some h"
      by (auto simp: content_at_iff)
    show "h \<in> set (required_objects (compute_diff t n))"
    proof (cases "content_at t (te_path e)")
      case None
      with e have "e \<in> set (df_added (compute_diff t n))"
        by (simp add: diff_sets content_at_None)
      with e show ?thesis by (auto simp: required_objects_def)
    next
      case (Some h')
      then obtain o' where "o' \<in> set (entries_by_path t)" "te_path o' = te_path e" "te_sha256 o' = h'"
        by (auto simp: content_at_iff)
      with e old Some have "(o', e) \<in> set (df_modified (compute_diff t n))"
        by (auto simp: diff_sets)
      with e show ?thesis by (force simp: required_objects_def)
    qed
  qed
  then show ?thesis by blast
qed

subsection \<open>Heads and snapshots\<close>

text \<open>Every scan finds the folders as they are then.\<close>

record sync_env =
  sy_obj :: obj_env
  sy_tree :: "string \<Rightarrow> fs_entry list option"
  sy_gateway :: string

datatype sync_op = Scan sync_env time string | Apply_peer time string string string string

fun sync_step :: "sync_op \<Rightarrow> obj_state \<Rightarrow> obj_state" where
  "sync_step (Scan Y now pid) s = exec (scan_and_snapshot (sy_obj Y) (sy_tree Y) (sy_gateway Y) now pid) s"
| "sync_step (Apply_peer now pid i t g) s = exec (in_db (apply_peer_snapshot now pid i t g)) s"

text \<open>Ids are unique, and each head names a stored snapshot of its own project.\<close>

definition heads_inv :: "db \<Rightarrow> bool" where
  "heads_inv d \<longleftrightarrow> keyed sn_id (snapshots d) \<and> keyed hd_project_id (project_heads d) \<and>
     (\<forall>h \<in> set (project_heads d). \<exists>r \<in> set (snapshots d).
        sn_id r = hd_snapshot_id h \<and> sn_project_id r = hd_project_id h)"

definition store_snapshot :: "time \<Rightarrow> snap_row \<Rightarrow> db \<Rightarrow> db" where
  "store_snapshot now r d = d\<lparr>snapshots := snapshots d @ [r],
     project_heads := insert_or hd_project_id
       \<lparr>hd_project_id = sn_project_id r, hd_snapshot_id = sn_id r, hd_updated_at = now\<rparr>
       (\<lambda>h. h\<lparr>hd_snapshot_id := sn_id r, hd_updated_at := now\<rparr>) (project_heads d)\<rparr>"

lemma insert_advance:
  "bindA (insert_snapshot ctx r) (\<lambda>_. bindA (advance_head now (sn_project_id r) (sn_id r)) f) d =
     (if has_key sn_id (sn_id r) (snapshots d) then (d, Inl (Sql_err ctx Unique_violation))
      else if \<not> project_exists d (sn_project_id r) then (d, Inl (Sql_err ctx Foreign_key_violation))
      else f () (store_snapshot now r d))"
  by (simp add: bindA_def insert_snapshot_def advance_head_def store_snapshot_def has_key_iff)

lemma apply_peer_cases:
  "apply_peer_snapshot now pid i t g d =
     (let r = \<lparr>sn_id = i, sn_project_id = pid, sn_gateway = g, sn_transcript = t, sn_created_at = now\<rparr> in
      if has_key sn_id i (snapshots d) then (d, Inl (Sql_err ''insert peer snapshot'' Unique_violation))
      else if \<not> project_exists d pid then (d, Inl (Sql_err ''insert peer snapshot'' Foreign_key_violation))
      else (store_snapshot now r d, Inr (snapshot_of_row r)))"
  using insert_advance [of "''insert peer snapshot''"
      "\<lparr>sn_id = i, sn_project_id = pid, sn_gateway = g, sn_transcript = t, sn_created_at = now\<rparr>" now
      "\<lambda>_. ret (snapshot_of_row \<lparr>sn_id = i, sn_project_id = pid, sn_gateway = g, sn_transcript = t, sn_created_at = now\<rparr>)" d]
  by (simp add: apply_peer_snapshot_def Let_def ret_def)

lemma heads_inv_store:
  assumes "heads_inv d" "\<not> has_key sn_id (sn_id r) (snapshots d)"
  shows "heads_inv (store_snapshot now r d)"
proof -
  have "keyed sn_id (snapshots d @ [r])"
    using assms by (simp add: heads_inv_def table_simps)
  moreover have "keyed hd_project_id (project_heads (store_snapshot now r d))"
    using assms by (simp add: heads_inv_def store_snapshot_def keyed_insert_or)
  moreover have "\<exists>x \<in> set (snapshots d @ [r]). sn_id x = hd_snapshot_id h \<and> sn_project_id x = hd_project_id h"
    if "h \<in> set (project_heads (store_snapshot now r d))" for h
    using assms(1) that
    by (auto simp: heads_inv_def store_snapshot_def insert_or_def set_update_where split: if_splits)
  ultimately show ?thesis
    by (simp add: heads_inv_def) (simp add: store_snapshot_def)
qed

lemma head_store:
  assumes "\<not> has_key sn_id (sn_id r) (snapshots d)"
  shows "head_snapshot (store_snapshot now r d) q =
     (if q = sn_project_id r then Some (snapshot_of_row r)
      else (case find_by hd_project_id q (project_heads d) of None \<Rightarrow> None
        | Some h \<Rightarrow> get_snapshot (store_snapshot now r d) (hd_snapshot_id h)))"
proof -
  have "find_by sn_id (sn_id r) (snapshots d) = None"
    using assms by (simp add: table_simps)
  then have "get_snapshot (store_snapshot now r d) (sn_id r) = Some (snapshot_of_row r)"
    by (simp add: get_snapshot_def store_snapshot_def find_by_append find_by_single)
  then show ?thesis
    by (auto simp: head_snapshot_def find_by_insert_or store_snapshot_def split: option.splits)
qed

lemma diff_empty_iff:
  "diff_is_empty (compute_diff t n) \<longleftrightarrow> (\<forall>p. content_at t p = content_at (Some n) p)"
proof
  assume "diff_is_empty (compute_diff t n)"
  then show "\<forall>p. content_at t p = content_at (Some n) p"
    using diff_at_new [of t n] by (simp add: diff_is_empty_def diff_at_def find_by_Nil)
next
  assume same: "\<forall>p. content_at t p = content_at (Some n) p"
  have paths: "te_path ` set (entries_by_path t) = te_path ` set (entries_by_path (Some n))"
  proof (rule set_eqI)
    fix p show "p \<in> te_path ` set (entries_by_path t) \<longleftrightarrow> p \<in> te_path ` set (entries_by_path (Some n))"
      using content_at_None [of t p] content_at_None [of "Some n" p] same by metis
  qed
  have "set (df_added (compute_diff t n)) = {}" "set (df_removed (compute_diff t n)) = {}"
    unfolding diff_sets using paths by blast+
  moreover have "set (df_modified (compute_diff t n)) = {}"
  proof -
    have "te_sha256 o' = te_sha256 e"
      if "e \<in> set (entries_by_path (Some n))" "o' \<in> set (entries_by_path t)" "te_path o' = te_path e" for o' e
    proof -
      have "content_at (Some n) (te_path e) = Some (te_sha256 e)" "content_at t (te_path e) = Some (te_sha256 o')"
        using that content_at_iff by blast+
      with same show ?thesis by simp
    qed
    then show ?thesis unfolding diff_sets by blast
  qed
  ultimately show "diff_is_empty (compute_diff t n)"
    by (simp add: diff_is_empty_def)
qed

subsection \<open>Scans\<close>

lemma put_object_frame:
  "put_object E now c s = (s', r) \<Longrightarrow> snapshots (os_db s') = snapshots (os_db s) \<and>
     project_heads (os_db s') = project_heads (os_db s) \<and> projects (os_db s') = projects (os_db s)"
  by (auto simp: put_object_def Let_def split: if_splits)

lemma scan_frame:
  "scan_dir_recursive E now glob dir es s = (s', r) \<Longrightarrow> snapshots (os_db s') = snapshots (os_db s) \<and>
     project_heads (os_db s') = project_heads (os_db s) \<and> projects (os_db s') = projects (os_db s)"
proof (induction E now glob dir es arbitrary: s s' r rule: scan_dir_recursive.induct)
  case (1 E now glob dir)
  then show ?case by (simp add: ret_def)
next
  case (2 E now glob dir n sub rest)
  obtain s1 r1 where one: "scan_dir_recursive E now glob (dir @ n @ ''/'') sub s = (s1, r1)"
    by (metis surj_pair)
  from 2(1) [OF one] show ?case
    using 2(3) one 2(2) by (auto simp: bindA_def ret_def split: sum.splits prod.splits)
next
  case (3 E now glob dir n content mtime rest)
  obtain s1 r1 where one: "put_object E now content s = (s1, r1)"
    by (metis surj_pair)
  from put_object_frame [OF one] show ?case
    using 3(3) one 3(1,2) by (auto simp: Let_def bindA_def ret_def split: sum.splits prod.splits if_splits)
next
  case (4 E now glob dir n rest)
  then show ?case by simp
qed

lemma scan_and_snapshot_cases:
  assumes "get_project (os_db s) pid = Some pj" "pj_folder_path pj \<noteq> []" "tree (pj_folder_path pj) = Some files"
    and "scan_directory E now files (pj_file_glob pj) s = (s1, Inr entries)"
  shows "scan_and_snapshot E tree gw now pid s =
     (let t = build_transcript entries; i = transcript_id E t;
          r = \<lparr>sn_id = i, sn_project_id = pid, sn_gateway = gw, sn_transcript = t, sn_created_at = now\<rparr> in
      if has_key sn_id i (snapshots (os_db s1)) then (s1, Inr (get_snapshot (os_db s1) i))
      else (s1\<lparr>os_db := store_snapshot now r (os_db s1)\<rparr>, Inr (Some (snapshot_of_row r))))"
proof -
  have "projects (os_db s1) = projects (os_db s)"
    using scan_frame assms(4) unfolding scan_directory_def by blast
  then have "project_exists (os_db s1) pid"
    using assms(1) by (auto simp: get_project_def table_simps dest: find_by_Some)
  with assms show ?thesis
    by (simp add: scan_and_snapshot_def bindA_def askA_def Let_def write_snapshot_def insert_snapshot_def
        zoomA_def ret_def advance_head_def has_key_iff store_snapshot_def)
qed

lemma heads_inv_cong:
  "snapshots d = snapshots d' \<Longrightarrow> project_heads d = project_heads d' \<Longrightarrow> heads_inv d = heads_inv d'"
  by (simp add: heads_inv_def)

text \<open>Every way a scan can end: the state it leaves is that of the walk, or that with the new snapshot.\<close>

lemma scan_result_state:
  obtains (walk) s1 where "exec (scan_and_snapshot E tree gw now pid) s = s1"
      "snapshots (os_db s1) = snapshots (os_db s)" "project_heads (os_db s1) = project_heads (os_db s)"
  | (new) s1 r where "exec (scan_and_snapshot E tree gw now pid) s = s1\<lparr>os_db := store_snapshot now r (os_db s1)\<rparr>"
      "snapshots (os_db s1) = snapshots (os_db s)" "project_heads (os_db s1) = project_heads (os_db s)"
      "\<not> has_key sn_id (sn_id r) (snapshots (os_db s))"
proof (cases "get_project (os_db s) pid")
  case None
  show thesis by (rule walk [of s]) (simp_all add: exec_def scan_and_snapshot_def None)
next
  case (Some pj)
  show thesis
  proof (cases "pj_folder_path pj = [] \<or> tree (pj_folder_path pj) = None")
    case True
    show thesis by (rule walk [of s]) (use True in \<open>auto simp: exec_def scan_and_snapshot_def Some\<close>)
  next
    case False
    then obtain files where files: "tree (pj_folder_path pj) = Some files" "pj_folder_path pj \<noteq> []" by auto
    obtain s1 x where scan: "scan_directory E now files (pj_file_glob pj) s = (s1, x)"
      by (metis surj_pair)
    have frame: "snapshots (os_db s1) = snapshots (os_db s)" "project_heads (os_db s1) = project_heads (os_db s)"
      using scan_frame scan unfolding scan_directory_def by blast+
    show thesis
    proof (cases x)
      case (Inl e)
      show thesis
        by (rule walk [of s1]) (use Some files scan Inl frame in
          \<open>simp_all add: exec_def scan_and_snapshot_def bindA_def\<close>)
    next
      case (Inr entries)
      note c = scan_and_snapshot_cases [where tree = tree and gw = gw, OF Some files(2,1) scan [unfolded Inr]]
      let ?i = "transcript_id E (build_transcript entries)"
      show thesis
      proof (cases "has_key sn_id ?i (snapshots (os_db s1))")
        case True
        show thesis by (rule walk [of s1]) (use c True frame in \<open>simp_all add: exec_def Let_def\<close>)
      next
        case False
        show thesis
          by (rule new [of "\<lparr>sn_id = ?i, sn_project_id = pid, sn_gateway = gw,
            sn_transcript = build_transcript entries, sn_created_at = now\<rparr>" s1])
            (use c False frame in \<open>simp_all add: exec_def Let_def\<close>)
      qed
    qed
  qed
qed

lemma heads_inv_step: "heads_inv (os_db s) \<Longrightarrow> heads_inv (os_db (sync_step op s))"
proof (cases op)
  case (Scan Y now pid)
  assume inv: "heads_inv (os_db s)"
  show ?thesis
  proof (cases rule: scan_result_state [of "sy_obj Y" "sy_tree Y" "sy_gateway Y" now pid s])
    case (walk s1)
    with inv Scan show ?thesis by (simp add: heads_inv_cong [of "os_db s1" "os_db s"])
  next
    case (new s1 r)
    with inv have "heads_inv (os_db s1)" by (simp add: heads_inv_cong [of "os_db s1" "os_db s"])
    with new Scan show ?thesis by (simp add: heads_inv_store)
  qed
next
  case (Apply_peer now pid i t g)
  assume "heads_inv (os_db s)"
  with Apply_peer show ?thesis
    by (auto simp: exec_def zoomA_def apply_peer_cases Let_def heads_inv_store)
qed

lemma snapshots_kept_step: "prefix (snapshots (os_db s)) (snapshots (os_db (sync_step op s)))"
proof (cases op)
  case (Scan Y now pid)
  then show ?thesis
    by (cases rule: scan_result_state [of "sy_obj Y" "sy_tree Y" "sy_gateway Y" now pid s])
      (simp_all add: store_snapshot_def)
next
  case (Apply_peer now pid i t g)
  then show ?thesis
    by (auto simp: exec_def zoomA_def apply_peer_cases Let_def store_snapshot_def)
qed

interpretation snapshot_history: history_system sync_step
    "\<lambda>s s'. prefix (snapshots (os_db s)) (snapshots (os_db s'))"
  by unfold_locales (simp, erule prefix_order.trans, assumption, rule snapshots_kept_step)

interpretation heads_system: invariant_system sync_step "\<lambda>s. heads_inv (os_db s)"
  by unfold_locales (rule heads_inv_step)

subsection \<open>Properties\<close>

text \<open>
  C28. The diff is right at every path: applying it to the old content gives the new content; it is empty
  exactly when both transcripts have the same hash at every path; and the objects it requires
  are exactly the hashes of the new transcript that the old one does not have at the same path.
\<close>

theorem compute_diff_correct:
  "(\<forall>p. diff_at (compute_diff t n) p (content_at t p) = content_at (Some n) p) \<and>
   (diff_is_empty (compute_diff t n) \<longleftrightarrow> (\<forall>p. content_at t p = content_at (Some n) p)) \<and>
   set (required_objects (compute_diff t n)) =
     {h. \<exists>p. content_at (Some n) p = Some h \<and> content_at t p \<noteq> Some h}"
  using diff_at_new diff_empty_iff required_set by blast

text \<open>
  C29. Snapshots are immutable and heads are sound: under any run of scans (of folders that change in between) and peer snapshots the stored
  snapshots only grow, their ids stay unique, and every head names a stored snapshot of its own project.
\<close>

theorem heads_sound:
  assumes "heads_inv (os_db s)"
  shows "heads_inv (os_db (runA sync_step s ops)) \<and>
     prefix (snapshots (os_db s)) (snapshots (os_db (runA sync_step s ops)))"
  using heads_system.run_inv [of s ops] snapshot_history.run_ext [of s ops] assms by blast

definition demo_sync :: sync_env where
  "demo_sync = \<lparr>sy_obj = demo_obj_env, sy_tree = (\<lambda>_. Some [Fs_file ''a'' ''a'' 3]), sy_gateway = ''gw''\<rparr>"

lemma heads_sound_witness:
  "heads_inv (os_db (runA sync_step no_objects [Apply_peer 1 ''p'' ''i'' ''t'' ''g'', Scan demo_sync 2 ''p'', Scan (demo_sync\<lparr>sy_tree := (\<lambda>_. Some [])\<rparr>) 3 ''p''])) \<and>
     prefix (snapshots (os_db no_objects))
       (snapshots (os_db (runA sync_step no_objects [Apply_peer 1 ''p'' ''i'' ''t'' ''g'', Scan demo_sync 2 ''p'', Scan (demo_sync\<lparr>sy_tree := (\<lambda>_. Some [])\<rparr>) 3 ''p''])))"
  by (rule heads_sound) (simp add: no_objects_def heads_inv_def empty_db_def table_simps)

text \<open>
  What a scan of a configured folder does. If the resulting transcript is new, its snapshot is stored
  and becomes the head. If a snapshot with this id is already there, it is returned and no head moves:
  a folder that goes back to an earlier content, or that has the content of another project's
  snapshot, leaves its project's head where it was.
\<close>

lemma scan_moves_head_only_if_new:
  assumes "get_project (os_db s) pid = Some pj" "pj_folder_path pj \<noteq> []" "tree (pj_folder_path pj) = Some files"
    and "scan_directory E now files (pj_file_glob pj) s = (s1, Inr entries)"
  shows "case scan_and_snapshot E tree gw now pid s of (s', r) \<Rightarrow>
     (if transcript_id E (build_transcript entries) \<in> sn_id ` set (snapshots (os_db s))
      then r = Inr (get_snapshot (os_db s) (transcript_id E (build_transcript entries))) \<and>
        snapshots (os_db s') = snapshots (os_db s) \<and> project_heads (os_db s') = project_heads (os_db s)
      else (\<exists>ss. r = Inr (Some ss) \<and> head_snapshot (os_db s') pid = Some ss \<and>
        ss_transcript ss = build_transcript entries \<and> ss_id ss = transcript_id E (build_transcript entries)))"
proof -
  have frame: "snapshots (os_db s1) = snapshots (os_db s)" "project_heads (os_db s1) = project_heads (os_db s)"
    using scan_frame assms(4) unfolding scan_directory_def by blast+
  show ?thesis
    unfolding scan_and_snapshot_cases [where tree = tree and gw = gw, OF assms] Let_def
    using frame by (simp add: has_key_iff head_store get_snapshot_def) (simp add: snapshot_of_row_def)
qed

definition scan_db :: obj_state where
  "scan_db = \<lparr>os_db = exec (set_folder_path Some (\<lambda>_. True) 1 ''p'' ''/f'') one_project, os_disk = (\<lambda>_. None)\<rparr>"

lemma scan_db_project: "get_project (os_db scan_db) ''p'' =
    Some ((project_of_row (project_row_new ''p'' 0 ''n'' ''u'' [] ''gw'' [] []))\<lparr>pj_folder_path := ''/f'', pj_updated_at := 1\<rparr>)"
  by (simp add: scan_db_def exec_def set_folder_path_def get_project_def update_project_def update_where_def
      one_project_def project_row_new_def find_by_def project_of_row_def)

lemma scan_moves_head_only_if_new_witness:
  "case scan_and_snapshot demo_obj_env (\<lambda>_. Some []) ''gw'' 5 ''p'' scan_db of (s', r) \<Rightarrow>
     (if transcript_id demo_obj_env (build_transcript []) \<in> sn_id ` set (snapshots (os_db scan_db))
      then r = Inr (get_snapshot (os_db scan_db) (transcript_id demo_obj_env (build_transcript []))) \<and>
        snapshots (os_db s') = snapshots (os_db scan_db) \<and> project_heads (os_db s') = project_heads (os_db scan_db)
      else (\<exists>ss. r = Inr (Some ss) \<and> head_snapshot (os_db s') ''p'' = Some ss \<and>
        ss_transcript ss = build_transcript [] \<and> ss_id ss = transcript_id demo_obj_env (build_transcript [])))"
  by (rule scan_moves_head_only_if_new [where ?s1.0 = scan_db and files = "[]", OF scan_db_project]) (simp_all add: scan_directory_def ret_def)

text \<open>
  Applying a peer's snapshot makes it the project's head, and the diff of its transcript against the
  head is then empty, so the same update is not pulled twice. It fails, writing nothing, exactly when
  the project is unknown or a snapshot with this id is already stored (there is no \<open>ON CONFLICT\<close>).
\<close>

lemma apply_peer_snapshot_spec:
  "case apply_peer_snapshot now pid i t g d of
     (d', Inr ss) \<Rightarrow> head_snapshot d' pid = Some ss \<and> ss_id ss = i \<and> ss_transcript ss = t \<and>
       diff_is_empty (diff_against_head d' pid t)
   | (d', Inl _) \<Rightarrow> d' = d \<and> \<not> (i \<notin> sn_id ` set (snapshots d) \<and> pid \<in> pr_id ` set (projects d))"
  by (auto simp: apply_peer_cases Let_def has_key_iff head_store snapshot_of_row_def diff_against_head_def
      head_transcript_def diff_empty_iff split: if_splits)

end
