(* ===== verification/Group_Store.thy ===== *)
theory Group_Store
  imports Gateway_Db
begin

text \<open>
  Groups, invites and shared projects (\<open>groups.rs\<close>). \<open>consume_invite\<close> is three statements; the
  first, an atomic \<open>UPDATE .. RETURNING\<close>, is a definition of its own, so that runs of statements can
  interleave the requests of several gateways. Fresh ids, random tokens and the clock are parameters.

  Lemmas: the referential integrity of the group tables under every statement, and invites
  as single-use tokens.
\<close>

definition invite_ttl_secs :: time where
  "invite_ttl_secs = 48 * 3600"

record group =
  grp_id :: string
  grp_name :: string
  grp_description :: string
  grp_created_by :: string
  grp_created_at :: time

record group_member =
  gm_group_id :: string
  gm_gateway_name :: string
  gm_joined_at :: time
  gm_invited_by :: string

record invite =
  in_token :: string
  in_group_id :: string
  in_created_by :: string
  in_created_at :: time
  in_expires_at :: time
  in_used_at :: "time option"
  in_used_by :: "string option"

definition invite_is_valid :: "time \<Rightarrow> invite \<Rightarrow> bool" where
  "invite_is_valid now i \<longleftrightarrow> in_used_at i = None \<and> now < in_expires_at i"

definition group_of_row :: "group_row \<Rightarrow> group" where
  "group_of_row r = \<lparr>grp_id = gr_id r, grp_name = gr_name r, grp_description = gr_description r,
     grp_created_by = gr_created_by r, grp_created_at = gr_created_at r\<rparr>"

definition member_of_row :: "member_row \<Rightarrow> group_member" where
  "member_of_row r = \<lparr>gm_group_id = mr_group_id r, gm_gateway_name = mr_gateway_name r,
     gm_joined_at = mr_joined_at r, gm_invited_by = mr_invited_by r\<rparr>"

definition invite_of_row :: "invite_row \<Rightarrow> invite" where
  "invite_of_row r = \<lparr>in_token = iv_token r, in_group_id = iv_group_id r, in_created_by = iv_created_by r,
     in_created_at = iv_created_at r, in_expires_at = iv_expires_at r, in_used_at = iv_used_at r,
     in_used_by = iv_used_by r\<rparr>"

abbreviation member_key :: "member_row \<Rightarrow> string \<times> string" where
  "member_key r \<equiv> (mr_group_id r, mr_gateway_name r)"

abbreviation share_key :: "group_project_row \<Rightarrow> string \<times> string" where
  "share_key r \<equiv> (gp_group_id r, gp_project_id r)"

subsection \<open>Groups and members\<close>

definition add_member :: "time \<Rightarrow> string \<Rightarrow> string \<Rightarrow> string \<Rightarrow> (db, unit) act" where
  "add_member now group_id gateway_name invited_by = (\<lambda>d.
     if has_key member_key (group_id, gateway_name) (members d)
     then (d, Inl (Sql_err ''add group member'' Unique_violation))
     else if \<not> has_key gr_id group_id (groups d)
     then (d, Inl (Sql_err ''add group member'' Foreign_key_violation))
     else (d\<lparr>members := members d @ [\<lparr>mr_group_id = group_id, mr_gateway_name = gateway_name,
              mr_joined_at = now, mr_invited_by = invited_by\<rparr>]\<rparr>, Inr ()))"

definition create_group :: "string \<Rightarrow> time \<Rightarrow> string \<Rightarrow> string \<Rightarrow> string \<Rightarrow> (db, group) act" where
  "create_group i now name description created_by = (\<lambda>d.
     if has_key gr_id i (groups d) \<or> has_key gr_name name (groups d)
     then (d, Inl (Sql_err ''create group'' Unique_violation))
     else
       let r = \<lparr>gr_id = i, gr_name = name, gr_description = description, gr_created_by = created_by,
                gr_created_at = now\<rparr>
       in bindA (add_member now i created_by created_by) (\<lambda>_. ret (group_of_row r))
            (d\<lparr>groups := groups d @ [r]\<rparr>))"

definition get_group :: "db \<Rightarrow> string \<Rightarrow> group option" where
  "get_group d i = map_option group_of_row (find_by gr_id i (groups d))"

definition get_group_by_name :: "db \<Rightarrow> string \<Rightarrow> group option" where
  "get_group_by_name d n = map_option group_of_row (find_by gr_name n (groups d))"

definition list_groups :: "db \<Rightarrow> group list" where
  "list_groups d = map group_of_row (order_by_desc gr_created_at (groups d))"

definition list_members :: "db \<Rightarrow> string \<Rightarrow> group_member list" where
  "list_members d g = map member_of_row (order_by mr_joined_at (filter (\<lambda>r. mr_group_id r = g) (members d)))"

definition member_count :: "db \<Rightarrow> string \<Rightarrow> nat" where
  "member_count d g = length (filter (\<lambda>r. mr_group_id r = g) (members d))"

definition is_member :: "db \<Rightarrow> string \<Rightarrow> string \<Rightarrow> bool" where
  "is_member d g gw \<longleftrightarrow> has_key member_key (g, gw) (members d)"

definition groups_for_gateway :: "db \<Rightarrow> string \<Rightarrow> group list" where
  "groups_for_gateway d gw = concat (map (\<lambda>m. map group_of_row (filter (\<lambda>g. gr_id g = mr_group_id m) (groups d)))
     (order_by mr_joined_at (filter (\<lambda>r. mr_gateway_name r = gw) (members d))))"

subsection \<open>Invites\<close>

text \<open>A token is a buffer of 32 random bytes in lower-case hex.\<close>

definition hex_char :: "nat \<Rightarrow> char" where
  "hex_char n = ''0123456789abcdef'' ! n"

definition random_token :: "8 word list \<Rightarrow> string" where
  "random_token buf = concat (map (\<lambda>b. [hex_char (unat b div 16), hex_char (unat b mod 16)]) buf)"

definition create_invite :: "string \<Rightarrow> time \<Rightarrow> string \<Rightarrow> string \<Rightarrow> (db, invite) act" where
  "create_invite token now group_id created_by = (\<lambda>d.
     let r = \<lparr>iv_token = token, iv_group_id = group_id, iv_created_by = created_by, iv_created_at = now,
              iv_expires_at = now + invite_ttl_secs, iv_used_at = None, iv_used_by = None\<rparr>
     in if has_key iv_token token (invites d) then (d, Inl (Sql_err ''create invite'' Unique_violation))
        else if \<not> has_key gr_id group_id (groups d) then (d, Inl (Sql_err ''create invite'' Foreign_key_violation))
        else (d\<lparr>invites := invites d @ [r]\<rparr>, Inr (invite_of_row r)))"

text \<open>Different buffers have different tokens.\<close>

lemma hex_char_inj: "inj_on hex_char {..< 16}"
proof -
  have "distinct (map hex_char [0..<16])" by code_simp
  then show ?thesis by (simp add: distinct_map atLeast0LessThan)
qed

lemma byte_nibble: "unat (x :: 8 word) div 16 < 16"
proof -
  have "unat x < 2 ^ 8" using unsigned_less [of x] by simp
  then show ?thesis by simp
qed

lemma random_token_inj: "random_token a = random_token b \<longleftrightarrow> a = b"
proof
  show "a = b" if "random_token a = random_token b"
    using that
  proof (induction a arbitrary: b)
    case Nil
    then show ?case by (cases b) (simp_all add: random_token_def)
  next
    case (Cons x a)
    then obtain y b' where b: "b = y # b'" by (cases b) (simp_all add: random_token_def)
    have "unat x div 16 = unat y div 16" "unat x mod 16 = unat y mod 16"
      using Cons.prems byte_nibble by (auto simp: b random_token_def inj_on_eq_iff [OF hex_char_inj])
    then have "x = y" by (metis div_mult_mod_eq word_unat_eq_iff)
    moreover have "a = b'"
      by (rule Cons.IH) (use Cons.prems in \<open>simp add: b random_token_def\<close>)
    ultimately show ?case by (simp add: b)
  qed
qed simp

lemma random_token_hex: "length buf = 32 \<Longrightarrow> length (random_token buf) = 64" "list_all is_hex_digit (random_token buf)"
proof -
  have "length (random_token buf) = 2 * length buf" by (induction buf) (simp_all add: random_token_def)
  then show "length buf = 32 \<Longrightarrow> length (random_token buf) = 64" by simp
  have "list_all (\<lambda>n. is_hex_digit (hex_char n)) [0..<16]" by code_simp
  then have "is_hex_digit (hex_char n)" if "n < 16" for n using that by (simp add: list_all_iff)
  then show "list_all is_hex_digit (random_token buf)"
    using byte_nibble by (induction buf) (simp_all add: random_token_def)
qed

text \<open>The atomic \<open>UPDATE .. WHERE token = .. AND used_at IS NULL AND expires_at > now RETURNING ..\<close>.\<close>

definition redeem :: "time \<Rightarrow> string \<Rightarrow> string \<Rightarrow> db \<Rightarrow> db \<times> (string \<times> string) option" where
  "redeem now token joining_gateway d =
     (let open_invite = (\<lambda>r. iv_token r = token \<and> iv_used_at r = None \<and> now < iv_expires_at r) in
      (d\<lparr>invites := update_where open_invite (\<lambda>r. r\<lparr>iv_used_at := Some now, iv_used_by := Some joining_gateway\<rparr>) (invites d)\<rparr>,
       map_option (\<lambda>r. (iv_group_id r, iv_created_by r)) (List.find open_invite (invites d))))"

definition consume_invite :: "time \<Rightarrow> string \<Rightarrow> string \<Rightarrow> (db, group) act" where
  "consume_invite now token joining_gateway = (\<lambda>d.
     case redeem now token joining_gateway d of
       (d1, None) \<Rightarrow> (d1, Inl (Anyhow ''invite token is expired or already used''))
     | (d1, Some (group_id, created_by)) \<Rightarrow>
         bindA (add_member now group_id joining_gateway created_by) (\<lambda>_.
         bindA (askA (\<lambda>d. get_group d group_id)) (\<lambda>g.
           needA (Anyhow ''group not found after invite consume'') g)) d1)"

definition get_invite :: "db \<Rightarrow> string \<Rightarrow> invite option" where
  "get_invite d token = map_option invite_of_row (find_by iv_token token (invites d))"

subsection \<open>Shared projects\<close>

definition add_project :: "time \<Rightarrow> string \<Rightarrow> string \<Rightarrow> (db, unit) act" where
  "add_project now group_id project_id = (\<lambda>d.
     if has_key share_key (group_id, project_id) (group_projects d) then (d, Inr ())
     else if \<not> has_key gr_id group_id (groups d) \<or> \<not> project_exists d project_id
     then (d, Inl (Sql_err ''add project to group'' Foreign_key_violation))
     else (d\<lparr>group_projects := group_projects d @
              [\<lparr>gp_group_id = group_id, gp_project_id = project_id, gp_added_at = now\<rparr>]\<rparr>, Inr ()))"

definition list_group_projects :: "db \<Rightarrow> string \<Rightarrow> string list" where
  "list_group_projects d g = map gp_project_id
     (order_by gp_added_at (filter (\<lambda>r. gp_group_id r = g) (group_projects d)))"

definition gateway_count_for_project :: "db \<Rightarrow> string \<Rightarrow> nat" where
  "gateway_count_for_project d project_id = length (remdups (map mr_gateway_name
     (filter (\<lambda>m. list_ex (\<lambda>s. gp_group_id s = mr_group_id m \<and> gp_project_id s = project_id) (group_projects d))
        (members d))))"

subsection \<open>The statements, as one step function\<close>

datatype group_op =
    Create_group string time string string string
  | Add_member time string string string
  | Create_invite string time string string
  | Redeem time string string
  | Consume_invite time string string
  | Add_project time string string

fun group_step :: "group_op \<Rightarrow> db \<Rightarrow> db" where
  "group_step (Create_group i now n de cb) d = exec (create_group i now n de cb) d"
| "group_step (Add_member now g gw by) d = exec (add_member now g gw by) d"
| "group_step (Create_invite t now g cb) d = exec (create_invite t now g cb) d"
| "group_step (Redeem now t gw) d = fst (redeem now t gw d)"
| "group_step (Consume_invite now t gw) d = exec (consume_invite now t gw) d"
| "group_step (Add_project now g p) d = exec (add_project now g p) d"

text \<open>Keys are unique and every reference has its target.\<close>

definition group_inv :: "db \<Rightarrow> bool" where
  "group_inv d \<longleftrightarrow> keyed gr_id (groups d) \<and> keyed gr_name (groups d) \<and>
     keyed member_key (members d) \<and> keyed iv_token (invites d) \<and> keyed share_key (group_projects d) \<and>
     mr_group_id ` set (members d) \<subseteq> gr_id ` set (groups d) \<and>
     iv_group_id ` set (invites d) \<subseteq> gr_id ` set (groups d) \<and>
     gp_group_id ` set (group_projects d) \<subseteq> gr_id ` set (groups d) \<and>
     gp_project_id ` set (group_projects d) \<subseteq> pr_id ` set (projects d)"

lemma group_inv_add_member: "group_inv d \<Longrightarrow> group_inv (exec (add_member now g gw by) d)"
  by (auto simp: group_inv_def exec_def add_member_def table_simps)

lemma group_inv_new_group:
  "group_inv d \<Longrightarrow> gr_id r \<notin> gr_id ` set (groups d) \<Longrightarrow> gr_name r \<notin> gr_name ` set (groups d) \<Longrightarrow>
     group_inv (d\<lparr>groups := groups d @ [r]\<rparr>)"
  by (auto simp: group_inv_def table_simps)

lemma group_inv_create: "group_inv d \<Longrightarrow> group_inv (exec (create_group i now n de cb) d)"
proof (cases "has_key gr_id i (groups d) \<or> has_key gr_name n (groups d)")
  case True
  then show "group_inv d \<Longrightarrow> ?thesis" by (auto simp: exec_def create_group_def)
next
  case False
  let ?r = "\<lparr>gr_id = i, gr_name = n, gr_description = de, gr_created_by = cb, gr_created_at = now\<rparr>"
  assume "group_inv d"
  with False have "group_inv (exec (add_member now i cb cb) (d\<lparr>groups := groups d @ [?r]\<rparr>))"
    by (intro group_inv_add_member group_inv_new_group) (auto simp: has_key_iff)
  moreover have "exec (create_group i now n de cb) d =
      exec (bindA (add_member now i cb cb) (\<lambda>_. ret (group_of_row ?r))) (d\<lparr>groups := groups d @ [?r]\<rparr>)"
    using False by (simp add: create_group_def exec_def Let_def)
  ultimately show ?thesis by (simp add: exec_bind_ret)
qed

lemma redeem_frame [simp]:
  "groups (fst (redeem now t gw d)) = groups d" "members (fst (redeem now t gw d)) = members d"
  "group_projects (fst (redeem now t gw d)) = group_projects d" "projects (fst (redeem now t gw d)) = projects d"
  by (simp_all add: redeem_def Let_def)

lemma redeem_keys:
  "map (\<lambda>r. (iv_token r, iv_group_id r)) (invites (fst (redeem now t gw d))) =
     map (\<lambda>r. (iv_token r, iv_group_id r)) (invites d)"
  by (simp add: redeem_def Let_def) (rule update_where_keys, simp)

lemma group_inv_redeem: "group_inv d \<Longrightarrow> group_inv (fst (redeem now t gw d))"
proof -
  assume inv: "group_inv d"
  have "map iv_token (invites (fst (redeem now t gw d))) = map iv_token (invites d)"
    using arg_cong [OF redeem_keys [of now t gw d], of "map fst"] by (simp add: comp_def)
  moreover have "map iv_group_id (invites (fst (redeem now t gw d))) = map iv_group_id (invites d)"
    using arg_cong [OF redeem_keys [of now t gw d], of "map snd"] by (simp add: comp_def)
  ultimately show ?thesis
    using inv by (simp add: group_inv_def keyed_def flip: set_map)
qed

lemma bind_pure:
  "exec (bindA (askA f) (\<lambda>g. needA e (h g))) s = s"
  by (auto simp: exec_def bindA_def askA_def needA_def fail_def ret_def split: option.splits)

lemma exec_bind_pure:
  "(\<And>x s. exec (k x) s = s) \<Longrightarrow> exec (bindA m k) s = exec m s"
  by (auto simp: exec_def bindA_def split: prod.splits sum.splits)

lemma consume_exec:
  "exec (consume_invite now t gw) d =
     (case redeem now t gw d of (d1, None) \<Rightarrow> d1 | (d1, Some (g, cb)) \<Rightarrow> exec (add_member now g gw cb) d1)"
proof -
  have "exec (bindA (add_member now g gw cb) (\<lambda>_. bindA (askA (\<lambda>d. get_group d g))
      (\<lambda>x. needA (Anyhow ''group not found after invite consume'') x))) d1 = exec (add_member now g gw cb) d1" for g cb d1
    by (rule exec_bind_pure) (rule bind_pure)
  then show ?thesis
    by (auto simp: consume_invite_def exec_def split: prod.splits option.splits)
qed

lemma group_inv_step: "group_inv d \<Longrightarrow> group_inv (group_step op d)"
proof (cases op)
  case (Create_invite t now g cb)
  then show "group_inv d \<Longrightarrow> ?thesis"
    by (auto simp: group_inv_def exec_def create_invite_def Let_def table_simps)
next
  case (Consume_invite now t gw)
  then show "group_inv d \<Longrightarrow> ?thesis"
    using group_inv_redeem [of d now t gw]
    by (auto simp: consume_exec group_inv_add_member split: prod.splits option.splits)
next
  case (Add_project now g p)
  then show "group_inv d \<Longrightarrow> ?thesis"
    by (auto simp: group_inv_def exec_def add_project_def table_simps)
qed (simp_all add: group_inv_create group_inv_add_member group_inv_redeem)

interpretation group_system: invariant_system group_step group_inv
  by unfold_locales (rule group_inv_step)

subsection \<open>Invites are single-use\<close>

definition token_used :: "db \<Rightarrow> string \<Rightarrow> bool" where
  "token_used d t \<longleftrightarrow> (\<forall>r \<in> set (invites d). iv_token r = t \<longrightarrow> iv_used_at r \<noteq> None) \<and> t \<in> iv_token ` set (invites d)"

lemma redeem_used: "token_used d t \<Longrightarrow> snd (redeem now t gw d) = None"
  by (auto simp: redeem_def Let_def token_used_def find_None_iff)

lemma find_SomeD: "List.find P xs = Some x \<Longrightarrow> x \<in> set xs \<and> P x"
  by (induction xs) (auto split: if_splits)

lemma redeem_marks:
  assumes "redeem now t gw d = (d', Some g)" "keyed iv_token (invites d)"
  shows "token_used d' t" "\<exists>r \<in> set (invites d). iv_token r = t \<and> iv_used_at r = None \<and> now < iv_expires_at r \<and>
     g = (iv_group_id r, iv_created_by r)"
proof -
  obtain r where r: "r \<in> set (invites d)" "iv_token r = t" "iv_used_at r = None" "now < iv_expires_at r"
    "g = (iv_group_id r, iv_created_by r)"
    using assms(1) by (auto simp: redeem_def Let_def dest!: find_SomeD)
  have uniq: "x = r" if "x \<in> set (invites d)" "iv_token x = t" for x
    using assms(2) that r by (auto simp: keyed_def distinct_map inj_on_def)
  have inv': "invites d' = update_where (\<lambda>r. iv_token r = t \<and> iv_used_at r = None \<and> now < iv_expires_at r)
      (\<lambda>r. r\<lparr>iv_used_at := Some now, iv_used_by := Some gw\<rparr>) (invites d)"
    using assms(1) by (auto simp: redeem_def Let_def)
  have "iv_used_at y \<noteq> None" if y_in: "y \<in> set (invites d')" and y_tok: "iv_token y = t" for y
  proof -
    obtain x where x: "x \<in> set (invites d)" and y: "y = (if iv_token x = t \<and> iv_used_at x = None \<and> now < iv_expires_at x
        then x\<lparr>iv_used_at := Some now, iv_used_by := Some gw\<rparr> else x)"
      using y_in unfolding inv' set_update_where by (elim imageE)
    have "iv_token x = t"
      using y_tok y by (auto split: if_splits)
    then show ?thesis
      using uniq [OF x] r(3,4) y by simp
  qed
  moreover have "iv_token ` set (invites d') = iv_token ` set (invites d)"
    unfolding set_map [symmetric] inv' by (subst update_where_keys) simp_all
  ultimately show "token_used d' t"
    using r(1,2) by (auto simp: token_used_def)
  from r show "\<exists>r \<in> set (invites d). iv_token r = t \<and> iv_used_at r = None \<and> now < iv_expires_at r \<and>
     g = (iv_group_id r, iv_created_by r)" by blast
qed

lemma token_used_redeem: "token_used d t \<Longrightarrow> token_used (fst (redeem now t' gw d)) t"
  by (auto simp: redeem_def Let_def token_used_def set_update_where image_iff split: if_splits)

lemma invites_frame [simp]:
  "invites (exec (add_member now g gw by) d) = invites d"
  "invites (exec (create_group i now n de by) d) = invites d"
  "invites (exec (add_project now g p) d) = invites d"
  by (auto simp: exec_def add_member_def create_group_def add_project_def Let_def bindA_def ret_def
      split: prod.splits sum.splits if_splits)

lemma token_used_cong: "invites d = invites d' \<Longrightarrow> token_used d t = token_used d' t"
  by (simp add: token_used_def)

lemma token_used_step: "token_used d t \<Longrightarrow> token_used (group_step op d) t"
proof (cases op)
  case (Create_invite t' now g cb)
  then show "token_used d t \<Longrightarrow> ?thesis"
    by (auto simp: token_used_def exec_def create_invite_def Let_def table_simps)
next
  case (Consume_invite now t' gw)
  then show "token_used d t \<Longrightarrow> ?thesis"
    using token_used_redeem [of d t now t' gw]
    by (auto simp: consume_exec token_used_cong [OF invites_frame(1)] split: prod.splits option.splits)
qed (simp_all add: token_used_redeem token_used_cong [OF invites_frame(1)] token_used_cong [OF invites_frame(2)]
       token_used_cong [OF invites_frame(3)])

interpretation used_tokens: invariant_system group_step "\<lambda>d. token_used d t" for t
  by unfold_locales (rule token_used_step)

subsection \<open>Properties\<close>

text \<open>
  The group tables are sound under any interleaving of statements: ids, names, memberships, tokens and
  shares stay unique, and every member, invite and share refers to an existing group and project.
\<close>

lemma group_tables_sound:
  assumes "group_inv d"
  shows "group_inv (runA group_step d ops)"
  by (rule group_system.run_inv) (rule assms)

lemma group_tables_sound_witness:
  "group_inv (runA group_step empty_db [Create_group ''g'' 0 ''n'' [] ''gw'', Create_invite ''t'' 1 ''g'' ''gw'',
     Redeem 2 ''t'' ''gw2'', Add_member 3 ''g'' ''gw2'' ''gw'', Add_project 4 ''g'' ''p''])"
  by (rule group_tables_sound) (simp add: group_inv_def empty_db_def table_simps)

text \<open>
  C9. An invite admits one gateway: once a token was redeemed (it was unused and not yet expired), every later
  attempt with the same token finds nothing, whatever statements of other requests run in between.
\<close>

theorem invite_single_use:
  assumes "group_inv d" "redeem now t gw d = (d', Some g)"
  shows "(\<exists>r \<in> set (invites d). iv_token r = t \<and> iv_used_at r = None \<and> now < iv_expires_at r) \<and>
     snd (redeem now' t gw' (runA group_step d' ops)) = None"
proof -
  have "keyed iv_token (invites d)"
    using assms(1) by (simp add: group_inv_def)
  note r = redeem_marks [OF assms(2) this]
  show ?thesis
    using r(2) redeem_used [OF used_tokens.run_inv [OF r(1)], of now' gw' ops] by auto
qed

definition invite_db :: db where
  "invite_db = runA group_step empty_db [Create_group ''g'' 0 ''n'' [] ''gw'', Create_invite ''t'' 1 ''g'' ''gw'']"

lemmas group_eval = exec_def create_group_def create_invite_def add_member_def has_key_def bindA_def ret_def
  invite_ttl_secs_def empty_db_def Let_def redeem_def update_where_def

lemma invite_single_use_witness:
  "(\<exists>r \<in> set (invites invite_db). iv_token r = ''t'' \<and> iv_used_at r = None \<and> 2 < iv_expires_at r) \<and>
     snd (redeem 3 ''t'' ''gw3'' (runA group_step (fst (redeem 2 ''t'' ''gw2'' invite_db))
       [Add_member 3 ''g'' ''gw2'' ''gw'', Consume_invite 4 ''t'' ''gw4''])) = None"
proof (rule invite_single_use)
  show "group_inv invite_db"
    unfolding invite_db_def by (rule group_system.run_inv) (simp add: group_inv_def empty_db_def table_simps)
  show "redeem 2 ''t'' ''gw2'' invite_db = (fst (redeem 2 ''t'' ''gw2'' invite_db), Some (''g'', ''gw''))"
    by (simp add: invite_db_def group_eval)
qed

text \<open>
  Consuming an invite, on every outcome. With no open invite under the token nothing changes. With one, the
  token is used up; then the gateway becomes a member and gets the group, unless it was a member before:
  that request fails, and its token is spent all the same.
\<close>

lemma consume_invite_spec:
  assumes "group_inv d"
  shows "case consume_invite now t gw d of
     (d', Inr g) \<Rightarrow> \<not> is_member d (grp_id g) gw \<and> is_member d' (grp_id g) gw \<and> token_used d' t \<and>
       get_group d (grp_id g) = Some g
   | (d', Inl e) \<Rightarrow> members d' = members d \<and>
       (if snd (redeem now t gw d) = None then invites d' = invites d
        else token_used d' t \<and> e = Sql_err ''add group member'' Unique_violation)"
proof (cases "snd (redeem now t gw d)")
  case None
  then have no: "\<not> (iv_token r = t \<and> iv_used_at r = None \<and> now < iv_expires_at r)" if "r \<in> set (invites d)" for r
    using that by (auto simp: redeem_def Let_def find_None_iff)
  have "invites (fst (redeem now t gw d)) = map (\<lambda>r. if iv_token r = t \<and> iv_used_at r = None \<and> now < iv_expires_at r
      then r\<lparr>iv_used_at := Some now, iv_used_by := Some gw\<rparr> else r) (invites d)"
    by (simp add: redeem_def Let_def update_where_def)
  also have "\<dots> = invites d"
    by (rule map_idI) (rule if_not_P, rule no)
  finally have "invites (fst (redeem now t gw d)) = invites d" .
  moreover obtain d1 where red: "redeem now t gw d = (d1, None)"
    using None by (metis prod.collapse)
  moreover have "members d1 = members d"
    using redeem_frame(2) [of now t gw d] unfolding red by simp
  ultimately show ?thesis
    by (simp add: consume_invite_def)
next
  case (Some x)
  obtain d1 g cb where red: "redeem now t gw d = (d1, Some (g, cb))"
    using Some by (cases "redeem now t gw d"; cases x) auto
  have key: "keyed iv_token (invites d)" using assms by (simp add: group_inv_def)
  note marks = redeem_marks [OF red key]
  have frame: "groups d1 = groups d" "members d1 = members d"
    using redeem_frame [of now t gw d] red by simp_all
  have "g \<in> gr_id ` set (groups d)"
    using assms marks(2) by (auto simp: group_inv_def)
  then obtain gr where gr: "find_by gr_id g (groups d) = Some gr"
    by (metis find_by_None option.exhaust)
  then have id: "gr_id gr = g" by (auto dest: find_by_Some)
  show ?thesis
    using marks(1) frame gr id red \<open>g \<in> gr_id ` set (groups d)\<close>
    by (auto simp: consume_invite_def add_member_def bindA_def askA_def needA_def ret_def get_group_def
        has_key_iff is_member_def group_of_row_def token_used_def)
qed

lemma consume_invite_spec_witness:
  "case consume_invite 2 ''t'' ''gw2'' invite_db of
     (d', Inr g) \<Rightarrow> \<not> is_member invite_db (grp_id g) ''gw2'' \<and> is_member d' (grp_id g) ''gw2'' \<and> token_used d' ''t'' \<and>
       get_group invite_db (grp_id g) = Some g
   | (d', Inl e) \<Rightarrow> members d' = members invite_db \<and>
       (if snd (redeem 2 ''t'' ''gw2'' invite_db) = None then invites d' = invites invite_db
        else token_used d' ''t'' \<and> e = Sql_err ''add group member'' Unique_violation)"
proof (rule consume_invite_spec)
  show "group_inv invite_db"
    unfolding invite_db_def by (rule group_system.run_inv) (simp add: group_inv_def empty_db_def table_simps)
qed

end
