(* ===== verification/Gateway_Rules.thy ===== *)
theory Gateway_Rules
  imports Identity Onboarding Contributions File_Sync Group_Store
begin

text \<open>
  The rules that hold of the database whichever server, page or background task writes it. One order on databases
  (\<open>db_order\<close>) collects what a gateway promises about its data: what is kept for ever, what typing of the
  tables is preserved, which onboarding step is never entered, and which endpoints agents may get (a parameter). Every statement that a gateway's entry points
  execute moves along it; the servers are composed of these statements (theory \<open>Gateway\<close>).
\<close>

subsection \<open>The typing of the tables\<close>

definition identity_typed :: "db \<Rightarrow> bool" where
  "identity_typed d \<longleftrightarrow> keyed ar_name (agents d) \<and> keyed td_id (todos d) \<and>
     (\<forall>r \<in> set (todos d). td_id r < todo_serial d \<and> td_agent_name r \<in> ar_name ` set (agents d) \<and>
        td_status r \<in> {''pending'', ''done''}) \<and>
     keyed fst (memories d) \<and> fst ` set (memories d) \<subseteq> ar_name ` set (agents d) \<and>
     keyed mf_id (facts d) \<and> mf_agent_name ` set (facts d) \<subseteq> ar_name ` set (agents d)"

definition log_typed :: "db \<Rightarrow> bool" where
  "log_typed d \<longleftrightarrow> keyed lr_id (task_log d) \<and>
     (\<forall>r \<in> set (task_log d). lr_project_id r \<in> pr_id ` set (projects d) \<and> lr_entry_type r \<in> range entry_type_as_str \<and>
        (\<forall>st. lr_task_status r = Some st \<longrightarrow> st \<in> range task_status_as_str) \<and>
        (\<forall>i. lr_todo_id r = Some i \<longrightarrow> i \<in> td_id ` set (todos d)))"

definition votes_typed :: "db \<Rightarrow> bool" where
  "votes_typed d \<longleftrightarrow> keyed pp_id (proposals d) \<and> keyed voter_key (votes d) \<and> keyed vt_id (votes d) \<and>
     (\<forall>r \<in> set (proposals d). pp_status r \<in> range status_as_str \<and> pp_project_id r \<in> pr_id ` set (projects d) \<and>
        pp_snapshot_id r \<in> sn_id ` set (snapshots d)) \<and>
     (\<forall>v \<in> set (votes d). vt_vote v \<in> range vote_as_str \<and> vt_proposal_id v \<in> pp_id ` set (proposals d))"

abbreviation cursor_key :: "peer_cursor_row \<Rightarrow> string \<times> string" where
  "cursor_key r \<equiv> (pc_peer_name r, pc_project_id r)"

definition sync_typed :: "db \<Rightarrow> bool" where
  "sync_typed d \<longleftrightarrow> keyed ob_sha256 (objects d) \<and> sn_project_id ` set (snapshots d) \<subseteq> pr_id ` set (projects d) \<and>
     keyed cursor_key (peer_cursors d)"

definition work_typed :: "db \<Rightarrow> bool" where
  "work_typed d \<longleftrightarrow> keyed pt_id (project_todos d) \<and> keyed pt_task (project_todos d) \<and>
     (\<forall>r \<in> set (project_todos d). pt_id r < project_todo_serial d) \<and>
     keyed (\<lambda>r. (ap_agent_name r, ap_project_id r)) (agent_projects d)"

definition db_typed :: "db \<Rightarrow> bool" where
  "db_typed d \<longleftrightarrow> identity_typed d \<and> project_inv d \<and> log_typed d \<and> votes_typed d \<and> heads_inv d \<and> group_inv d \<and>
     sync_typed d \<and> work_typed d"

subsection \<open>What is kept\<close>

definition db_reg :: "db \<Rightarrow> registry" where
  "db_reg d = \<lparr>rg_db = d, rg_cache = []\<rparr>"

definition db_kept :: "db \<Rightarrow> db \<Rightarrow> bool" where
  "db_kept d d' \<longleftrightarrow>
     soul_kept (db_reg d) (db_reg d') \<and> memory_kept (db_reg d) (db_reg d') \<and> todos_kept (db_reg d) (db_reg d') \<and>
     visibility_at d' = visibility_at d \<and> prefix (task_log d) (task_log d') \<and> status_followed d d' \<and>
     prefix (snapshots d) (snapshots d') \<and> prefix (members d) (members d')"

definition asked_for_task :: "db \<Rightarrow> string \<Rightarrow> bool" where
  "asked_for_task d i \<longleftrightarrow> onboarding_at d i = Some (Some ''awaiting_user_input'')"

definition agent_endpoints :: "db \<Rightarrow> string set" where
  "agent_endpoints d = ar_endpoint ` set (agents d)"

definition db_order :: "string set \<Rightarrow> db \<Rightarrow> db \<Rightarrow> bool" where
  "db_order A d d' \<longleftrightarrow> db_kept d d' \<and> (db_typed d \<longrightarrow> db_typed d') \<and> (\<forall>i. asked_for_task d' i \<longrightarrow> asked_for_task d i) \<and>
     agent_endpoints d' \<subseteq> agent_endpoints d \<union> A"

lemma kept_refl: "soul_kept s s" "memory_kept s s" "todos_kept s s"
  by (rule soul_history.ext_refl memory_history.ext_refl todo_history.ext_refl)+

lemma kept_trans:
  "soul_kept s t \<Longrightarrow> soul_kept t u \<Longrightarrow> soul_kept s u"
  "memory_kept s t \<Longrightarrow> memory_kept t u \<Longrightarrow> memory_kept s u"
  "todos_kept s t \<Longrightarrow> todos_kept t u \<Longrightarrow> todos_kept s u"
  by (rule soul_history.ext_trans memory_history.ext_trans todo_history.ext_trans; assumption)+

interpretation db_rules: history_order "db_order A" for A
proof
  show "db_order A s s" for s
    by (simp add: db_order_def db_kept_def kept_refl proposal_history.ext_refl)
  show "db_order A s t \<Longrightarrow> db_order A t u \<Longrightarrow> db_order A s u" for s t u
    unfolding db_order_def db_kept_def
    by (elim conjE, intro conjI; (rule trans, assumption, assumption)?)
      (blast intro: kept_trans proposal_history.ext_trans prefix_order.trans)+
qed

subsection \<open>Writes outside the promises\<close>

lemma identity_kept_same:
  assumes "agents d' = agents d" "memories d' = memories d" "todos d' = todos d"
  shows "soul_kept (db_reg d) (db_reg d')" "memory_kept (db_reg d) (db_reg d')" "todos_kept (db_reg d) (db_reg d')"
proof -
  have "soul_of (db_reg d') = soul_of (db_reg d)" "memory_of (db_reg d') = memory_of (db_reg d)"
    "todo_facts (db_reg d') = todo_facts (db_reg d)" "done_ids (db_reg d') = done_ids (db_reg d)"
    using assms by (simp_all add: fun_eq_iff soul_of_def memory_of_def todo_facts_def done_ids_def db_reg_def)
  then show "soul_kept (db_reg d) (db_reg d')" "memory_kept (db_reg d) (db_reg d')" "todos_kept (db_reg d) (db_reg d')"
    by (simp_all add: soul_kept_def memory_kept_def todos_kept_def)
qed

lemma projects_same:
  assumes "projects d' = projects d"
  shows "visibility_at d' = visibility_at d" "asked_for_task d' i = asked_for_task d i"
  using assms by (simp_all add: fun_eq_iff visibility_at_def get_project_def asked_for_task_def onboarding_at_def)

lemmas other_tables = db_typed_def identity_typed_def log_typed_def votes_typed_def heads_inv_def group_inv_def project_inv_def
  sync_typed_def work_typed_def

lemma order_frame:
  assumes "agents d' = agents d" "memories d' = memories d" "todos d' = todos d" "projects d' = projects d"
    "proposals d' = proposals d" "prefix (task_log d) (task_log d')" "prefix (snapshots d) (snapshots d')"
    "prefix (members d) (members d')" "db_typed d \<Longrightarrow> db_typed d'"
  shows "db_order A d d'"
  unfolding db_order_def db_kept_def
  using assms(1,6-9) identity_kept_same [OF assms(1-3)] projects_same [OF assms(4)] status_followed_same [OF assms(5)]
  by (simp add: agent_endpoints_def)

text \<open>Tables that no promise mentions: object rows, the peer cursors, the reconciler's todos.\<close>

lemma order_outside:
  "db_order A d (d\<lparr>objects := insert_ignore ob_sha256 x (objects d)\<rparr>)"
  "(\<And>r. cursor_key (merge r) = cursor_key r) \<Longrightarrow> db_order A d (d\<lparr>peer_cursors := insert_or cursor_key c merge (peer_cursors d)\<rparr>)"
  "pt_id t = project_todo_serial d \<Longrightarrow> db_order A d (d\<lparr>project_todo_serial := project_todo_serial d + 1,
     project_todos := insert_ignore pt_task t (project_todos d)\<rparr>)"
proof -
  show "db_order A d (d\<lparr>objects := insert_ignore ob_sha256 x (objects d)\<rparr>)"
    by (rule order_frame) (simp_all add: other_tables keyed_insert_ignore)
  show "db_order A d (d\<lparr>peer_cursors := insert_or cursor_key c merge (peer_cursors d)\<rparr>)"
    if "\<And>r. cursor_key (merge r) = cursor_key r"
    using keyed_insert_or [of cursor_key c merge "peer_cursors d"] that
    by (intro order_frame) (simp_all add: other_tables)
  show "db_order A d (d\<lparr>project_todo_serial := project_todo_serial d + 1,
      project_todos := insert_ignore pt_task t (project_todos d)\<rparr>)" if "pt_id t = project_todo_serial d"
  proof (rule order_frame)
    have "work_typed d \<Longrightarrow> keyed pt_id (insert_ignore pt_task t (project_todos d))"
      using that by (auto simp: work_typed_def insert_ignore_def table_simps)
    moreover have "work_typed d \<Longrightarrow> \<forall>r \<in> set (insert_ignore pt_task t (project_todos d)). pt_id r < project_todo_serial d + 1"
      using that by (auto simp: work_typed_def insert_ignore_def)
    ultimately show "db_typed d \<Longrightarrow> db_typed (d\<lparr>project_todo_serial := project_todo_serial d + 1,
        project_todos := insert_ignore pt_task t (project_todos d)\<rparr>)"
      by (simp add: other_tables keyed_insert_ignore)
  qed simp_all
qed

subsection \<open>Projects and the log\<close>

lemma order_project_update:
  assumes id: "\<And>r. pr_id (f r) = pr_id r" and "\<And>r. pr_name (f r) = pr_name r" and vis: "\<And>r. pr_visibility (f r) = pr_visibility r"
    and step: "\<And>r. pr_onboarding_step (f r) = Some ''awaiting_user_input'' \<Longrightarrow> pr_onboarding_step r = Some ''awaiting_user_input''"
  shows "db_order A d (update_project i now f d)"
proof -
  let ?d = "update_project i now f d"
  have ids: "pr_id ` set (projects ?d) = pr_id ` set (projects d)"
    using update_where_keys [of "\<lambda>r. pr_id r = i" pr_id "\<lambda>r. (f r)\<lparr>pr_updated_at := now\<rparr>" "projects d"] id
    by (simp add: update_project_def flip: set_map)
  have inv: "project_inv d \<Longrightarrow> project_inv ?d"
    using assms(1-3) by (intro project_inv_update) auto
  have rest: "agents ?d = agents d" "memories ?d = memories d" "todos ?d = todos d" "todo_serial ?d = todo_serial d"
    "task_log ?d = task_log d" "proposals ?d = proposals d" "votes ?d = votes d" "snapshots ?d = snapshots d"
    "project_heads ?d = project_heads d" "groups ?d = groups d" "members ?d = members d" "invites ?d = invites d"
    "group_projects ?d = group_projects d" "facts ?d = facts d" "objects ?d = objects d" "peer_cursors ?d = peer_cursors d"
    "project_todos ?d = project_todos d" "project_todo_serial ?d = project_todo_serial d" "agent_projects ?d = agent_projects d"
    by (simp_all add: update_project_def)
  have "asked_for_task ?d j \<Longrightarrow> asked_for_task d j" for j
    using step
    by (auto simp: asked_for_task_def onboarding_update [OF id] split: if_splits) (auto simp: onboarding_at_find)
  moreover have "visibility_at ?d = visibility_at d"
    by (simp add: fun_eq_iff visibility_update [of f, OF id vis])
  moreover have "db_typed d \<Longrightarrow> db_typed ?d"
    using inv ids rest by (simp add: db_typed_def identity_typed_def log_typed_def votes_typed_def heads_inv_def group_inv_def
      sync_typed_def work_typed_def)
  ultimately show ?thesis
    unfolding db_order_def db_kept_def
    using rest identity_kept_same [OF rest(1-3)] status_followed_same [OF rest(6)] by (simp add: agent_endpoints_def)
qed

lemma moves_project_acts:
  "moves (db_order A) (set_folder_path cn dr now i path)"
  "moves (db_order A) (set_file_glob now i g)"
  "st \<noteq> Some ''awaiting_user_input'' \<Longrightarrow> moves (db_order A) (set_onboarding_step now i st)"
  by (auto simp: moves_def exec_def set_folder_path_def set_file_glob_def set_onboarding_step_def db_rules.ext_refl
      intro!: order_project_update split: option.split)

lemma order_log_append:
  assumes "lr_id r \<notin> lr_id ` set (task_log d)" "project_exists d (lr_project_id r)" "todo_known d (lr_todo_id r)"
    "lr_entry_type r \<in> range entry_type_as_str" "\<And>st. lr_task_status r = Some st \<Longrightarrow> st \<in> range task_status_as_str"
  shows "db_order A d (d\<lparr>task_log := task_log d @ [r]\<rparr>)"
proof (rule order_frame)
  have "log_typed d \<Longrightarrow> log_typed (d\<lparr>task_log := task_log d @ [r]\<rparr>)"
    using assms by (auto simp: log_typed_def table_simps todo_known_def split: option.splits)
  then show "db_typed d \<Longrightarrow> db_typed (d\<lparr>task_log := task_log d @ [r]\<rparr>)"
    by (simp add: db_typed_def identity_typed_def votes_typed_def heads_inv_def group_inv_def project_inv_def
        sync_typed_def work_typed_def)
qed simp_all

lemma log_row_of_typed:
  "lr_entry_type (log_row_of p e) \<in> range entry_type_as_str"
  "lr_task_status (log_row_of p e) = Some st \<Longrightarrow> st \<in> range task_status_as_str"
  "lr_id (log_row_of p e) = le_id e" "lr_project_id (log_row_of p e) = p" "lr_todo_id (log_row_of p e) = le_todo_id e"
  by (auto simp: log_row_of_def)

lemma moves_log_acts:
  "moves (db_order A) (append_entry H k i now p g a t c td)"
  "moves (db_order A) (insert_peer_entry p e g)"
  by (auto simp: moves_def exec_def append_entry_def append_with_status_def insert_peer_entry_def Let_def db_rules.ext_refl
      log_row_of_typed table_simps intro!: order_log_append)

subsection \<open>Proposals and votes\<close>

text \<open>The proposal operations write proposals and votes only, and their strings come from the enums.\<close>

lemma order_votes:
  assumes "d' = d\<lparr>proposals := ps, votes := vs\<rparr>" "status_followed d d'" "votes_typed d \<Longrightarrow> votes_typed d'"
  shows "db_order A d d'"
proof -
  have [simp]: "agents d' = agents d" "memories d' = memories d" "todos d' = todos d" "projects d' = projects d"
    "task_log d' = task_log d" "snapshots d' = snapshots d" "members d' = members d"
    "todo_serial d' = todo_serial d" "project_heads d' = project_heads d" "groups d' = groups d"
    "invites d' = invites d" "group_projects d' = group_projects d" "facts d' = facts d" "objects d' = objects d"
    "peer_cursors d' = peer_cursors d" "project_todos d' = project_todos d" "project_todo_serial d' = project_todo_serial d"
    "agent_projects d' = agent_projects d"
    using assms(1) by simp_all
  have "db_typed d \<Longrightarrow> db_typed d'"
    using assms(3) by (simp add: db_typed_def identity_typed_def log_typed_def heads_inv_def group_inv_def project_inv_def
        sync_typed_def work_typed_def)
  then show ?thesis
    unfolding db_order_def db_kept_def
    using assms(2) identity_kept_same [of d' d] projects_same [of d' d] by (simp add: agent_endpoints_def)
qed

lemma votes_typed_update:
  assumes "votes_typed d" "\<And>r. pp_id (f r) = pp_id r" "\<And>r. pp_project_id (f r) = pp_project_id r"
    "\<And>r. pp_snapshot_id (f r) = pp_snapshot_id r" "\<And>r. pp_status (f r) \<in> range status_as_str"
  shows "votes_typed (d\<lparr>proposals := update_where (\<lambda>r. pp_id r = i) f (proposals d)\<rparr>)"
proof -
  have ids: "pp_id ` set (update_where (\<lambda>r. pp_id r = i) f (proposals d)) = pp_id ` set (proposals d)"
    using update_where_keys [of "\<lambda>r. pp_id r = i" pp_id f "proposals d"] assms(2) by (simp flip: set_map)
  show ?thesis
    using assms by (auto simp: votes_typed_def keyed_update_where ids) (auto simp: update_where_def)
qed

lemma votes_typed_resolve: "votes_typed d \<Longrightarrow> votes_typed (resolve now i st by d)"
  unfolding resolve_def by (rule votes_typed_update) simp_all

lemma votes_typed_set: "votes_typed d \<Longrightarrow> votes_typed (set_status i st d)"
  unfolding set_status_def by (rule votes_typed_update) simp_all

lemma votes_typed_vote:
  assumes "votes_typed d" "get_proposal d (vo_proposal_id v) \<noteq> None"
    "\<not> has_key voter_key (voter_key (vote_row_of v)) (votes d)" "\<not> has_key vt_id (vo_id v) (votes d)"
  shows "votes_typed (d\<lparr>votes := votes d @ [vote_row_of v]\<rparr>)"
proof -
  have "vt_vote (vote_row_of v) \<in> range vote_as_str" "vt_proposal_id (vote_row_of v) \<in> pp_id ` set (proposals d)"
    "vt_id (vote_row_of v) = vo_id v"
    using assms(2) by (auto simp: vote_row_of_def get_proposal_def table_simps)
  with assms(1,3,4) show ?thesis
    by (auto simp: votes_typed_def table_simps)
qed

lemma votes_typed_check: "votes_typed d \<Longrightarrow> votes_typed (exec (check_vote_outcome now p pr) d)"
  by (simp add: exec_def check_vote_outcome_def Let_def votes_typed_resolve)

definition votes_only :: "db \<Rightarrow> db \<Rightarrow> bool" where
  "votes_only d d' \<longleftrightarrow> d' = d\<lparr>proposals := proposals d', votes := votes d'\<rparr>"

lemma votes_only_check: "votes_only d (exec (check_vote_outcome now p pr) d)"
  "votes_only d (exec (check_vote_outcome now p pr) (d\<lparr>votes := vs\<rparr>))"
  by (simp_all add: votes_only_def exec_def check_vote_outcome_def Let_def resolve_def)

lemma proposal_step_votes_only: "votes_only d (proposal_step op d)"
proof (cases op)
  case (Cast_vote i now p g a k r)
  then show ?thesis
    using votes_only_check [of d now p, unfolded exec_def]
    by (simp add: exec_def cast_vote_def Let_def split: option.split) (simp add: votes_only_def)
qed (simp_all add: votes_only_def exec_def open_proposal_def accept_pr_def reject_pr_def Let_def resolve_def set_status_def
    split: option.split)

lemma status_strings: "''voting'' \<in> range status_as_str" "''pr_pending'' \<in> range status_as_str"
  by (rule range_eqI [of _ _ Voting], simp) (rule range_eqI [of _ _ PrPending], simp)

lemma votes_typed_step: "votes_typed d \<Longrightarrow> votes_typed (proposal_step op d)"
proof (cases op)
  case (Cast_vote i now p g a k r)
  assume "votes_typed d"
  with Cast_vote show ?thesis
    by (auto simp: exec_def cast_vote_def Let_def votes_typed_check [unfolded exec_def] votes_typed_vote
        split: option.split)
qed (auto simp: exec_def open_proposal_def accept_pr_def reject_pr_def Let_def votes_typed_resolve votes_typed_set
    split: option.split, auto simp: votes_typed_def table_simps status_strings)

lemma order_proposal_step: "db_order A d (proposal_step op d)"
  using proposal_step_votes_only [unfolded votes_only_def] proposal_history.step_ext votes_typed_step by (rule order_votes)

lemma moves_proposal_acts:
  "moves (db_order A) (open_proposal i now p g a sn de n)"
  "moves (db_order A) (cast_vote i now p g a k r)"
  "moves (db_order A) (accept_pr now p g)"
  "moves (db_order A) (reject_pr now p g)"
  using order_proposal_step [of A _ "Open_proposal i now p g a sn de n"] order_proposal_step [of A _ "Cast_vote i now p g a k r"]
    order_proposal_step [of A _ "Accept_pr now p g"] order_proposal_step [of A _ "Reject_pr now p g"]
  by (simp_all add: moves_def)

subsection \<open>Snapshots, groups, agents\<close>

lemma moves_apply_peer: "moves (db_order A) (apply_peer_snapshot now p i t g)"
proof -
  have "db_order A d (store_snapshot now r d)"
    if "\<not> has_key sn_id (sn_id r) (snapshots d)" "project_exists d (sn_project_id r)" for r d
  proof (rule order_frame)
    show "db_typed d \<Longrightarrow> db_typed (store_snapshot now r d)"
      using heads_inv_store [of d r now] that
      by (auto simp: db_typed_def) (auto simp: store_snapshot_def other_tables table_simps)
  qed (simp_all add: store_snapshot_def)
  then show ?thesis
    by (auto simp: moves_def exec_def apply_peer_cases Let_def db_rules.ext_refl)
qed

lemma order_redeem: "db_order A d (fst (redeem now t gw d))"
proof (rule order_frame)
  show "db_typed d \<Longrightarrow> db_typed (fst (redeem now t gw d))"
    using group_inv_redeem [of d now t gw]
    by (simp add: db_typed_def) (simp add: redeem_def Let_def identity_typed_def project_inv_def log_typed_def votes_typed_def heads_inv_def
        sync_typed_def work_typed_def)
qed (simp_all add: redeem_def Let_def)

lemma order_add_member: "db_order A d (exec (add_member now g gw cb) d)"
proof (rule order_frame)
  show "db_typed d \<Longrightarrow> db_typed (exec (add_member now g gw cb) d)"
    using group_inv_add_member [of d now g gw cb]
    by (simp add: db_typed_def)
      (simp add: exec_def add_member_def identity_typed_def project_inv_def log_typed_def votes_typed_def heads_inv_def
        sync_typed_def work_typed_def)
qed (simp_all add: exec_def add_member_def)

lemma moves_consume: "moves (db_order A) (consume_invite now t gw)"
  using order_redeem [of A _ now t gw] db_rules.ext_trans [OF order_redeem [of A _ now t gw] order_add_member]
  by (simp add: moves_def consume_exec case_prod_beta split: option.split)

lemma agent_step_frame:
  "projects (rg_db (agent_step J op s)) = projects (rg_db s)" "task_log (rg_db (agent_step J op s)) = task_log (rg_db s)"
  "proposals (rg_db (agent_step J op s)) = proposals (rg_db s)" "votes (rg_db (agent_step J op s)) = votes (rg_db s)"
  "snapshots (rg_db (agent_step J op s)) = snapshots (rg_db s)" "members (rg_db (agent_step J op s)) = members (rg_db s)"
  "project_heads (rg_db (agent_step J op s)) = project_heads (rg_db s)" "groups (rg_db (agent_step J op s)) = groups (rg_db s)"
  "invites (rg_db (agent_step J op s)) = invites (rg_db s)" "group_projects (rg_db (agent_step J op s)) = group_projects (rg_db s)"
  "facts (rg_db (agent_step J op s)) = facts (rg_db s)" "objects (rg_db (agent_step J op s)) = objects (rg_db s)"
  "peer_cursors (rg_db (agent_step J op s)) = peer_cursors (rg_db s)" "project_todos (rg_db (agent_step J op s)) = project_todos (rg_db s)"
  "project_todo_serial (rg_db (agent_step J op s)) = project_todo_serial (rg_db s)"
  "agent_projects (rg_db (agent_step J op s)) = agent_projects (rg_db s)"
  by (cases op; simp add: agent_step_defs split: prod.split)+

lemma agent_step_todo_ids: "td_id ` set (todos (rg_db s)) \<subseteq> td_id ` set (todos (rg_db (agent_step J op s)))"
proof -
  have "set (map fst (todo_facts s)) \<subseteq> set (map fst (todo_facts (agent_step J op s)))"
    using todos_kept_step [of s J op] by (auto simp: todos_kept_def dest!: set_mono_prefix)
  then show ?thesis by (simp add: todo_facts_def comp_def)
qed

lemma insert_or_keys:
  assumes "\<And>r. key (merge r) = key r"
  shows "key ` set (insert_or key row merge rows) = insert (key row) (key ` set rows)"
proof (cases "has_key key (key row) rows")
  case True
  then show ?thesis
    using update_where_keys [of "\<lambda>r. key r = key row" key merge rows] assms
    by (auto simp: insert_or_def has_key_iff simp flip: set_map)
qed (simp add: insert_or_def)

lemma update_where_ids: "(\<And>r. key (f r) = key r) \<Longrightarrow> key ` set (update_where p f rows) = key ` set rows"
  using update_where_keys [of p key f rows] by (simp flip: set_map)

lemma identity_typed_step:
  assumes "identity_typed (rg_db s)"
  shows "identity_typed (rg_db (agent_step J op s))"
proof (cases op)
  case (Upsert e)
  let ?rows = "insert_or ar_name (agent_row_of J e) (merge_agent J e) (agents (rg_db s))"
  have "keyed ar_name ?rows"
    using assms by (simp add: identity_typed_def keyed_agents_upsert)
  moreover have "ar_name ` set ?rows = insert (ae_name e) (ar_name ` set (agents (rg_db s)))"
    by (subst insert_or_keys) (simp_all add: merge_agent_def agent_row_of_def)
  moreover have "keyed fst (insert_ignore fst (ae_name e, []) (memories (rg_db s)))"
    "fst ` set (insert_ignore fst (ae_name e, []) (memories (rg_db s))) \<subseteq> insert (ae_name e) (ar_name ` set (agents (rg_db s)))"
    using assms by (auto simp: identity_typed_def keyed_insert_ignore) (auto simp: insert_ignore_def split: if_splits)
  ultimately show ?thesis
    using assms Upsert by (auto simp: identity_typed_def agent_step_defs)
next
  case (Append_todo now n t)
  with assms show ?thesis
    by (fastforce simp: identity_typed_def agent_step_defs table_simps)
next
  case (Complete_todo now i nts)
  with assms show ?thesis
    by (auto simp: identity_typed_def agent_step_defs keyed_update_where) (auto simp: update_where_def)
next
  case (Heartbeat now n)
  with assms show ?thesis
    by (auto simp: identity_typed_def agent_step_defs keyed_update_where update_where_ids)
next
  case (Set_soul n c)
  with assms show ?thesis
    by (auto simp: identity_typed_def agent_step_defs keyed_update_where update_where_ids)
next
  case (Append_memory n c)
  with assms show ?thesis
    by (simp add: agent_step_defs)
qed

text \<open>The endpoints that operations on agents bring in are those of their upserts, in the table and in the cache.\<close>

definition brings :: "agent_op list \<Rightarrow> string set" where
  "brings ops = {ae_endpoint e | e. Upsert e \<in> set ops}"

definition cache_endpoints :: "agent_entry list \<Rightarrow> string set" where
  "cache_endpoints c = ae_endpoint ` set c"

lemma insert_or_image:
  assumes "\<And>r. v (merge r) = v row"
  shows "v ` set (insert_or key row merge rows) \<subseteq> insert (v row) (v ` set rows)"
  using assms by (auto simp: insert_or_def update_where_def)

lemma agent_step_endpoints:
  "agent_endpoints (rg_db (agent_step J op s)) \<subseteq> agent_endpoints (rg_db s) \<union> brings [op]"
  "cache_endpoints (rg_cache (agent_step J op s)) \<subseteq> cache_endpoints (rg_cache s) \<union> brings [op]"
proof -
  have "ar_endpoint ` set (insert_or ar_name (agent_row_of J e) (merge_agent J e) rows) \<subseteq> insert (ae_endpoint e) (ar_endpoint ` set rows)"
    "ae_endpoint ` set (cache_insert e c) \<subseteq> insert (ae_endpoint e) (ae_endpoint ` set c)" for e rows c
    using insert_or_image [of ar_endpoint "merge_agent J e" "agent_row_of J e" ar_name rows]
      insert_or_image [of ae_endpoint "\<lambda>_. e" e ae_name c]
    by (simp_all add: merge_agent_def agent_row_of_def cache_insert_def)
  then show "agent_endpoints (rg_db (agent_step J op s)) \<subseteq> agent_endpoints (rg_db s) \<union> brings [op]"
    "cache_endpoints (rg_cache (agent_step J op s)) \<subseteq> cache_endpoints (rg_cache s) \<union> brings [op]"
    by (cases op; simp add: agent_endpoints_def cache_endpoints_def brings_def agent_step_defs update_where_ids split: prod.split)+
qed

lemma cache_run_endpoints:
  "cache_endpoints (rg_cache (runA (agent_step J) s ops)) \<subseteq> cache_endpoints (rg_cache s) \<union> brings ops"
proof (induction ops arbitrary: s)
  case (Cons op ops)
  have "brings (op # ops) = brings [op] \<union> brings ops" by (auto simp: brings_def)
  with Cons [of "agent_step J op s"] agent_step_endpoints(2) [of J op s] show ?case by fastforce
qed simp

lemma order_agent_step:
  assumes "brings [op] \<subseteq> A"
  shows "db_order A (rg_db s) (rg_db (agent_step J op s))"
proof -
  let ?t = "agent_step J op s"
  have "log_typed (rg_db s) \<Longrightarrow> log_typed (rg_db ?t)"
    unfolding log_typed_def agent_step_frame using agent_step_todo_ids [of s J op] by fast
  then have "db_typed (rg_db s) \<Longrightarrow> db_typed (rg_db ?t)"
    using identity_typed_step [of s J op]
    by (simp add: db_typed_def project_inv_def votes_typed_def heads_inv_def group_inv_def sync_typed_def work_typed_def
        agent_step_frame)
  moreover have "soul_kept (db_reg (rg_db s)) (db_reg (rg_db ?t)) = soul_kept s ?t"
    "memory_kept (db_reg (rg_db s)) (db_reg (rg_db ?t)) = memory_kept s ?t"
    "todos_kept (db_reg (rg_db s)) (db_reg (rg_db ?t)) = todos_kept s ?t"
    by (simp_all add: soul_kept_def soul_of_def memory_kept_def memory_of_def todos_kept_def todo_facts_def done_ids_def db_reg_def)
  ultimately show ?thesis
    unfolding db_order_def db_kept_def
    using soul_kept_step [of s J op] memory_kept_step [of s J op] todos_kept_step [of s J op]
      projects_same [OF agent_step_frame(1)] status_followed_same [OF agent_step_frame(3)]
      agent_step_endpoints(1) [of J op s] assms
    by (simp add: agent_step_frame) blast
qed

lemma order_agent_run: "brings ops \<subseteq> A \<Longrightarrow> db_order A (rg_db s) (rg_db (runA (agent_step J) s ops))"
proof (induction ops arbitrary: s)
  case (Cons op ops)
  then have "brings [op] \<subseteq> A" "brings ops \<subseteq> A" by (auto simp: brings_def)
  with Cons.IH [of "agent_step J op s"] order_agent_step [of op A s J] show ?case
    by (simp del: agent_step.simps) (rule db_rules.ext_trans)
qed (simp add: db_rules.ext_refl)

lemmas db_moves = moves_project_acts moves_log_acts moves_proposal_acts moves_apply_peer moves_consume

end
