(* ===== verification/Grpc.thy ===== *)
theory Grpc
  imports Gateway_Db
begin

text \<open>
  gRPC statuses and the classification of call errors (\<open>error_class.rs\<close>). A handler of the two gRPC servers
  is an effect whose error is a \<open>status\<close>; \<open>Unwound\<close> is a panic inside the handler, which ends its
  connection without a status. The text of a database error (\<open>Sql_err\<close> without a context of its own) is
  a parameter, \<open>sql_text\<close>.

  Lemmas: which codes are retried.
\<close>

datatype code = Code_ok | Cancelled_code | Unknown_code | Invalid_argument | Deadline_exceeded | Not_found_code
  | Already_exists | Permission_denied | Resource_exhausted | Failed_precondition | Aborted_code | Out_of_range
  | Unimplemented | Internal | Unavailable | Data_loss | Unauthenticated

datatype status = Status code string | Unwound string

text \<open>\<open>Display\<close> of an error: its outermost context.\<close>

type_synonym sql_text = "violation \<Rightarrow> string"

definition err_text :: "sql_text \<Rightarrow> err \<Rightarrow> string" where
  "err_text T e = (case e of Anyhow m \<Rightarrow> m | Sql_err ctx v \<Rightarrow> if ctx = [] then T v else ctx | Panicked m \<Rightarrow> m)"

text \<open>A \<open>map_err\<close> of a handler: a panic passes through it.\<close>

definition status_of :: "code \<Rightarrow> sql_text \<Rightarrow> err \<Rightarrow> status" where
  "status_of c T e = (case e of Panicked m \<Rightarrow> Unwound m | _ \<Rightarrow> Status c (err_text T e))"

definition internal :: "sql_text \<Rightarrow> err \<Rightarrow> status" where
  "internal T e = status_of Internal T e"

text \<open>How an HTTP post whose answer is read as bytes may end.\<close>

datatype post_outcome = Send_failed string | Body_failed string | Body string

subsection \<open>Classes of call errors\<close>

datatype error_class = Transient | Permanent | Needs_human

fun error_class_as_str :: "error_class \<Rightarrow> string" where
  "error_class_as_str Transient = ''transient''"
| "error_class_as_str Permanent = ''permanent''"
| "error_class_as_str Needs_human = ''needs_human''"

definition from_http_status :: "16 word \<Rightarrow> error_class" where
  "from_http_status status =
     (if status \<in> {408, 429, 500, 502, 503, 504} then Transient
      else if status = 409 then Needs_human
      else if 400 \<le> status \<and> status \<le> 499 then Permanent
      else Transient)"

fun from_grpc_code :: "code \<Rightarrow> error_class" where
  "from_grpc_code Unavailable = Transient"
| "from_grpc_code Deadline_exceeded = Transient"
| "from_grpc_code Aborted_code = Transient"
| "from_grpc_code Resource_exhausted = Transient"
| "from_grpc_code Unknown_code = Transient"
| "from_grpc_code Internal = Transient"
| "from_grpc_code Failed_precondition = Needs_human"
| "from_grpc_code _ = Permanent"

text \<open>What the classification asks of a \<open>reqwest::Error\<close>.\<close>

record reqwest_error =
  re_is_timeout :: bool
  re_is_connect :: bool
  re_is_status :: bool
  re_status :: "(16 word) option"

definition from_reqwest_error :: "reqwest_error \<Rightarrow> error_class" where
  "from_reqwest_error e =
     (if re_is_timeout e \<or> re_is_connect e then Transient
      else if re_is_status e then (case re_status e of Some s \<Rightarrow> from_http_status s | None \<Rightarrow> Transient)
      else Transient)"

fun should_retry :: "error_class \<Rightarrow> bool" where
  "should_retry Transient = True"
| "should_retry _ = False"

text \<open>An HTTP answer is given up on exactly for the client errors that are not about timing or rate.\<close>

lemma http_retry_iff:
  "should_retry (from_http_status s) \<longleftrightarrow> \<not> (400 \<le> s \<and> s \<le> 499 \<and> s \<notin> {408, 429})"
proof -
  have "s \<in> {500, 502, 503, 504} \<Longrightarrow> \<not> s \<le> 499"
    by auto
  moreover have "(400 :: 16 word) \<le> 409 \<and> (409 :: 16 word) \<le> 499"
    by simp
  ultimately show ?thesis
    unfolding from_http_status_def by (auto split: if_splits)
qed

end
