(* ===== verification/Config.thy ===== *)
theory Config
  imports A2A_Prelude
begin

text \<open>
  The gateway configuration (\<open>config.rs\<close>): the structs that \<open>gateway.toml\<close> deserialises to, the serde
  defaults, and the call-graph queries. Reading and parsing the TOML file is not modelled.
\<close>

record gateway_config =
  gc_name :: string
  gc_port_local :: "16 word"
  gc_port_peer :: "16 word"
  gc_port_http :: "16 word"
  gc_port_web :: "16 word"
  gc_reconcile_interval_secs :: "64 word"
  gc_data_dir :: string

definition default_reconcile_interval :: "64 word" where
  "default_reconcile_interval = 30"

definition default_port_web :: "16 word" where
  "default_port_web = 7243"

definition default_data_dir :: string where
  "default_data_dir = ''./data''"

record lxc_config =
  lc_proxmox_url :: string
  lc_node :: string
  lc_agent_template :: "32 word"
  lc_network_bridge :: string

record seed_agent =
  sa_name :: string
  sa_endpoint :: string

record call_graph_config =
  cg_edges :: "(string \<times> string list) list"
  cg_max_hops :: "32 word"

definition default_max_hops :: "32 word" where
  "default_max_hops = 3"

record peer_config =
  pe_name :: string
  pe_endpoint :: string
  pe_cert_path :: "string option"
  pe_tls :: bool

definition default_tls :: bool where
  "default_tls = True"

record config =
  cf_gateway :: gateway_config
  cf_db_url :: string
  cf_lxc :: "lxc_config option"
  cf_agents :: "seed_agent list"
  cf_call_graph :: call_graph_config
  cf_peers :: "peer_config list"

definition is_allowed :: "config \<Rightarrow> string \<Rightarrow> string \<Rightarrow> bool" where
  "is_allowed cfg caller target =
     (case map_of (cg_edges (cf_call_graph cfg)) caller of
        Some targets \<Rightarrow> list_ex (\<lambda>t. t = target) targets
      | None \<Rightarrow> False)"

definition max_hops :: "config \<Rightarrow> 32 word" where
  "max_hops cfg = cg_max_hops (cf_call_graph cfg)"

definition has_edges :: "config \<Rightarrow> string \<Rightarrow> bool" where
  "has_edges cfg caller \<longleftrightarrow> map_of (cg_edges (cf_call_graph cfg)) caller \<noteq> None"

lemma is_allowed_iff:
  "is_allowed cfg caller target \<longleftrightarrow>
     (\<exists>ts. map_of (cg_edges (cf_call_graph cfg)) caller = Some ts \<and> target \<in> set ts)"
  by (auto simp: is_allowed_def list_ex_iff split: option.splits)

lemma allowed_has_edges: "is_allowed cfg caller target \<Longrightarrow> has_edges cfg caller"
  by (auto simp: is_allowed_iff has_edges_def)

text \<open>A configuration with the given call graph and the defaults elsewhere.\<close>

definition demo_config :: "(string \<times> string list) list \<Rightarrow> 32 word \<Rightarrow> config" where
  "demo_config edges limit = \<lparr>cf_gateway = \<lparr>gc_name = ''gw'', gc_port_local = 7240, gc_port_peer = 7241,
      gc_port_http = 7242, gc_port_web = default_port_web,
      gc_reconcile_interval_secs = default_reconcile_interval, gc_data_dir = default_data_dir\<rparr>,
     cf_db_url = ''postgres'', cf_lxc = None, cf_agents = [],
     cf_call_graph = \<lparr>cg_edges = edges, cg_max_hops = limit\<rparr>, cf_peers = []\<rparr>"

end
