(* ===== verification/Router.thy ===== *)
theory Router
  imports Config Registry
begin

text \<open>
  The call router (\<open>router.rs\<close>): hop limit, call graph, registry lookup, in this order. The hop count
  is a \<open>u32\<close>; the release profile does not check overflow, so the increment wraps.

  Lemmas: what \<open>route\<close> returns on every branch, paths in the call graph, and the wrap-around of the hop count.
  That the endpoints it hands out passed the check of registration is a property of the whole gateway
  (\<open>routed_endpoints\<close> in theory \<open>Gateway\<close>).
\<close>

datatype router_error =
    Hop_limit_exceeded "32 word" "32 word"
  | Not_permitted string string
  | Not_found string

record route_decision =
  rd_endpoint :: string
  rd_hop_count :: "32 word"

definition route :: "config \<Rightarrow> registry \<Rightarrow> string \<Rightarrow> string \<Rightarrow> 32 word \<Rightarrow> router_error + route_decision" where
  "route cfg reg caller target hop_count =
     (let next_hop = hop_count + 1; limit = max_hops cfg in
      if next_hop > limit then Inl (Hop_limit_exceeded next_hop limit)
      else
        let effective_caller = (if caller = [] then ''external'' else caller) in
        if \<not> is_allowed cfg effective_caller target \<and> \<not> (caller = [] \<and> \<not> has_edges cfg ''external'')
        then Inl (Not_permitted effective_caller target)
        else case registry_get reg target of
            None \<Rightarrow> Inl (Not_found target)
          | Some entry \<Rightarrow> Inr \<lparr>rd_endpoint = ae_endpoint entry, rd_hop_count = next_hop\<rparr>)"

subsection \<open>The policy, stated on the call graph\<close>

text \<open>Who may call whom: the edges; and everyone may be called from outside when no policy for
  external callers is configured.\<close>

definition permitted :: "config \<Rightarrow> string \<Rightarrow> string \<Rightarrow> bool" where
  "permitted cfg caller target \<longleftrightarrow>
     (if caller = [] then has_edges cfg ''external'' \<longrightarrow> is_allowed cfg ''external'' target
      else is_allowed cfg caller target)"

lemma route_cases:
  "route cfg reg caller target hop =
     (if max_hops cfg < hop + 1 then Inl (Hop_limit_exceeded (hop + 1) (max_hops cfg))
      else if \<not> permitted cfg caller target
        then Inl (Not_permitted (if caller = [] then ''external'' else caller) target)
      else case registry_get reg target of None \<Rightarrow> Inl (Not_found target)
        | Some e \<Rightarrow> Inr \<lparr>rd_endpoint = ae_endpoint e, rd_hop_count = hop + 1\<rparr>)"
  by (auto simp: route_def permitted_def Let_def dest: allowed_has_edges)

lemma route_Inr:
  "route cfg reg caller target hop = Inr d \<longleftrightarrow>
     hop + 1 \<le> max_hops cfg \<and> permitted cfg caller target \<and>
     (\<exists>e. registry_get reg target = Some e \<and> d = \<lparr>rd_endpoint = ae_endpoint e, rd_hop_count = hop + 1\<rparr>)"
  by (auto simp: route_cases not_le split: option.splits)

subsection \<open>Paths and hop counts\<close>

text \<open>The paths in the call graph: each callee calls the next one.\<close>

fun permitted_path :: "config \<Rightarrow> string \<Rightarrow> string list \<Rightarrow> bool" where
  "permitted_path cfg caller [] = True"
| "permitted_path cfg caller (t # ts) = (permitted cfg caller t \<and> permitted_path cfg t ts)"

lemma next_hop_unat:
  fixes h m :: "32 word"
  assumes "m \<noteq> -1" "h \<le> m" "h + 1 \<le> m"
  shows "unat (h + 1) = unat h + 1"
proof -
  have "h \<noteq> -1"
    using assms by (metis antisym word_n1_ge)
  then have "h + 1 \<noteq> 0"
    by (metis add_eq_0_iff2 minus_minus)
  then show ?thesis
    by (simp add: unatSuc add.commute)
qed

lemma route_wraps:
  "registry_get reg target = Some e \<Longrightarrow> permitted cfg caller target \<Longrightarrow>
     route cfg reg caller target (-1) = Inr \<lparr>rd_endpoint = ae_endpoint e, rd_hop_count = 0\<rparr>"
  by (simp add: route_Inr)

definition demo_cycle :: config where
  "demo_cycle = demo_config [(''w'', [''r'']), (''r'', [''w''])] 3"

definition two_agents :: registry where
  "two_agents = \<lparr>rg_db = empty_db, rg_cache = map (\<lambda>n. \<lparr>ae_name = n, ae_version = [], ae_endpoint = n,
     ae_capabilities = [], ae_soul_toml = [], ae_last_seen = None, ae_registered_at = []\<rparr>) [''w'', ''r'']\<rparr>"

lemmas router_eval = route_def registry_get_def cache_get_def find_by_def is_allowed_def has_edges_def
  max_hops_def demo_config_def two_agents_def

text \<open>
  The guard on the hop count holds only as long as the number that arrives is honest: a call that
  carries 2^32-1 is accepted under every limit, and is forwarded with hop count 0.
\<close>

lemma hop_count_wraps:
  assumes "registry_get reg target = Some e" "permitted cfg caller target"
  shows "route cfg reg caller target (2 ^ 32 - 1) = Inr \<lparr>rd_endpoint = ae_endpoint e, rd_hop_count = 0\<rparr>"
proof -
  have "(2 ^ 32 - 1 :: 32 word) = -1" by simp
  with route_wraps [OF assms] show ?thesis by (simp only:)
qed

lemma hop_count_wraps_witness:
  "route demo_cycle two_agents ''w'' ''r'' (2 ^ 32 - 1) =
     Inr \<lparr>rd_endpoint = ae_endpoint (rg_cache two_agents ! 1), rd_hop_count = 0\<rparr>"
  by (rule hop_count_wraps) (simp_all add: router_eval demo_cycle_def permitted_def)

end
