(* ===== verification/Local_Server.thy ===== *)
theory Local_Server
  imports Grpc Identity Router
begin

text \<open>
  The gRPC server for agents on the LAN (\<open>local_server.rs\<close>): registration with its endpoint check, heartbeats,
  calls through the router, discovery and the identity store. The state of a handler is the registry with its
  database. Parameters (\<open>local_env\<close>): the clock (as text), fresh trace ids, the JSON codec, database error
  texts, and what the connections to agents answer (\<open>lo_forward\<close>, \<open>lo_post\<close>).

  Lemmas: which endpoints register, what each handler leaves behind, what a call forwards.
\<close>

subsection \<open>Messages\<close>

record agent_manifest =
  am_name :: string
  am_version :: string
  am_endpoint :: string
  am_capabilities :: "string list"
  am_soul_toml :: string

record register_ack =
  ra_agent_id :: string
  ra_gateway :: string

record call_request =
  cq_target_agent :: string
  cq_method :: string
  cq_payload :: string
  cq_trace_id :: string
  cq_caller :: string
  cq_hop_count :: "32 word"

record call_response =
  cs_result :: string
  cs_error :: string
  cs_trace_id :: string

record stream_chunk =
  sc_data :: string
  sc_done :: bool
  sc_trace_id :: string

record agent_info =
  ai_name :: string
  ai_version :: string
  ai_endpoint :: string
  ai_capabilities :: "string list"
  ai_last_seen :: string
  ai_healthy :: bool

record health_status =
  hs_ok :: bool
  hs_agent_count :: "32 word"
  hs_peer_count :: "32 word"
  hs_nats_ok :: bool
  hs_reconciler_last_run :: string

record todo_msg =
  tm_id :: int
  tm_task :: string
  tm_status :: string
  tm_notes :: string
  tm_created_at :: string
  tm_completed_at :: string

text \<open>How the gRPC call to an agent may end.\<close>

datatype forward_outcome = Invalid_uri string | Connect_failed string | Call_failed string | Replied call_response

record stream_post =
  sp_method :: string
  sp_payload :: string
  sp_trace_id :: string

record local_env =
  lo_gateway :: string
  lo_json :: caps_json
  lo_seen_at :: string
  lo_registered_at :: string
  lo_fresh_id :: string
  lo_sql_text :: sql_text
  lo_forward :: "string \<Rightarrow> call_request \<Rightarrow> forward_outcome"
  lo_post :: "string \<Rightarrow> stream_post \<Rightarrow> post_outcome"

subsection \<open>Endpoints\<close>

text \<open>\<open>split\<close> on a text: what precedes its first occurrence, and the rest.\<close>

fun split_once :: "string \<Rightarrow> string \<Rightarrow> (string \<times> string) option" where
  "split_once d [] = (if d = [] then Some ([], []) else None)"
| "split_once d (c # cs) =
     (if starts_with d (c # cs) then Some ([], drop (length d) (c # cs))
      else map_option (\<lambda>(a, b). (c # a, b)) (split_once d cs))"

definition split_nth1 :: "string \<Rightarrow> string \<Rightarrow> string" where
  "split_nth1 d s = (case split_once d s of
     None \<Rightarrow> []
   | Some (_, rest) \<Rightarrow> (case split_once d rest of None \<Rightarrow> rest | Some (w, _) \<Rightarrow> w))"

definition blocked_hosts :: "string list" where
  "blocked_hosts = [''169.254.169.254'', ''metadata.google.internal'', ''metadata.internal'']"

definition eq_ignore_ascii_case :: "string \<Rightarrow> string \<Rightarrow> bool" where
  "eq_ignore_ascii_case a b \<longleftrightarrow> to_lower a = to_lower b"

definition validate_endpoint :: "string \<Rightarrow> status + unit" where
  "validate_endpoint endpoint =
     (if \<not> starts_with ''http://'' endpoint \<and> \<not> starts_with ''https://'' endpoint
      then Inl (Status Invalid_argument ''endpoint must use http or https scheme'')
      else
        let after_scheme = split_nth1 ''://'' endpoint;
            host = hd (split_on (\<lambda>c. c = CHR ''/'' \<or> c = CHR '':'') after_scheme)
        in if list_ex (\<lambda>b. eq_ignore_ascii_case host b) blocked_hosts
           then Inl (Status Invalid_argument ''endpoint host is not allowed (blocked for SSRF prevention)'')
           else if starts_with ''169.254.'' host
           then Inl (Status Invalid_argument ''endpoint host is not allowed (link-local)'')
           else Inr ())"

subsection \<open>Registration and heartbeats\<close>

definition db_act :: "(db \<Rightarrow> db \<times> ('e + 'a)) \<Rightarrow> registry \<Rightarrow> registry \<times> ('e + 'a)" where
  "db_act = zoomA rg_db (\<lambda>d s. s\<lparr>rg_db := d\<rparr>)"

definition register :: "local_env \<Rightarrow> agent_manifest \<Rightarrow> registry \<Rightarrow> registry \<times> (status + register_ack)" where
  "register E m =
     (if am_name m = [] \<or> length (am_name m) > 64
      then fail (Status Invalid_argument ''agent name must be 1-64 characters'')
      else if \<not> list_all (\<lambda>c. is_alphanumeric c \<or> c = CHR ''-'' \<or> c = CHR ''_'') (am_name m)
      then fail (Status Invalid_argument ''agent name must be alphanumeric, dash, or underscore'')
      else if am_endpoint m = [] \<or> length (am_endpoint m) > 256
      then fail (Status Invalid_argument ''agent endpoint must be 1-256 characters'')
      else case validate_endpoint (am_endpoint m) of
          Inl st \<Rightarrow> fail st
        | Inr _ \<Rightarrow>
            let entry = \<lparr>ae_name = am_name m, ae_version = am_version m, ae_endpoint = am_endpoint m,
                  ae_capabilities = am_capabilities m, ae_soul_toml = am_soul_toml m,
                  ae_last_seen = Some (lo_seen_at E), ae_registered_at = lo_registered_at E\<rparr>
            in bindA (map_errA (internal (lo_sql_text E)) (upsert (lo_json E) entry)) (\<lambda>_.
               bindA (if am_soul_toml m \<noteq> []
                      then map_errA (internal (lo_sql_text E)) (db_act (set_soul (am_name m) (am_soul_toml m) False))
                      else ret ()) (\<lambda>_.
               ret \<lparr>ra_agent_id = am_name m, ra_gateway = lo_gateway E\<rparr>)))"

definition heartbeat_rpc :: "local_env \<Rightarrow> string \<Rightarrow> string \<Rightarrow> registry \<Rightarrow> registry \<times> (status + bool)" where
  "heartbeat_rpc E now name =
     bindA (map_errA (internal (lo_sql_text E)) (heartbeat now name)) (\<lambda>found.
       if \<not> found then fail (Status Not_found_code (''unknown agent: '' @ name)) else ret True)"

subsection \<open>Calls\<close>

definition arrow :: string where
  "arrow = [CHR 0xE2, CHR 0x86, CHR 0x92]"

definition router_err_text :: "router_error \<Rightarrow> string" where
  "router_err_text e = (case e of
     Hop_limit_exceeded hops m \<Rightarrow> ''hop limit exceeded: '' @ show_int (uint hops) @ '' hops (max '' @ show_int (uint m) @ '')''
   | Not_permitted caller target \<Rightarrow> ''call not permitted: '' @ caller @ '' '' @ arrow @ '' '' @ target
   | Not_found name \<Rightarrow> ''agent not found: '' @ name)"

definition router_err_to_status :: "router_error \<Rightarrow> status" where
  "router_err_to_status e = (case e of
     Hop_limit_exceeded _ _ \<Rightarrow> Status Resource_exhausted (router_err_text e)
   | Not_permitted _ _ \<Rightarrow> Status Permission_denied (router_err_text e)
   | Not_found _ \<Rightarrow> Status Not_found_code (router_err_text e))"

text \<open>The request a call forwards, and the endpoint it goes to.\<close>

definition forward_of :: "config \<Rightarrow> local_env \<Rightarrow> call_request \<Rightarrow> registry \<Rightarrow> status + string \<times> call_request" where
  "forward_of cfg E r reg =
     (let trace_id = (if cq_trace_id r = [] then lo_fresh_id E else cq_trace_id r) in
      case route cfg reg (cq_caller r) (cq_target_agent r) (cq_hop_count r) of
        Inl e \<Rightarrow> Inl (router_err_to_status e)
      | Inr decision \<Rightarrow> Inr (rd_endpoint decision,
          \<lparr>cq_target_agent = cq_target_agent r, cq_method = cq_method r, cq_payload = cq_payload r,
           cq_trace_id = trace_id, cq_caller = cq_caller r, cq_hop_count = rd_hop_count decision\<rparr>))"

definition call_rpc :: "config \<Rightarrow> local_env \<Rightarrow> call_request \<Rightarrow> registry \<Rightarrow> registry \<times> (status + call_response)" where
  "call_rpc cfg E r reg =
     (case forward_of cfg E r reg of
        Inl st \<Rightarrow> (reg, Inl st)
      | Inr (endpoint, req) \<Rightarrow> (reg, case lo_forward E endpoint req of
            Invalid_uri e \<Rightarrow> Inl (Status Internal (''invalid agent endpoint: '' @ e))
          | Connect_failed e \<Rightarrow> Inl (Status Unavailable (''agent unreachable: '' @ e))
          | Call_failed e \<Rightarrow> Inl (Status Unavailable (''agent call failed: '' @ e))
          | Replied resp \<Rightarrow> Inr resp))"

definition trim_end_slashes :: "string \<Rightarrow> string" where
  "trim_end_slashes s = rev (dropWhile (\<lambda>c. c = CHR ''/'') (rev s))"

definition stream_rpc ::
  "config \<Rightarrow> local_env \<Rightarrow> call_request \<Rightarrow> registry \<Rightarrow> registry \<times> (status + (status + stream_chunk))" where
  "stream_rpc cfg E r reg =
     (case route cfg reg (cq_caller r) (cq_target_agent r) (cq_hop_count r) of
        Inl e \<Rightarrow> (reg, Inl (router_err_to_status e))
      | Inr decision \<Rightarrow>
          let url = trim_end_slashes (rd_endpoint decision) @ ''/a2a/stream'' in
          (reg, Inr (case lo_post E url \<lparr>sp_method = cq_method r, sp_payload = cq_payload r, sp_trace_id = cq_trace_id r\<rparr> of
             Send_failed e \<Rightarrow> Inl (Status Unavailable e)
           | Body_failed e \<Rightarrow> Inl (Status Internal e)
           | Body b \<Rightarrow> Inr \<lparr>sc_data = b, sc_done = True, sc_trace_id = cq_trace_id r\<rparr>)))"

subsection \<open>Discovery\<close>

definition list_agents_rpc :: "registry \<Rightarrow> agent_info list" where
  "list_agents_rpc reg = map (\<lambda>e. \<lparr>ai_name = ae_name e, ai_version = ae_version e, ai_endpoint = ae_endpoint e,
     ai_capabilities = ae_capabilities e, ai_last_seen = (case ae_last_seen e of Some t \<Rightarrow> t | None \<Rightarrow> []),
     ai_healthy = True\<rparr>) (registry_list reg)"

definition health_rpc :: "registry \<Rightarrow> health_status" where
  "health_rpc reg = \<lparr>hs_ok = True, hs_agent_count = of_nat (registry_len reg), hs_peer_count = 0,
     hs_nats_ok = False, hs_reconciler_last_run = []\<rparr>"

subsection \<open>Identity\<close>

definition not_found_or_internal :: "sql_text \<Rightarrow> err \<Rightarrow> status" where
  "not_found_or_internal T e =
     (if contains ''not found'' (err_text T e) then status_of Not_found_code T e else internal T e)"

definition get_soul_rpc :: "local_env \<Rightarrow> string \<Rightarrow> registry \<Rightarrow> registry \<times> (status + string)" where
  "get_soul_rpc E name = map_errA (not_found_or_internal (lo_sql_text E)) (db_act (get_soul name))"

definition update_memory_rpc :: "local_env \<Rightarrow> string \<Rightarrow> string \<Rightarrow> registry \<Rightarrow> registry \<times> (status + bool)" where
  "update_memory_rpc E name append_md =
     bindA (map_errA (internal (lo_sql_text E)) (db_act (append_memory name append_md))) (\<lambda>_. ret True)"

definition append_todo_rpc :: "local_env \<Rightarrow> string \<Rightarrow> string \<Rightarrow> string \<Rightarrow> registry \<Rightarrow> registry \<times> (status + bool)" where
  "append_todo_rpc E now name task =
     bindA (map_errA (internal (lo_sql_text E)) (db_act (append_todo now name task))) (\<lambda>_. ret True)"

definition todo_msg_of :: "todo_view \<Rightarrow> todo_msg" where
  "todo_msg_of r = \<lparr>tm_id = tv_id r, tm_task = tv_task r, tm_status = tv_status r, tm_notes = tv_notes r,
     tm_created_at = tv_created_at r, tm_completed_at = (case tv_completed_at r of Some t \<Rightarrow> t | None \<Rightarrow> [])\<rparr>"

definition list_todos_rpc :: "local_env \<Rightarrow> string \<Rightarrow> bool \<Rightarrow> registry \<Rightarrow> registry \<times> (status + todo_msg list)" where
  "list_todos_rpc E name include_done =
     bindA (map_errA (internal (lo_sql_text E)) (db_act (list_todos name include_done))) (\<lambda>rows. ret (map todo_msg_of rows))"

definition complete_todo_rpc :: "local_env \<Rightarrow> string \<Rightarrow> int \<Rightarrow> string \<Rightarrow> registry \<Rightarrow> registry \<times> (status + bool)" where
  "complete_todo_rpc E now i notes =
     bindA (map_errA (not_found_or_internal (lo_sql_text E)) (db_act (complete_todo now i notes))) (\<lambda>_. ret True)"

subsection \<open>Which endpoints register\<close>

text \<open>What the check amounts to: the text between the scheme and the next slash or colon is looked at.\<close>

definition host_of :: "string \<Rightarrow> string" where
  "host_of rest = takeWhile (\<lambda>c. c \<noteq> CHR ''/'' \<and> c \<noteq> CHR '':'') rest"

definition host_blocked :: "string \<Rightarrow> bool" where
  "host_blocked h \<longleftrightarrow> to_lower h \<in> set blocked_hosts \<or> starts_with ''169.254.'' h"

definition endpoint_allowed :: "string \<Rightarrow> bool" where
  "endpoint_allowed e \<longleftrightarrow> (\<exists>rest. (e = ''http://'' @ rest \<or> e = ''https://'' @ rest) \<and> \<not> host_blocked (host_of rest))"

lemma hd_split_on: "hd (split_on p s) = takeWhile (\<lambda>c. \<not> p c) s"
  by (induction s) (auto split: list.splits)

lemma split_once_host:
  "split_once ''://'' s = Some (a, b) \<Longrightarrow> host_of a = host_of s"
proof (induction s arbitrary: a)
  case (Cons c s)
  show ?case
  proof (cases "starts_with ''://'' (c # s)")
    case True
    with Cons.prems have "a = []" "c = CHR '':''"
      by (auto simp: starts_with_iff)
    then show ?thesis by (simp add: host_of_def)
  next
    case False
    with Cons.prems obtain a' where "split_once ''://'' s = Some (a', b)" "a = c # a'"
      by auto
    with Cons.IH show ?thesis by (simp add: host_of_def)
  qed
qed simp

lemma host_nth1:
  "host_of (split_nth1 ''://'' (''http://'' @ rest)) = host_of rest"
  "host_of (split_nth1 ''://'' (''https://'' @ rest)) = host_of rest"
  by (auto simp: split_nth1_def starts_with_def dest: split_once_host split: option.splits)

lemma blocked_lower: "map to_lower blocked_hosts = blocked_hosts"
  by (simp add: blocked_hosts_def to_lower_def lower_char_def less_eq_char_def)

lemma list_ex_blocked: "list_ex (\<lambda>b. eq_ignore_ascii_case h b) blocked_hosts \<longleftrightarrow> to_lower h \<in> set blocked_hosts"
proof -
  have "list_ex (\<lambda>b. eq_ignore_ascii_case h b) blocked_hosts \<longleftrightarrow> to_lower h \<in> set (map to_lower blocked_hosts)"
    by (auto simp: eq_ignore_ascii_case_def list_ex_iff)
  then show ?thesis by (simp only: blocked_lower)
qed

lemma validate_endpoint_host:
  assumes "e = ''http://'' @ rest \<or> e = ''https://'' @ rest"
  shows "is_ok (validate_endpoint e) \<longleftrightarrow> \<not> host_blocked (host_of rest)"
proof -
  have s: "starts_with ''http://'' e \<or> starts_with ''https://'' e"
    using assms by (auto simp: starts_with_def)
  have "hd (split_on (\<lambda>c. c = CHR ''/'' \<or> c = CHR '':'') (split_nth1 ''://'' e)) = host_of rest"
    using assms host_nth1 by (auto simp: hd_split_on host_of_def)
  with s show ?thesis
    unfolding validate_endpoint_def Let_def list_ex_blocked host_blocked_def by simp
qed

lemma validate_endpoint_iff: "is_ok (validate_endpoint e) \<longleftrightarrow> endpoint_allowed e"
proof (cases "\<exists>rest. e = ''http://'' @ rest \<or> e = ''https://'' @ rest")
  case True
  then obtain rest where r: "e = ''http://'' @ rest \<or> e = ''https://'' @ rest" by blast
  then have "(\<exists>rest. (e = ''http://'' @ rest \<or> e = ''https://'' @ rest) \<and> \<not> host_blocked (host_of rest)) \<longleftrightarrow>
      \<not> host_blocked (host_of rest)"
    by auto
  with validate_endpoint_host [OF r] show ?thesis by (simp add: endpoint_allowed_def)
next
  case False
  then have "\<not> starts_with ''http://'' e \<and> \<not> starts_with ''https://'' e"
    by (auto simp: starts_with_iff)
  with False show ?thesis
    by (auto simp: validate_endpoint_def endpoint_allowed_def)
qed

lemma validate_endpoint_err: "validate_endpoint e = Inl st \<Longrightarrow> \<exists>msg. st = Status Invalid_argument msg"
  by (auto simp: validate_endpoint_def Let_def split: if_splits)

subsection \<open>What a registration leaves\<close>

definition manifest_ok :: "agent_manifest \<Rightarrow> bool" where
  "manifest_ok m \<longleftrightarrow> length (am_name m) \<in> {1..64} \<and>
     set (am_name m) \<subseteq> {c. is_alphanumeric c \<or> c = CHR ''-'' \<or> c = CHR ''_''} \<and>
     length (am_endpoint m) \<in> {1..256} \<and> endpoint_allowed (am_endpoint m)"

definition entry_of_manifest :: "local_env \<Rightarrow> agent_manifest \<Rightarrow> agent_entry" where
  "entry_of_manifest E m = \<lparr>ae_name = am_name m, ae_version = am_version m, ae_endpoint = am_endpoint m,
     ae_capabilities = am_capabilities m, ae_soul_toml = am_soul_toml m,
     ae_last_seen = Some (lo_seen_at E), ae_registered_at = lo_registered_at E\<rparr>"

definition register_ops :: "local_env \<Rightarrow> agent_manifest \<Rightarrow> agent_op list" where
  "register_ops E m = Upsert (entry_of_manifest E m) #
     (if am_soul_toml m = [] then [] else [Set_soul (am_name m) (am_soul_toml m)])"

lemma register_ok:
  assumes "manifest_ok m"
  shows "register E m s = (runA (agent_step (lo_json E)) s (register_ops E m),
     Inr \<lparr>ra_agent_id = am_name m, ra_gateway = lo_gateway E\<rparr>)"
proof -
  have v: "validate_endpoint (am_endpoint m) = Inr ()"
    using assms validate_endpoint_iff [of "am_endpoint m"]
    by (cases "validate_endpoint (am_endpoint m)") (auto simp: manifest_ok_def)
  have g: "\<not> (am_name m = [] \<or> 64 < length (am_name m))" "\<not> (am_endpoint m = [] \<or> 256 < length (am_endpoint m))"
    "list_all (\<lambda>c. is_alphanumeric c \<or> c = CHR ''-'' \<or> c = CHR ''_'') (am_name m)"
    using assms by (auto simp: manifest_ok_def list_all_iff)
  show ?thesis
    unfolding register_def register_ops_def entry_of_manifest_def
    by (simp only: v g if_False if_True simp_thms sum.case Let_def)
      (auto simp: act_simps db_act_def upsert_def exec_def zoomA_def set_soul_def Let_def)
qed

lemma register_err:
  assumes "\<not> manifest_ok m"
  shows "\<exists>msg. register E m s = (s, Inl (Status Invalid_argument msg))"
proof (cases "am_name m = [] \<or> 64 < length (am_name m) \<or> am_endpoint m = [] \<or> 256 < length (am_endpoint m) \<or>
    \<not> list_all (\<lambda>c. is_alphanumeric c \<or> c = CHR ''-'' \<or> c = CHR ''_'') (am_name m)")
  case True
  then show ?thesis unfolding register_def fail_def by auto
next
  case False
  then have "\<not> endpoint_allowed (am_endpoint m)"
    using assms by (auto simp: manifest_ok_def list_all_iff Suc_le_eq)
  then obtain st where st: "validate_endpoint (am_endpoint m) = Inl st"
    using validate_endpoint_iff [of "am_endpoint m"] by (cases "validate_endpoint (am_endpoint m)") auto
  from validate_endpoint_err [OF this] st show ?thesis
    unfolding register_def fail_def by auto
qed

subsection \<open>The handlers as runs of the identity and registry operations\<close>

datatype local_rpc =
    Register agent_manifest
  | Heartbeat_rpc string string
  | Call call_request
  | Stream call_request
  | Get_soul string
  | Update_memory string string
  | Append_todo_rpc string string string
  | List_todos string bool
  | Complete_todo_rpc string int string

fun local_step :: "config \<Rightarrow> local_env \<Rightarrow> local_rpc \<Rightarrow> registry \<Rightarrow> registry" where
  "local_step cfg E (Register m) s = exec (register E m) s"
| "local_step cfg E (Heartbeat_rpc now n) s = exec (heartbeat_rpc E now n) s"
| "local_step cfg E (Call r) s = exec (call_rpc cfg E r) s"
| "local_step cfg E (Stream r) s = exec (stream_rpc cfg E r) s"
| "local_step cfg E (Get_soul n) s = exec (get_soul_rpc E n) s"
| "local_step cfg E (Update_memory n c) s = exec (update_memory_rpc E n c) s"
| "local_step cfg E (Append_todo_rpc now n t) s = exec (append_todo_rpc E now n t) s"
| "local_step cfg E (List_todos n b) s = exec (list_todos_rpc E n b) s"
| "local_step cfg E (Complete_todo_rpc now i nts) s = exec (complete_todo_rpc E now i nts) s"

fun ops_of_rpc :: "local_env \<Rightarrow> local_rpc \<Rightarrow> agent_op list" where
  "ops_of_rpc E (Register m) = (if manifest_ok m then register_ops E m else [])"
| "ops_of_rpc E (Heartbeat_rpc now n) = [Heartbeat now n]"
| "ops_of_rpc E (Update_memory n c) = [Append_memory n c]"
| "ops_of_rpc E (Append_todo_rpc now n t) = [Append_todo now n t]"
| "ops_of_rpc E (Complete_todo_rpc now i nts) = [Complete_todo now i nts]"
| "ops_of_rpc E _ = []"

lemma exec_db_read: "fst (m (rg_db s)) = rg_db s \<Longrightarrow> exec (db_act m) s = s"
  by (auto simp: exec_def db_act_def zoomA_def split: prod.splits)

lemma local_step_ops: "local_step cfg E rpc s = runA (agent_step (lo_json E)) s (ops_of_rpc E rpc)"
proof (cases rpc)
  case (Register m)
  then show ?thesis
    using register_ok [of m E s] register_err [of m E s] by (auto simp: exec_def)
next
  case (Call r)
  then show ?thesis
    by (auto simp: exec_def call_rpc_def split: sum.splits prod.splits)
next
  case (Stream r)
  then show ?thesis
    by (auto simp: exec_def stream_rpc_def Let_def split: sum.splits)
next
  case (Get_soul n)
  then show ?thesis
    by (simp add: get_soul_rpc_def exec_db_read get_soul_def split: option.split)
next
  case (List_todos n b)
  then show ?thesis
    by (simp add: list_todos_rpc_def exec_db_read list_todos_def)
qed (simp_all add: heartbeat_rpc_def update_memory_rpc_def append_todo_rpc_def complete_todo_rpc_def
       exec_bind_read ret_def fail_def, simp_all add: db_act_def)

interpretation local_server: history_system "local_step cfg E" "\<lambda>s t. soul_kept s t \<and> memory_kept s t \<and> todos_kept s t" for cfg E
proof
  fix s t u
  show "soul_kept s s \<and> memory_kept s s \<and> todos_kept s s"
    using soul_history.ext_refl memory_history.ext_refl todo_history.ext_refl by blast
  show "soul_kept s t \<and> memory_kept s t \<and> todos_kept s t \<Longrightarrow> soul_kept t u \<and> memory_kept t u \<and> todos_kept t u \<Longrightarrow>
      soul_kept s u \<and> memory_kept s u \<and> todos_kept s u"
    using soul_history.ext_trans memory_history.ext_trans todo_history.ext_trans by blast
qed (simp add: local_step_ops soul_history.run_ext memory_history.run_ext todo_history.run_ext)

subsection \<open>Properties\<close>

text \<open>
  C18. Registration accepts exactly the well-formed manifests: a name of 1 to 64 letters, digits, dashes and
  underscores, and an endpoint of 1 to 256 bytes with an HTTP scheme whose host is neither a
  metadata service nor link-local. An accepted agent is routed to the endpoint it gave and has a soul
  iff it or an earlier registration brought one; a refused one gets \<open>InvalidArgument\<close> and leaves no trace.
\<close>

theorem register_spec:
  "case register E m s of
     (s', Inr ack) \<Rightarrow> manifest_ok m \<and> ra_agent_id ack = am_name m \<and>
       registry_get s' (am_name m) = Some (entry_of_manifest E m) \<and>
       soul_of s' (am_name m) = Some (case soul_of s (am_name m) of
         Some x \<Rightarrow> if x = [] then am_soul_toml m else x | None \<Rightarrow> am_soul_toml m)
   | (s', Inl st) \<Rightarrow> \<not> manifest_ok m \<and> s' = s \<and> (\<exists>msg. st = Status Invalid_argument msg)"
proof (cases "manifest_ok m")
  case True
  let ?e = "entry_of_manifest E m"
  have n: "ae_name ?e = am_name m" "ae_soul_toml ?e = am_soul_toml m"
    by (simp_all add: entry_of_manifest_def)
  have cache: "registry_get (runA (agent_step (lo_json E)) s (register_ops E m)) (am_name m) = Some ?e"
    by (simp add: register_ops_def registry_get_def agent_step_defs n)
  have soul: "soul_of (runA (agent_step (lo_json E)) s (register_ops E m)) (am_name m) =
      Some (case soul_of s (am_name m) of Some x \<Rightarrow> if x = [] then am_soul_toml m else x | None \<Rightarrow> am_soul_toml m)"
    by (auto simp: register_ops_def soul_of_upsert soul_of_set_soul n split: option.splits)
  show ?thesis
    using True cache soul by (simp add: register_ok)
next
  case False
  with register_err [of m E s] show ?thesis by auto
qed

text \<open>
  The check on endpoints reads no further than the first slash or colon after the scheme: an endpoint with
  user information passes whatever host follows it, the metadata address included.
\<close>

lemma endpoint_userinfo_bypass:
  assumes "CHR ''/'' \<notin> set user" "CHR '':'' \<notin> set user" "\<not> host_blocked user"
  shows "validate_endpoint (''http://'' @ user @ '':'' @ password @ ''@'' @ host @ path) = Inr ()"
proof -
  have "host_of (user @ '':'' @ password @ ''@'' @ host @ path) = user"
    using assms(1,2) unfolding host_of_def by (subst takeWhile_append2) auto
  then have "is_ok (validate_endpoint (''http://'' @ user @ '':'' @ password @ ''@'' @ host @ path))"
    using assms(3) validate_endpoint_host by metis
  then show ?thesis
    by (cases "validate_endpoint (''http://'' @ user @ '':'' @ password @ ''@'' @ host @ path)") auto
qed

lemma endpoint_userinfo_bypass_witness:
  "validate_endpoint (''http://'' @ ''u'' @ '':'' @ ''p'' @ ''@'' @ ''169.254.169.254'' @ ''/latest'') = Inr ()"
  by (rule endpoint_userinfo_bypass)
    (simp_all add: host_blocked_def blocked_hosts_def starts_with_def to_lower_def lower_char_def less_eq_char_def)

text \<open>
  C19. The gRPC server adds nothing to the stores' rules: each handler is a run of at most two registry and identity
  operations (none for calls, streams and reads), so through any sequence of RPCs souls stay as first
  written, memories only grow and todos are never lost.
\<close>

theorem local_rpcs_refine_stores:
  "local_step cfg E rpc s = runA (agent_step (lo_json E)) s (ops_of_rpc E rpc) \<and> length (ops_of_rpc E rpc) \<le> 2 \<and>
   soul_kept s (runA (local_step cfg E) s rpcs) \<and> memory_kept s (runA (local_step cfg E) s rpcs) \<and>
   todos_kept s (runA (local_step cfg E) s rpcs)"
  using local_server.run_ext [of s cfg E rpcs]
  by (cases rpc) (simp_all add: local_step_ops register_ops_def)

text \<open>
  What a call forwards: the request reaches the agent iff the router accepts it, and it is the caller's request
  with the incremented hop count and a trace id; a refused call has the status that names the first check that
  failed, and no call changes the registry.
\<close>

lemma call_rpc_spec:
  "case call_rpc cfg E r reg of (reg', res) \<Rightarrow> reg' = reg \<and>
     (case route cfg reg (cq_caller r) (cq_target_agent r) (cq_hop_count r) of
        Inl (Hop_limit_exceeded h l) \<Rightarrow> (\<exists>msg. res = Inl (Status Resource_exhausted msg))
      | Inl (Not_permitted c t) \<Rightarrow> (\<exists>msg. res = Inl (Status Permission_denied msg))
      | Inl (Not_found n) \<Rightarrow> (\<exists>msg. res = Inl (Status Not_found_code msg))
      | Inr d \<Rightarrow> (let req = r\<lparr>cq_trace_id := (if cq_trace_id r = [] then lo_fresh_id E else cq_trace_id r),
                        cq_hop_count := cq_hop_count r + 1\<rparr>
                  in case lo_forward E (rd_endpoint d) req of
                       Replied resp \<Rightarrow> res = Inr resp
                     | Invalid_uri e \<Rightarrow> (\<exists>msg. res = Inl (Status Internal msg))
                     | _ \<Rightarrow> (\<exists>msg. res = Inl (Status Unavailable msg))))"
proof (cases "route cfg reg (cq_caller r) (cq_target_agent r) (cq_hop_count r)")
  case (Inl e)
  then show ?thesis
    by (cases e) (simp_all add: call_rpc_def forward_of_def router_err_to_status_def)
next
  case (Inr d)
  then have "rd_hop_count d = cq_hop_count r + 1"
    by (auto simp: route_Inr)
  then have "forward_of cfg E r reg = Inr (rd_endpoint d, r\<lparr>cq_trace_id := (if cq_trace_id r = [] then lo_fresh_id E else cq_trace_id r),
      cq_hop_count := cq_hop_count r + 1\<rparr>)"
    using Inr by (simp add: forward_of_def Let_def)
  then show ?thesis
    using Inr by (simp add: call_rpc_def Let_def split: forward_outcome.split)
qed

end
