(* ===== verification/Auth.thy ===== *)
theory Auth
  imports Text_Numbers
begin

text \<open>
  Tokens of the peer boundary (\<open>auth.rs\<close>). The JWT library (HS256 encoding, signature check and its own
  expiry check with leeway) is a parameter with two documented properties (\<open>jwt_laws\<close>): with the key it
  was made with, a token decodes as long as it is not past its expiry, and whenever it decodes it is to the claims it
  was made from. Nothing is asked of text that the library did not make.

  Lemmas: how long a token is good, and for whom.
\<close>

definition token_ttl_secs :: "64 word" where
  "token_ttl_secs = 3600"

record peer_claims =
  cl_iss :: string
  cl_sub :: string
  cl_exp :: "64 word"
  cl_iat :: "64 word"
  cl_scope :: string

definition claims_new :: "time \<Rightarrow> string \<Rightarrow> string \<Rightarrow> string \<Rightarrow> peer_claims" where
  "claims_new now_secs issuer subject scope =
     (let now = of_nat (f64_as_u64 now_secs) in
      \<lparr>cl_iss = issuer, cl_sub = subject, cl_exp = now + token_ttl_secs, cl_iat = now, cl_scope = scope\<rparr>)"

definition claims_is_expired :: "time \<Rightarrow> peer_claims \<Rightarrow> bool" where
  "claims_is_expired now_secs c \<longleftrightarrow> cl_exp c < of_nat (f64_as_u64 now_secs)"

record jwt_lib =
  jw_encode :: "string \<Rightarrow> peer_claims \<Rightarrow> string"
  jw_decode :: "string \<Rightarrow> time \<Rightarrow> string \<Rightarrow> peer_claims option"

record jwt_auth =
  ja_secret :: string
  ja_issuer :: string

definition issue :: "jwt_lib \<Rightarrow> jwt_auth \<Rightarrow> time \<Rightarrow> string \<Rightarrow> string \<Rightarrow> string" where
  "issue L a now target_gateway scope = jw_encode L (ja_secret a) (claims_new now (ja_issuer a) target_gateway scope)"

definition validate :: "jwt_lib \<Rightarrow> jwt_auth \<Rightarrow> time \<Rightarrow> string \<Rightarrow> err + peer_claims" where
  "validate L a now token =
     (case jw_decode L (ja_secret a) now token of
        None \<Rightarrow> Inl (Anyhow ''invalid JWT'')
      | Some claims \<Rightarrow> if claims_is_expired now claims then Inl (Anyhow ''token expired'') else Inr claims)"

definition validate_for :: "jwt_lib \<Rightarrow> jwt_auth \<Rightarrow> time \<Rightarrow> string \<Rightarrow> string \<Rightarrow> err + peer_claims" where
  "validate_for L a now token expected_sub =
     (case validate L a now token of
        Inl e \<Rightarrow> Inl e
      | Inr claims \<Rightarrow>
          if cl_sub claims \<noteq> ''*'' \<and> cl_sub claims \<noteq> expected_sub
          then Inl (Anyhow (''token not issued for this gateway (sub='' @ cl_sub claims @ '', expected='' @ expected_sub @ '')''))
          else Inr claims)"

definition jwt_laws :: "jwt_lib \<Rightarrow> bool" where
  "jwt_laws L \<longleftrightarrow>
     (\<forall>k c now. \<not> claims_is_expired now c \<longrightarrow> jw_decode L k now (jw_encode L k c) = Some c) \<and>
     (\<forall>k c now c'. jw_decode L k now (jw_encode L k c) = Some c' \<longrightarrow> c' = c)"

lemma exp_unat:
  "f64_as_u64 t + 3600 < 2 ^ 64 \<Longrightarrow> unat (cl_exp (claims_new t i s sc)) = f64_as_u64 t + 3600"
  by (simp add: claims_new_def Let_def token_ttl_secs_def unat_word_ariths unat_of_nat)

lemma expired_iff:
  assumes "f64_as_u64 t + 3600 < 2 ^ 64"
  shows "claims_is_expired now (claims_new t i s sc) \<longleftrightarrow> f64_as_u64 t + 3600 < f64_as_u64 now"
proof -
  have "unat (of_nat (f64_as_u64 now) :: 64 word) = f64_as_u64 now"
    using f64_as_u64_bound [of now] by (simp add: unat_of_nat)
  then show ?thesis
    by (simp add: claims_is_expired_def word_less_nat_alt exp_unat [OF assms])
qed

lemma decode_issued:
  assumes "jwt_laws L" "ja_secret b = ja_secret a" "jw_decode L (ja_secret b) now (issue L a t target scope) = Some c"
  shows "c = claims_new t (ja_issuer a) target scope"
  using assms by (simp add: jwt_laws_def issue_def)

lemma validate_live:
  assumes "jwt_laws L" "f64_as_u64 t + 3600 < 2 ^ 64" "ja_secret b = ja_secret a" "f64_as_u64 now \<le> f64_as_u64 t + 3600"
  shows "validate L b now (issue L a t target scope) = Inr (claims_new t (ja_issuer a) target scope)"
proof -
  have live: "\<not> claims_is_expired now (claims_new t (ja_issuer a) target scope)"
    using assms(4) by (simp add: expired_iff [OF assms(2)])
  then have "jw_decode L (ja_secret b) now (issue L a t target scope) = Some (claims_new t (ja_issuer a) target scope)"
    using assms(1,3) by (simp add: jwt_laws_def issue_def)
  with live show ?thesis by (simp add: validate_def)
qed

lemma validate_late:
  assumes "jwt_laws L" "f64_as_u64 t + 3600 < 2 ^ 64" "ja_secret b = ja_secret a" "f64_as_u64 t + 3600 < f64_as_u64 now"
  shows "\<not> is_ok (validate L b now (issue L a t target scope))"
proof (cases "jw_decode L (ja_secret b) now (issue L a t target scope)")
  case (Some c)
  then have "claims_is_expired now c"
    using assms(4) decode_issued [OF assms(1,3) Some] by (simp add: expired_iff [OF assms(2)])
  with Some show ?thesis by (simp add: validate_def)
qed (simp add: validate_def)

lemma accepted_iff:
  assumes "jwt_laws L" "f64_as_u64 t + 3600 < 2 ^ 64" "ja_secret b = ja_secret a"
  shows "is_ok (validate_for L b now (issue L a t target scope) me) \<longleftrightarrow>
    f64_as_u64 now \<le> f64_as_u64 t + 3600 \<and> (target = ''*'' \<or> target = me)"
proof (cases "f64_as_u64 t + 3600 < f64_as_u64 now")
  case True
  with validate_late [OF assms True, of target scope] show ?thesis
    by (cases "validate L b now (issue L a t target scope)") (simp_all add: validate_for_def)
next
  case False
  then show ?thesis
    using validate_live [OF assms, of now target scope] by (simp add: validate_for_def) (simp add: claims_new_def Let_def)
qed

subsection \<open>Properties\<close>

text \<open>
  C32. A token is good for an hour and for its addressee: a token that one gateway issues is accepted by a
  gateway that shares the secret exactly until 3600 seconds after the issuing second, and exactly if it
  names that gateway or everybody; the claims it yields are those it was issued with.
\<close>

theorem token_lifetime:
  assumes "jwt_laws L" "f64_as_u64 t + 3600 < 2 ^ 64" "ja_secret b = ja_secret a"
  shows "(validate_for L b now (issue L a t target scope) me = Inr (claims_new t (ja_issuer a) target scope) \<longleftrightarrow>
       f64_as_u64 now \<le> f64_as_u64 t + 3600 \<and> (target = ''*'' \<or> target = me)) \<and>
     (is_ok (validate_for L b now (issue L a t target scope) me) \<longleftrightarrow>
       f64_as_u64 now \<le> f64_as_u64 t + 3600 \<and> (target = ''*'' \<or> target = me))"
  using accepted_iff [OF assms, of now target scope me] validate_live [OF assms, of now target scope]
  by (auto simp: validate_for_def split: sum.splits)

text \<open>One library with these properties.\<close>

definition claims_text :: "string \<Rightarrow> peer_claims \<Rightarrow> string" where
  "claims_text k c = mark_words [k, cl_iss c, cl_sub c, show_radix 10 (unat (cl_exp c)),
     show_radix 10 (unat (cl_iat c)), cl_scope c]"

definition claims_parse :: "string \<Rightarrow> peer_claims option" where
  "claims_parse t = (case mark_dec t of
     Some [k, i, s, e, ia, sc] \<Rightarrow>
       (case (parse_radix 10 (2 ^ 64) e, parse_radix 10 (2 ^ 64) ia) of
          (Some x, Some y) \<Rightarrow> Some \<lparr>cl_iss = i, cl_sub = s, cl_exp = of_nat x, cl_iat = of_nat y, cl_scope = sc\<rparr>
        | _ \<Rightarrow> None)
   | _ \<Rightarrow> None)"

definition demo_jwt :: jwt_lib where
  "demo_jwt = \<lparr>jw_encode = claims_text, jw_decode = (\<lambda>k now t. case claims_parse t of
     Some c \<Rightarrow> if t = claims_text k c \<and> \<not> claims_is_expired now c then Some c else None | None \<Rightarrow> None)\<rparr>"

lemma claims_parse_text: "claims_parse (claims_text k c) = Some c"
proof -
  have "unat (cl_exp c) < 2 ^ 64" "unat (cl_iat c) < 2 ^ 64"
    by (rule order_less_le_trans [OF unsigned_less], simp)+
  then show ?thesis
    by (simp add: claims_parse_def claims_text_def parse_show_radix)
qed

lemma demo_jwt_laws: "jwt_laws demo_jwt"
  unfolding jwt_laws_def
  by (auto simp: demo_jwt_def claims_parse_text split: option.splits if_splits)

lemma token_lifetime_witness:
  "(validate_for demo_jwt \<lparr>ja_secret = ''k'', ja_issuer = ''b''\<rparr> 100 (issue demo_jwt \<lparr>ja_secret = ''k'', ja_issuer = ''a''\<rparr> 7 ''b'' ''peer'') ''b'' =
       Inr (claims_new 7 (ja_issuer \<lparr>ja_secret = ''k'', ja_issuer = ''a''\<rparr>) ''b'' ''peer'') \<longleftrightarrow>
       f64_as_u64 100 \<le> f64_as_u64 7 + 3600 \<and> (''b'' = ''*'' \<or> ''b'' = ''b'')) \<and>
     (is_ok (validate_for demo_jwt \<lparr>ja_secret = ''k'', ja_issuer = ''b''\<rparr> 100 (issue demo_jwt \<lparr>ja_secret = ''k'', ja_issuer = ''a''\<rparr> 7 ''b'' ''peer'') ''b'') \<longleftrightarrow>
       f64_as_u64 100 \<le> f64_as_u64 7 + 3600 \<and> (''b'' = ''*'' \<or> ''b'' = ''b''))"
  by (rule token_lifetime [OF demo_jwt_laws]) (simp_all add: f64_as_u64_def)

end
