(* ===== verification/Peer_Server.thy ===== *)
theory Peer_Server
  imports Grpc Registry Auth File_Sync Group_Store Task_Log
begin

text \<open>
  The gRPC server for other gateways (\<open>peer_server.rs\<close>). The state is the agent cache and the object store with
  the database. Parameters (\<open>peer_env\<close>): the JWT library, the clock, the disk of the object store, database error
  texts, the build's version, and what agents answer over HTTP.

  Lemmas: what a peer without a valid token gets, which projects a peer sees, and on what the answers depend.
\<close>

subsection \<open>Messages and state\<close>

record delegate_request =
  dr_target_agent :: string
  dr_method :: string
  dr_payload :: string
  dr_trace_id :: string
  dr_jwt :: string
  dr_hop_count :: "32 word"

record delegate_response =
  ds_result :: string
  ds_error :: string
  ds_trace_id :: string

record handshake_msg =
  hm_gateway_name :: string
  hm_version :: string
  hm_public_key :: string
  hm_agent_card :: string

record peer_status =
  st_ok :: bool
  st_gateway_name :: string
  st_agent_count :: "32 word"
  st_version :: string

record announcement =
  nn_project_id :: string
  nn_project_name :: string
  nn_snapshot_id :: string
  nn_gateway_name :: string
  nn_jwt :: string

record ack_response =
  ak_ok :: bool
  ak_error :: string

record fetch_snapshot_request =
  fq_project_id :: string
  fq_snapshot_id :: string
  fq_jwt :: string

record fetch_snapshot_response =
  fs_snapshot_id :: string
  fs_transcript :: string
  fs_missing_objects :: "string list"
  fs_error :: string

record fetch_object_request =
  fo_sha256 :: string
  fo_jwt :: string

record fetch_object_response =
  fr_sha256 :: string
  fr_data :: string
  fr_error :: string

record list_projects_request =
  lq_jwt :: string
  lq_group_id :: string

record remote_project =
  rp_project_id :: string
  rp_project_name :: string
  rp_repo_url :: string
  rp_description :: string
  rp_visibility :: string
  rp_snapshot_id :: string
  rp_gateway_name :: string

record log_sync_request =
  lg_project_id :: string
  lg_after_cursor :: int
  lg_jwt :: string

record proto_entry =
  pn_id :: string
  pn_gateway_name :: string
  pn_agent_name :: string
  pn_entry_type :: string
  pn_content :: string
  pn_cursor :: int
  pn_created_at :: time
  pn_signature :: string

record log_sync_response =
  lp_entries :: "proto_entry list"
  lp_head_cursor :: int
  lp_error :: string

record join_request =
  jq_invite_token :: string
  jq_gateway_name :: string
  jq_jwt :: string

record join_response =
  jr_group_id :: string
  jr_group_name :: string
  jr_error :: string

record peer_env =
  pv_name :: string
  pv_version :: string
  pv_jwt :: jwt_lib
  pv_auth :: jwt_auth
  pv_now :: time
  pv_sql_text :: sql_text
  pv_objects :: obj_env
  pv_invoke :: "string \<Rightarrow> string \<Rightarrow> post_outcome"

record peer_state =
  ps_agents :: "agent_entry list"
  ps_store :: obj_state

abbreviation ps_db :: "peer_state \<Rightarrow> db" where
  "ps_db s \<equiv> os_db (ps_store s)"

abbreviation ps_registry :: "peer_state \<Rightarrow> registry" where
  "ps_registry s \<equiv> \<lparr>rg_db = ps_db s, rg_cache = ps_agents s\<rparr>"

subsection \<open>Handlers\<close>

definition auth_peer :: "peer_env \<Rightarrow> string \<Rightarrow> peer_state \<Rightarrow> peer_state \<times> (status + peer_claims)" where
  "auth_peer E token s = (s, case validate_for (pv_jwt E) (pv_auth E) (pv_now E) token (pv_name E) of
     Inl e \<Rightarrow> Inl (status_of Unauthenticated (pv_sql_text E) e)
   | Inr claims \<Rightarrow> Inr claims)"

definition handshake :: "peer_env \<Rightarrow> handshake_msg \<Rightarrow> handshake_msg" where
  "handshake E peer = \<lparr>hm_gateway_name = pv_name E, hm_version = pv_version E, hm_public_key = [], hm_agent_card = []\<rparr>"

definition delegate :: "peer_env \<Rightarrow> delegate_request \<Rightarrow> peer_state \<Rightarrow> peer_state \<times> (status + delegate_response)" where
  "delegate E r = bindA (auth_peer E (dr_jwt r)) (\<lambda>_ s.
     (s, case registry_get (ps_registry s) (dr_target_agent r) of
        None \<Rightarrow> Inl (Status Not_found_code (''agent '' @ dr_target_agent r @ '' not found''))
      | Some agent \<Rightarrow> (case pv_invoke E (ae_endpoint agent @ ''/invoke'') (dr_payload r) of
            Send_failed e \<Rightarrow> Inl (Status Unavailable e)
          | Body_failed e \<Rightarrow> Inl (Status Internal e)
          | Body b \<Rightarrow> Inr \<lparr>ds_result = b, ds_error = [], ds_trace_id = dr_trace_id r\<rparr>)))"

definition ping :: "peer_env \<Rightarrow> string \<Rightarrow> peer_state \<Rightarrow> peer_status" where
  "ping E from s = \<lparr>st_ok = True, st_gateway_name = pv_name E,
     st_agent_count = of_nat (length (registry_list (ps_registry s))), st_version = pv_version E\<rparr>"

definition announce_snapshot :: "peer_env \<Rightarrow> announcement \<Rightarrow> peer_state \<Rightarrow> peer_state \<times> (status + ack_response)" where
  "announce_snapshot E ann = bindA (auth_peer E (nn_jwt ann)) (\<lambda>_ s.
     case get_by_name (ps_db s) (nn_project_name ann) of
       None \<Rightarrow> (s, Inr \<lparr>ak_ok = True, ak_error = []\<rparr>)
     | Some _ \<Rightarrow> (s, Inr \<lparr>ak_ok = True, ak_error = []\<rparr>))"

definition fetch_snapshot ::
  "peer_env \<Rightarrow> fetch_snapshot_request \<Rightarrow> peer_state \<Rightarrow> peer_state \<times> (status + fetch_snapshot_response)" where
  "fetch_snapshot E r = bindA (auth_peer E (fq_jwt r)) (\<lambda>_ s.
     (s, Inr (case get_snapshot (ps_db s) (fq_snapshot_id r) of
        None \<Rightarrow> \<lparr>fs_snapshot_id = fq_snapshot_id r, fs_transcript = [], fs_missing_objects = [],
                 fs_error = ''snapshot not found''\<rparr>
      | Some snap \<Rightarrow>
          let entries = parse_transcript (ss_transcript snap); all_hashes = map te_sha256 entries in
          \<lparr>fs_snapshot_id = ss_id snap, fs_transcript = ss_transcript snap,
           fs_missing_objects = missing (ps_store s) all_hashes, fs_error = []\<rparr>)))"

definition in_store :: "(obj_state \<Rightarrow> obj_state \<times> ('e + 'a)) \<Rightarrow> peer_state \<Rightarrow> peer_state \<times> ('e + 'a)" where
  "in_store = zoomA ps_store (\<lambda>x s. s\<lparr>ps_store := x\<rparr>)"

definition fetch_object ::
  "peer_env \<Rightarrow> fetch_object_request \<Rightarrow> peer_state \<Rightarrow> peer_state \<times> (status + fetch_object_response)" where
  "fetch_object E r = bindA (auth_peer E (fo_jwt r)) (\<lambda>_.
     bindA (map_errA (internal (pv_sql_text E)) (in_store (get_object (pv_objects E) (fo_sha256 r)))) (\<lambda>data.
       ret (case data of
          None \<Rightarrow> \<lparr>fr_sha256 = fo_sha256 r, fr_data = [], fr_error = ''object not found''\<rparr>
        | Some bytes \<Rightarrow> \<lparr>fr_sha256 = fo_sha256 r, fr_data = bytes, fr_error = []\<rparr>)))"

definition visible_to :: "db \<Rightarrow> peer_claims \<Rightarrow> project \<Rightarrow> bool" where
  "visible_to d claims p = (case pj_visibility p of
     Public \<Rightarrow> True
   | Group \<Rightarrow> groups_for_gateway d (cl_iss claims) \<noteq> []
   | LanOnly \<Rightarrow> False)"

definition remote_of :: "peer_env \<Rightarrow> db \<Rightarrow> project \<Rightarrow> remote_project" where
  "remote_of E d p = \<lparr>rp_project_id = pj_id p, rp_project_name = pj_name p, rp_repo_url = pj_repo_url p,
     rp_description = pj_description p, rp_visibility = visibility_as_str (pj_visibility p),
     rp_snapshot_id = (case head_snapshot d (pj_id p) of None \<Rightarrow> [] | Some s \<Rightarrow> ss_id s),
     rp_gateway_name = pv_name E\<rparr>"

definition list_projects_rpc ::
  "peer_env \<Rightarrow> list_projects_request \<Rightarrow> peer_state \<Rightarrow> peer_state \<times> (status + remote_project list)" where
  "list_projects_rpc E r = bindA (auth_peer E (lq_jwt r)) (\<lambda>claims s.
     (s, Inr (map (remote_of E (ps_db s)) (filter (visible_to (ps_db s) claims) (list_projects (ps_db s))))))"

definition proto_of_entry :: "log_entry \<Rightarrow> proto_entry" where
  "proto_of_entry e = \<lparr>pn_id = le_id e, pn_gateway_name = le_gateway_name e, pn_agent_name = le_agent_name e,
     pn_entry_type = entry_type_as_str (le_entry_type e), pn_content = le_content e, pn_cursor = le_cursor e,
     pn_created_at = le_created_at e, pn_signature = (case le_signature e of None \<Rightarrow> [] | Some x \<Rightarrow> x)\<rparr>"

definition sync_task_log ::
  "peer_env \<Rightarrow> log_sync_request \<Rightarrow> peer_state \<Rightarrow> peer_state \<times> (status + log_sync_response)" where
  "sync_task_log E r = bindA (auth_peer E (lg_jwt r)) (\<lambda>_ s.
     (s, Inr \<lparr>lp_entries = map proto_of_entry (since (ps_db s) (lg_project_id r) (lg_after_cursor r)),
              lp_head_cursor = head_cursor (ps_db s) (lg_project_id r), lp_error = []\<rparr>))"

definition join_group :: "peer_env \<Rightarrow> join_request \<Rightarrow> peer_state \<Rightarrow> peer_state \<times> (status + join_response)" where
  "join_group E r = bindA (auth_peer E (jq_jwt r)) (\<lambda>_.
     bindA (map_errA (status_of Permission_denied (pv_sql_text E))
        (in_store (zoomA os_db (\<lambda>d x. x\<lparr>os_db := d\<rparr>) (consume_invite (pv_now E) (jq_invite_token r) (jq_gateway_name r)))))
       (\<lambda>group. ret \<lparr>jr_group_id = grp_id group, jr_group_name = grp_name group, jr_error = []\<rparr>))"

subsection \<open>The server\<close>

datatype peer_rpc =
    Handshake handshake_msg
  | Ping string
  | Delegate delegate_request
  | Announce_snapshot announcement
  | Fetch_snapshot fetch_snapshot_request
  | Fetch_object fetch_object_request
  | List_projects list_projects_request
  | Sync_task_log log_sync_request
  | Join_group join_request

datatype peer_reply =
    Handshake_reply handshake_msg
  | Ping_reply peer_status
  | Delegate_reply delegate_response
  | Ack_reply ack_response
  | Snapshot_reply fetch_snapshot_response
  | Object_reply fetch_object_response
  | Projects_reply "remote_project list"
  | Log_reply log_sync_response
  | Join_reply join_response

definition replyA :: "('a \<Rightarrow> 'b) \<Rightarrow> ('s \<Rightarrow> 's \<times> ('e + 'a)) \<Rightarrow> 's \<Rightarrow> 's \<times> ('e + 'b)" where
  "replyA f m = bindA m (\<lambda>x. ret (f x))"

fun serve :: "peer_env \<Rightarrow> peer_rpc \<Rightarrow> peer_state \<Rightarrow> peer_state \<times> (status + peer_reply)" where
  "serve E (Handshake m) = ret (Handshake_reply (handshake E m))"
| "serve E (Ping from) = askA (\<lambda>s. Ping_reply (ping E from s))"
| "serve E (Delegate r) = replyA Delegate_reply (delegate E r)"
| "serve E (Announce_snapshot r) = replyA Ack_reply (announce_snapshot E r)"
| "serve E (Fetch_snapshot r) = replyA Snapshot_reply (fetch_snapshot E r)"
| "serve E (Fetch_object r) = replyA Object_reply (fetch_object E r)"
| "serve E (List_projects r) = replyA Projects_reply (list_projects_rpc E r)"
| "serve E (Sync_task_log r) = replyA Log_reply (sync_task_log E r)"
| "serve E (Join_group r) = replyA Join_reply (join_group E r)"

fun jwt_of :: "peer_rpc \<Rightarrow> string option" where
  "jwt_of (Handshake _) = None"
| "jwt_of (Ping _) = None"
| "jwt_of (Delegate r) = Some (dr_jwt r)"
| "jwt_of (Announce_snapshot r) = Some (nn_jwt r)"
| "jwt_of (Fetch_snapshot r) = Some (fq_jwt r)"
| "jwt_of (Fetch_object r) = Some (fo_jwt r)"
| "jwt_of (List_projects r) = Some (lq_jwt r)"
| "jwt_of (Sync_task_log r) = Some (lg_jwt r)"
| "jwt_of (Join_group r) = Some (jq_jwt r)"

abbreviation token_claims :: "peer_env \<Rightarrow> string \<Rightarrow> err + peer_claims" where
  "token_claims E t \<equiv> validate_for (pv_jwt E) (pv_auth E) (pv_now E) t (pv_name E)"

lemma auth_peer_ok: "token_claims E t = Inr c \<Longrightarrow> bindA (auth_peer E t) f s = f c s"
  by (simp add: auth_peer_def bindA_def)

lemma token_claims_err: "token_claims E t = Inl e \<Longrightarrow> \<exists>m. e = Anyhow m"
  by (auto simp: validate_for_def validate_def split: sum.splits option.splits if_splits)

lemma auth_peer_err:
  assumes "token_claims E t = Inl e"
  shows "\<exists>m. bindA (auth_peer E t) f s = (s, Inl (Status Unauthenticated m))"
  using token_claims_err [OF assms] assms
  by (auto simp: auth_peer_def bindA_def status_of_def)

lemma replyA_err: "m s = (t, Inl e) \<Longrightarrow> replyA f m s = (t, Inl e)"
  by (simp add: replyA_def bindA_def)

lemma exec_replyA [simp]: "exec (replyA f m) s = exec m s"
  by (auto simp: exec_def replyA_def bindA_def ret_def split: prod.splits sum.splits)

lemmas handler_defs = delegate_def announce_snapshot_def fetch_snapshot_def fetch_object_def
  list_projects_rpc_def sync_task_log_def join_group_def

lemma serve_denied:
  assumes "jwt_of rpc = Some t" "token_claims E t = Inl e"
  shows "\<exists>m. serve E rpc s = (s, Inl (Status Unauthenticated m))"
  using assms(1)
  by (cases rpc) (use auth_peer_err [OF assms(2)] in \<open>fastforce simp: handler_defs intro: replyA_err\<close>)+

text \<open>A join writes the group members and the invites, nothing else.\<close>

definition members_invites_only :: "peer_state \<Rightarrow> peer_state \<Rightarrow> bool" where
  "members_invites_only s t \<longleftrightarrow> (\<exists>ms ivs. t = s\<lparr>ps_store := (ps_store s)\<lparr>os_db := (ps_db s)\<lparr>members := ms, invites := ivs\<rparr>\<rparr>\<rparr>)"

lemma add_member_frame: "\<exists>ms. exec (add_member now g gw cb) d = d\<lparr>members := ms\<rparr>"
proof (cases "has_key member_key (g, gw) (members d) \<or> \<not> has_key gr_id g (groups d)")
  case True
  then have "exec (add_member now g gw cb) d = d"
    by (auto simp: exec_def add_member_def)
  then have "exec (add_member now g gw cb) d = d\<lparr>members := members d\<rparr>" by simp
  then show ?thesis by (rule exI)
next
  case False
  then have "exec (add_member now g gw cb) d = d\<lparr>members := members d @ [\<lparr>mr_group_id = g, mr_gateway_name = gw,
      mr_joined_at = now, mr_invited_by = cb\<rparr>]\<rparr>"
    by (simp add: exec_def add_member_def)
  then show ?thesis by (rule exI)
qed

lemma redeem_only_invites: "\<exists>ivs. fst (redeem now t gw d) = d\<lparr>invites := ivs\<rparr>"
  unfolding redeem_def Let_def fst_conv by (rule exI) (rule refl)

lemma members_invites_intros:
  "\<exists>ms ivs. d\<lparr>invites := i\<rparr> = d\<lparr>members := ms, invites := ivs\<rparr>"
  "\<exists>ms ivs. d\<lparr>invites := i, members := m\<rparr> = d\<lparr>members := ms, invites := ivs\<rparr>"
  by (rule exI [of _ "members d"], rule exI [of _ i], simp) (rule exI [of _ m], rule exI [of _ i], simp)

lemma consume_frame: "\<exists>ms ivs. exec (consume_invite now t gw) d = d\<lparr>members := ms, invites := ivs\<rparr>"
proof -
  obtain ivs where ivs: "fst (redeem now t gw d) = d\<lparr>invites := ivs\<rparr>"
    using redeem_only_invites by blast
  show ?thesis
  proof (cases "snd (redeem now t gw d)")
    case None
    then have "exec (consume_invite now t gw) d = d\<lparr>invites := ivs\<rparr>"
      unfolding consume_exec case_prod_beta ivs by simp
    then show ?thesis by (simp only: members_invites_intros)
  next
    case (Some p)
    obtain ms where ms: "exec (add_member now (fst p) gw (snd p)) (d\<lparr>invites := ivs\<rparr>) = d\<lparr>invites := ivs\<rparr>\<lparr>members := ms\<rparr>"
      using add_member_frame by blast
    have "exec (consume_invite now t gw) d = d\<lparr>invites := ivs\<rparr>\<lparr>members := ms\<rparr>"
      unfolding consume_exec case_prod_beta ivs Some option.case ms by (rule refl)
    then show ?thesis by (simp only: members_invites_intros)
  qed
qed

lemma exec_auth:
  assumes "token_claims E t = Inr c"
  shows "exec (bindA (auth_peer E t) f) s = exec (f c) s"
  by (simp add: exec_def auth_peer_ok [OF assms])

lemma join_frame:
  assumes "token_claims E (jq_jwt r) = Inr c"
  shows "members_invites_only s (exec (join_group E r) s)"
proof -
  obtain ms ivs where d: "exec (consume_invite (pv_now E) (jq_invite_token r) (jq_gateway_name r)) (ps_db s) =
      (ps_db s)\<lparr>members := ms, invites := ivs\<rparr>"
    using consume_frame by blast
  have "exec (join_group E r) s = s\<lparr>ps_store := (ps_store s)\<lparr>os_db :=
      exec (consume_invite (pv_now E) (jq_invite_token r) (jq_gateway_name r)) (ps_db s)\<rparr>\<rparr>"
    unfolding join_group_def exec_auth [OF assms] exec_bind_ret exec_map_err in_store_def exec_zoom by simp
  then show ?thesis
    unfolding members_invites_only_def d by blast
qed

lemma get_object_frame: "exec (get_object E h) s = s"
  by (simp add: exec_def get_object_def split: sum.split)

lemma serve_reads:
  assumes "jwt_of rpc = Some t" "token_claims E t = Inr c" "\<And>r. rpc \<noteq> Join_group r"
  shows "exec (serve E rpc) s = s"
proof (cases rpc)
  case (Fetch_object r)
  with assms(1,2) show ?thesis
    by (simp add: fetch_object_def exec_auth in_store_def exec_zoom get_object_frame)
qed (use assms in \<open>simp_all add: handler_defs exec_auth\<close>, simp_all add: exec_def split: option.splits)

subsection \<open>On what the answers depend\<close>

abbreviation with_projects :: "project_row list \<Rightarrow> peer_state \<Rightarrow> peer_state" where
  "with_projects ps s \<equiv> s\<lparr>ps_store := (ps_store s)\<lparr>os_db := (ps_db s)\<lparr>projects := ps\<rparr>\<rparr>\<rparr>"

lemma snapshot_ignores_projects:
  "result (fetch_snapshot E r) (with_projects ps s) = result (fetch_snapshot E r) s"
proof (cases "token_claims E (fq_jwt r)")
  case (Inl e)
  then show ?thesis by (simp add: fetch_snapshot_def auth_peer_def bindA_def result_def)
next
  case (Inr c)
  then show ?thesis
    by (simp add: fetch_snapshot_def auth_peer_def bindA_def result_def get_snapshot_def missing_def exists_db_def
        split: option.split)
qed

lemma log_ignores_projects:
  "result (sync_task_log E r) (with_projects ps s) = result (sync_task_log E r) s"
proof (cases "token_claims E (lg_jwt r)")
  case (Inl e)
  then show ?thesis by (simp add: sync_task_log_def auth_peer_def bindA_def result_def)
next
  case (Inr c)
  then show ?thesis
    by (simp add: sync_task_log_def auth_peer_def bindA_def result_def since_def head_cursor_def project_log_def)
qed

subsection \<open>Properties\<close>

text \<open>
  C7. The peer boundary: a call without a token this gateway accepts is answered \<open>Unauthenticated\<close> and
  changes nothing, except for handshakes and pings, which need none and change nothing either. With a
  token, only joining a group writes, and only group members and invites.
\<close>

theorem peer_boundary:
  "case jwt_of rpc of
     None \<Rightarrow> exec (serve E rpc) s = s
   | Some t \<Rightarrow> (case validate_for (pv_jwt E) (pv_auth E) (pv_now E) t (pv_name E) of
        Inl e \<Rightarrow> (\<exists>m. serve E rpc s = (s, Inl (Status Unauthenticated m)))
      | Inr c \<Rightarrow> (case rpc of Join_group r \<Rightarrow> members_invites_only s (exec (serve E rpc) s)
                  | _ \<Rightarrow> exec (serve E rpc) s = s))"
proof (cases "jwt_of rpc")
  case None
  then show ?thesis by (cases rpc) (simp_all add: exec_def ret_def askA_def)
next
  case (Some t)
  show ?thesis
  proof (cases "token_claims E t")
    case (Inl e)
    with serve_denied [OF Some Inl] Some show ?thesis by simp
  next
    case (Inr c)
    with serve_reads [OF Some Inr] join_frame Some show ?thesis
      by (cases rpc) simp_all
  qed
qed

text \<open>
  What a peer is shown: exactly the public projects, and those visible to groups if the token's issuer is
  in some group, whichever the project is shared with; never a lan-only one. The head it is told is the
  project's head snapshot.
\<close>

lemma listed_projects:
  assumes "validate_for (pv_jwt E) (pv_auth E) (pv_now E) (lq_jwt r) (pv_name E) = Inr c"
  shows "\<exists>rs. list_projects_rpc E r s = (s, Inr rs) \<and>
     set rs = remote_of E (ps_db s) ` {p \<in> set (list_projects (ps_db s)). pj_visibility p = Public \<or>
       pj_visibility p = Group \<and> (\<exists>m g. m \<in> set (members (ps_db s)) \<and> g \<in> set (groups (ps_db s)) \<and>
         mr_gateway_name m = cl_iss c \<and> gr_id g = mr_group_id m)}"
proof -
  have "visible_to (ps_db s) c p \<longleftrightarrow> pj_visibility p = Public \<or>
       pj_visibility p = Group \<and> (\<exists>m g. m \<in> set (members (ps_db s)) \<and> g \<in> set (groups (ps_db s)) \<and>
         mr_gateway_name m = cl_iss c \<and> gr_id g = mr_group_id m)" for p
    by (cases "pj_visibility p") (auto simp: visible_to_def groups_for_gateway_def filter_empty_conv)
  then have "set (map (remote_of E (ps_db s)) (filter (visible_to (ps_db s) c) (list_projects (ps_db s)))) =
     remote_of E (ps_db s) ` {p \<in> set (list_projects (ps_db s)). pj_visibility p = Public \<or>
       pj_visibility p = Group \<and> (\<exists>m g. m \<in> set (members (ps_db s)) \<and> g \<in> set (groups (ps_db s)) \<and>
         mr_gateway_name m = cl_iss c \<and> gr_id g = mr_group_id m)}"
    by auto
  then show ?thesis
    unfolding list_projects_rpc_def auth_peer_ok [OF assms] by blast
qed

text \<open>
  Visibility hides projects from the listing only: what a peer gets for a snapshot id or for the log of a
  project id does not depend on the projects table, so it is the same whether the project is public, visible
  to groups or lan-only.
\<close>

lemma visibility_not_checked:
  "result (fetch_snapshot E r) (with_projects ps s) = result (fetch_snapshot E r) s \<and>
   result (sync_task_log E q) (with_projects ps s) = result (sync_task_log E q) s"
  by (simp add: snapshot_ignores_projects log_ignores_projects)

definition demo_peer_env :: peer_env where
  "demo_peer_env = \<lparr>pv_name = ''b'', pv_version = ''0.1.0'', pv_jwt = demo_jwt, pv_auth = \<lparr>ja_secret = ''k'', ja_issuer = ''b''\<rparr>,
     pv_now = 100, pv_sql_text = (\<lambda>_. []), pv_objects = demo_obj_env, pv_invoke = (\<lambda>_ _. Body [])\<rparr>"

definition demo_token :: string where
  "demo_token = issue demo_jwt \<lparr>ja_secret = ''k'', ja_issuer = ''a''\<rparr> 7 ''b'' ''peer''"

lemma demo_token_ok:
  "validate_for (pv_jwt demo_peer_env) (pv_auth demo_peer_env) (pv_now demo_peer_env) demo_token (pv_name demo_peer_env) =
     Inr (claims_new 7 ''a'' ''b'' ''peer'')"
proof -
  let ?c = "claims_new 7 ''a'' ''b'' ''peer''"
  have "\<not> claims_is_expired 100 ?c"
    using expired_iff [of 7 100 "''a''" "''b''" "''peer''"] by (simp add: f64_as_u64_def)
  then have "jw_decode demo_jwt ''k'' 100 (jw_encode demo_jwt ''k'' ?c) = Some ?c" "\<not> claims_is_expired 100 ?c"
    using demo_jwt_laws by (simp_all add: jwt_laws_def)
  moreover have "cl_sub ?c = ''b''" by (simp add: claims_new_def Let_def)
  ultimately show ?thesis
    by (simp add: demo_peer_env_def demo_token_def issue_def validate_for_def validate_def)
qed

lemma listed_projects_witness:
  "\<exists>rs. list_projects_rpc demo_peer_env \<lparr>lq_jwt = demo_token, lq_group_id = []\<rparr>
       \<lparr>ps_agents = [], ps_store = \<lparr>os_db = one_project, os_disk = Map.empty\<rparr>\<rparr> =
       (\<lparr>ps_agents = [], ps_store = \<lparr>os_db = one_project, os_disk = Map.empty\<rparr>\<rparr>, Inr rs) \<and>
     set rs = remote_of demo_peer_env one_project ` {p \<in> set (list_projects one_project). pj_visibility p = Public \<or>
       pj_visibility p = Group \<and> (\<exists>m g. m \<in> set (members one_project) \<and> g \<in> set (groups one_project) \<and>
         mr_gateway_name m = cl_iss (claims_new 7 ''a'' ''b'' ''peer'') \<and> gr_id g = mr_group_id m)}"
  using listed_projects [of demo_peer_env "\<lparr>lq_jwt = demo_token, lq_group_id = []\<rparr>" "claims_new 7 ''a'' ''b'' ''peer''"
      "\<lparr>ps_agents = [], ps_store = \<lparr>os_db = one_project, os_disk = Map.empty\<rparr>\<rparr>"] demo_token_ok
  by simp

end
