(* ===== verification/Peer_Sync.thy ===== *)
theory Peer_Sync
  imports Peer_Server Config
begin

text \<open>
  The client of the peer boundary (\<open>peer_client.rs\<close>) and the background synchronisation with the configured peers
  (\<open>peer_sync.rs\<close>). What a peer answers is a parameter, \<open>peer_net\<close>, one function per RPC; \<open>net_of\<close> is the
  network in which the peer is a gateway of this library, so that both ends are composed. Other parameters:
  clock, JWT library, MAC, disk.

  Lemmas: what a synchronisation can add to the log whatever the peer answers; which entries of an honest
  peer it never gets; which objects it transfers.
\<close>

subsection \<open>The client\<close>

record peer_net =
  nt_handshake :: "handshake_msg \<Rightarrow> status + handshake_msg"
  nt_ping :: "string \<Rightarrow> status + peer_status"
  nt_delegate :: "delegate_request \<Rightarrow> status + delegate_response"
  nt_announce :: "announcement \<Rightarrow> status + ack_response"
  nt_fetch_snapshot :: "fetch_snapshot_request \<Rightarrow> status + fetch_snapshot_response"
  nt_fetch_object :: "fetch_object_request \<Rightarrow> status + fetch_object_response"
  nt_list_projects :: "list_projects_request \<Rightarrow> status + remote_project list"
  nt_sync_log :: "log_sync_request \<Rightarrow> status + log_sync_response"
  nt_join :: "join_request \<Rightarrow> status + join_response"

record peer_client =
  pc_net :: peer_net
  pc_auth :: jwt_auth
  pc_peer :: string
  pc_jwt :: jwt_lib
  pc_now :: time
  pc_version :: string

definition client_jwt :: "peer_client \<Rightarrow> string \<Rightarrow> string" where
  "client_jwt C scope = issue (pc_jwt C) (pc_auth C) (pc_now C) (pc_peer C) scope"

definition with_context :: "string \<Rightarrow> status + 'a \<Rightarrow> err + 'a" where
  "with_context ctx r = (case r of Inl _ \<Rightarrow> Inl (Anyhow ctx) | Inr x \<Rightarrow> Inr x)"

definition client_handshake :: "peer_client \<Rightarrow> string \<Rightarrow> err + handshake_msg" where
  "client_handshake C our_name = with_context ''peer handshake'' (nt_handshake (pc_net C)
     \<lparr>hm_gateway_name = our_name, hm_version = pc_version C, hm_public_key = [], hm_agent_card = []\<rparr>)"

definition client_ping :: "peer_client \<Rightarrow> string \<Rightarrow> err + peer_status" where
  "client_ping C our_name = with_context ''peer ping'' (nt_ping (pc_net C) our_name)"

definition client_delegate ::
  "peer_client \<Rightarrow> string \<Rightarrow> string \<Rightarrow> string \<Rightarrow> string \<Rightarrow> 32 word \<Rightarrow> err + delegate_response" where
  "client_delegate C target_agent method payload trace_id hop_count = with_context ''peer delegate'' (nt_delegate (pc_net C)
     \<lparr>dr_target_agent = target_agent, dr_method = method, dr_payload = payload, dr_trace_id = trace_id,
      dr_jwt = client_jwt C ''delegate'', dr_hop_count = hop_count\<rparr>)"

definition client_announce :: "peer_client \<Rightarrow> string \<Rightarrow> string \<Rightarrow> string \<Rightarrow> string \<Rightarrow> err + ack_response" where
  "client_announce C project_id project_name snapshot_id our_name = with_context ''announce snapshot'' (nt_announce (pc_net C)
     \<lparr>nn_project_id = project_id, nn_project_name = project_name, nn_snapshot_id = snapshot_id,
      nn_gateway_name = our_name, nn_jwt = client_jwt C ''sync''\<rparr>)"

definition client_fetch_snapshot :: "peer_client \<Rightarrow> string \<Rightarrow> string \<Rightarrow> err + fetch_snapshot_response" where
  "client_fetch_snapshot C project_id snapshot_id = with_context ''fetch snapshot'' (nt_fetch_snapshot (pc_net C)
     \<lparr>fq_project_id = project_id, fq_snapshot_id = snapshot_id, fq_jwt = client_jwt C ''sync''\<rparr>)"

definition client_fetch_object :: "peer_client \<Rightarrow> string \<Rightarrow> err + string" where
  "client_fetch_object C sha256 =
     (case with_context ''fetch object'' (nt_fetch_object (pc_net C) \<lparr>fo_sha256 = sha256, fo_jwt = client_jwt C ''sync''\<rparr>) of
        Inl e \<Rightarrow> Inl e
      | Inr r \<Rightarrow> if fr_error r \<noteq> [] then Inl (Anyhow (''fetch object error: '' @ fr_error r)) else Inr (fr_data r))"

definition client_list_projects :: "peer_client \<Rightarrow> string option \<Rightarrow> err + remote_project list" where
  "client_list_projects C group_id = with_context ''list peer projects'' (nt_list_projects (pc_net C)
     \<lparr>lq_jwt = client_jwt C ''peer'', lq_group_id = (case group_id of None \<Rightarrow> [] | Some g \<Rightarrow> g)\<rparr>)"

definition client_sync_task_log :: "peer_client \<Rightarrow> string \<Rightarrow> int \<Rightarrow> err + log_sync_response" where
  "client_sync_task_log C project_id after_cursor = with_context ''sync task log'' (nt_sync_log (pc_net C)
     \<lparr>lg_project_id = project_id, lg_after_cursor = after_cursor, lg_jwt = client_jwt C ''sync''\<rparr>)"

definition client_join_group :: "peer_client \<Rightarrow> string \<Rightarrow> string \<Rightarrow> err + join_response" where
  "client_join_group C invite_token joining_gateway = with_context ''join group'' (nt_join (pc_net C)
     \<lparr>jq_invite_token = invite_token, jq_gateway_name = joining_gateway, jq_jwt = client_jwt C ''peer''\<rparr>)"

subsection \<open>Synchronisation\<close>

datatype connect_outcome = Bad_endpoint | No_connection | Connected peer_net

record pull_env =
  ye_gateway :: string
  ye_auth :: jwt_auth
  ye_jwt :: jwt_lib
  ye_now :: time
  ye_version :: string
  ye_mac :: mac
  ye_secret :: string
  ye_objects :: obj_env
  ye_connect :: "peer_config \<Rightarrow> connect_outcome"

definition default_sync_interval :: "64 word" where
  "default_sync_interval = 60"

definition sync_interval :: "64 word \<Rightarrow> 64 word" where
  "sync_interval sync_interval_secs = (if sync_interval_secs = 0 then default_sync_interval else sync_interval_secs)"

definition sumA :: "'e + 'a \<Rightarrow> 's \<Rightarrow> 's \<times> ('e + 'a)" where
  "sumA r = (\<lambda>s. (s, r))"

definition entry_of_proto :: "string \<Rightarrow> proto_entry \<Rightarrow> log_entry" where
  "entry_of_proto remote_pid pe = \<lparr>le_id = pn_id pe, le_project_id = remote_pid, le_gateway_name = pn_gateway_name pe,
     le_agent_name = pn_agent_name pe, le_entry_type = entry_type_from_str (pn_entry_type pe),
     le_content = pn_content pe, le_cursor = pn_cursor pe, le_created_at = pn_created_at pe, le_todo_id = None,
     le_signature = (if pn_signature pe = [] then None else Some (pn_signature pe)), le_task_status = None,
     le_valid_from = Some (pn_created_at pe), le_valid_to = None\<rparr>"

definition accept_entry :: "pull_env \<Rightarrow> peer_config \<Rightarrow> string \<Rightarrow> string \<Rightarrow> db \<Rightarrow> proto_entry \<Rightarrow> db" where
  "accept_entry E peer remote_pid local_pid d pe =
     (if pn_gateway_name pe \<noteq> pe_name peer then d
      else let e = entry_of_proto remote_pid pe in
        if \<not> verify_entry (ye_mac E) (ye_secret E) e then d
        else exec (okA (insert_peer_entry local_pid e (pe_name peer))) d)"

definition update_peer_cursor :: "time \<Rightarrow> string \<Rightarrow> string \<Rightarrow> int \<Rightarrow> (db, unit) act" where
  "update_peer_cursor now peer_name project_id cursor = (\<lambda>d.
     (d\<lparr>peer_cursors := insert_or (\<lambda>r. (pc_peer_name r, pc_project_id r))
          \<lparr>pc_peer_name = peer_name, pc_project_id = project_id, pc_last_cursor = cursor, pc_updated_at = now\<rparr>
          (\<lambda>r. r\<lparr>pc_last_cursor := cursor, pc_updated_at := now\<rparr>) (peer_cursors d)\<rparr>, Inr ()))"

definition apply_log :: "pull_env \<Rightarrow> peer_config \<Rightarrow> string \<Rightarrow> string \<Rightarrow> int \<Rightarrow> log_sync_response \<Rightarrow> db \<Rightarrow> db" where
  "apply_log E peer remote_pid local_pid local_cursor log_sync d =
     (let d1 = foldl (accept_entry E peer remote_pid local_pid) d (lp_entries log_sync) in
      if local_cursor < lp_head_cursor log_sync
      then exec (okA (update_peer_cursor (ye_now E) (pe_name peer) local_pid (lp_head_cursor log_sync))) d1
      else d1)"

fun fetch_objects :: "pull_env \<Rightarrow> peer_client \<Rightarrow> string list \<Rightarrow> (obj_state, unit) act" where
  "fetch_objects E C [] = ret ()"
| "fetch_objects E C (h # hs) =
     bindA (sumA (client_fetch_object C h)) (\<lambda>data.
     bindA (put_object (ye_objects E) (ye_now E) data) (\<lambda>_. fetch_objects E C hs))"

definition local_head :: "db \<Rightarrow> project option \<Rightarrow> string" where
  "local_head d local = (case local of None \<Rightarrow> []
     | Some p \<Rightarrow> (case head_snapshot d (pj_id p) of None \<Rightarrow> [] | Some s \<Rightarrow> ss_id s))"

definition local_cursor_of :: "db \<Rightarrow> project option \<Rightarrow> int" where
  "local_cursor_of d local = (case local of Some p \<Rightarrow> head_cursor d (pj_id p) | None \<Rightarrow> 0)"

text \<open>The part of \<open>sync_project\<close> after the log: pull the snapshot unless it is the head already.\<close>

definition pull_snapshot ::
  "pull_env \<Rightarrow> peer_client \<Rightarrow> peer_config \<Rightarrow> remote_project \<Rightarrow> project option \<Rightarrow> (obj_state, unit) act" where
  "pull_snapshot E C peer remote local = (\<lambda>s.
     if local_head (os_db s) local = rp_snapshot_id remote \<or> rp_snapshot_id remote = [] then (s, Inr ())
     else bindA (sumA (client_fetch_snapshot C (rp_project_id remote) (rp_snapshot_id remote))) (\<lambda>resp.
       if fs_error resp \<noteq> [] then fail (Anyhow (''fetch snapshot error: '' @ fs_error resp))
       else bindA (fetch_objects E C (fs_missing_objects resp)) (\<lambda>_.
         case local of None \<Rightarrow> ret ()
         | Some p \<Rightarrow> bindA (in_db (apply_peer_snapshot (ye_now E) (pj_id p) (rp_snapshot_id remote)
               (fs_transcript resp) (pe_name peer))) (\<lambda>_. ret ()))) s)"

definition sync_project ::
  "pull_env \<Rightarrow> peer_client \<Rightarrow> peer_config \<Rightarrow> remote_project \<Rightarrow> (obj_state, unit) act" where
  "sync_project E C peer remote = (\<lambda>s.
     let local = get_by_name (os_db s) (rp_project_name remote);
         local_cursor = local_cursor_of (os_db s) local in
     bindA (sumA (client_sync_task_log C (rp_project_id remote) local_cursor)) (\<lambda>log_sync s.
       pull_snapshot E C peer remote local
         (case local of None \<Rightarrow> s
          | Some p \<Rightarrow> s\<lparr>os_db := apply_log E peer (rp_project_id remote) (pj_id p) local_cursor log_sync (os_db s)\<rparr>)) s)"

definition client_of :: "pull_env \<Rightarrow> peer_config \<Rightarrow> peer_net \<Rightarrow> peer_client" where
  "client_of E peer net = \<lparr>pc_net = net, pc_auth = ye_auth E, pc_peer = pe_name peer, pc_jwt = ye_jwt E,
     pc_now = ye_now E, pc_version = ye_version E\<rparr>"

definition sync_peer :: "pull_env \<Rightarrow> peer_config \<Rightarrow> (obj_state, unit) act" where
  "sync_peer E peer =
     (case ye_connect E peer of
        Bad_endpoint \<Rightarrow> fail (Anyhow ''invalid peer endpoint'')
      | No_connection \<Rightarrow> fail (Anyhow (''connecting to peer '' @ pe_endpoint peer))
      | Connected net \<Rightarrow>
          let C = client_of E peer net in
          bindA (sumA (client_ping C (ye_gateway E))) (\<lambda>status.
            if \<not> st_ok status then ret ()
            else bindA (sumA (client_list_projects C None)) (\<lambda>remote_list s.
              (foldl (\<lambda>s remote. exec (sync_project E C peer remote) s) s remote_list, Inr ()))))"

definition sync_round :: "pull_env \<Rightarrow> peer_config list \<Rightarrow> (obj_state, unit) act" where
  "sync_round E peers = (\<lambda>s. (foldl (\<lambda>s peer. exec (sync_peer E peer) s) s peers, Inr ()))"

text \<open>The peer as a gateway in state \<open>t\<close>.\<close>

definition net_of :: "peer_env \<Rightarrow> peer_state \<Rightarrow> peer_net" where
  "net_of V t = \<lparr>nt_handshake = (\<lambda>m. Inr (handshake V m)), nt_ping = (\<lambda>from. Inr (ping V from t)),
     nt_delegate = (\<lambda>r. result (delegate V r) t), nt_announce = (\<lambda>r. result (announce_snapshot V r) t),
     nt_fetch_snapshot = (\<lambda>r. result (fetch_snapshot V r) t), nt_fetch_object = (\<lambda>r. result (fetch_object V r) t),
     nt_list_projects = (\<lambda>r. result (list_projects_rpc V r) t), nt_sync_log = (\<lambda>r. result (sync_task_log V r) t),
     nt_join = (\<lambda>r. result (join_group V r) t)\<rparr>"

subsection \<open>What reaches the log\<close>

lemma exec_sumA: "exec (bindA (sumA r) f) s = (case r of Inl _ \<Rightarrow> s | Inr x \<Rightarrow> exec (f x) s)"
  by (simp add: exec_def bindA_def sumA_def split: sum.split)

lemma exec_bindA: "exec (bindA m f) s = (case m s of (s', Inl _) \<Rightarrow> s' | (s', Inr x) \<Rightarrow> exec (f x) s')"
  by (auto simp: exec_def bindA_def split: prod.splits sum.splits)

lemma exec_simps [simp]: "exec (ret x) s = s" "exec (fail e) s = s" "exec (\<lambda>s. (f s, r)) s = f s"
  by (simp_all add: exec_def ret_def fail_def)

lemma runA_foldl: "runA step s xs = foldl (\<lambda>s x. step x s) s xs"
  by (induction xs arbitrary: s) simp_all

text \<open>The log grew by rows that all satisfy \<open>P\<close>, and the projects are the same.\<close>

definition log_grown :: "(log_row \<Rightarrow> bool) \<Rightarrow> db \<Rightarrow> db \<Rightarrow> bool" where
  "log_grown P d d' \<longleftrightarrow> projects d' = projects d \<and> (\<exists>new. task_log d' = task_log d @ new \<and> list_all P new)"

lemma log_grown_refl: "log_grown P d d"
  by (simp add: log_grown_def)

lemma log_grown_trans: "log_grown P d e \<Longrightarrow> log_grown P e f \<Longrightarrow> log_grown P d f"
  unfolding log_grown_def by (metis append.assoc list_all_append)

lemma log_grown_mono: "log_grown P d e \<Longrightarrow> (\<And>r. P r \<Longrightarrow> Q r) \<Longrightarrow> log_grown Q d e"
  unfolding log_grown_def by (metis list.pred_mono_strong)

lemma log_grown_same: "projects d' = projects d \<Longrightarrow> task_log d' = task_log d \<Longrightarrow> log_grown P d d'"
  by (simp add: log_grown_def)

text \<open>A row that carries the peer's name and a signature made with the shared secret.\<close>

definition authentic :: "pull_env \<Rightarrow> string \<Rightarrow> string \<Rightarrow> log_row \<Rightarrow> bool" where
  "authentic E peer_name remote_pid r \<longleftrightarrow> lr_gateway_name r = peer_name \<and>
     verify_entry (ye_mac E) (ye_secret E) ((log_entry_of_row r)\<lparr>le_project_id := remote_pid\<rparr>)"

lemma entry_of_proto_pid [simp]: "(entry_of_proto rp pe)\<lparr>le_project_id := rp\<rparr> = entry_of_proto rp pe"
  "le_gateway_name (entry_of_proto rp pe) = pn_gateway_name pe"
  "le_id (entry_of_proto rp pe) = pn_id pe" "le_cursor (entry_of_proto rp pe) = pn_cursor pe"
  by (simp_all add: entry_of_proto_def)

lemma insert_peer_grown:
  assumes "P (log_row_of lp e)"
  shows "log_grown P d (exec (okA (insert_peer_entry lp e g)) d)"
  using assms by (auto simp: log_grown_def exec_def okA_def insert_peer_entry_def)

lemma accept_entry_grown:
  "log_grown (\<lambda>r. authentic E (pe_name peer) rp r \<and> lr_project_id r = lp \<and> lr_cursor r = pn_cursor pe \<and> lr_id r = pn_id pe)
     d (accept_entry E peer rp lp d pe)"
proof (cases "pn_gateway_name pe = pe_name peer \<and> verify_entry (ye_mac E) (ye_secret E) (entry_of_proto rp pe)")
  case True
  have sel: "lr_gateway_name (log_row_of lp (entry_of_proto rp pe)) = pn_gateway_name pe"
    by (simp add: log_row_of_def)
  have "log_entry_of_row (log_row_of lp (entry_of_proto rp pe))\<lparr>le_project_id := rp\<rparr> = entry_of_proto rp pe"
    by (simp add: entry_of_proto_def)
  with True show ?thesis
    unfolding accept_entry_def Let_def authentic_def
    by (auto simp: sel intro!: insert_peer_grown)
next
  case False
  then show ?thesis
    by (auto simp: accept_entry_def log_grown_refl)
qed

lemma accept_entries_grown:
  "log_grown (\<lambda>r. authentic E (pe_name peer) rp r \<and> lr_project_id r = lp \<and>
       (\<exists>pe \<in> set pes. lr_cursor r = pn_cursor pe \<and> lr_id r = pn_id pe))
     d (foldl (accept_entry E peer rp lp) d pes)"
proof (induction pes rule: rev_induct)
  case Nil
  then show ?case by (simp add: log_grown_refl)
next
  case (snoc pe pes)
  then show ?case
    using accept_entry_grown [of E peer rp lp pe "foldl (accept_entry E peer rp lp) d pes"]
    by (auto elim!: log_grown_mono intro: log_grown_trans [OF log_grown_mono [OF snoc] log_grown_mono])
qed

lemma apply_log_grown:
  "log_grown (\<lambda>r. authentic E (pe_name peer) rp r \<and> lr_project_id r = lp \<and>
       (\<exists>pe \<in> set (lp_entries ls). lr_cursor r = pn_cursor pe \<and> lr_id r = pn_id pe))
     d (apply_log E peer rp lp c ls d)"
  using accept_entries_grown [of E peer rp lp "lp_entries ls" d]
  by (simp add: apply_log_def Let_def exec_def okA_def update_peer_cursor_def log_grown_def)

lemma put_object_log: "task_log (os_db (exec (put_object X now c) s)) = task_log (os_db s) \<and>
    projects (os_db (exec (put_object X now c) s)) = projects (os_db s)"
  by (simp add: exec_def put_object_def Let_def)

lemma fetch_objects_log: "log_grown P (os_db s) (os_db (exec (fetch_objects E C hs) s))"
proof (induction hs arbitrary: s)
  case Nil
  then show ?case by (simp add: exec_def ret_def log_grown_refl)
next
  case (Cons h hs)
  show ?case
  proof (cases "client_fetch_object C h")
    case (Inl e)
    then show ?thesis by (simp add: exec_sumA log_grown_refl)
  next
    case (Inr data)
    obtain s1 r where p: "put_object (ye_objects E) (ye_now E) data s = (s1, r)"
      by (metis surj_pair)
    have one: "log_grown P (os_db s) (os_db s1)"
      using put_object_log [of "ye_objects E" "ye_now E" data s] p by (auto simp: exec_def intro: log_grown_same)
    show ?thesis
      using Inr p one log_grown_trans [OF one Cons [of s1]]
      by (cases r) (simp_all add: exec_sumA exec_bindA [of "put_object (ye_objects E) (ye_now E) data"])
  qed
qed

lemma apply_peer_log: "log_grown P d (exec (apply_peer_snapshot now pid i t g) d)"
  by (rule log_grown_same) (simp_all add: exec_def apply_peer_cases Let_def store_snapshot_def)

lemma pull_snapshot_log: "log_grown P (os_db s) (os_db (exec (pull_snapshot E C peer remote local) s))"
proof (cases "local_head (os_db s) local = rp_snapshot_id remote \<or> rp_snapshot_id remote = []")
  case True
  then show ?thesis by (simp add: pull_snapshot_def exec_def log_grown_refl)
next
  case False
  define fin :: "string \<Rightarrow> (obj_state, unit) act" where "fin t = (case local of None \<Rightarrow> ret () | Some p \<Rightarrow> bindA (in_db (apply_peer_snapshot (ye_now E) (pj_id p)
      (rp_snapshot_id remote) t (pe_name peer))) (\<lambda>_. ret ()))" for t
  have fin: "log_grown P (os_db s) (os_db (exec (fin t) s))" for s t
    using apply_peer_log by (cases local) (simp_all add: fin_def exec_zoom log_grown_refl)
  have rest: "log_grown P (os_db s) (os_db (exec (bindA (fetch_objects E C hs) (\<lambda>_. fin t)) s))" for hs t
  proof (cases "fetch_objects E C hs s")
    case (Pair s1 r)
    then have "log_grown P (os_db s) (os_db s1)"
      using fetch_objects_log [of P s E C hs] by (simp add: exec_def)
    with Pair fin [of s1 t] show ?thesis
      by (cases r) (auto simp: exec_bindA intro: log_grown_trans)
  qed
  have "exec (pull_snapshot E C peer remote local) s =
    (case client_fetch_snapshot C (rp_project_id remote) (rp_snapshot_id remote) of Inl _ \<Rightarrow> s
     | Inr resp \<Rightarrow> if fs_error resp \<noteq> [] then s
         else exec (bindA (fetch_objects E C (fs_missing_objects resp)) (\<lambda>_. fin (fs_transcript resp))) s)"
    using False by (simp add: pull_snapshot_def exec_def bindA_def sumA_def fail_def fin_def split: sum.split)
  then show ?thesis
    using rest by (simp add: log_grown_refl split: sum.split)
qed

text \<open>The state in which the log has been applied, and the rest of \<open>sync_project\<close>.\<close>

definition after_log :: "pull_env \<Rightarrow> peer_config \<Rightarrow> remote_project \<Rightarrow> log_sync_response \<Rightarrow> obj_state \<Rightarrow> obj_state" where
  "after_log E peer remote ls s = (case get_by_name (os_db s) (rp_project_name remote) of None \<Rightarrow> s
     | Some p \<Rightarrow> s\<lparr>os_db := apply_log E peer (rp_project_id remote) (pj_id p)
         (head_cursor (os_db s) (pj_id p)) ls (os_db s)\<rparr>)"

lemma sync_project_cases:
  "sync_project E C peer remote s =
     (case client_sync_task_log C (rp_project_id remote)
         (local_cursor_of (os_db s) (get_by_name (os_db s) (rp_project_name remote))) of
        Inl e \<Rightarrow> (s, Inl e)
      | Inr ls \<Rightarrow> pull_snapshot E C peer remote (get_by_name (os_db s) (rp_project_name remote)) (after_log E peer remote ls s))"
  by (auto simp: sync_project_def Let_def bindA_def sumA_def after_log_def local_cursor_of_def split: sum.split option.split)

lemma sync_project_log:
  "log_grown (\<lambda>r. authentic E (pe_name peer) (rp_project_id remote) r \<and>
       (\<exists>p. get_by_name (os_db s) (rp_project_name remote) = Some p \<and> lr_project_id r = pj_id p) \<and>
       (\<exists>ls. client_sync_task_log C (rp_project_id remote)
           (local_cursor_of (os_db s) (get_by_name (os_db s) (rp_project_name remote))) = Inr ls \<and>
         (\<exists>pe \<in> set (lp_entries ls). lr_cursor r = pn_cursor pe \<and> lr_id r = pn_id pe)))
     (os_db s) (os_db (exec (sync_project E C peer remote) s))" (is "log_grown ?P _ _")
proof (cases "client_sync_task_log C (rp_project_id remote)
    (local_cursor_of (os_db s) (get_by_name (os_db s) (rp_project_name remote)))")
  case (Inl e)
  then show ?thesis by (simp add: exec_def sync_project_cases log_grown_refl)
next
  case (Inr ls)
  have a: "log_grown ?P (os_db s) (os_db (after_log E peer remote ls s))"
  proof (cases "get_by_name (os_db s) (rp_project_name remote)")
    case None
    then show ?thesis by (simp add: after_log_def log_grown_refl)
  next
    case (Some p)
    show ?thesis
      using apply_log_grown [of E peer "rp_project_id remote" "pj_id p" ls "os_db s" "head_cursor (os_db s) (pj_id p)"] Inr Some
      by (auto simp: after_log_def elim!: log_grown_mono)
  qed
  have "exec (sync_project E C peer remote) s =
      exec (pull_snapshot E C peer remote (get_by_name (os_db s) (rp_project_name remote))) (after_log E peer remote ls s)"
    by (simp add: exec_def sync_project_cases Inr)
  then show ?thesis
    using log_grown_trans [OF a pull_snapshot_log] by simp
qed

lemma sync_peer_log:
  "log_grown (\<lambda>r. \<exists>rp. authentic E (pe_name peer) rp r) (os_db s) (os_db (exec (sync_peer E peer) s))"
proof -
  let ?P = "\<lambda>r. \<exists>rp. authentic E (pe_name peer) rp r"
  have fold: "log_grown ?P (os_db s) (os_db (foldl (\<lambda>s remote. exec (sync_project E C peer remote) s) s rs))" for C rs s
  proof (induction rs rule: rev_induct)
    case (snoc r rs)
    have "log_grown ?P (os_db t) (os_db (exec (sync_project E C peer r) t))" for t
      by (rule log_grown_mono [OF sync_project_log]) blast
    with snoc show ?case by (auto intro: log_grown_trans)
  qed (simp add: log_grown_refl)
  show ?thesis
  proof (cases "ye_connect E peer")
    case (Connected net)
    then show ?thesis
      using fold by (auto simp: sync_peer_def Let_def exec_sumA log_grown_refl split: sum.splits)
  qed (simp_all add: sync_peer_def log_grown_refl)
qed

lemma sync_round_log:
  "log_grown (\<lambda>r. \<exists>peer \<in> set peers. \<exists>rp. authentic E (pe_name peer) rp r) (os_db s) (os_db (exec (sync_round E peers) s))"
proof -
  have "log_grown (\<lambda>r. \<exists>peer \<in> set ps. \<exists>rp. authentic E (pe_name peer) rp r) (os_db s)
      (os_db (foldl (\<lambda>s peer. exec (sync_peer E peer) s) s ps))" for ps
  proof (induction ps rule: rev_induct)
    case (snoc p ps)
    let ?Q = "\<lambda>r. \<exists>peer \<in> set (ps @ [p]). \<exists>rp. authentic E (pe_name peer) rp r"
    have "log_grown ?Q (os_db s) (os_db (foldl (\<lambda>s peer. exec (sync_peer E peer) s) s ps))"
      by (rule log_grown_mono [OF snoc]) auto
    moreover have "log_grown ?Q (os_db t) (os_db (exec (sync_peer E p) t))" for t
      by (rule log_grown_mono [OF sync_peer_log]) auto
    ultimately show ?case by (auto intro: log_grown_trans)
  qed (simp add: log_grown_refl)
  then show ?thesis by (simp add: sync_round_def)
qed

subsection \<open>An honest peer\<close>

lemma honest_log:
  "client_sync_task_log (client_of E peer (net_of V t)) rp c = Inr ls \<Longrightarrow>
     lp_entries ls = map proto_of_entry (since (ps_db t) rp c)"
  by (auto simp: client_sync_task_log_def with_context_def client_of_def net_of_def sync_task_log_def result_def
      bindA_def auth_peer_def split: sum.splits)

lemma honest_entries:
  assumes "client_sync_task_log (client_of E peer (net_of V t)) rp c = Inr ls" "pe \<in> set (lp_entries ls)"
  shows "\<exists>x \<in> set (task_log (ps_db t)). pn_id pe = lr_id x \<and> pn_cursor pe = lr_cursor x \<and> c < lr_cursor x"
  using assms(2) unfolding honest_log [OF assms(1)]
  by (auto simp: since_def proto_of_entry_def log_entry_of_row_def)

lemma head_cursor_grown:
  assumes "log_grown (\<lambda>r. lr_project_id r = pid \<longrightarrow> head_cursor d pid < lr_cursor r) d d'"
  shows "head_cursor d pid \<le> head_cursor d' pid"
proof -
  obtain new where new: "task_log d' = task_log d @ new"
    "\<And>r. r \<in> set new \<Longrightarrow> lr_project_id r = pid \<Longrightarrow> head_cursor d pid < lr_cursor r"
    using assms by (auto simp: log_grown_def list_all_iff)
  show ?thesis
  proof (cases "project_log d' pid = project_log d pid")
    case True
    then show ?thesis by (simp add: head_cursor_def)
  next
    case False
    then obtain r where r: "r \<in> set new" "lr_project_id r = pid"
      using new(1) by (auto simp: project_log_def filter_empty_conv)
    then have "r \<in> set (project_log d' pid)"
      using new(1) by (simp add: project_log_def)
    with new(2) [OF r] head_cursor_ge [of r d' pid] show ?thesis by linarith
  qed
qed

text \<open>An entry the peer has, this gateway lacks, and that is not above the local head cursor.\<close>

definition below_head :: "log_row \<Rightarrow> string \<Rightarrow> string \<Rightarrow> obj_state \<Rightarrow> bool" where
  "below_head r pid name s \<longleftrightarrow> lr_cursor r \<le> head_cursor (os_db s) pid \<and> lr_id r \<notin> lr_id ` set (task_log (os_db s)) \<and>
     (\<exists>p. get_by_name (os_db s) name = Some p \<and> pj_id p = pid)"

lemma below_head_step:
  assumes "below_head r pid (rp_project_name remote) s"
    and "\<And>x. x \<in> set (task_log (ps_db t)) \<Longrightarrow> lr_id x = lr_id r \<Longrightarrow> lr_cursor x = lr_cursor r"
  shows "below_head r pid (rp_project_name remote) (exec (sync_project E (client_of E peer (net_of V t)) peer remote) s)"
proof -
  let ?C = "client_of E peer (net_of V t)" and ?s' = "exec (sync_project E (client_of E peer (net_of V t)) peer remote) s"
  obtain p where p: "get_by_name (os_db s) (rp_project_name remote) = Some p" "pj_id p = pid"
    using assms(1) by (auto simp: below_head_def)
  have g: "log_grown (\<lambda>x. lr_id x \<noteq> lr_id r \<and> head_cursor (os_db s) pid < lr_cursor x) (os_db s) (os_db ?s')"
  proof (rule log_grown_mono [OF sync_project_log])
    fix x
    assume a: "authentic E (pe_name peer) (rp_project_id remote) x \<and>
       (\<exists>p. get_by_name (os_db s) (rp_project_name remote) = Some p \<and> lr_project_id x = pj_id p) \<and>
       (\<exists>ls. client_sync_task_log ?C (rp_project_id remote)
           (local_cursor_of (os_db s) (get_by_name (os_db s) (rp_project_name remote))) = Inr ls \<and>
         (\<exists>pe \<in> set (lp_entries ls). lr_cursor x = pn_cursor pe \<and> lr_id x = pn_id pe))"
    have c: "local_cursor_of (os_db s) (get_by_name (os_db s) (rp_project_name remote)) = head_cursor (os_db s) pid"
      using p by (simp add: local_cursor_of_def)
    from a obtain y where y: "y \<in> set (task_log (ps_db t))" "lr_id x = lr_id y" "lr_cursor x = lr_cursor y"
      "head_cursor (os_db s) pid < lr_cursor y"
      unfolding c using honest_entries by metis
    then show "lr_id x \<noteq> lr_id r \<and> head_cursor (os_db s) pid < lr_cursor x"
      using assms by (force simp: below_head_def)
  qed
  then have "head_cursor (os_db s) pid \<le> head_cursor (os_db ?s') pid"
    by (intro head_cursor_grown) (auto elim: log_grown_mono)
  moreover have "lr_id r \<notin> lr_id ` set (task_log (os_db ?s'))"
    using g assms(1) by (auto simp: log_grown_def below_head_def list_all_iff)
  moreover have "get_by_name (os_db ?s') (rp_project_name remote) = Some p"
    using g p by (simp add: log_grown_def get_by_name_def)
  ultimately show ?thesis
    using assms(1) p(2) by (auto simp: below_head_def)
qed

subsection \<open>Objects\<close>

lemma honest_snapshot:
  assumes "client_fetch_snapshot (client_of E peer (net_of V t)) pid i = Inr resp"
    and "get_snapshot (ps_db t) i = Some snap"
    and "list_all (\<lambda>e. exists_db (ps_store t) (te_sha256 e)) (parse_transcript (ss_transcript snap))"
  shows "fs_missing_objects resp = [] \<and> fs_transcript resp = ss_transcript snap \<and> fs_error resp = []"
  using assms
  by (auto simp: client_fetch_snapshot_def with_context_def client_of_def net_of_def fetch_snapshot_def result_def
      bindA_def auth_peer_def Let_def missing_def filter_empty_conv list_all_iff split: sum.splits)

lemma apply_log_frame:
  "objects (apply_log E peer rp lp c ls d) = objects d \<and> project_heads (apply_log E peer rp lp c ls d) = project_heads d \<and>
   snapshots (apply_log E peer rp lp c ls d) = snapshots d"
proof -
  have one: "objects (accept_entry E peer rp lp d pe) = objects d \<and> project_heads (accept_entry E peer rp lp d pe) = project_heads d \<and>
      snapshots (accept_entry E peer rp lp d pe) = snapshots d" for d pe
    by (simp add: accept_entry_def Let_def exec_def okA_def insert_peer_entry_def)
  have "objects (foldl (accept_entry E peer rp lp) d pes) = objects d \<and>
      project_heads (foldl (accept_entry E peer rp lp) d pes) = project_heads d \<and>
      snapshots (foldl (accept_entry E peer rp lp) d pes) = snapshots d" for pes
    by (induction pes arbitrary: d) (simp_all add: one)
  then show ?thesis
    by (simp add: apply_log_def Let_def exec_def okA_def update_peer_cursor_def)
qed

lemma after_log_frame:
  "os_disk (after_log E peer remote ls s) = os_disk s \<and> objects (os_db (after_log E peer remote ls s)) = objects (os_db s)"
  by (simp add: after_log_def apply_log_frame split: option.split)

lemma pull_nothing_missing:
  assumes "\<And>resp. client_fetch_snapshot C (rp_project_id remote) (rp_snapshot_id remote) = Inr resp \<Longrightarrow>
      fs_missing_objects resp = [] \<and> fs_error resp = []"
  shows "case pull_snapshot E C peer remote local s of (s', r) \<Rightarrow>
     os_disk s' = os_disk s \<and> objects (os_db s') = objects (os_db s) \<and>
     (is_ok r \<and> rp_snapshot_id remote \<noteq> [] \<longrightarrow> (case local of None \<Rightarrow> True
        | Some p \<Rightarrow> local_head (os_db s') local = rp_snapshot_id remote))"
proof (cases "local_head (os_db s) local = rp_snapshot_id remote \<or> rp_snapshot_id remote = []")
  case True
  then show ?thesis by (auto simp: pull_snapshot_def split: option.split)
next
  case False
  show ?thesis
  proof (cases "client_fetch_snapshot C (rp_project_id remote) (rp_snapshot_id remote)")
    case (Inl e)
    with False show ?thesis by (simp add: pull_snapshot_def bindA_def sumA_def)
  next
    case (Inr resp)
    let ?r = "\<lambda>p. \<lparr>sn_id = rp_snapshot_id remote, sn_project_id = pj_id p, sn_gateway = pe_name peer,
      sn_transcript = fs_transcript resp, sn_created_at = ye_now E\<rparr>"
    have pull: "pull_snapshot E C peer remote local s = (case local of None \<Rightarrow> (s, Inr ())
        | Some p \<Rightarrow> bindA (in_db (apply_peer_snapshot (ye_now E) (pj_id p) (rp_snapshot_id remote)
               (fs_transcript resp) (pe_name peer))) (\<lambda>_. ret ()) s)"
      using False Inr assms [OF Inr] by (simp add: pull_snapshot_def bindA_def sumA_def ret_def split: option.split)
    show ?thesis
    proof (cases local)
      case None
      show ?thesis unfolding pull by (simp add: None)
    next
      case (Some p)
      have h: "local_head (store_snapshot (ye_now E) (?r p) (os_db s)) (Some p) = rp_snapshot_id remote"
        if "\<not> has_key sn_id (rp_snapshot_id remote) (snapshots (os_db s))"
        using head_store [of "?r p" "os_db s" "ye_now E" "pj_id p"] that
        by (simp add: local_head_def snapshot_of_row_def)
      show ?thesis
        unfolding pull unfolding Some
        by (simp add: bindA_def zoomA_def apply_peer_cases Let_def ret_def h) (simp add: store_snapshot_def)
    qed
  qed
qed

subsection \<open>Properties\<close>

text \<open>
  C8. What synchronisation can put into the log, whatever the peers answer: a round only appends, and every
  row it appends names one of the configured peers and carries a signature made with the shared secret over
  that name, the content and a project id of the peer.
\<close>

theorem synced_entries_authentic:
  "\<exists>new. task_log (os_db (exec (sync_round E peers) s)) = task_log (os_db s) @ new \<and>
     list_all (\<lambda>r. \<exists>peer. peer \<in> set peers \<and> lr_gateway_name r = pe_name peer \<and>
       (\<exists>rp. verify_entry (ye_mac E) (ye_secret E) ((log_entry_of_row r)\<lparr>le_project_id := rp\<rparr>))) new"
  using sync_round_log [of peers E s] unfolding log_grown_def authentic_def list_all_iff by blast

text \<open>
  Synchronisation asks from the head of the local log, not from what it has of the peer: an entry of an honest
  peer whose cursor is not above the local head is not fetched, in this round or in any later one, however
  the peer's state evolves (as long as its ids stay unique).
\<close>

lemma low_cursor_never_synced:
  fixes r :: log_row
  assumes "lr_cursor r \<le> head_cursor (os_db s) (pj_id p)" "lr_id r \<notin> lr_id ` set (task_log (os_db s))"
    and "get_by_name (os_db s) (rp_project_name remote) = Some p"
    and "\<And>t x. t \<in> set ts \<Longrightarrow> x \<in> set (task_log (ps_db t)) \<Longrightarrow> lr_id x = lr_id r \<Longrightarrow> lr_cursor x = lr_cursor r"
  shows "lr_id r \<notin> lr_id ` set (task_log (os_db
     (runA (\<lambda>t s. exec (sync_project E (client_of E peer (net_of V t)) peer remote) s) s ts)))"
proof -
  have "below_head r (pj_id p) (rp_project_name remote) s"
    using assms by (auto simp: below_head_def)
  then have "below_head r (pj_id p) (rp_project_name remote)
      (runA (\<lambda>t s. exec (sync_project E (client_of E peer (net_of V t)) peer remote) s) s ts)"
    using assms(4)
  proof (induction ts arbitrary: s)
    case (Cons t ts)
    have "below_head r (pj_id p) (rp_project_name remote)
        (exec (sync_project E (client_of E peer (net_of V t)) peer remote) s)"
      using Cons.prems by (intro below_head_step) auto
    moreover have "lr_cursor x = lr_cursor r"
      if "u \<in> set ts" "x \<in> set (task_log (ps_db u))" "lr_id x = lr_id r" for u x
      using Cons.prems(2) [of u x] that by simp
    ultimately show ?case
      unfolding runA.simps by (rule Cons.IH)
  qed simp
  then show ?thesis by (simp add: below_head_def)
qed

text \<open>
  C6. A pull between two gateways transfers no file content: when the serving gateway has recorded every object
  of the snapshot (as it has after its own scan), the pulling gateway's disk and object table stay as they were,
  and on success the snapshot is its head all the same.
\<close>

theorem pull_transfers_no_object:
  assumes "get_snapshot (ps_db t) (rp_snapshot_id remote) = Some snap"
    and "list_all (\<lambda>e. exists_db (ps_store t) (te_sha256 e)) (parse_transcript (ss_transcript snap))"
  shows "case sync_project E (client_of E peer (net_of V t)) peer remote s of (s', r) \<Rightarrow>
     os_disk s' = os_disk s \<and> objects (os_db s') = objects (os_db s) \<and>
     (is_ok r \<and> rp_snapshot_id remote \<noteq> [] \<longrightarrow> (case get_by_name (os_db s) (rp_project_name remote) of None \<Rightarrow> True
        | Some p \<Rightarrow> local_head (os_db s') (Some p) = rp_snapshot_id remote))"
proof (cases "client_sync_task_log (client_of E peer (net_of V t)) (rp_project_id remote)
    (local_cursor_of (os_db s) (get_by_name (os_db s) (rp_project_name remote)))")
  case (Inl e)
  then show ?thesis by (simp add: sync_project_cases)
next
  case (Inr ls)
  let ?C = "client_of E peer (net_of V t)" and ?l = "get_by_name (os_db s) (rp_project_name remote)"
  have "sync_project E ?C peer remote s = pull_snapshot E ?C peer remote ?l (after_log E peer remote ls s)"
    by (simp add: sync_project_cases Inr)
  moreover have "client_fetch_snapshot ?C (rp_project_id remote) (rp_snapshot_id remote) = Inr resp \<Longrightarrow>
      fs_missing_objects resp = [] \<and> fs_error resp = []" for resp
    using honest_snapshot [OF _ assms] by blast
  ultimately show ?thesis
    using pull_nothing_missing [of ?C remote, where E = E and peer = peer and local = ?l and s = "after_log E peer remote ls s"]
      after_log_frame [of E peer remote ls s]
    by (simp add: case_prod_beta split: option.splits)
qed

definition demo_pull_env :: pull_env where
  "demo_pull_env = \<lparr>ye_gateway = ''a'', ye_auth = \<lparr>ja_secret = ''k'', ja_issuer = ''a''\<rparr>, ye_jwt = demo_jwt, ye_now = 100,
     ye_version = ''0.1.0'', ye_mac = (\<lambda>k m. k @ m), ye_secret = ''k'', ye_objects = demo_obj_env,
     ye_connect = (\<lambda>_. No_connection)\<rparr>"

definition demo_peer :: peer_config where
  "demo_peer = \<lparr>pe_name = ''b'', pe_endpoint = ''http://b'', pe_cert_path = None, pe_tls = True\<rparr>"

definition demo_remote :: remote_project where
  "demo_remote = \<lparr>rp_project_id = ''q'', rp_project_name = ''n'', rp_repo_url = [], rp_description = [],
     rp_visibility = ''public'', rp_snapshot_id = ''s'', rp_gateway_name = ''b''\<rparr>"

definition demo_row :: "string \<Rightarrow> string \<Rightarrow> int \<Rightarrow> log_row" where
  "demo_row i pid c = log_row_of pid \<lparr>le_id = i, le_project_id = pid, le_gateway_name = ''b'', le_agent_name = ''w'',
     le_entry_type = Done, le_content = ''x'', le_cursor = c, le_created_at = 1, le_todo_id = None, le_signature = None,
     le_task_status = None, le_valid_from = None, le_valid_to = None\<rparr>"

definition demo_file :: transcript_entry where
  "demo_file = \<lparr>te_path = ''f'', te_sha256 = ''ab12'', te_size = 1, te_mode = 420, te_mtime = 0\<rparr>"

definition demo_server :: peer_state where
  "demo_server = \<lparr>ps_agents = [], ps_store = \<lparr>os_db = one_project\<lparr>task_log := [demo_row ''e1'' ''q'' 1],
     objects := [\<lparr>ob_sha256 = ''ab12'', ob_size_bytes = 1, ob_created_at = 0\<rparr>],
     snapshots := [\<lparr>sn_id = ''s'', sn_project_id = ''q'', sn_gateway = ''b'', sn_transcript = build_transcript [demo_file],
       sn_created_at = 0\<rparr>]\<rparr>, os_disk = Map.empty\<rparr>\<rparr>"

definition demo_puller :: obj_state where
  "demo_puller = \<lparr>os_db = one_project\<lparr>task_log := [demo_row ''e2'' ''p'' 1]\<rparr>, os_disk = Map.empty\<rparr>"

definition demo_local_project :: project where
  "demo_local_project = project_of_row (project_row_new ''p'' 0 ''n'' ''u'' [] ''gw'' [] [])"

lemma demo_by_name: "get_by_name (os_db demo_puller) (rp_project_name demo_remote) = Some demo_local_project"
  by (simp add: get_by_name_def demo_puller_def demo_remote_def one_project_def demo_local_project_def find_by_def
      project_row_new_def)

lemma low_cursor_never_synced_witness:
  "lr_id (demo_row ''e1'' ''q'' 1) \<notin> lr_id ` set (task_log (os_db
     (runA (\<lambda>t s. exec (sync_project demo_pull_env (client_of demo_pull_env demo_peer (net_of demo_peer_env t)) demo_peer demo_remote) s)
        demo_puller [demo_server, demo_server])))"
proof (rule low_cursor_never_synced [where p = demo_local_project])
  show "get_by_name (os_db demo_puller) (rp_project_name demo_remote) = Some demo_local_project"
    by (rule demo_by_name)
qed (auto simp: demo_puller_def demo_row_def head_cursor_def project_log_def demo_local_project_def log_row_of_def
    project_row_new_def demo_server_def)

lemma pull_transfers_no_object_witness:
  "case sync_project demo_pull_env (client_of demo_pull_env demo_peer (net_of demo_peer_env demo_server)) demo_peer demo_remote demo_puller of
     (s', r) \<Rightarrow> os_disk s' = os_disk demo_puller \<and> objects (os_db s') = objects (os_db demo_puller) \<and>
     (if is_ok r then local_head (os_db s') (Some demo_local_project) = ''s'' else True)"
proof -
  have "get_snapshot (ps_db demo_server) (rp_snapshot_id demo_remote) = Some (snapshot_of_row
      \<lparr>sn_id = ''s'', sn_project_id = ''q'', sn_gateway = ''b'', sn_transcript = build_transcript [demo_file], sn_created_at = 0\<rparr>)"
    by (simp add: get_snapshot_def demo_server_def demo_remote_def find_by_def)
  moreover have "parse_transcript (build_transcript [demo_file]) = [demo_file]"
    by (subst parse_build) (simp_all add: clean_entry_def demo_file_def order_by_def)
  then have "list_all (\<lambda>e. exists_db (ps_store demo_server) (te_sha256 e)) (parse_transcript (ss_transcript (snapshot_of_row
      \<lparr>sn_id = ''s'', sn_project_id = ''q'', sn_gateway = ''b'', sn_transcript = build_transcript [demo_file], sn_created_at = 0\<rparr>)))"
    by (simp add: snapshot_of_row_def exists_db_def has_key_def demo_server_def demo_file_def)
  ultimately show ?thesis
    using pull_transfers_no_object [of demo_server demo_remote, where E = demo_pull_env and V = demo_peer_env and peer = demo_peer and
        s = demo_puller]
    by (simp add: case_prod_beta demo_by_name) (simp add: demo_remote_def)
qed

end
