(* ===== verification/Event_Bus.thy ===== *)
theory Event_Bus
  imports A2A_Prelude
begin

text \<open>
  The event buses of the gateway (\<open>nats_bus.rs\<close>, \<open>pulsar_bus.rs\<close>) and the hook registry of the
  agent SDK (\<open>a2a-sdk/src/hooks.rs\<close>). A publish operation is the list of messages it hands to the
  broker, each a topic or subject with the payload before JSON encoding; failures of the broker are logged
  and dropped by the code, so they have no effect here. The outcome of connecting to a broker is
  a parameter, and so is the JSON decoding of a hook payload.

  Lemmas: which subscription a publication reaches.
\<close>

subsection \<open>Messages\<close>

record snapshot_event =
  se_project_id :: string
  se_project_name :: string
  se_snapshot_id :: string
  se_gateway_name :: string

record task_log_event =
  tl_project_id :: string
  tl_gateway_name :: string
  tl_head_cursor :: int

record task_assigned_event =
  ta_project_id :: string
  ta_task :: string
  ta_assigned_by :: string
  ta_todo_id :: "int option"

record online_event =
  go_gateway_name :: string
  go_agent_count :: nat
  go_version :: string

text \<open>The Pulsar payloads carry a timestamp (and the agent's name) on top of the NATS ones.\<close>

datatype event =
    Snapshot_ev snapshot_event
  | Task_log_ev task_log_event
  | Task_assigned_ev task_assigned_event
  | Online_ev online_event
  | Stamped event time
  | For_agent event string

type_synonym message = "string \<times> event"

subsection \<open>NATS\<close>

definition nats_publish_snapshot :: "string \<Rightarrow> string \<Rightarrow> string \<Rightarrow> string \<Rightarrow> message list" where
  "nats_publish_snapshot gw pid pname sid =
     [(''a2a.projects.'' @ pid @ ''.snapshot'',
       Snapshot_ev \<lparr>se_project_id = pid, se_project_name = pname, se_snapshot_id = sid, se_gateway_name = gw\<rparr>)]"

definition nats_publish_task_log :: "string \<Rightarrow> string \<Rightarrow> int \<Rightarrow> message list" where
  "nats_publish_task_log gw pid cursor =
     [(''a2a.projects.'' @ pid @ ''.tasklog'',
       Task_log_ev \<lparr>tl_project_id = pid, tl_gateway_name = gw, tl_head_cursor = cursor\<rparr>)]"

definition nats_publish_task_assigned ::
  "string \<Rightarrow> string \<Rightarrow> string \<Rightarrow> string \<Rightarrow> int option \<Rightarrow> message list" where
  "nats_publish_task_assigned gw agent pid task todo =
     [(''a2a.agent.'' @ agent @ ''.task_assigned'',
       Task_assigned_ev \<lparr>ta_project_id = pid, ta_task = task, ta_assigned_by = gw, ta_todo_id = todo\<rparr>)]"

definition nats_publish_agent_snapshot ::
  "string \<Rightarrow> string \<Rightarrow> string \<Rightarrow> string \<Rightarrow> string \<Rightarrow> message list" where
  "nats_publish_agent_snapshot gw agent pid pname sid =
     [(''a2a.agent.'' @ agent @ ''.snapshot'',
       Snapshot_ev \<lparr>se_project_id = pid, se_project_name = pname, se_snapshot_id = sid, se_gateway_name = gw\<rparr>)]"

definition nats_publish_online :: "string \<Rightarrow> string \<Rightarrow> nat \<Rightarrow> message list" where
  "nats_publish_online version gw agents =
     [(''a2a.gateway.'' @ gw @ ''.online'',
       Online_ev \<lparr>go_gateway_name = gw, go_agent_count = agents, go_version = version\<rparr>)]"

subsection \<open>Pulsar\<close>

definition pulsar_publish_snapshot :: "time \<Rightarrow> string \<Rightarrow> string \<Rightarrow> string \<Rightarrow> string \<Rightarrow> message list" where
  "pulsar_publish_snapshot now gw pid pname sid =
     [(''persistent://a2a/projects/'' @ pid @ ''/snapshots'',
       Stamped (Snapshot_ev \<lparr>se_project_id = pid, se_project_name = pname, se_snapshot_id = sid,
         se_gateway_name = gw\<rparr>) now)]"

definition pulsar_publish_task_log :: "time \<Rightarrow> string \<Rightarrow> string \<Rightarrow> int \<Rightarrow> message list" where
  "pulsar_publish_task_log now gw pid cursor =
     [(''persistent://a2a/projects/'' @ pid @ ''/tasklog'',
       Stamped (Task_log_ev \<lparr>tl_project_id = pid, tl_gateway_name = gw, tl_head_cursor = cursor\<rparr>) now)]"

definition pulsar_publish_task_assigned ::
  "time \<Rightarrow> string \<Rightarrow> string \<Rightarrow> string \<Rightarrow> string \<Rightarrow> int option \<Rightarrow> message list" where
  "pulsar_publish_task_assigned now gw agent pid task todo =
     [(''persistent://a2a/agents/'' @ agent @ ''/tasks'',
       Stamped (For_agent (Task_assigned_ev \<lparr>ta_project_id = pid, ta_task = task, ta_assigned_by = gw,
         ta_todo_id = todo\<rparr>) agent) now)]"

definition pulsar_publish_online :: "time \<Rightarrow> string \<Rightarrow> string \<Rightarrow> nat \<Rightarrow> message list" where
  "pulsar_publish_online now version gw agents =
     [(''persistent://a2a/gateway/'' @ gw @ ''/online'',
       Stamped (Online_ev \<lparr>go_gateway_name = gw, go_agent_count = agents, go_version = version\<rparr>) now)]"

text \<open>\<open>subscribe_task_assigned\<close>: the topic and the name of the exclusive subscription.\<close>

definition pulsar_subscribe_task_assigned :: "string \<Rightarrow> string \<Rightarrow> string \<times> string" where
  "pulsar_subscribe_task_assigned gw agent =
     (''persistent://a2a/agents/'' @ agent @ ''/tasks'', gw @ ''-'' @ agent)"

subsection \<open>The unified bus\<close>

datatype bus = Pulsar_bus string | Nats_bus string | Null_bus

definition bus_connect :: "(string \<Rightarrow> bool) \<Rightarrow> (string \<Rightarrow> bool) \<Rightarrow> string \<Rightarrow> string option \<Rightarrow> string \<Rightarrow> bus" where
  "bus_connect pulsar_up nats_up gw pulsar_url nats_url =
     (case pulsar_url of
        Some url \<Rightarrow>
          if pulsar_up url then Pulsar_bus gw
          else if nats_up nats_url then Nats_bus gw else Null_bus
      | None \<Rightarrow> if nats_up nats_url then Nats_bus gw else Null_bus)"

fun bus_name :: "bus \<Rightarrow> string" where
  "bus_name (Pulsar_bus _) = ''pulsar''"
| "bus_name (Nats_bus _) = ''nats''"
| "bus_name Null_bus = ''none''"

fun publish_snapshot :: "bus \<Rightarrow> time \<Rightarrow> string \<Rightarrow> string \<Rightarrow> string \<Rightarrow> message list" where
  "publish_snapshot (Pulsar_bus gw) now pid pname sid = pulsar_publish_snapshot now gw pid pname sid"
| "publish_snapshot (Nats_bus gw) now pid pname sid = nats_publish_snapshot gw pid pname sid"
| "publish_snapshot Null_bus now pid pname sid = []"

fun publish_task_log :: "bus \<Rightarrow> time \<Rightarrow> string \<Rightarrow> int \<Rightarrow> message list" where
  "publish_task_log (Pulsar_bus gw) now pid cursor = pulsar_publish_task_log now gw pid cursor"
| "publish_task_log (Nats_bus gw) now pid cursor = nats_publish_task_log gw pid cursor"
| "publish_task_log Null_bus now pid cursor = []"

fun publish_task_assigned :: "bus \<Rightarrow> time \<Rightarrow> string \<Rightarrow> string \<Rightarrow> string \<Rightarrow> int option \<Rightarrow> message list" where
  "publish_task_assigned (Pulsar_bus gw) now agent pid task todo =
     pulsar_publish_task_assigned now gw agent pid task todo"
| "publish_task_assigned (Nats_bus gw) now agent pid task todo =
     nats_publish_task_assigned gw agent pid task todo"
| "publish_task_assigned Null_bus now agent pid task todo = []"

fun publish_online :: "bus \<Rightarrow> time \<Rightarrow> string \<Rightarrow> nat \<Rightarrow> message list" where
  "publish_online (Pulsar_bus gw) now version agents = pulsar_publish_online now version gw agents"
| "publish_online (Nats_bus gw) now version agents = nats_publish_online version gw agents"
| "publish_online Null_bus now version agents = []"

subsection \<open>The SDK's hooks\<close>

text \<open>A callback takes the decoded event and returns whether it succeeded.\<close>

record ('t, 's, 'l, 'b) hook_registry =
  on_task_assigned :: "('t \<Rightarrow> bool) option"
  on_snapshot :: "('s \<Rightarrow> bool) option"
  on_lifecycle :: "('l \<Rightarrow> bool) option"
  on_broadcast :: "('b \<Rightarrow> bool) option"

definition has_any :: "('t, 's, 'l, 'b) hook_registry \<Rightarrow> bool" where
  "has_any h \<longleftrightarrow> on_task_assigned h \<noteq> None \<or> on_snapshot h \<noteq> None \<or>
     on_lifecycle h \<noteq> None \<or> on_broadcast h \<noteq> None"

definition subjects :: "('t, 's, 'l, 'b) hook_registry \<Rightarrow> string \<Rightarrow> string list" where
  "subjects h agent =
     (if on_task_assigned h \<noteq> None then [''a2a.agent.'' @ agent @ ''.task_assigned''] else []) @
     (if on_snapshot h \<noteq> None then [''a2a.agent.'' @ agent @ ''.snapshot''] else []) @
     (if on_lifecycle h \<noteq> None then [''a2a.agent.'' @ agent @ ''.lifecycle''] else []) @
     (if on_broadcast h \<noteq> None then [''a2a.broadcast.>''] else [])"

datatype hook_kind = Task_assigned_hook | Snapshot_hook | Lifecycle_hook | Broadcast_hook

text \<open>The \<open>(subject, kind)\<close> pairs that \<open>spawn_hook_subscriber\<close> subscribes to.\<close>

definition hook_subscriptions :: "('t, 's, 'l, 'b) hook_registry \<Rightarrow> string \<Rightarrow> (string \<times> hook_kind) list" where
  "hook_subscriptions h agent =
     (if on_task_assigned h \<noteq> None then [(''a2a.agent.'' @ agent @ ''.task_assigned'', Task_assigned_hook)] else []) @
     (if on_snapshot h \<noteq> None then [(''a2a.agent.'' @ agent @ ''.snapshot'', Snapshot_hook)] else []) @
     (if on_lifecycle h \<noteq> None then [(''a2a.agent.'' @ agent @ ''.lifecycle'', Lifecycle_hook)] else []) @
     (if on_broadcast h \<noteq> None then [(''a2a.broadcast.>'', Broadcast_hook)] else [])"

record ('t, 's, 'l, 'b) hook_decoders =
  dec_task_assigned :: "string \<Rightarrow> 't option"
  dec_snapshot :: "string \<Rightarrow> 's option"
  dec_lifecycle :: "string \<Rightarrow> 'l option"
  dec_broadcast :: "string \<Rightarrow> 'b option"

datatype dispatch = Not_hooked | Bad_payload | Hook_ok | Hook_error

definition run_hook :: "('e \<Rightarrow> bool) option \<Rightarrow> (string \<Rightarrow> 'e option) \<Rightarrow> string \<Rightarrow> dispatch" where
  "run_hook cb dec payload =
     (case cb of None \<Rightarrow> Not_hooked
      | Some f \<Rightarrow> (case dec payload of None \<Rightarrow> Bad_payload
                  | Some e \<Rightarrow> if f e then Hook_ok else Hook_error))"

fun dispatch_event ::
  "('t, 's, 'l, 'b) hook_decoders \<Rightarrow> hook_kind \<Rightarrow> string \<Rightarrow> ('t, 's, 'l, 'b) hook_registry \<Rightarrow> dispatch" where
  "dispatch_event D Task_assigned_hook p h = run_hook (on_task_assigned h) (dec_task_assigned D) p"
| "dispatch_event D Snapshot_hook p h = run_hook (on_snapshot h) (dec_snapshot D) p"
| "dispatch_event D Lifecycle_hook p h = run_hook (on_lifecycle h) (dec_lifecycle D) p"
| "dispatch_event D Broadcast_hook p h = run_hook (on_broadcast h) (dec_broadcast D) p"

lemmas publish_defs = nats_publish_snapshot_def nats_publish_task_log_def nats_publish_task_assigned_def
  nats_publish_agent_snapshot_def nats_publish_online_def pulsar_publish_snapshot_def
  pulsar_publish_task_log_def pulsar_publish_task_assigned_def pulsar_publish_online_def

lemma subjects_subscriptions: "subjects h a = map fst (hook_subscriptions h a)"
  by (simp add: subjects_def hook_subscriptions_def)

lemma subscribed_hooked:
  "(s, k) \<in> set (hook_subscriptions h a) \<Longrightarrow> dispatch_event D k p h \<noteq> Not_hooked"
  by (cases k) (auto simp: hook_subscriptions_def run_hook_def split: option.splits if_splits)

lemma task_subject_kind:
  "(''a2a.agent.'' @ a @ ''.task_assigned'', k) \<in> set (hook_subscriptions h b) \<longleftrightarrow>
     a = b \<and> k = Task_assigned_hook \<and> on_task_assigned h \<noteq> None"
proof -
  have "a @ ''.task_assigned'' \<noteq> b @ ''.snapshot''" "a @ ''.task_assigned'' \<noteq> b @ ''.lifecycle''"
    by (rule notI, drule arg_cong [of _ _ last], simp)+
  then show ?thesis
    by (auto simp: hook_subscriptions_def)
qed

subsection \<open>Properties\<close>

text \<open>
  A task assignment published on NATS reaches the task hook of the named agent, no other kind of hook
  and no other agent; the same publication on Pulsar reaches no hook subscription at all, whatever
  the agent registered, because the SDK subscribes to NATS subjects only; and without a bus nothing is sent.
\<close>

lemma task_assigned_delivery:
  "((fst (hd (publish_task_assigned (Nats_bus gw) now a pid task todo)), k) \<in> set (hook_subscriptions h b)
      \<longleftrightarrow> a = b \<and> k = Task_assigned_hook \<and> on_task_assigned h \<noteq> None) \<and>
   fst (hd (publish_task_assigned (Pulsar_bus gw) now a pid task todo)) \<notin> set (subjects h b) \<and>
   publish_task_assigned Null_bus now a pid task todo = []"
  using task_subject_kind [of a k h b]
  by (auto simp: publish_defs subjects_def)

end
