(* ===== verification/Reconciler.thy ===== *)
theory Reconciler
  imports Event_Bus Identity
begin

text \<open>
  The task reconciler (\<open>reconciler.rs\<close>): open todos are grouped by their normalised text; each group
  becomes one row of \<open>project_todos\<close> (merged, assigned or flagged), an assignment is announced on the
  bus, and the table is rendered to \<open>todo.md\<close>. Parameters: the JSON codecs, the iteration order of the
  \<open>HashMap\<close> of groups (\<open>iter\<close>, any rearrangement), the clocks, and whether the file can be
  written. \<open>ORDER BY task\<close> compares bytes (the C collation).

  Lemmas: grouping is by key and loses no todo; one pass changes the table by appending rows for new
  keys; the counts.
\<close>

record rec_state =
  rs_db :: db
  rs_sent :: "message list"
  rs_todo_md :: "string option"

definition normalise_task :: "string \<Rightarrow> string" where
  "normalise_task s = to_lower (trim s)"

subsection \<open>Grouping\<close>

definition open_todos :: "db \<Rightarrow> (string \<times> string \<times> int) list" where
  "open_todos d = map (\<lambda>r. (td_agent_name r, td_task r, td_id r))
     (order_by td_task (order_by td_id (filter (\<lambda>r. td_status r \<noteq> ''done'') (todos d))))"

fun push_entry :: "'k \<Rightarrow> 'e \<Rightarrow> ('k \<times> 'e list) list \<Rightarrow> ('k \<times> 'e list) list" where
  "push_entry key e [] = [(key, [e])]"
| "push_entry key e ((k, es) # g) = (if k = key then (k, es @ [e]) # g else (k, es) # push_entry key e g)"

definition group_by_task :: "(string \<times> string \<times> int) list \<Rightarrow> (string \<times> (string \<times> int) list) list" where
  "group_by_task rows =
     foldl (\<lambda>g (agent, task, i). push_entry (normalise_task task) (agent, i) g) [] rows"

subsection \<open>One pass\<close>

definition agent_has_capability :: "caps_json \<Rightarrow> db \<Rightarrow> string \<Rightarrow> string \<Rightarrow> bool" where
  "agent_has_capability J d agent task =
     (case find_by ar_name agent (agents d) of
        Some r \<Rightarrow>
          let caps = (case cj_dec J (ar_capabilities r) of Some cs \<Rightarrow> cs | None \<Rightarrow> []);
              task_lower = to_lower task
          in list_ex (\<lambda>c. contains (to_lower c) task_lower) caps
      | None \<Rightarrow> False)"

text \<open>\<open>ON CONFLICT DO NOTHING\<close> on the unique task column; the serial is drawn in either case.\<close>

definition upsert_project_todo ::
  "(int list \<Rightarrow> string) \<Rightarrow> string \<Rightarrow> string option \<Rightarrow> string \<Rightarrow> string \<Rightarrow> int list \<Rightarrow> string \<Rightarrow> db \<Rightarrow> db" where
  "upsert_project_todo ids_json task assigned_to status notes source_ids now d =
     d\<lparr>project_todo_serial := project_todo_serial d + 1,
       project_todos := insert_ignore pt_task
         \<lparr>pt_id = project_todo_serial d, pt_task = task, pt_assigned_to = assigned_to, pt_status = status,
          pt_notes = notes, pt_source_todos = ids_json source_ids, pt_created_at = now, pt_updated_at = now\<rparr>
         (project_todos d)\<rparr>"

record pass_env =
  pe_caps :: caps_json
  pe_ids_json :: "int list \<Rightarrow> string"
  pe_bus :: bus
  pe_time :: time
  pe_now :: string

type_synonym tally = "nat \<times> nat \<times> nat"

definition mismatch_note :: string where
  "mismatch_note = ''capability mismatch '' @ [CHR 0xE2, CHR 0x80, CHR 0x94] @ '' review required''"

fun reconcile_group :: "pass_env \<Rightarrow> rec_state \<times> tally \<Rightarrow> string \<times> (string \<times> int) list \<Rightarrow> rec_state \<times> tally" where
  "reconcile_group E (s, merged, assigned, flagged) (task_key, entries) =
     (if 1 < length entries then
        let owners = map fst entries; source_ids = map snd entries in
        (s\<lparr>rs_db := upsert_project_todo (pe_ids_json E) task_key (Some (owners ! 0)) ''pending''
              (''merged from '' @ show_int (int (length owners)) @ '' agents: '' @ join_with '', '' owners)
              source_ids (pe_now E) (rs_db s)\<rparr>, merged + 1, assigned, flagged)
      else
        let (agent, i) = entries ! 0 in
        if agent_has_capability (pe_caps E) (rs_db s) agent task_key then
          (s\<lparr>rs_db := upsert_project_todo (pe_ids_json E) task_key (Some agent) ''pending'' [] [i] (pe_now E) (rs_db s),
             rs_sent := rs_sent s @ publish_task_assigned (pe_bus E) (pe_time E) agent ''global'' task_key (Some i)\<rparr>,
           merged, assigned + 1, flagged)
        else
          (s\<lparr>rs_db := upsert_project_todo (pe_ids_json E) task_key (Some agent) ''flagged'' mismatch_note [i]
                (pe_now E) (rs_db s)\<rparr>,
           merged, assigned, flagged + 1))"

definition reconcile_todos ::
  "pass_env \<Rightarrow> ((string \<times> (string \<times> int) list) list \<Rightarrow> (string \<times> (string \<times> int) list) list) \<Rightarrow> rec_state \<Rightarrow> rec_state \<times> tally" where
  "reconcile_todos E iter s =
     foldl (reconcile_group E) (s, 0, 0, 0) (iter (group_by_task (open_todos (rs_db s))))"

subsection \<open>The Markdown file\<close>

definition todo_icon :: "string \<Rightarrow> string" where
  "todo_icon status =
     (if status = ''done'' then [CHR 0xE2, CHR 0x9C, CHR 0x85]
      else if status = ''flagged'' then [CHR 0xE2, CHR 0x9A, CHR 0xA0, CHR 0xEF, CHR 0xB8, CHR 0x8F]
      else [CHR 0xE2, CHR 0xAC, CHR 0x9C])"

definition todo_line :: "project_todo_row \<Rightarrow> string" where
  "todo_line r =
     ''- '' @ todo_icon (pt_status r) @ '' **'' @ pt_task r @ ''**  `'' @
     (case pt_assigned_to r of Some a \<Rightarrow> a | None \<Rightarrow> ''unassigned'') @ ''`'' @ [CHR 0x0A] @
     (if pt_notes r \<noteq> [] then ''  _'' @ pt_notes r @ ''_'' @ [CHR 0x0A] else [])"

definition todo_md :: "db \<Rightarrow> string" where
  "todo_md d = ''# Project TODO'' @ [CHR 0x0A, CHR 0x0A] @ ''_Generated by a2a-gateway reconciler._'' @
     [CHR 0x0A, CHR 0x0A] @ concat (map todo_line (order_by pt_id (project_todos d)))"

definition write_todo_md :: "bool \<Rightarrow> rec_state \<Rightarrow> rec_state" where
  "write_todo_md writable s = (if writable then s\<lparr>rs_todo_md := Some (todo_md (rs_db s))\<rparr> else s)"

definition run_once ::
  "pass_env \<Rightarrow> ((string \<times> (string \<times> int) list) list \<Rightarrow> (string \<times> (string \<times> int) list) list) \<Rightarrow> bool \<Rightarrow> rec_state \<Rightarrow> rec_state" where
  "run_once E iter writable s = write_todo_md writable (fst (reconcile_todos E iter s))"

subsection \<open>Grouping loses nothing\<close>

lemma push_entry_keys: "fst ` set (push_entry key e g) = insert key (fst ` set g)"
  by (induction g rule: push_entry.induct) auto

lemma push_entry_distinct: "distinct (map fst g) \<Longrightarrow> distinct (map fst (push_entry key e g))"
proof (induction key e g rule: push_entry.induct)
  case (2 key e k es g)
  then show ?case
    using push_entry_keys [of key e g] by (auto simp flip: set_map)
qed simp

lemma push_entry_lookup:
  "map_of (push_entry key e g) k =
     (if k = key then Some ((case map_of g key of None \<Rightarrow> [] | Some es \<Rightarrow> es) @ [e]) else map_of g k)"
  by (induction key e g rule: push_entry.induct) auto

lemma group_snoc:
  "group_by_task (rows @ [(a, t, i)]) = push_entry (normalise_task t) (a, i) (group_by_task rows)"
  by (simp add: group_by_task_def)

lemma group_keys: "fst ` set (group_by_task rows) = (\<lambda>(a, t, i). normalise_task t) ` set rows"
proof (induction rows rule: rev_induct)
  case Nil
  then show ?case by (simp add: group_by_task_def)
next
  case (snoc r rows)
  then show ?case by (cases r) (simp add: group_snoc push_entry_keys)
qed

lemma group_distinct: "distinct (map fst (group_by_task rows))"
proof (induction rows rule: rev_induct)
  case Nil
  then show ?case by (simp add: group_by_task_def)
next
  case (snoc r rows)
  then show ?case by (cases r) (simp add: group_snoc push_entry_distinct)
qed

lemma group_lookup:
  "map_of (group_by_task rows) k =
     (let es = map (\<lambda>(a, t, i). (a, i)) (filter (\<lambda>(a, t, i). normalise_task t = k) rows)
      in if es = [] then None else Some es)"
proof (induction rows rule: rev_induct)
  case Nil
  then show ?case by (simp add: group_by_task_def)
next
  case (snoc r rows)
  then show ?case
    by (cases r) (auto simp: group_snoc push_entry_lookup Let_def split: if_splits)
qed

lemma open_todos_set:
  "set (open_todos d) = {(td_agent_name r, td_task r, td_id r) | r. r \<in> set (todos d) \<and> td_status r \<noteq> ''done''}"
  by (auto simp: open_todos_def)

subsection \<open>What a pass does\<close>

text \<open>The notices of a group: one, when it is a single todo that its agent is capable of.\<close>

definition group_matches :: "pass_env \<Rightarrow> db \<Rightarrow> string \<times> (string \<times> int) list \<Rightarrow> bool" where
  "group_matches E d g \<longleftrightarrow> length (snd g) \<le> 1 \<and> agent_has_capability (pe_caps E) d (fst (snd g ! 0)) (fst g)"

definition group_notice :: "pass_env \<Rightarrow> string \<times> (string \<times> int) list \<Rightarrow> message list" where
  "group_notice E g = publish_task_assigned (pe_bus E) (pe_time E) (fst (snd g ! 0)) ''global'' (fst g) (Some (snd (snd g ! 0)))"

lemma capability_agents:
  "agents d = agents d' \<Longrightarrow> agent_has_capability J d a t = agent_has_capability J d' a t"
  by (simp add: agent_has_capability_def)

lemma upsert_project_todo_frame [simp]:
  "agents (upsert_project_todo f k a st n ids now d) = agents d"
  "todos (upsert_project_todo f k a st n ids now d) = todos d"
  by (simp_all add: upsert_project_todo_def)

lemma upsert_project_todo_rows:
  "\<exists>row. pt_task row = k \<and>
     project_todos (upsert_project_todo f k a st n ids now d) = insert_ignore pt_task row (project_todos d)"
  unfolding upsert_project_todo_def by (intro exI conjI) (rule project_todo_row.select_convs(2), simp)

text \<open>One step, read abstractly.\<close>

lemma reconcile_group_step:
  assumes "reconcile_group E (s, m, a, f) g = (s', m', a', f')"
  shows "agents (rs_db s') = agents (rs_db s)" "todos (rs_db s') = todos (rs_db s)"
    "\<exists>row. pt_task row = fst g \<and> project_todos (rs_db s') = insert_ignore pt_task row (project_todos (rs_db s))"
    "rs_sent s' = rs_sent s @ (if group_matches E (rs_db s) g then group_notice E g else [])"
    "rs_todo_md s' = rs_todo_md s"
    "m' = m + (if 1 < length (snd g) then 1 else 0)"
    "a' = a + (if group_matches E (rs_db s) g then 1 else 0)"
    "m' + a' + f' = m + a + f + 1"
proof -
  obtain key entries where g: "g = (key, entries)" by (cases g)
  obtain ag i where e0: "entries ! 0 = (ag, i)" by (cases "entries ! 0")
  have "\<exists>row. pt_task row = fst g \<and> project_todos (rs_db s') = insert_ignore pt_task row (project_todos (rs_db s))"
    using assms g e0 upsert_project_todo_rows by (auto simp: Let_def split: if_splits)
  then show "\<exists>row. pt_task row = fst g \<and> project_todos (rs_db s') = insert_ignore pt_task row (project_todos (rs_db s))" .
qed (use assms in \<open>cases g; cases "snd g ! 0";
      auto simp: Let_def group_matches_def group_notice_def split: if_splits\<close>)+

lemma insert_ignore_keys: "key ` set (insert_ignore key r rows) = insert (key r) (key ` set rows)"
  by (auto simp: insert_ignore_def table_simps)

lemma insert_ignore_known: "key r \<in> key ` set rows \<Longrightarrow> insert_ignore key r rows = rows"
  by (auto simp: insert_ignore_def table_simps)

lemma insert_ignore_prefix: "prefix rows (insert_ignore key r rows)"
  by (auto simp: insert_ignore_def)

definition pass_result :: "pass_env \<Rightarrow> rec_state \<Rightarrow> (string \<times> (string \<times> int) list) list \<Rightarrow> rec_state \<Rightarrow> bool" where
  "pass_result E s gs t \<longleftrightarrow>
     agents (rs_db t) = agents (rs_db s) \<and> todos (rs_db t) = todos (rs_db s) \<and>
     prefix (project_todos (rs_db s)) (project_todos (rs_db t)) \<and>
     pt_task ` set (project_todos (rs_db t)) = pt_task ` set (project_todos (rs_db s)) \<union> fst ` set gs \<and>
     (keyed pt_task (project_todos (rs_db s)) \<longrightarrow> keyed pt_task (project_todos (rs_db t))) \<and>
     (fst ` set gs \<subseteq> pt_task ` set (project_todos (rs_db s)) \<longrightarrow> project_todos (rs_db t) = project_todos (rs_db s)) \<and>
     rs_sent t = rs_sent s @ concat (map (group_notice E) (filter (group_matches E (rs_db s)) gs))"

lemma reconcile_groups:
  assumes "foldl (reconcile_group E) (s, m, a, f) gs = (t, m', a', f')"
  shows "pass_result E s gs t \<and>
     m' = m + length (filter (\<lambda>g. 1 < length (snd g)) gs) \<and>
     a' = a + length (filter (group_matches E (rs_db s)) gs) \<and>
     m' + a' + f' = m + a + f + length gs"
  using assms
proof (induction gs arbitrary: s m a f)
  case Nil
  then show ?case by (simp add: pass_result_def)
next
  case (Cons g gs)
  obtain s1 m1 a1 f1 where one: "reconcile_group E (s, m, a, f) g = (s1, m1, a1, f1)"
    by (metis prod_cases4)
  note step = reconcile_group_step [OF one]
  have same: "group_matches E (rs_db s1) = group_matches E (rs_db s)"
    using capability_agents [OF step(1)] by (auto simp: group_matches_def fun_eq_iff)
  obtain row where row: "pt_task row = fst g"
    "project_todos (rs_db s1) = insert_ignore pt_task row (project_todos (rs_db s))"
    using step(3) by blast
  have rest: "foldl (reconcile_group E) (s1, m1, a1, f1) gs = (t, m', a', f')"
    using Cons.prems one by simp
  note IH = Cons.IH [OF rest]
  have IHp: "pass_result E s1 gs t" using IH by blast
  have "pass_result E s (g # gs) t"
    unfolding pass_result_def
  proof (intro conjI impI)
    show "prefix (project_todos (rs_db s)) (project_todos (rs_db t))"
      using IHp insert_ignore_prefix [of "project_todos (rs_db s)" pt_task row]
      by (auto simp: pass_result_def row(2) intro: prefix_order.trans)
    show "pt_task ` set (project_todos (rs_db t)) =
        pt_task ` set (project_todos (rs_db s)) \<union> fst ` set (g # gs)"
      using IHp by (simp add: pass_result_def row insert_ignore_keys)
    show "keyed pt_task (project_todos (rs_db t))" if "keyed pt_task (project_todos (rs_db s))"
      using IHp that by (simp add: pass_result_def row(2) keyed_insert_ignore)
    show "project_todos (rs_db t) = project_todos (rs_db s)"
      if sub: "fst ` set (g # gs) \<subseteq> pt_task ` set (project_todos (rs_db s))"
    proof -
      have "project_todos (rs_db s1) = project_todos (rs_db s)"
        using sub row by (simp add: insert_ignore_known)
      with IHp sub show ?thesis by (simp add: pass_result_def)
    qed
  qed (use IHp step(1,2,4) same in \<open>simp_all add: pass_result_def\<close>)
  moreover have "m' = m + length (filter (\<lambda>g. 1 < length (snd g)) (g # gs))"
    using IH step(6) by simp
  moreover have "a' = a + length (filter (group_matches E (rs_db s)) (g # gs))"
    using IH step(7) same by simp
  moreover have "m' + a' + f' = m + a + f + length (g # gs)"
    using IH step(8) by simp
  ultimately show ?case by blast
qed

lemma group_keys_open:
  "fst ` set (group_by_task (open_todos d)) = normalise_task ` td_task ` {r \<in> set (todos d). td_status r \<noteq> ''done''}"
  unfolding group_keys open_todos_set by force

lemma reconcile_todos_result:
  assumes "reconcile_todos E iter s = (t, m, a, f)" "\<And>xs. mset (iter xs) = mset xs"
  shows "pass_result E s (iter (group_by_task (open_todos (rs_db s)))) t"
    and "m + a + f = card (normalise_task ` td_task ` {r \<in> set (todos (rs_db s)). td_status r \<noteq> ''done''})"
proof -
  let ?g = "group_by_task (open_todos (rs_db s))"
  note r = reconcile_groups [OF assms(1) [unfolded reconcile_todos_def]]
  show "pass_result E s (iter ?g) t" using r by blast
  have "length (iter ?g) = length ?g"
    using assms(2) by (metis size_mset)
  moreover have "m + a + f = length (iter ?g)"
    using r by simp
  moreover have "length ?g = card (fst ` set ?g)"
    using distinct_card [OF group_distinct, of "open_todos (rs_db s)"] by simp
  ultimately have "m + a + f = card (fst ` set ?g)" by simp
  also have "fst ` set ?g = normalise_task ` td_task ` {r \<in> set (todos (rs_db s)). td_status r \<noteq> ''done''}"
    by (rule group_keys_open)
  finally show "m + a + f = card (normalise_task ` td_task ` {r \<in> set (todos (rs_db s)). td_status r \<noteq> ''done''})" .
qed

lemma iter_set: "(\<And>xs. mset (iter xs) = mset xs) \<Longrightarrow> set (iter xs) = set xs"
  by (rule mset_eq_setD) simp

lemma open_todos_cong: "todos d = todos d' \<Longrightarrow> open_todos d = open_todos d'"
  by (simp add: open_todos_def)

subsection \<open>Properties\<close>

text \<open>
  C31. A reconcile pass, in whatever order the groups are visited: the agents' todos are untouched; project
  todos are only ever added, never changed or removed, and stay unique by task; afterwards every open
  todo has a project todo under its normalised text, and no other task was added; and the counts of
  merged, assigned and flagged groups sum to the number of distinct normalised open tasks.
\<close>

theorem reconcile_pass:
  assumes "\<And>xs. mset (iter xs) = mset xs"
  shows "case reconcile_todos E iter s of (t, merged, assigned, flagged) \<Rightarrow>
     todos (rs_db t) = todos (rs_db s) \<and>
     prefix (project_todos (rs_db s)) (project_todos (rs_db t)) \<and>
     (keyed pt_task (project_todos (rs_db s)) \<longrightarrow> keyed pt_task (project_todos (rs_db t))) \<and>
     pt_task ` set (project_todos (rs_db t)) = pt_task ` set (project_todos (rs_db s)) \<union>
       normalise_task ` td_task ` {r \<in> set (todos (rs_db s)). td_status r \<noteq> ''done''} \<and>
     merged + assigned + flagged =
       card (normalise_task ` td_task ` {r \<in> set (todos (rs_db s)). td_status r \<noteq> ''done''})"
proof -
  obtain t m a f where r: "reconcile_todos E iter s = (t, m, a, f)"
    by (metis prod_cases4)
  from reconcile_todos_result [OF this assms] show ?thesis
    unfolding pass_result_def iter_set [of iter, OF assms] group_keys_open r by simp
qed

definition demo_env :: pass_env where
  "demo_env = \<lparr>pe_caps = mark_json, pe_ids_json = (\<lambda>_. []), pe_bus = Nats_bus ''gw'', pe_time = 0, pe_now = ''t''\<rparr>"

definition demo_todos :: rec_state where
  "demo_todos = \<lparr>rs_db = exec (seqA (append_todo ''t'' ''a'' ''Rust fix '') (append_todo ''t'' ''a'' ''rust fix''))
     (rg_db demo_registry), rs_sent = [], rs_todo_md = None\<rparr>"

lemma reconcile_pass_witness:
  "case reconcile_todos demo_env rev demo_todos of (t, merged, assigned, flagged) \<Rightarrow>
     todos (rs_db t) = todos (rs_db demo_todos) \<and>
     prefix (project_todos (rs_db demo_todos)) (project_todos (rs_db t)) \<and>
     (keyed pt_task (project_todos (rs_db demo_todos)) \<longrightarrow> keyed pt_task (project_todos (rs_db t))) \<and>
     pt_task ` set (project_todos (rs_db t)) = pt_task ` set (project_todos (rs_db demo_todos)) \<union>
       normalise_task ` td_task ` {r \<in> set (todos (rs_db demo_todos)). td_status r \<noteq> ''done''} \<and>
     merged + assigned + flagged =
       card (normalise_task ` td_task ` {r \<in> set (todos (rs_db demo_todos)). td_status r \<noteq> ''done''})"
  by (rule reconcile_pass) simp

text \<open>
  Running a second pass at once changes no project todo, but it sends every assignment notice of the
  first pass again: the notices of a pass do not depend on what was already assigned.
\<close>

lemma reconcile_repeats_notices:
  assumes "\<And>xs. mset (iter xs) = mset xs"
  shows "let t = fst (reconcile_todos E iter s); u = fst (reconcile_todos E iter t) in
     project_todos (rs_db u) = project_todos (rs_db t) \<and>
     (\<exists>notices. rs_sent t = rs_sent s @ notices \<and> rs_sent u = rs_sent t @ notices)"
proof -
  obtain t m a f where r1: "reconcile_todos E iter s = (t, m, a, f)"
    by (metis prod_cases4)
  obtain u m' a' f' where r2: "reconcile_todos E iter t = (u, m', a', f')"
    by (metis prod_cases4)
  let ?gs = "iter (group_by_task (open_todos (rs_db s)))"
  have p1: "pass_result E s ?gs t"
    using reconcile_todos_result(1) [OF r1 assms] .
  have "open_todos (rs_db t) = open_todos (rs_db s)"
    by (rule open_todos_cong) (use p1 in \<open>simp add: pass_result_def\<close>)
  then have p2: "pass_result E t ?gs u"
    using reconcile_todos_result(1) [OF r2 assms] by simp
  have "group_matches E (rs_db t) = group_matches E (rs_db s)"
    using p1 capability_agents [of "rs_db t" "rs_db s"]
    by (auto simp: pass_result_def group_matches_def fun_eq_iff)
  then show ?thesis
    using p1 p2 by (simp add: r1 r2 pass_result_def)
qed

lemma reconcile_repeats_notices_witness:
  "let t = fst (reconcile_todos demo_env rev demo_todos); u = fst (reconcile_todos demo_env rev t) in
     project_todos (rs_db u) = project_todos (rs_db t) \<and>
     (\<exists>notices. rs_sent t = rs_sent demo_todos @ notices \<and> rs_sent u = rs_sent t @ notices)"
  by (rule reconcile_repeats_notices) simp

end
