(* ===== verification/Http_Server.thy ===== *)
theory Http_Server
  imports Registry
begin

text \<open>
  The public HTTP server (\<open>http_server.rs\<close>): the agent card, health, and the JSON-RPC dispatcher. JSON values are
  serde_json's data model with its accessors (\<open>json_get\<close>, \<open>as_str\<close>); parsing of the request and printing
  are not modelled. What an agent answers to the forwarded task is a parameter.

  Lemmas: every JSON-RPC answer has a result or an error and echoes the id; what is forwarded, and to whom.
\<close>

datatype json =
    Jnull
  | Jbool bool
  | Jnum rat
  | Jstr string
  | Jarr "json list"
  | Jobj "(string \<times> json) list"

definition json_get :: "string \<Rightarrow> json \<Rightarrow> json option" where
  "json_get k v = (case v of Jobj kvs \<Rightarrow> map_of kvs k | _ \<Rightarrow> None)"

definition as_str :: "json \<Rightarrow> string option" where
  "as_str v = (case v of Jstr s \<Rightarrow> Some s | _ \<Rightarrow> None)"

text \<open>The answer to the forwarded task: the send failed, or it was answered with a body that is JSON or not.\<close>

datatype send_outcome = Send_error string | Sent "json option"

record http_env =
  ht_gateway_name :: string
  ht_version :: string
  ht_fresh_id :: string
  ht_print :: "json \<Rightarrow> string"
  ht_post :: "string \<Rightarrow> string \<Rightarrow> send_outcome"

subsection \<open>Headers, card and health\<close>

definition set_header :: "string \<Rightarrow> string \<Rightarrow> (string \<times> string) list \<Rightarrow> (string \<times> string) list" where
  "set_header k v hs = filter (\<lambda>h. fst h \<noteq> k) hs @ [(k, v)]"

definition security_headers :: "(string \<times> string) list \<Rightarrow> (string \<times> string) list" where
  "security_headers hs =
     set_header ''referrer-policy'' ''no-referrer''
    (set_header ''x-xss-protection'' ''1; mode=block''
    (set_header ''x-frame-options'' ''DENY''
    (set_header ''x-content-type-options'' ''nosniff'' hs)))"

definition agent_card :: "http_env \<Rightarrow> registry \<Rightarrow> json" where
  "agent_card E reg =
     (let agents = registry_list reg in
      Jobj [(''schema_version'', Jstr ''0.3''), (''name'', Jstr (ht_gateway_name E)),
        (''description'', Jstr (''a2a-gateway '' @ [CHR 0xE2, CHR 0x80, CHR 0x94] @ '' Rust-native agent-to-agent communication hub'')),
        (''version'', Jstr (ht_version E)),
        (''capabilities'', Jarr (map Jstr (concat (map ae_capabilities agents)))),
        (''agents'', Jarr (map (\<lambda>a. Jobj [(''name'', Jstr (ae_name a)), (''version'', Jstr (ae_version a)),
           (''endpoint'', Jstr (ae_endpoint a)), (''capabilities'', Jarr (map Jstr (ae_capabilities a)))]) agents)),
        (''endpoints'', Jobj [(''jsonrpc'', Jstr ''/''), (''health'', Jstr ''/health'')])])"

definition http_health :: "http_env \<Rightarrow> registry \<Rightarrow> json" where
  "http_health E reg =
     (let agents = registry_list reg in
      Jobj [(''ok'', Jbool True), (''gateway'', Jstr (ht_gateway_name E)), (''version'', Jstr (ht_version E)),
        (''agent_count'', Jnum (of_nat (length agents))),
        (''agents'', Jarr (map (\<lambda>a. Jobj [(''name'', Jstr (ae_name a)), (''endpoint'', Jstr (ae_endpoint a)),
           (''last_seen'', case ae_last_seen a of None \<Rightarrow> Jnull | Some t \<Rightarrow> Jstr t)]) agents))])"

subsection \<open>JSON-RPC\<close>

record rpc_request =
  rr_jsonrpc :: string
  rr_method :: string
  rr_params :: "json option"
  rr_id :: "json option"

record rpc_response =
  rs_result :: "json option"
  rs_error :: "(int \<times> string) option"
  rs_id :: "json option"

definition rpc_ok :: "json option \<Rightarrow> json \<Rightarrow> rpc_response" where
  "rpc_ok i r = \<lparr>rs_result = Some r, rs_error = None, rs_id = i\<rparr>"

definition rpc_err :: "json option \<Rightarrow> int \<Rightarrow> string \<Rightarrow> rpc_response" where
  "rpc_err i code msg = \<lparr>rs_result = None, rs_error = Some (code, msg), rs_id = i\<rparr>"

definition quoted :: "string \<Rightarrow> string" where
  "quoted s = [CHR 0x27] @ s @ [CHR 0x27]"

definition jsonrpc_dispatch :: "http_env \<Rightarrow> registry \<Rightarrow> rpc_request \<Rightarrow> nat \<times> rpc_response" where
  "jsonrpc_dispatch E reg req =
     (if rr_jsonrpc req \<noteq> ''2.0'' then (400, rpc_err (rr_id req) (-32600) ''invalid JSON-RPC version'')
      else
        let i = rr_id req in
        if rr_method req = ''tasks/send'' then
          let params = (case rr_params req of None \<Rightarrow> Jnull | Some p \<Rightarrow> p);
              agent = (case Option.bind (json_get ''agent'' params) as_str of None \<Rightarrow> [] | Some a \<Rightarrow> a);
              task = (case json_get ''task'' params of None \<Rightarrow> Jnull | Some t \<Rightarrow> t) in
          if agent = [] then (200, rpc_err i (-32602) (''missing '' @ quoted ''agent''))
          else (case registry_get reg agent of
              None \<Rightarrow> (200, rpc_err i (-32001) (''agent '' @ quoted agent @ '' not found''))
            | Some entry \<Rightarrow> (case ht_post E (ae_endpoint entry @ ''/invoke'') (ht_print E task) of
                Sent body \<Rightarrow> (200, rpc_ok i (Jobj [(''task_id'', Jstr (ht_fresh_id E)), (''status'', Jstr ''completed''),
                    (''result'', case body of None \<Rightarrow> Jnull | Some v \<Rightarrow> v)]))
              | Send_error e \<Rightarrow> (200, rpc_err i (-32002) (''agent call failed: '' @ e))))
        else if rr_method req = ''tasks/get'' then (200, rpc_err i (-32001) ''tasks/get not yet implemented'')
        else if rr_method req = ''tasks/cancel'' then (200, rpc_err i (-32001) ''tasks/cancel not yet implemented'')
        else (200, rpc_err i (-32601) (''method not found: '' @ rr_method req)))"

subsection \<open>The router\<close>

text \<open>The derived \<open>Serialize\<close> of an answer: a missing result or error is left out, a missing id is null.\<close>

definition rpc_json :: "rpc_response \<Rightarrow> json" where
  "rpc_json r = Jobj ([(''jsonrpc'', Jstr ''2.0'')] @
     (case rs_result r of None \<Rightarrow> [] | Some v \<Rightarrow> [(''result'', v)]) @
     (case rs_error r of None \<Rightarrow> [] | Some (code, msg) \<Rightarrow>
        [(''error'', Jobj [(''code'', Jnum (of_int code)), (''message'', Jstr msg)])]) @
     [(''id'', case rs_id r of None \<Rightarrow> Jnull | Some i \<Rightarrow> i)])"

record http_response =
  hr_status :: nat
  hr_headers :: "(string \<times> string) list"
  hr_body :: json

text \<open>
  A request is what the router hands to one of its three handlers. The CORS layer is outermost: it is a function on services
  and may answer by itself.
\<close>

datatype http_route = Get_agent_card | Get_health | Post_rpc rpc_request

type_synonym http_service = "http_route \<Rightarrow> http_response"

definition json_response :: "nat \<Rightarrow> json \<Rightarrow> http_response" where
  "json_response code v = \<lparr>hr_status = code, hr_headers = [(''content-type'', ''application/json'')], hr_body = v\<rparr>"

fun http_handle :: "http_env \<Rightarrow> registry \<Rightarrow> http_service" where
  "http_handle E reg Get_agent_card = json_response 200 (agent_card E reg)"
| "http_handle E reg Get_health = json_response 200 (http_health E reg)"
| "http_handle E reg (Post_rpc req) = (case jsonrpc_dispatch E reg req of (code, r) \<Rightarrow> json_response code (rpc_json r))"

definition http_router :: "(http_service \<Rightarrow> http_service) \<Rightarrow> http_env \<Rightarrow> registry \<Rightarrow> http_service" where
  "http_router cors E reg = cors (\<lambda>c. let r = http_handle E reg c in r\<lparr>hr_headers := security_headers (hr_headers r)\<rparr>)"

subsection \<open>What the dispatcher answers\<close>

text \<open>
  C40. An answer carries either a result or an error and the id of its request. It is a result exactly for
  a version 2.0 \<open>tasks/send\<close> that names a registered agent which answers, whatever it answers, and every
  such task is reported as completed.
\<close>

theorem jsonrpc_spec:
  "case jsonrpc_dispatch E reg req of (code, resp) \<Rightarrow>
     rs_id resp = rr_id req \<and> (rs_result resp = None \<longleftrightarrow> (\<exists>c m. rs_error resp = Some (c, m))) \<and>
     (code = 400 \<longleftrightarrow> rr_jsonrpc req \<noteq> ''2.0'') \<and>
     ((\<exists>v. rs_result resp = Some v) \<longleftrightarrow> rr_jsonrpc req = ''2.0'' \<and> rr_method req = ''tasks/send'' \<and>
       (\<exists>params a entry body. rr_params req = Some params \<and> json_get ''agent'' params = Some (Jstr a) \<and> a \<noteq> [] \<and>
         registry_get reg a = Some entry \<and>
         ht_post E (ae_endpoint entry @ ''/invoke'')
           (ht_print E (case json_get ''task'' params of None \<Rightarrow> Jnull | Some t \<Rightarrow> t)) = Sent body))"
proof (cases "rr_jsonrpc req = ''2.0'' \<and> rr_method req = ''tasks/send''")
  case False
  then show ?thesis
    by (auto simp: jsonrpc_dispatch_def Let_def rpc_err_def)
next
  case True
  show ?thesis
  proof (cases "rr_params req")
    case None
    with True show ?thesis
      by (simp add: jsonrpc_dispatch_def Let_def rpc_err_def json_get_def)
  next
    case (Some params)
    show ?thesis
    proof (cases "Option.bind (json_get ''agent'' params) as_str")
      case None
      then have "json_get ''agent'' params \<noteq> Some (Jstr a)" for a
        by (auto simp: as_str_def)
      with None True Some show ?thesis
        by (simp add: jsonrpc_dispatch_def Let_def rpc_err_def)
    next
      case (Some a)
      then have a: "json_get ''agent'' params = Some (Jstr b) \<longleftrightarrow> b = a" for b
        by (cases "json_get ''agent'' params") (auto simp: as_str_def split: json.splits)
      show ?thesis
        using True Some \<open>rr_params req = Some params\<close>
        by (auto simp: jsonrpc_dispatch_def Let_def rpc_err_def rpc_ok_def a split: option.split send_outcome.splits)
    qed
  qed
qed

lemma map_of_set_header: "map_of (set_header k v hs) j = (if j = k then Some v else map_of hs j)"
  by (induction hs) (auto simp: set_header_def)

lemma security_headers_present:
  "map_of (security_headers hs) ''x-frame-options'' = Some ''DENY'' \<and>
   map_of (security_headers hs) ''x-content-type-options'' = Some ''nosniff'' \<and>
   map_of (security_headers hs) ''x-xss-protection'' = Some ''1; mode=block'' \<and>
   map_of (security_headers hs) ''referrer-policy'' = Some ''no-referrer''"
  by (simp add: security_headers_def map_of_set_header)

text \<open>Every answer that the CORS layer passes on carries them; what a client reads of an RPC answer is the dispatcher's.\<close>

lemma passed_on_secured:
  assumes "hr_headers (http_router cors E reg c) = extra @ hr_headers (http_router id E reg c)" "''x-frame-options'' \<notin> fst ` set extra"
  shows "map_of (hr_headers (http_router cors E reg c)) ''x-frame-options'' = Some ''DENY''"
proof -
  have "map_of extra ''x-frame-options'' = None" using assms(2) by (simp add: map_of_eq_None_iff)
  then show ?thesis
    unfolding assms(1) by (simp add: http_router_def Let_def security_headers_present map_add_def)
qed

lemma rpc_json_reads:
  "json_get ''id'' (rpc_json r) = Some (case rs_id r of None \<Rightarrow> Jnull | Some i \<Rightarrow> i) \<and>
   json_get ''result'' (rpc_json r) = rs_result r"
  by (simp add: rpc_json_def json_get_def split: option.split)

end
