(* ===== verification/Lxc.thy ===== *)
theory Lxc
  imports Config Text_Numbers
begin

text \<open>
  The Proxmox client (\<open>lxc.rs\<close>): listing containers, choosing the id of a new one, cloning, starting and
  stopping. What the Proxmox API answers is a parameter (\<open>lxc_api\<close>); an answer's JSON is taken as parsed
  (\<open>raw_lxc\<close>) or as not parsing. Container ids are \<open>u32\<close>; the increment wraps in the release build.

  Lemmas: the id of a spawned container is new.
\<close>

record lxc_container =
  lx_vmid :: "32 word"
  lx_name :: string
  lx_status :: string
  lx_maxmem :: "(64 word) option"
  lx_cpus :: "rat option"

record spawned_container =
  sp_vmid :: "32 word"
  sp_name :: string

text \<open>\<open>vmid\<close> is any JSON value; what counts is whether it is an unsigned integer.\<close>

record raw_lxc =
  rl_vmid :: "(64 word) option"
  rl_name :: "string option"
  rl_status :: string
  rl_maxmem :: "(64 word) option"
  rl_cpus :: "rat option"

text \<open>\<open>Refused\<close> carries how the status prints and the body.\<close>

datatype 'a api_answer = No_answer | Refused string string | Unparsable | Answer 'a

record lxc_api =
  la_list :: "string \<Rightarrow> raw_lxc list api_answer"
  la_clone :: "string \<Rightarrow> 32 word \<Rightarrow> string \<Rightarrow> unit api_answer"
  la_post :: "string \<Rightarrow> unit api_answer"

definition lxc_from_config :: "string option \<Rightarrow> lxc_config \<Rightarrow> err + lxc_config \<times> string" where
  "lxc_from_config token cfg = (case token of
     None \<Rightarrow> Inl (Anyhow ''A2A_PROXMOX_TOKEN must be set to use LXC features'')
   | Some t \<Rightarrow> Inr (cfg, t))"

definition show_u32 :: "32 word \<Rightarrow> string" where
  "show_u32 w = show_int (uint w)"

definition lxc_url :: "lxc_config \<Rightarrow> string" where
  "lxc_url cfg = lc_proxmox_url cfg @ ''/api2/json/nodes/'' @ lc_node cfg @ ''/lxc''"

definition container_of_raw :: "raw_lxc \<Rightarrow> lxc_container" where
  "container_of_raw r = \<lparr>lx_vmid = (case rl_vmid r of None \<Rightarrow> 0 | Some v \<Rightarrow> ucast v),
     lx_name = (case rl_name r of None \<Rightarrow> [] | Some n \<Rightarrow> n), lx_status = rl_status r,
     lx_maxmem = rl_maxmem r, lx_cpus = rl_cpus r\<rparr>"

definition api_error :: "string \<Rightarrow> string \<Rightarrow> string \<Rightarrow> err" where
  "api_error what status body = Anyhow (''Proxmox '' @ what @ '' error '' @ status @ '': '' @ body)"

definition lxc_list :: "lxc_api \<Rightarrow> lxc_config \<Rightarrow> err + lxc_container list" where
  "lxc_list A cfg = (case la_list A (lxc_url cfg) of
     No_answer \<Rightarrow> Inl (Anyhow ''listing LXC containers'')
   | Refused status body \<Rightarrow> Inl (api_error ''list'' status body)
   | Unparsable \<Rightarrow> Inl (Anyhow ''parsing list response'')
   | Answer raws \<Rightarrow> Inr (map container_of_raw raws))"

definition new_vmid :: "lxc_container list \<Rightarrow> 32 word" where
  "new_vmid existing = max (case map lx_vmid existing of [] \<Rightarrow> 200 | v # vs \<Rightarrow> fold max vs v + 1) 200"

definition lxc_start :: "lxc_api \<Rightarrow> lxc_config \<Rightarrow> 32 word \<Rightarrow> err + unit" where
  "lxc_start A cfg vmid = (case la_post A (lxc_url cfg @ ''/'' @ show_u32 vmid @ ''/status/start'') of
     No_answer \<Rightarrow> Inl (Anyhow (''starting LXC '' @ show_u32 vmid))
   | Refused status body \<Rightarrow> Inl (api_error ''start'' status body)
   | _ \<Rightarrow> Inr ())"

definition lxc_spawn :: "lxc_api \<Rightarrow> lxc_config \<Rightarrow> string \<Rightarrow> err + spawned_container" where
  "lxc_spawn A cfg agent_name = (case lxc_list A cfg of
     Inl e \<Rightarrow> Inl e
   | Inr existing \<Rightarrow>
       let vmid = new_vmid existing; name = ''a2a-'' @ agent_name in
       (case la_clone A (lxc_url cfg @ ''/'' @ show_u32 (lc_agent_template cfg) @ ''/clone'') vmid name of
          No_answer \<Rightarrow> Inl (Anyhow ''cloning LXC template'')
        | Refused status body \<Rightarrow> Inl (api_error ''clone'' status body)
        | _ \<Rightarrow> (case lxc_start A cfg vmid of
            Inl e \<Rightarrow> Inl e
          | Inr _ \<Rightarrow> Inr \<lparr>sp_vmid = vmid, sp_name = name\<rparr>)))"

text \<open>A refused shutdown is logged and not an error.\<close>

definition lxc_stop :: "lxc_api \<Rightarrow> lxc_config \<Rightarrow> 32 word \<Rightarrow> err + unit" where
  "lxc_stop A cfg vmid = (case la_post A (lxc_url cfg @ ''/'' @ show_u32 vmid @ ''/status/shutdown'') of
     No_answer \<Rightarrow> Inl (Anyhow (''stopping LXC '' @ show_u32 vmid))
   | _ \<Rightarrow> Inr ())"

lemma vmid_succ:
  fixes m :: "32 word"
  assumes "m \<noteq> 2 ^ 32 - 1"
  shows "m < m + 1"
proof -
  have "(2 ^ 32 - 1 :: 32 word) = -1" by simp
  with assms have "m \<noteq> -1" by metis
  then have "1 + m \<noteq> 0"
    by (metis add_eq_0_iff2 add.commute minus_minus)
  then show ?thesis
    by (simp add: word_less_nat_alt unatSuc add.commute)
qed

lemma new_vmid_fresh:
  assumes "\<And>c. c \<in> set existing \<Longrightarrow> lx_vmid c \<noteq> 2 ^ 32 - 1"
  shows "lx_vmid ` set existing \<subseteq> {..<new_vmid existing} \<and> 200 \<le> new_vmid existing"
proof (cases "map lx_vmid existing")
  case Nil
  then show ?thesis by (simp add: new_vmid_def)
next
  case (Cons v vs)
  let ?ids = "lx_vmid ` set existing"
  have ids: "?ids = set (v # vs)"
    by (metis Cons list.set_map)
  have new: "new_vmid existing = max (Max ?ids + 1) 200"
    using Cons by (simp add: new_vmid_def ids Max.set_eq_fold del: list.set)
  have "Max ?ids \<in> ?ids"
    unfolding ids by (rule Max_in) simp_all
  then have "Max ?ids \<noteq> 2 ^ 32 - 1"
    using assms by auto
  then have up: "Max ?ids < Max ?ids + 1"
    by (rule vmid_succ)
  have "x < new_vmid existing" if "x \<in> ?ids" for x
  proof -
    have "x \<le> Max ?ids"
      using that unfolding ids by (intro Max_ge) simp_all
    also note up
    also have "Max ?ids + 1 \<le> new_vmid existing"
      unfolding new by (rule max.cobounded1)
    finally show ?thesis .
  qed
  moreover have "200 \<le> new_vmid existing"
    unfolding new by (rule max.cobounded2)
  ultimately show ?thesis by auto
qed

end
