(* ===== verification/Web.thy ===== *)
theory Web
  imports Grpc Http_Server Lxc Group_Store Onboarding Contributions
begin

text \<open>
  The web dashboard (\<open>web/mod.rs\<close>, \<open>web/projects.rs\<close>): the token check in front of every route but
  \<open>/health\<close>, and the handlers. A request is what axum's router and extractors hand to a handler
  (\<open>web_request\<close>); a page is the context given to its template, and rendering (minijinja) is a parameter
  that may fail. The state is that of the onboarding manager, which holds the database; the Proxmox client is the
  one of \<open>Lxc\<close>.

  Lemmas: the token comparison is equality; what every request leaves alone in the database.
\<close>

subsection \<open>Requests, pages and responses\<close>

datatype web_request =
    Root_redirect
  | Web_health
  | Dashboard
  | Project_detail string
  | Onboard_prompt string
  | Onboard_answer string string string
  | Task_log_partial string "int option"
  | Open_contribution string string string string
  | Contribution_detail string string
  | Cast_vote_form string string string string string
  | Review_pr string string string
  | Lxc_list
  | Lxc_spawn string
  | Lxc_stop "32 word"

text \<open>\<open>wc_authorization\<close> is the raw header, \<open>wc_token\<close> the query parameter.\<close>

record web_call =
  wc_authorization :: "string option"
  wc_token :: "string option"
  wc_request :: web_request

record dash_row =
  dr_id :: string
  dr_name :: string
  dr_repo_url :: string
  dr_visibility :: string
  dr_is_active :: bool
  dr_folder_path :: string
  dr_agent_count :: nat
  dr_log_entries :: int
  dr_onboarding :: string

record log_line =
  ll_id :: string
  ll_gateway_name :: string
  ll_agent_name :: string
  ll_entry_type :: string
  ll_content :: string
  ll_cursor :: int

record contrib_line =
  cl_id :: string
  cl_proposer_gateway :: string
  cl_line_status :: string
  cl_description :: string
  cl_gateway_count :: int

record proposal_view =
  pv_id :: string
  pv_project_id :: string
  pv_status :: string
  pv_description :: string
  pv_gateway_count :: int

record project_view =
  pw_id :: string
  pw_name :: string
  pw_repo_url :: string
  pw_description :: string
  pw_visibility :: string
  pw_folder_path :: string
  pw_file_glob :: string
  pw_is_active :: bool
  pw_onboarding :: string
  pw_peer_gateway :: string

text \<open>The pages: gateway name and rows of the dashboard (with the project, name, step and message of each prompt), and so on.\<close>

datatype page =
    Dashboard_page string "dash_row list" "(string \<times> string \<times> string \<times> string) list"
  | Project_page string project_view "string list" "log_line list" "contrib_line list" "(string \<times> string \<times> string) option"
  | Onboard_page string string string string
  | Task_log_page "log_line list" int
  | Contribution_page string proposal_view

datatype app_error = App_not_found string | App_template string | App_internal err

datatype web_body = Html string | Text_body string | Json_body json | Redirect_to string

datatype web_response = Response nat web_body

record web_env =
  we_on :: on_env
  we_token :: "string option"
  we_lxc :: "(lxc_config \<times> lxc_api) option"
  we_render :: "page \<Rightarrow> string + string"
  we_sql_text :: sql_text

subsection \<open>The token check\<close>

definition byte_of :: "char \<Rightarrow> 8 word" where
  "byte_of c = of_nat (of_char c)"

definition constant_time_eq :: "string \<Rightarrow> string \<Rightarrow> bool" where
  "constant_time_eq a b =
     (let len = max (length a) (length b);
          diff = fold (\<lambda>i diff.
              let x = (if i < length a then byte_of (a ! i) else 0);
                  y = (if i < length b then byte_of (b ! i) else 0xff)
              in or diff (xor x y)) [0..<len] (if length a \<noteq> length b then 1 else 0)
      in diff = 0)"

text \<open>\<open>HeaderValue::to_str\<close>: visible ASCII and tabs only.\<close>

definition header_to_str :: "string \<Rightarrow> string option" where
  "header_to_str v = (if list_all (\<lambda>c. CHR '' '' \<le> c \<and> c \<le> CHR 0x7E \<or> c = CHR 0x09) v then Some v else None)"

definition strip_prefix :: "string \<Rightarrow> string \<Rightarrow> string option" where
  "strip_prefix p s = (if starts_with p s then Some (drop (length p) s) else None)"

definition provided_token :: "web_call \<Rightarrow> string option" where
  "provided_token c =
     (case map_option trim (Option.bind (Option.bind (wc_authorization c) header_to_str) (strip_prefix ''Bearer '')) of
        Some t \<Rightarrow> Some t
      | None \<Rightarrow> wc_token c)"

definition unauthorized :: web_response where
  "unauthorized = Response 401 (Json_body (Jobj [(''error'', Jstr ''unauthorized''),
     (''message'', Jstr ''Missing or invalid bearer token. Supply via Authorization header or ?token= query parameter.'')]))"

definition auth_middleware ::
  "web_env \<Rightarrow> (web_call \<Rightarrow> on_state \<Rightarrow> on_state \<times> web_response) \<Rightarrow> web_call \<Rightarrow> on_state \<Rightarrow> on_state \<times> web_response" where
  "auth_middleware E next_handler c s =
     (case we_token E of
        None \<Rightarrow> next_handler c s
      | Some expected \<Rightarrow>
          (case provided_token c of
             Some tok \<Rightarrow> if constant_time_eq tok expected then next_handler c s else (s, unauthorized)
           | None \<Rightarrow> (s, unauthorized)))"

subsection \<open>The project pages\<close>

type_synonym 'a handler = "on_state \<Rightarrow> on_state \<times> (app_error + 'a)"

definition render :: "web_env \<Rightarrow> page \<Rightarrow> web_body handler" where
  "render E p = (case we_render E p of Inl t \<Rightarrow> fail (App_template t) | Inr html \<Rightarrow> ret (Html html))"

definition done_or :: "string option \<Rightarrow> string" where
  "done_or st = (case st of None \<Rightarrow> ''done'' | Some s \<Rightarrow> s)"

definition dash_row_of :: "db \<Rightarrow> project \<Rightarrow> dash_row" where
  "dash_row_of d p = \<lparr>dr_id = pj_id p, dr_name = pj_name p, dr_repo_url = pj_repo_url p,
     dr_visibility = visibility_as_str (pj_visibility p), dr_is_active = pj_is_active p,
     dr_folder_path = pj_folder_path p, dr_agent_count = length (list_agents d (pj_id p)),
     dr_log_entries = head_cursor d (pj_id p), dr_onboarding = done_or (pj_onboarding_step p)\<rparr>"

definition dashboard :: "web_env \<Rightarrow> web_body handler" where
  "dashboard E = bindA (askA (\<lambda>s. Dashboard_page (ne_gateway (we_on E))
       (map (dash_row_of (on_db s)) (list_projects (on_db s)))
       (map (\<lambda>p. (op_project_id p, op_project_name p, op_step p, op_message p)) (all_pending s)))) (render E)"

definition log_line_of :: "log_entry \<Rightarrow> log_line" where
  "log_line_of e = \<lparr>ll_id = le_id e, ll_gateway_name = le_gateway_name e, ll_agent_name = le_agent_name e,
     ll_entry_type = entry_type_as_str (le_entry_type e), ll_content = le_content e, ll_cursor = le_cursor e\<rparr>"

definition contrib_line_of :: "proposal \<Rightarrow> contrib_line" where
  "contrib_line_of c = \<lparr>cl_id = po_id c, cl_proposer_gateway = po_proposer_gateway c,
     cl_line_status = status_as_str (po_status c), cl_description = po_description c,
     cl_gateway_count = po_gateway_count c\<rparr>"

definition project_view_of :: "project \<Rightarrow> project_view" where
  "project_view_of p = \<lparr>pw_id = pj_id p, pw_name = pj_name p, pw_repo_url = pj_repo_url p,
     pw_description = pj_description p, pw_visibility = visibility_as_str (pj_visibility p),
     pw_folder_path = pj_folder_path p, pw_file_glob = pj_file_glob p, pw_is_active = pj_is_active p,
     pw_onboarding = done_or (pj_onboarding_step p), pw_peer_gateway = pj_peer_gateway p\<rparr>"

definition project_detail :: "web_env \<Rightarrow> string \<Rightarrow> web_body handler" where
  "project_detail E i =
     bindA (bindA (askA (\<lambda>s. get_project (on_db s) i)) (needA (App_not_found (''project '' @ i @ '' not found'')))) (\<lambda>project.
     bindA (askA (\<lambda>s. Project_page (ne_gateway (we_on E)) (project_view_of project) (list_agents (on_db s) i)
        (map log_line_of (list_log (on_db s) i)) (map contrib_line_of (list_proposals (on_db s) i))
        (map_option (\<lambda>p. (op_step p, op_message p, op_default_value p)) (peek_prompt i s)))) (render E))"

definition prompt_partial :: "web_env \<Rightarrow> string \<Rightarrow> string \<Rightarrow> web_body handler" where
  "prompt_partial E i if_none = bindA (askA (peek_prompt i)) (\<lambda>prompt. case prompt of
       None \<Rightarrow> ret (Html if_none)
     | Some p \<Rightarrow> render E (Onboard_page i (op_step p) (op_message p) (op_default_value p)))"

definition onboard_prompt :: "web_env \<Rightarrow> string \<Rightarrow> web_body handler" where
  "onboard_prompt E i = prompt_partial E i []"

definition onboard_answer :: "web_env \<Rightarrow> string \<Rightarrow> string \<Rightarrow> string \<Rightarrow> web_body handler" where
  "onboard_answer E i step value =
     seqA (map_errA App_internal (answer_onboarding (we_on E) \<lparr>an_project_id = i, an_step = step, an_value = value\<rparr>))
       (prompt_partial E i ''<p>Onboarding complete.</p>'')"

definition task_log_partial :: "web_env \<Rightarrow> string \<Rightarrow> int option \<Rightarrow> web_body handler" where
  "task_log_partial E i after_param =
     (let after = (case after_param of None \<Rightarrow> 0 | Some c \<Rightarrow> c) in
      bindA (askA (\<lambda>s. since (on_db s) i after)) (\<lambda>entries.
        render E (Task_log_page (map log_line_of entries) (if entries = [] then after else le_cursor (last entries)))))"

subsection \<open>Contributions\<close>

definition proposal_view_of :: "proposal \<Rightarrow> proposal_view" where
  "proposal_view_of p = \<lparr>pv_id = po_id p, pv_project_id = po_project_id p, pv_status = status_as_str (po_status p),
     pv_description = po_description p, pv_gateway_count = po_gateway_count p\<rparr>"

definition open_contribution :: "web_env \<Rightarrow> string \<Rightarrow> string \<Rightarrow> string \<Rightarrow> string \<Rightarrow> web_body handler" where
  "open_contribution E i snapshot_id description agent_name =
     bindA (askA (\<lambda>s. int (gateway_count_for_project (on_db s) i))) (\<lambda>gw_count.
     bindA (map_errA App_internal (odb (open_proposal (ne_fresh_id (we_on E)) (ne_now (we_on E)) i
        (ne_gateway (we_on E)) agent_name snapshot_id description gw_count))) (\<lambda>proposal.
     render E (Contribution_page (ne_gateway (we_on E)) (proposal_view_of proposal))))"

definition contribution_detail :: "web_env \<Rightarrow> string \<Rightarrow> web_body handler" where
  "contribution_detail E prop_id =
     bindA (bindA (askA (\<lambda>s. get_proposal (on_db s) prop_id))
        (needA (App_not_found (''proposal '' @ prop_id @ '' not found'')))) (\<lambda>proposal.
     render E (Contribution_page (ne_gateway (we_on E)) (proposal_view_of proposal)))"

definition cast_vote_web :: "web_env \<Rightarrow> string \<Rightarrow> string \<Rightarrow> string \<Rightarrow> string \<Rightarrow> web_body handler" where
  "cast_vote_web E prop_id vote agent_name reason =
     (let kind = (if vote = ''reject'' then Reject else Approve) in
      bindA (map_errA App_internal (odb (cast_vote (ne_fresh_id (we_on E)) (ne_now (we_on E)) prop_id
        (ne_gateway (we_on E)) agent_name kind reason))) (\<lambda>outcome.
      ret (Html (''<p>'' @ (case outcome of
          VoteAccepted \<Rightarrow> ''Proposal accepted by majority vote.''
        | VoteRejected \<Rightarrow> ''Proposal rejected by majority vote.''
        | VotePending _ _ _ \<Rightarrow> ''Vote recorded. Waiting for majority.'') @ ''</p>''))))"

definition review_pr :: "web_env \<Rightarrow> string \<Rightarrow> string \<Rightarrow> web_body handler" where
  "review_pr E prop_id action =
     (if action = ''accept''
      then seqA (map_errA App_internal (odb (accept_pr (ne_now (we_on E)) prop_id (ne_gateway (we_on E)))))
             (ret (Html ''<p>PR accepted. Contribution merged.</p>''))
      else seqA (map_errA App_internal (odb (reject_pr (ne_now (we_on E)) prop_id (ne_gateway (we_on E)))))
             (ret (Html ''<p>PR rejected.</p>'')))"

subsection \<open>Containers\<close>

definition lxc_client :: "web_env \<Rightarrow> (lxc_config \<times> lxc_api) handler" where
  "lxc_client E = needA (App_not_found (''LXC not configured '' @ [CHR 0xE2, CHR 0x80, CHR 0x94] @
     '' add [lxc] section to gateway.toml'')) (we_lxc E)"

definition liftA :: "err + 'a \<Rightarrow> 'a handler" where
  "liftA r = (case r of Inl e \<Rightarrow> fail (App_internal e) | Inr x \<Rightarrow> ret x)"

definition json_u32 :: "32 word \<Rightarrow> json" where
  "json_u32 w = Jnum (of_int (uint w))"

definition container_json :: "lxc_container \<Rightarrow> json" where
  "container_json c = Jobj [(''vmid'', json_u32 (lx_vmid c)), (''name'', Jstr (lx_name c)),
     (''status'', Jstr (lx_status c)),
     (''maxmem'', case lx_maxmem c of None \<Rightarrow> Jnull | Some m \<Rightarrow> Jnum (of_int (uint m))),
     (''cpus'', case lx_cpus c of None \<Rightarrow> Jnull | Some q \<Rightarrow> Jnum q)]"

definition lxc_list_web :: "web_env \<Rightarrow> web_body handler" where
  "lxc_list_web E = bindA (lxc_client E) (\<lambda>(cfg, A).
     bindA (liftA (lxc_list A cfg)) (\<lambda>containers. ret (Json_body (Jarr (map container_json containers)))))"

definition lxc_spawn_web :: "web_env \<Rightarrow> string \<Rightarrow> web_body handler" where
  "lxc_spawn_web E agent_name = bindA (lxc_client E) (\<lambda>(cfg, A).
     bindA (liftA (lxc_spawn A cfg agent_name)) (\<lambda>c.
       ret (Json_body (Jobj [(''vmid'', json_u32 (sp_vmid c)), (''name'', Jstr (sp_name c))]))))"

definition lxc_stop_web :: "web_env \<Rightarrow> 32 word \<Rightarrow> web_body handler" where
  "lxc_stop_web E vmid = bindA (lxc_client E) (\<lambda>(cfg, A).
     bindA (liftA (lxc_stop A cfg vmid)) (\<lambda>_.
       ret (Json_body (Jobj [(''ok'', Jbool True), (''vmid'', json_u32 vmid)]))))"

subsection \<open>The router\<close>

definition web_health :: web_body where
  "web_health = Json_body (Jobj [(''ok'', Jbool True), (''service'', Jstr ''a2a-gateway-web'')])"

fun handle :: "web_env \<Rightarrow> web_request \<Rightarrow> web_body handler" where
  "handle E Root_redirect = ret (Redirect_to ''/dashboard'')"
| "handle E Web_health = ret web_health"
| "handle E Dashboard = dashboard E"
| "handle E (Project_detail i) = project_detail E i"
| "handle E (Onboard_prompt i) = onboard_prompt E i"
| "handle E (Onboard_answer i step value) = onboard_answer E i step value"
| "handle E (Task_log_partial i after) = task_log_partial E i after"
| "handle E (Open_contribution i sn de a) = open_contribution E i sn de a"
| "handle E (Contribution_detail i prop_id) = contribution_detail E prop_id"
| "handle E (Cast_vote_form i prop_id v a r) = cast_vote_web E prop_id v a r"
| "handle E (Review_pr i prop_id action) = review_pr E prop_id action"
| "handle E Lxc_list = lxc_list_web E"
| "handle E (Lxc_spawn agent_name) = lxc_spawn_web E agent_name"
| "handle E (Lxc_stop vmid) = lxc_stop_web E vmid"

definition error_response :: "sql_text \<Rightarrow> app_error \<Rightarrow> web_response" where
  "error_response T e = (case e of
     App_not_found msg \<Rightarrow> Response 404 (Text_body msg)
   | App_template msg \<Rightarrow> Response 500 (Text_body (''template error: '' @ msg))
   | App_internal err \<Rightarrow> Response 500 (Text_body (''internal error: '' @ err_text T err)))"

definition ok_response :: "web_body \<Rightarrow> web_response" where
  "ok_response b = (case b of Redirect_to u \<Rightarrow> Response 308 (Redirect_to u) | _ \<Rightarrow> Response 200 b)"

definition respond :: "web_env \<Rightarrow> web_call \<Rightarrow> on_state \<Rightarrow> on_state \<times> web_response" where
  "respond E c s = (case handle E (wc_request c) s of
     (s', Inl e) \<Rightarrow> (s', error_response (we_sql_text E) e)
   | (s', Inr b) \<Rightarrow> (s', ok_response b))"

definition serve :: "web_env \<Rightarrow> web_call \<Rightarrow> on_state \<Rightarrow> on_state \<times> web_response" where
  "serve E c s = (case wc_request c of Web_health \<Rightarrow> respond E c s | _ \<Rightarrow> auth_middleware E (respond E) c s)"

subsection \<open>The comparison is equality\<close>

lemma byte_of_inj [simp]: "byte_of c = byte_of d \<longleftrightarrow> c = d"
proof
  assume "byte_of c = byte_of d"
  then have "unat (byte_of c) = unat (byte_of d)" by simp
  moreover have "unat (byte_of x) = of_char x" for x
    using nat_of_char_less_256 [of x] by (simp add: byte_of_def unat_of_nat take_bit_eq_mod)
  ultimately have "(of_char c :: nat) = of_char d" by simp
  then show "c = d" by (simp only: of_char_eq_iff)
qed simp

lemma xor_zero: "xor x y = 0 \<longleftrightarrow> x = y" for x y :: "8 word"
proof
  assume "xor x y = 0"
  then have "xor (xor x y) y = y" by simp
  then show "x = y" by (simp add: xor.assoc)
qed simp

lemma fold_or_zero:
  fixes f :: "nat \<Rightarrow> 8 word"
  shows "fold (\<lambda>i diff. or diff (f i)) is d = 0 \<longleftrightarrow> d = 0 \<and> list_all (\<lambda>i. f i = 0) is"
  by (induction "is" arbitrary: d) (auto simp: or_eq_0_iff)

lemma constant_time_eq_iff: "constant_time_eq a b \<longleftrightarrow> a = b"
proof (cases "length a = length b")
  case False
  then show ?thesis
    by (auto simp: constant_time_eq_def Let_def fold_or_zero)
next
  case True
  then have "constant_time_eq a b \<longleftrightarrow> list_all (\<lambda>i. byte_of (a ! i) = byte_of (b ! i)) [0..<length b]"
    by (auto simp: constant_time_eq_def Let_def fold_or_zero list_all_iff xor_zero)
  with True show ?thesis
    by (auto simp: list_all_iff intro: nth_equalityI)
qed

text \<open>A bearer header that counts: its text is visible and begins with the scheme.\<close>

definition bearer :: "web_call \<Rightarrow> string \<Rightarrow> bool" where
  "bearer c h \<longleftrightarrow> wc_authorization c = Some (''Bearer '' @ h) \<and> header_to_str (''Bearer '' @ h) \<noteq> None"

lemma provided_token_iff:
  "provided_token c = Some t \<longleftrightarrow>
     (\<exists>h. bearer c h \<and> trim h = t) \<or> (\<nexists>h. bearer c h) \<and> wc_token c = Some t"
proof (cases "\<exists>h. bearer c h")
  case True
  then obtain h where h: "wc_authorization c = Some (''Bearer '' @ h)" "header_to_str (''Bearer '' @ h) = Some (''Bearer '' @ h)"
    by (auto simp: bearer_def header_to_str_def split: if_splits)
  have "bearer c h' \<longleftrightarrow> h' = h" for h'
    using h by (auto simp: bearer_def)
  with h show ?thesis
    by (simp add: provided_token_def strip_prefix_def starts_with_def)
next
  case False
  then have "Option.bind (Option.bind (wc_authorization c) header_to_str) (strip_prefix ''Bearer '') = None"
    by (auto simp: bearer_def strip_prefix_def starts_with_iff header_to_str_def split: bind_splits if_splits)
  with False show ?thesis
    by (simp add: provided_token_def)
qed

lemma serve_protected:
  "wc_request c \<noteq> Web_health \<Longrightarrow> serve E c s = auth_middleware E (respond E) c s"
  by (simp add: serve_def split: web_request.split)

text \<open>
  C37. When a dashboard token is configured, a request to any route but health reaches its handler exactly when the
  bearer header, or without a bearer header the query parameter, carries that very token; any other request is
  answered with 401 and changes nothing. (A wrong bearer header shadows a right query parameter.)
\<close>

theorem web_gate:
  assumes "we_token E = Some t" "wc_request c \<noteq> Web_health"
  shows "serve E c s =
    (if (\<exists>h. bearer c h \<and> trim h = t) \<or> (\<nexists>h. bearer c h) \<and> wc_token c = Some t
     then respond E c s else (s, unauthorized))"
  unfolding provided_token_iff [symmetric] serve_protected [OF assms(2)]
  using assms(1) by (simp add: auth_middleware_def constant_time_eq_iff split: option.split)

definition demo_web_env :: web_env where
  "demo_web_env = \<lparr>we_on = demo_on_env, we_token = Some ''t'', we_lxc = None, we_render = (\<lambda>_. Inr []),
     we_sql_text = (\<lambda>_. [])\<rparr>"

definition demo_call :: web_call where
  "demo_call = \<lparr>wc_authorization = Some ''Bearer x'', wc_token = Some ''t'', wc_request = Dashboard\<rparr>"

lemma web_gate_witness:
  "serve demo_web_env demo_call demo_on_state =
    (if (\<exists>h. bearer demo_call h \<and> trim h = ''t'') \<or> (\<nexists>h. bearer demo_call h) \<and> wc_token demo_call = Some ''t''
     then respond demo_web_env demo_call demo_on_state else (demo_on_state, unauthorized))"
  by (rule web_gate) (simp_all add: demo_web_env_def demo_call_def)

end
