(* ===== verification/Gateway.thy ===== *)
theory Gateway
  imports Gateway_Rules Local_Server Peer_Sync Reconciler Web
begin

text \<open>
  The running gateway (\<open>main.rs\<close>): what it starts with, and the servers and background tasks that share its
  database, agent cache and disk. An event is one request to a server, one reconciler pass, one round of the peer
  synchronisation, or a restart of the process; events are interleaved in any order, each of them atomic.

  Lemmas: every event moves along the order of \<open>Gateway_Rules\<close>; which endpoints agents have, in the table and in
  the cache.
\<close>

subsection \<open>Starting\<close>

record start_env =
  sv_json :: caps_json
  sv_now :: string
  sv_database_url :: "string option"
  sv_open :: "string \<Rightarrow> err option"
  sv_create_data_dir :: "string \<Rightarrow> err option"
  sv_jwt_secret :: "string option"
  sv_bind :: "16 word \<Rightarrow> err option"

record gateway =
  gw_up :: bool
  gw_db :: db
  gw_cache :: "agent_entry list"
  gw_disk :: "string \<Rightarrow> string option"
  gw_pending :: "prompt list"
  gw_pushed :: "(string \<times> string) list"
  gw_spawned :: "(string \<times> string) list"
  gw_sent :: "message list"
  gw_todo_md :: "string option"

definition seed_entry :: "string \<Rightarrow> seed_agent \<Rightarrow> agent_entry" where
  "seed_entry now seed = \<lparr>ae_name = sa_name seed, ae_version = ''unknown'', ae_endpoint = sa_endpoint seed,
     ae_capabilities = [], ae_soul_toml = [], ae_last_seen = None, ae_registered_at = now\<rparr>"

fun seed_registry :: "caps_json \<Rightarrow> string \<Rightarrow> seed_agent list \<Rightarrow> (registry, unit) act" where
  "seed_registry J now [] = ret ()"
| "seed_registry J now (seed # seeds) = bindA (upsert J (seed_entry now seed)) (\<lambda>_. seed_registry J now seeds)"

text \<open>
  \<open>main\<close> up to the point where it serves, as an effect on the database. \<open>sv_open\<close> is how connecting to it and
  migrating it ends. The prompts, notifications and context builds of the onboarding manager are new; the disk is
  what is there.
\<close>

definition start_gateway :: "start_env \<Rightarrow> config \<Rightarrow> (string \<Rightarrow> string option) \<Rightarrow> (db, gateway) act" where
  "start_gateway S cfg disk =
     (let db_url = (case sv_database_url S of Some u \<Rightarrow> u | None \<Rightarrow> cf_db_url cfg); gw = cf_gateway cfg;
          step = (\<lambda>r. case r of Some e \<Rightarrow> fail e | None \<Rightarrow> ret ()) in
      bindA (step (sv_open S db_url)) (\<lambda>_.
      bindA (step (sv_create_data_dir S (gc_data_dir gw))) (\<lambda>_.
      bindA (needA (Panicked ''A2A_JWT_SECRET is required. Generate with: openssl rand -hex 32'') (sv_jwt_secret S)) (\<lambda>_ d.
      case seed_registry (sv_json S) (sv_now S) (cf_agents cfg) (registry_new (sv_json S) d) of
        (reg, Inl e) \<Rightarrow> (rg_db reg, Inl e)
      | (reg, Inr _) \<Rightarrow>
          bindA (step (sv_bind S (gc_port_http gw))) (\<lambda>_.
          bindA (step (sv_bind S (gc_port_web gw))) (\<lambda>_.
          bindA (step (sv_bind S (gc_port_local gw))) (\<lambda>_.
          ret \<lparr>gw_up = True, gw_db = rg_db reg, gw_cache = rg_cache reg, gw_disk = disk, gw_pending = [],
            gw_pushed = [], gw_spawned = [], gw_sent = [], gw_todo_md = None\<rparr>))) (rg_db reg)))))"

lemma seed_registry_run:
  "seed_registry J now seeds s = (runA (agent_step J) s (map (\<lambda>x. Upsert (seed_entry now x)) seeds), Inr ())"
  by (induction seeds arbitrary: s) (simp_all add: act_simps exec_def upsert_def Let_def)

text \<open>However starting ends, the database is as it was or has the seeds in it; a gateway that serves has them.\<close>

definition seeded :: "start_env \<Rightarrow> config \<Rightarrow> db \<Rightarrow> registry" where
  "seeded S cfg d = runA (agent_step (sv_json S)) (registry_new (sv_json S) d)
     (map (\<lambda>x. Upsert (seed_entry (sv_now S) x)) (cf_agents cfg))"

lemma start_cases:
  "fst (start_gateway S cfg disk d) \<in> {d, rg_db (seeded S cfg d)}"
  "start_gateway S cfg disk d = (d', Inr g) \<Longrightarrow>
     d' = rg_db (seeded S cfg d) \<and> gw_db g = d' \<and> gw_cache g = rg_cache (seeded S cfg d)"
  unfolding seeded_def start_gateway_def Let_def seed_registry_run
  by (auto simp: act_simps split: option.splits)

subsection \<open>The state each part sees\<close>

abbreviation registry_of :: "gateway \<Rightarrow> registry" where
  "registry_of g \<equiv> \<lparr>rg_db = gw_db g, rg_cache = gw_cache g\<rparr>"

abbreviation store_of :: "gateway \<Rightarrow> obj_state" where
  "store_of g \<equiv> \<lparr>os_db = gw_db g, os_disk = gw_disk g\<rparr>"

abbreviation put_registry :: "registry \<Rightarrow> gateway \<Rightarrow> gateway" where
  "put_registry r g \<equiv> g\<lparr>gw_db := rg_db r, gw_cache := rg_cache r\<rparr>"

abbreviation put_store :: "obj_state \<Rightarrow> gateway \<Rightarrow> gateway" where
  "put_store x g \<equiv> g\<lparr>gw_db := os_db x, gw_disk := os_disk x\<rparr>"

definition on_local :: "(registry \<Rightarrow> registry) \<Rightarrow> gateway \<Rightarrow> gateway" where
  "on_local f g = put_registry (f (registry_of g)) g"

definition on_peer :: "(peer_state \<Rightarrow> peer_state) \<Rightarrow> gateway \<Rightarrow> gateway" where
  "on_peer f g = (let s = f \<lparr>ps_agents = gw_cache g, ps_store = store_of g\<rparr> in
     put_store (ps_store s) g\<lparr>gw_cache := ps_agents s\<rparr>)"

definition on_web :: "(on_state \<Rightarrow> on_state) \<Rightarrow> gateway \<Rightarrow> gateway" where
  "on_web f g = (let s = f \<lparr>on_reg = registry_of g, on_pending = gw_pending g, on_pushed = gw_pushed g,
        on_spawned = gw_spawned g\<rparr> in
     put_registry (on_reg s) g\<lparr>gw_pending := on_pending s, gw_pushed := on_pushed s, gw_spawned := on_spawned s\<rparr>)"

definition on_reconcile :: "(rec_state \<Rightarrow> rec_state) \<Rightarrow> gateway \<Rightarrow> gateway" where
  "on_reconcile f g = (let s = f \<lparr>rs_db = gw_db g, rs_sent = gw_sent g, rs_todo_md = gw_todo_md g\<rparr> in
     g\<lparr>gw_db := rs_db s, gw_sent := rs_sent s, gw_todo_md := rs_todo_md s\<rparr>)"

definition on_sync :: "(obj_state \<Rightarrow> obj_state) \<Rightarrow> gateway \<Rightarrow> gateway" where
  "on_sync f g = put_store (f (store_of g)) g"

subsection \<open>Events\<close>

type_synonym task_groups = "(string \<times> (string \<times> int) list) list"

datatype gw_event =
    Local_event local_env local_rpc
  | Peer_event peer_env peer_rpc
  | Http_event http_env rpc_request
  | Web_event web_env web_call
  | Reconcile_event pass_env "task_groups \<Rightarrow> task_groups" bool
  | Sync_event pull_env
  | Restart_event start_env

definition gw_restart :: "start_env \<Rightarrow> config \<Rightarrow> gateway \<Rightarrow> gateway" where
  "gw_restart S cfg g = (case start_gateway S cfg (gw_disk g) (gw_db g) of
     (d, Inl _) \<Rightarrow> g\<lparr>gw_up := False, gw_db := d\<rparr>
   | (d, Inr g') \<Rightarrow> g'\<lparr>gw_todo_md := gw_todo_md g\<rparr>)"

text \<open>A gateway that failed to start answers nothing. Peers are synchronised with only when some are configured.\<close>

fun gw_handle :: "config \<Rightarrow> gw_event \<Rightarrow> gateway \<Rightarrow> gateway" where
  "gw_handle cfg (Local_event E rpc) g = on_local (local_step cfg E rpc) g"
| "gw_handle cfg (Peer_event E rpc) g = on_peer (exec (Peer_Server.serve E rpc)) g"
| "gw_handle cfg (Http_event E req) g = g"
| "gw_handle cfg (Web_event E c) g = on_web (\<lambda>s. fst (Web.serve E c s)) g"
| "gw_handle cfg (Reconcile_event E iter writable) g = on_reconcile (run_once E iter writable) g"
| "gw_handle cfg (Sync_event E) g = (if cf_peers cfg = [] then g else on_sync (exec (sync_round E (cf_peers cfg))) g)"
| "gw_handle cfg (Restart_event S) g = gw_restart S cfg g"

definition gw_step :: "config \<Rightarrow> gw_event \<Rightarrow> gateway \<Rightarrow> gateway" where
  "gw_step cfg ev g = (if gw_up g \<or> (case ev of Restart_event _ \<Rightarrow> True | _ \<Rightarrow> False) then gw_handle cfg ev g else g)"

subsection \<open>Every event moves along the order\<close>

definition web_order :: "string set \<Rightarrow> on_state \<Rightarrow> on_state \<Rightarrow> bool" where
  "web_order A s t \<longleftrightarrow> db_order A (rg_db (on_reg s)) (rg_db (on_reg t)) \<and> rg_cache (on_reg t) = rg_cache (on_reg s)"

definition store_order :: "string set \<Rightarrow> obj_state \<Rightarrow> obj_state \<Rightarrow> bool" where
  "store_order A s t \<longleftrightarrow> db_order A (os_db s) (os_db t)"

interpretation web_rules: history_order "web_order A" for A
  by unfold_locales (auto simp: web_order_def intro: db_rules.ext_refl db_rules.ext_trans)

interpretation store_rules: history_order "store_order A" for A
  by unfold_locales (auto simp: store_order_def intro: db_rules.ext_refl db_rules.ext_trans)

text \<open>The dashboard.\<close>

lemma moves_odb: "moves (db_order A) m \<Longrightarrow> moves (web_order A) (odb m)"
  by (rule moves_zoom) (simp_all add: web_order_def)

lemma web_order_same: "on_reg t = on_reg s \<Longrightarrow> web_order A s t"
  by (simp add: web_order_def db_rules.ext_refl)

lemma moves_web_state: "(\<And>s. on_reg (fst (m s)) = on_reg s) \<Longrightarrow> moves (web_order A) m"
  by (simp add: moves_def exec_def web_order_same)

lemma on_reg_notice [simp]: "on_reg (push_notification E m t s) = on_reg s" "on_reg (clear_prompt i s) = on_reg s"
  by (simp_all add: push_notification_def clear_prompt_def split: option.split)

lemma moves_need_project: "moves (web_order A) (need_project i)"
  unfolding need_project_def by (intro web_rules.moves_intros)

lemma moves_emit: "moves (web_order A) (emit_prompt E p)"
  by (rule moves_web_state) (simp add: emit_prompt_def)

lemma moves_push:
  "moves (web_order A) (\<lambda>s. (push_notification E m t (clear_prompt i s), Inr x))"
  "moves (web_order A) (\<lambda>s. (push_notification E m t (if b then s\<lparr>on_spawned := f s\<rparr> else s), Inr x))"
  by (rule moves_web_state, simp)+

lemmas web_moves = web_rules.moves_intros moves_need_project moves_emit moves_push moves_odb db_moves

lemma moves_folder_answer: "moves (web_order A) (handle_folder_answer E i path)"
  unfolding handle_folder_answer_def by (intro web_moves; simp; intro conjI impI web_moves)

lemma moves_files_answer: "moves (web_order A) (handle_files_answer E i glob)"
  unfolding handle_files_answer_def Let_def by (intro web_moves) simp_all

lemma moves_user_task: "moves (web_order A) (handle_user_task E i task)"
  unfolding handle_user_task_def by (simp; intro conjI impI web_moves) simp_all

lemma moves_answer: "moves (web_order A) (answer_onboarding E ans)"
  unfolding answer_onboarding_def
  by (simp add: moves_folder_answer moves_files_answer moves_user_task web_rules.moves_pure)

lemma moves_render: "moves (web_order A) (render E p)"
  by (simp add: render_def web_rules.moves_pure split: sum.split)

lemma moves_handle: "moves (web_order A) (handle E r)"
proof (cases r)
  case (Onboard_answer i st v)
  then show ?thesis
    by (auto simp: onboard_answer_def prompt_partial_def intro!: web_moves moves_answer moves_render split: option.split)
qed (auto simp: dashboard_def project_detail_def onboard_prompt_def prompt_partial_def task_log_partial_def Let_def
    open_contribution_def contribution_detail_def cast_vote_web_def review_pr_def lxc_list_web_def lxc_spawn_web_def
    lxc_stop_web_def lxc_client_def liftA_def
    intro!: web_moves moves_render split: option.split sum.split)

lemma web_order_serve: "web_order A s (fst (Web.serve E c s))"
proof -
  have "web_order A s (fst (respond E c s))"
    using movesD [OF moves_handle [of A E "wc_request c"], of s]
    by (cases "handle E (wc_request c) s") (auto simp: respond_def exec_def split: sum.split)
  then show ?thesis
    by (auto simp: serve_def auth_middleware_def web_rules.ext_refl split: web_request.split option.split)
qed

text \<open>The peer synchronisation.\<close>

lemma moves_in_db: "moves (db_order A) m \<Longrightarrow> moves (store_order A) (in_db m)"
  by (rule moves_zoom) (simp_all add: store_order_def)

lemma moves_sum: "moves (store_order A) (sumA r)"
  by (simp add: moves_def exec_def sumA_def store_rules.ext_refl)

lemma moves_put: "moves (store_order A) (put_object X now c)"
  by (simp add: moves_def exec_def put_object_def Let_def store_order_def order_outside(1) db_rules.ext_refl)

lemmas store_moves = store_rules.moves_intros moves_in_db moves_sum moves_put

lemma moves_fetch_objects: "moves (store_order A) (fetch_objects E C hs)"
  by (induction hs) (auto intro!: store_moves)

lemma moves_peer_cursor: "moves (db_order A) (update_peer_cursor now p i c)"
  by (simp add: moves_def exec_def update_peer_cursor_def order_outside(2))

lemma order_accept: "db_order A d (accept_entry E peer rp lp d pe)"
  using movesD [OF db_rules.moves_ok [OF moves_log_acts(2)], of A d lp "entry_of_proto rp pe" "pe_name peer"]
  by (simp add: accept_entry_def Let_def db_rules.ext_refl)

lemma order_apply_log: "db_order A d (apply_log E peer rp lp c ls d)"
proof -
  have "db_order A d (foldl (accept_entry E peer rp lp) d pes)" for pes
    by (induction pes rule: rev_induct) (auto intro: db_rules.ext_refl db_rules.ext_trans order_accept)
  moreover have "db_order A e (exec (okA (update_peer_cursor now p i c)) e)" for e now p i c
    by (rule movesD [OF db_rules.moves_ok [OF moves_peer_cursor]])
  ultimately show ?thesis
    unfolding apply_log_def Let_def by (auto intro: db_rules.ext_trans [of _ _ "foldl (accept_entry E peer rp lp) d (lp_entries ls)"])
qed

lemma moves_pull: "moves (store_order A) (pull_snapshot E C peer remote local)"
proof -
  have "store_order A s (exec (bindA (sumA (client_fetch_snapshot C (rp_project_id remote) (rp_snapshot_id remote))) (\<lambda>resp.
       if fs_error resp \<noteq> [] then fail (Anyhow (''fetch snapshot error: '' @ fs_error resp))
       else bindA (fetch_objects E C (fs_missing_objects resp)) (\<lambda>_.
         case local of None \<Rightarrow> ret ()
         | Some p \<Rightarrow> bindA (in_db (apply_peer_snapshot (ye_now E) (pj_id p) (rp_snapshot_id remote)
               (fs_transcript resp) (pe_name peer))) (\<lambda>_. ret ())))) s)" for s
    by (rule movesD) (auto intro!: store_moves moves_fetch_objects moves_apply_peer split: option.split)
  then show ?thesis
    by (simp add: moves_def pull_snapshot_def exec_def store_rules.ext_refl)
qed

lemma moves_sync_project: "moves (store_order A) (sync_project E C peer remote)"
proof -
  have "store_order A s (after_log E peer remote ls s)" for s ls
    by (simp add: after_log_def store_order_def order_apply_log db_rules.ext_refl split: option.split)
  then have "store_order A s (exec (pull_snapshot E C peer remote local) (after_log E peer remote ls s))" for s ls local
    using movesD [OF moves_pull] by (rule store_rules.ext_trans)
  then show ?thesis
    by (simp add: moves_def exec_def sync_project_cases store_rules.ext_refl split: sum.split)
qed

lemma moves_sync_peer: "moves (store_order A) (sync_peer E peer)"
proof -
  have "moves (store_order A) (\<lambda>s. (foldl (\<lambda>s remote. exec (sync_project E C peer remote) s) s rs, Inr ()))" for C rs
    by (rule store_rules.moves_foldl) (rule moves_sync_project)
  then show ?thesis
    by (auto simp: sync_peer_def Let_def intro!: store_moves split: connect_outcome.split)
qed

lemma moves_sync_round: "moves (store_order A) (sync_round E peers)"
  unfolding sync_round_def by (rule store_rules.moves_foldl) (rule moves_sync_peer)

text \<open>The peer server, the reconciler, the local server and the start.\<close>

lemma peer_writes: "exec (Peer_Server.serve E rpc) s = s \<or>
   (\<exists>r c. rpc = Join_group r \<and> token_claims E (jq_jwt r) = Inr c)"
proof (cases "jwt_of rpc")
  case None
  then show ?thesis by (cases rpc) (simp_all add: exec_def act_simps)
next
  case (Some t)
  show ?thesis
  proof (cases "token_claims E t")
    case (Inl e)
    from serve_denied [OF Some this, of s] show ?thesis by (auto simp: exec_def)
  next
    case (Inr c)
    then show ?thesis using serve_reads [OF Some Inr] Some by (cases rpc) auto
  qed
qed

lemma join_exec:
  assumes "token_claims E (jq_jwt r) = Inr c"
  shows "exec (join_group E r) s = s\<lparr>ps_store := (ps_store s)\<lparr>os_db :=
    exec (consume_invite (pv_now E) (jq_invite_token r) (jq_gateway_name r)) (ps_db s)\<rparr>\<rparr>"
  unfolding join_group_def exec_auth [OF assms] exec_bind_ret exec_map_err in_store_def exec_zoom by simp

lemma peer_order: "db_order A (ps_db s) (ps_db (exec (Peer_Server.serve E rpc) s))"
  using peer_writes [of E rpc s] movesD [OF moves_consume] by (auto simp: db_rules.ext_refl join_exec)

lemma peer_cache: "ps_agents (exec (Peer_Server.serve E rpc) s) = ps_agents s"
  using peer_writes [of E rpc s] by (auto simp: join_exec)

lemma reconcile_order: "db_order A (rs_db s) (rs_db (run_once E iter writable s))"
proof -
  have group: "db_order A (rs_db (fst sm)) (rs_db (fst (reconcile_group E sm g)))" for sm g
    by (cases sm; cases g) (auto simp: Let_def upsert_project_todo_def intro!: order_outside(3) split: prod.split)
  have "db_order A (rs_db (fst sm)) (rs_db (fst (foldl (reconcile_group E) sm gs)))" for sm gs
    by (induction gs rule: rev_induct) (auto intro: db_rules.ext_refl db_rules.ext_trans group)
  from this [of "(s, 0, 0, 0)"] show ?thesis
    by (simp add: run_once_def write_todo_md_def reconcile_todos_def)
qed

lemma brings_seeds: "brings (map (\<lambda>x. Upsert (seed_entry now x)) seeds) = sa_endpoint ` set seeds"
  by (force simp: brings_def seed_entry_def)

lemma start_order:
  fixes d :: db
  assumes "sa_endpoint ` set (cf_agents cfg) \<subseteq> A"
  shows "db_order A d (fst (start_gateway S cfg disk d))"
  using start_cases(1) [of S cfg disk d] assms
    order_agent_run [of "map (\<lambda>x. Upsert (seed_entry (sv_now S) x)) (cf_agents cfg)" A "registry_new (sv_json S) d" "sv_json S"]
  by (auto simp: registry_new_def seeded_def db_rules.ext_refl brings_seeds)

text \<open>The endpoints that a gateway may have for its agents: those the check of registration lets through, and its seeds'.\<close>

definition routable :: "config \<Rightarrow> string set" where
  "routable cfg = {e. is_ok (validate_endpoint e)} \<union> sa_endpoint ` set (cf_agents cfg)"

lemma seeds_routable: "sa_endpoint ` set (cf_agents cfg) \<subseteq> routable cfg"
  by (simp add: routable_def)

lemma local_brings: "brings (ops_of_rpc E rpc) \<subseteq> routable cfg"
proof (cases rpc)
  case (Register m)
  then show ?thesis
    by (auto simp: brings_def register_ops_def entry_of_manifest_def routable_def validate_endpoint_iff manifest_ok_def
        split: if_splits)
qed (auto simp: brings_def)

lemma gw_handle_order: "db_order (routable cfg) (gw_db g) (gw_db (gw_handle cfg ev g))"
proof (cases ev)
  case (Local_event E rpc)
  then show ?thesis
    using order_agent_run [OF local_brings [of E rpc cfg], of "registry_of g"] by (simp add: on_local_def local_step_ops)
next
  case (Peer_event E rpc)
  then show ?thesis
    using peer_order [of "routable cfg" "\<lparr>ps_agents = gw_cache g, ps_store = store_of g\<rparr>" E rpc] by (simp add: on_peer_def Let_def)
next
  case (Web_event E c)
  then show ?thesis
    using web_order_serve [of "routable cfg" "\<lparr>on_reg = registry_of g, on_pending = gw_pending g, on_pushed = gw_pushed g,
        on_spawned = gw_spawned g\<rparr>" E c]
    by (simp add: on_web_def Let_def web_order_def)
next
  case (Reconcile_event E iter w)
  then show ?thesis
    using reconcile_order [of "routable cfg" "\<lparr>rs_db = gw_db g, rs_sent = gw_sent g, rs_todo_md = gw_todo_md g\<rparr>" E iter w]
    by (simp add: on_reconcile_def Let_def)
next
  case (Sync_event E)
  then show ?thesis
    using movesD [OF moves_sync_round, of "routable cfg" "store_of g" E "cf_peers cfg"]
    by (simp add: on_sync_def store_order_def db_rules.ext_refl)
next
  case (Restart_event S)
  then show ?thesis
    using start_order [of cfg "routable cfg" "gw_db g" S "gw_disk g", OF seeds_routable]
    by (cases "start_gateway S cfg (gw_disk g) (gw_db g)")
      (auto simp: gw_restart_def dest: start_cases(2) split: sum.split)
qed (simp add: db_rules.ext_refl)

lemma gw_step_order: "db_order (routable cfg) (gw_db g) (gw_db (gw_step cfg ev g))"
  by (simp add: gw_step_def gw_handle_order db_rules.ext_refl)

interpretation gateway_system: history_system "gw_step cfg" "\<lambda>g h. db_order (routable cfg) (gw_db g) (gw_db h)" for cfg
  by unfold_locales (auto intro: db_rules.ext_refl db_rules.ext_trans gw_step_order)

text \<open>No endpoint enters the cache either that the table could not get.\<close>

definition gateway_endpoints :: "gateway \<Rightarrow> string set" where
  "gateway_endpoints g = agent_endpoints (gw_db g) \<union> cache_endpoints (gw_cache g)"

lemma reload_endpoints: "cache_endpoints (reload_from_db J rows c) \<subseteq> cache_endpoints c \<union> ar_endpoint ` set rows"
proof (induction rows rule: rev_induct)
  case (snoc r rows)
  have "cache_endpoints (cache_insert e c) \<subseteq> insert (ae_endpoint e) (cache_endpoints c)" for e c
    unfolding cache_endpoints_def cache_insert_def by (rule insert_or_image) simp
  from this [of "entry_of_row J r" "reload_from_db J rows c"] snoc show ?case
    by (auto simp: reload_from_db_def entry_of_row_def)
qed (simp add: reload_from_db_def)

lemma seeded_endpoints: "cache_endpoints (rg_cache (seeded S cfg d)) \<subseteq> agent_endpoints d \<union> routable cfg"
proof -
  have "cache_endpoints (rg_cache (registry_new J d)) \<subseteq> agent_endpoints d" for J
    using reload_endpoints [of J "agents d" "[]"] by (simp add: registry_new_def agent_endpoints_def cache_endpoints_def)
  then show ?thesis
    using cache_run_endpoints [of "sv_json S" "registry_new (sv_json S) d"
        "map (\<lambda>x. Upsert (seed_entry (sv_now S) x)) (cf_agents cfg)"] seeds_routable [of cfg]
    unfolding seeded_def brings_seeds by blast
qed

lemma gw_handle_cache: "cache_endpoints (gw_cache (gw_handle cfg ev g)) \<subseteq> gateway_endpoints g \<union> routable cfg"
proof (cases ev)
  case (Local_event E rpc)
  then show ?thesis
    using cache_run_endpoints [of "lo_json E" "registry_of g" "ops_of_rpc E rpc"] local_brings [of E rpc cfg]
    by (auto simp: on_local_def local_step_ops gateway_endpoints_def)
next
  case (Peer_event E rpc)
  then show ?thesis by (auto simp: on_peer_def Let_def peer_cache gateway_endpoints_def)
next
  case (Web_event E c)
  then show ?thesis
    using web_order_serve [of UNIV "\<lparr>on_reg = registry_of g, on_pending = gw_pending g, on_pushed = gw_pushed g,
        on_spawned = gw_spawned g\<rparr>" E c]
    by (auto simp: on_web_def Let_def web_order_def gateway_endpoints_def)
next
  case (Restart_event S)
  obtain d r where start: "start_gateway S cfg (gw_disk g) (gw_db g) = (d, r)" by fastforce
  show ?thesis
  proof (cases r)
    case (Inr h)
    with Restart_event show ?thesis
      using seeded_endpoints [of S cfg "gw_db g"] start_cases(2) [OF start [unfolded Inr]] start
      by (auto simp: gw_restart_def gateway_endpoints_def)
  qed (use Restart_event start in \<open>auto simp: gw_restart_def gateway_endpoints_def\<close>)
qed (auto simp: on_reconcile_def on_sync_def Let_def gateway_endpoints_def)

interpretation gateway_routes: invariant_system "gw_step cfg" "\<lambda>g. gateway_endpoints g \<subseteq> routable cfg" for cfg
proof
  fix g ev assume g: "gateway_endpoints g \<subseteq> routable cfg"
  have "agent_endpoints (gw_db (gw_step cfg ev g)) \<subseteq> routable cfg"
    using gw_step_order [of cfg g ev] g unfolding db_order_def gateway_endpoints_def by blast
  moreover have "cache_endpoints (gw_cache (gw_step cfg ev g)) \<subseteq> routable cfg"
    using gw_handle_cache [of cfg ev g] g by (auto simp: gw_step_def gateway_endpoints_def)
  ultimately show "gateway_endpoints (gw_step cfg ev g) \<subseteq> routable cfg"
    by (simp add: gateway_endpoints_def)
qed

lemma forward_Inr:
  assumes "forward_of cfg E r reg = Inr (endpoint, req)"
  shows "cq_hop_count req \<le> max_hops cfg \<and> permitted cfg (cq_caller r) (cq_target_agent r) \<and> endpoint \<in> cache_endpoints (rg_cache reg)"
  using assms
  by (auto simp: forward_of_def Let_def route_Inr registry_get_def cache_get_def cache_endpoints_def dest: find_by_Some
      split: sum.splits)

lemma seed_cache:
  "cache_get (rg_cache (runA (agent_step J) s (map (\<lambda>x. Upsert (seed_entry now x)) seeds))) n =
     (case find_by sa_name n (rev seeds) of Some x \<Rightarrow> Some (seed_entry now x) | None \<Rightarrow> cache_get (rg_cache s) n)"
proof (induction seeds arbitrary: s)
  case (Cons x seeds)
  have "cache_get (rg_cache (exec (upsert J e) t)) n = (if n = ae_name e then Some e else cache_get (rg_cache t) n)" for e t
    by (simp add: exec_def upsert_def Let_def)
  with Cons show ?case
    by (auto simp: find_by_append find_by_single seed_entry_def split: option.split)
qed (simp add: find_by_Nil)

subsection \<open>Properties\<close>

text \<open>
  C1. Whatever requests, reconciler passes, synchronisation rounds and restarts happen to a gateway, in any order: a soul once
  written stays, memories only grow (as \<open>append_memory\<close> stands they do not even do that), no todo is lost or reopened, the task log and the
  snapshots only grow at the end, no project changes its visibility (no entry point changes it), and every proposal keeps its status or is
  decided once.
\<close>

theorem gateway_history:
  "case (gw_db g, gw_db (runA (gw_step cfg) g evs)) of (d, d') \<Rightarrow>
     soul_kept (db_reg d) (db_reg d') \<and> memory_kept (db_reg d) (db_reg d') \<and> todos_kept (db_reg d) (db_reg d') \<and>
     visibility_at d' = visibility_at d \<and> prefix (task_log d) (task_log d') \<and> prefix (snapshots d) (snapshots d') \<and>
     prefix (members d) (members d') \<and> status_followed d d'"
  using gateway_system.run_ext [of cfg g evs] by (simp add: db_order_def db_kept_def)

text \<open>
  C2. The tables stay well typed under any events: keys are unique, references point to rows that exist, todo
  serials are above every id, and every stored enumeration string is one that its \<open>as_str\<close> writes.
\<close>

theorem gateway_typed:
  assumes "db_typed (gw_db g)"
  shows "db_typed (gw_db (runA (gw_step cfg) g evs))"
  using gateway_system.run_ext [of cfg g evs] assms by (simp add: db_order_def)

text \<open>
  C5. A gateway forwards calls only to endpoints it may trust: after any events, every endpoint in its agents table and its
  cache passes the check of registration (\<open>validate_endpoint\<close>) or is one of the configuration file, if it was so at
  first. So whatever call an agent makes, if it is forwarded then to such an endpoint, along the call graph, and with a hop
  count within the limit. (The check itself has a gap, \<open>endpoint_userinfo_bypass\<close>.)
\<close>

theorem routed_endpoints:
  assumes "gateway_endpoints g \<subseteq> routable cfg"
  shows "gateway_endpoints (runA (gw_step cfg) g evs) \<subseteq> routable cfg \<and>
    (case forward_of cfg E r (registry_of (runA (gw_step cfg) g evs)) of Inl _ \<Rightarrow> True
     | Inr (endpoint, req) \<Rightarrow> (is_ok (validate_endpoint endpoint) \<or> endpoint \<in> sa_endpoint ` set (cf_agents cfg)) \<and>
         permitted cfg (cq_caller r) (cq_target_agent r) \<and> cq_hop_count req \<le> max_hops cfg)"
proof -
  have inv: "gateway_endpoints (runA (gw_step cfg) g evs) \<subseteq> routable cfg"
    using assms by (rule gateway_routes.run_inv)
  then show ?thesis
    by (auto simp: routable_def gateway_endpoints_def dest!: forward_Inr split: sum.split)
qed

definition demo_config :: config where
  "demo_config = \<lparr>cf_gateway = \<lparr>gc_name = ''gw'', gc_port_local = 7240, gc_port_peer = 7241, gc_port_http = 7242,
     gc_port_web = 7243, gc_reconcile_interval_secs = 30, gc_data_dir = ''data''\<rparr>, cf_db_url = ''postgres'', cf_lxc = None,
     cf_agents = [\<lparr>sa_name = ''a'', sa_endpoint = ''http://a''\<rparr>],
     cf_call_graph = \<lparr>cg_edges = [], cg_max_hops = 3\<rparr>, cf_peers = []\<rparr>"

definition empty_gateway :: gateway where
  "empty_gateway = \<lparr>gw_up = True, gw_db = empty_db, gw_cache = [], gw_disk = Map.empty, gw_pending = [], gw_pushed = [],
     gw_spawned = [], gw_sent = [], gw_todo_md = None\<rparr>"

lemma empty_db_typed: "db_typed empty_db"
  by (simp add: other_tables empty_db_def table_simps)

lemma gateway_typed_witness:
  "db_typed (gw_db (runA (gw_step demo_config) empty_gateway [Web_event demo_web_env demo_call]))"
  by (rule gateway_typed) (simp add: empty_gateway_def empty_db_typed)

text \<open>
  No project of a running gateway ever gets to the step that asks its user for a task, unless it was at that
  step before: nothing calls \<open>context_ready\<close>, so onboarding stops at building the context.
\<close>

lemma never_asks_for_task:
  assumes "onboarding_at (gw_db g) i \<noteq> Some (Some ''awaiting_user_input'')"
  shows "onboarding_at (gw_db (runA (gw_step cfg) g evs)) i \<noteq> Some (Some ''awaiting_user_input'')"
  using gateway_system.run_ext [of cfg g evs] assms by (auto simp: db_order_def asked_for_task_def)

lemma never_asks_for_task_witness:
  "onboarding_at (gw_db (runA (gw_step demo_config) empty_gateway [Web_event demo_web_env demo_call])) ''p'' \<noteq> Some (Some ''awaiting_user_input'')"
  by (rule never_asks_for_task)
    (simp add: empty_gateway_def empty_db_def onboarding_at_def get_project_def find_by_def)

text \<open>
  C36. Every configured agent is found after a start, at its configured endpoint and without capabilities, whatever
  the database holds: those an agent registered itself are gone until it registers again. Its soul is kept.
\<close>

theorem start_seeds:
  assumes "start_gateway S cfg disk d = (d', Inr g)" "cf_agents cfg = before @ seed # after"
    "sa_name seed \<notin> sa_name ` set after"
  shows "registry_get (registry_of g) (sa_name seed) = Some (seed_entry (sv_now S) seed) \<and>
    soul_kept (db_reg d) (db_reg (gw_db g))"
proof -
  have "find_by sa_name (sa_name seed) (rev after) = None"
    using assms(3) by (simp add: find_by_None)
  then have "find_by sa_name (sa_name seed) (rev (cf_agents cfg)) = Some seed"
    by (simp add: assms(2) find_by_append) (simp add: find_by_def)
  then have "registry_get (registry_of g) (sa_name seed) = Some (seed_entry (sv_now S) seed)"
    using start_cases(2) [OF assms(1)] by (simp add: registry_get_def seeded_def seed_cache)
  moreover have "soul_kept (db_reg d) (db_reg (gw_db g))"
    using start_order [of cfg UNIV d S disk] start_cases(2) [OF assms(1)] assms(1) by (simp add: db_order_def db_kept_def)
  ultimately show ?thesis by simp
qed

definition demo_start :: start_env where
  "demo_start = \<lparr>sv_json = mark_json, sv_now = ''now'', sv_database_url = None, sv_open = (\<lambda>_. None),
     sv_create_data_dir = (\<lambda>_. None), sv_jwt_secret = Some ''k'', sv_bind = (\<lambda>_. None)\<rparr>"

text \<open>A gateway without agents in which one registers, which is started again, and through which somebody then calls.\<close>

definition demo_agent_env :: local_env where
  "demo_agent_env = \<lparr>lo_gateway = ''gw'', lo_json = mark_json, lo_seen_at = ''t'', lo_registered_at = ''t'', lo_fresh_id = ''1'',
     lo_sql_text = (\<lambda>_. []), lo_forward = (\<lambda>_ _. Call_failed []), lo_post = (\<lambda>_ _. Body [])\<rparr>"

definition demo_manifest :: agent_manifest where
  "demo_manifest = \<lparr>am_name = ''b'', am_version = ''1'', am_endpoint = ''http://b'', am_capabilities = [], am_soul_toml = []\<rparr>"

definition demo_agent_call :: call_request where
  "demo_agent_call = \<lparr>cq_target_agent = ''b'', cq_method = ''m'', cq_payload = [], cq_trace_id = [], cq_caller = [], cq_hop_count = 0\<rparr>"

lemma routed_endpoints_witness:
  "gateway_endpoints (runA (gw_step demo_config) empty_gateway [Local_event demo_agent_env (Register demo_manifest), Restart_event demo_start]) \<subseteq>
     routable demo_config \<and>
   (case forward_of demo_config demo_agent_env demo_agent_call
       (registry_of (runA (gw_step demo_config) empty_gateway [Local_event demo_agent_env (Register demo_manifest), Restart_event demo_start])) of
      Inl _ \<Rightarrow> True
    | Inr (endpoint, req) \<Rightarrow> (is_ok (validate_endpoint endpoint) \<or> endpoint \<in> sa_endpoint ` set (cf_agents demo_config)) \<and>
         permitted demo_config (cq_caller demo_agent_call) (cq_target_agent demo_agent_call) \<and> cq_hop_count req \<le> max_hops demo_config)"
  by (rule routed_endpoints)
    (simp add: empty_gateway_def empty_db_def gateway_endpoints_def agent_endpoints_def cache_endpoints_def)

lemma demo_starts:
  "snd (start_gateway demo_start demo_config Map.empty (rg_db demo_registry)) \<noteq> Inl e"
  by (simp add: start_gateway_def demo_start_def demo_config_def seed_registry_run act_simps Let_def del: seed_registry.simps)

lemma start_seeds_witness:
  "\<exists>g. start_gateway demo_start demo_config Map.empty (rg_db demo_registry) = (gw_db g, Inr g) \<and>
    registry_get (registry_of g) (sa_name \<lparr>sa_name = ''a'', sa_endpoint = ''http://a''\<rparr>) =
      Some (seed_entry (sv_now demo_start) \<lparr>sa_name = ''a'', sa_endpoint = ''http://a''\<rparr>) \<and>
    soul_kept (db_reg (rg_db demo_registry)) (db_reg (gw_db g))"
proof -
  obtain d' g where s: "start_gateway demo_start demo_config Map.empty (rg_db demo_registry) = (d', Inr g)"
    using demo_starts by (metis sum.exhaust prod.exhaust snd_conv)
  with start_cases(2) [OF s] start_seeds [OF s, of "[]" "\<lparr>sa_name = ''a'', sa_endpoint = ''http://a''\<rparr>" "[]"]
  show ?thesis by (auto simp: demo_config_def)
qed

end
