(* ===== verification/Sdk.thy ===== *)
theory Sdk
  imports Local_Server Event_Bus
begin

text \<open>
  The agent SDK (crate \<open>a2a-sdk\<close>): domain types, call options, conversions, the gateway client with its retry loop,
  the agent builder, and the service an agent runs. JSON (serde_json) is the type \<open>'j\<close> with a parser and a
  printer; what the gateway answers to the n-th request of a call is a parameter. A \<open>Duration\<close> is the rational
  number of seconds; it panics below 0 and from \<open>2^64\<close> on, as \<open>from_secs_f64\<close> does.

  Lemmas: when the retry loop ends and with how many requests; chains of calls made through the SDK.
\<close>

subsection \<open>Types and options\<close>

record 'j message =
  ms_trace_id :: string
  ms_caller :: string
  ms_method :: string
  ms_payload :: 'j

record capability =
  cb_name :: string
  cb_description :: string

record todo_item =
  ti_id :: int
  ti_task :: string
  ti_status :: string
  ti_created_at :: string
  ti_completed_at :: "string option"
  ti_notes :: "string option"

record call_options =
  co_timeout :: rat
  co_retries :: "32 word"
  co_backoff_factor :: rat
  co_circuit_breaker_threshold :: "32 word"

definition default_call_options :: call_options where
  "default_call_options = \<lparr>co_timeout = 30, co_retries = 3, co_backoff_factor = 2, co_circuit_breaker_threshold = 5\<rparr>"

subsection \<open>Conversions\<close>

definition to_manifest :: "string \<Rightarrow> string \<Rightarrow> string \<Rightarrow> capability list \<Rightarrow> string \<Rightarrow> agent_manifest" where
  "to_manifest name version endpoint caps soul_toml = \<lparr>am_name = name, am_version = version, am_endpoint = endpoint,
     am_capabilities = map cb_name caps, am_soul_toml = soul_toml\<rparr>"

definition to_call_request :: "string \<Rightarrow> string \<Rightarrow> string \<Rightarrow> string \<Rightarrow> string \<Rightarrow> call_request" where
  "to_call_request fresh_id caller target method payload = \<lparr>cq_target_agent = target, cq_method = method,
     cq_payload = payload, cq_trace_id = fresh_id, cq_caller = caller, cq_hop_count = 0\<rparr>"

definition from_call_request :: "(string \<Rightarrow> string + 'j) \<Rightarrow> call_request \<Rightarrow> string + 'j message" where
  "from_call_request parse r = (case parse (cq_payload r) of
     Inl e \<Rightarrow> Inl e
   | Inr payload \<Rightarrow> Inr \<lparr>ms_trace_id = cq_trace_id r, ms_caller = cq_caller r, ms_method = cq_method r, ms_payload = payload\<rparr>)"

definition non_empty :: "string \<Rightarrow> string option" where
  "non_empty s = (if s = [] then None else Some s)"

definition from_proto_todo :: "todo_msg \<Rightarrow> todo_item" where
  "from_proto_todo t = \<lparr>ti_id = tm_id t, ti_task = tm_task t, ti_status = tm_status t, ti_created_at = tm_created_at t,
     ti_completed_at = non_empty (tm_completed_at t), ti_notes = non_empty (tm_notes t)\<rparr>"

subsection \<open>The call with retries\<close>

definition is_retryable :: "code \<Rightarrow> bool" where
  "is_retryable c \<longleftrightarrow> c = Unavailable \<or> c = Deadline_exceeded"

datatype call_error = Agent_error string | Invalid_json | Rpc_failed code string | Duration_panic

text \<open>One turn per request: \<open>n\<close> counts the requests sent, \<open>attempt\<close> is the \<open>u32\<close> of the source. The result carries the
  number of requests sent.\<close>

partial_function (option) call_loop ::
  "call_options \<Rightarrow> (string \<Rightarrow> string + 'j) \<Rightarrow> (nat \<Rightarrow> (code \<times> string) + call_response) \<Rightarrow> nat \<Rightarrow> 32 word \<Rightarrow> rat \<Rightarrow>
     (nat \<times> (call_error + 'j)) option" where
  "call_loop opts parse answer n attempt0 delay =
     (let attempt = attempt0 + 1 in
      case answer n of
        Inr body \<Rightarrow> Some (Suc n,
          if cs_error body \<noteq> [] then Inl (Agent_error (cs_error body))
          else case parse (cs_result body) of Inl _ \<Rightarrow> Inl Invalid_json | Inr v \<Rightarrow> Inr v)
      | Inl (c, msg) \<Rightarrow>
          if attempt \<le> co_retries opts \<and> is_retryable c
          then let delay' = delay * co_backoff_factor opts in
            if delay' < 0 \<or> 2 ^ 64 \<le> delay' then Some (Suc n, Inl Duration_panic)
            else call_loop opts parse answer (Suc n) attempt delay'
          else Some (Suc n, Inl (Rpc_failed c msg)))"

definition sdk_call ::
  "call_options \<Rightarrow> (string \<Rightarrow> string + 'j) \<Rightarrow> (nat \<Rightarrow> (code \<times> string) + call_response) \<Rightarrow> (nat \<times> (call_error + 'j)) option" where
  "sdk_call opts parse answer = call_loop opts parse answer 0 0 (1 / 5)"

subsection \<open>The builder and the agent\<close>

record ('t, 's, 'l, 'b) agent_builder =
  bd_name :: "string option"
  bd_version :: string
  bd_gateway :: "string option"
  bd_soul_toml :: string
  bd_capabilities :: "capability list"
  bd_endpoint :: "string option"
  bd_nats_url :: "string option"
  bd_hooks :: "('t, 's, 'l, 'b) hook_registry"

definition no_hooks :: "('t, 's, 'l, 'b) hook_registry" where
  "no_hooks = \<lparr>on_task_assigned = None, on_snapshot = None, on_lifecycle = None, on_broadcast = None\<rparr>"

definition default_builder :: "('t, 's, 'l, 'b) agent_builder" where
  "default_builder = \<lparr>bd_name = None, bd_version = ''0.1.0'', bd_gateway = None, bd_soul_toml = [],
     bd_capabilities = [], bd_endpoint = None, bd_nats_url = None, bd_hooks = no_hooks\<rparr>"

definition with_capability ::
  "string \<Rightarrow> string \<Rightarrow> ('t, 's, 'l, 'b) agent_builder \<Rightarrow> ('t, 's, 'l, 'b) agent_builder" where
  "with_capability name desc b = b\<lparr>bd_capabilities := bd_capabilities b @ [\<lparr>cb_name = name, cb_description = desc\<rparr>]\<rparr>"

record ('t, 's, 'l, 'b) sdk_agent =
  sg_name :: string
  sg_version :: string
  sg_gateway_addr :: string
  sg_soul_toml :: string
  sg_capabilities :: "capability list"
  sg_endpoint :: "string option"
  sg_nats_url :: string
  sg_hooks :: "('t, 's, 'l, 'b) hook_registry"

text \<open>\<open>build\<close>: the environment's \<open>NATS_URL\<close> and the connection to the gateway are parameters.\<close>

definition build_agent ::
  "string option \<Rightarrow> (string \<Rightarrow> err + unit) \<Rightarrow> ('t, 's, 'l, 'b) agent_builder \<Rightarrow> err + ('t, 's, 'l, 'b) sdk_agent" where
  "build_agent env_nats connects b =
     (case bd_name b of
        None \<Rightarrow> Inl (Anyhow ''agent name is required'')
      | Some name \<Rightarrow> (case bd_gateway b of
          None \<Rightarrow> Inl (Anyhow ''gateway address is required'')
        | Some gateway \<Rightarrow>
            let nats_url = (case bd_nats_url b of Some u \<Rightarrow> u
                  | None \<Rightarrow> (case env_nats of Some u \<Rightarrow> u | None \<Rightarrow> ''nats://127.0.0.1:4222'')) in
            case connects gateway of Inl e \<Rightarrow> Inl e
            | Inr _ \<Rightarrow> Inr \<lparr>sg_name = name, sg_version = bd_version b, sg_gateway_addr = gateway, sg_soul_toml = bd_soul_toml b,
              sg_capabilities = bd_capabilities b, sg_endpoint = bd_endpoint b, sg_nats_url = nats_url, sg_hooks = bd_hooks b\<rparr>))"

text \<open>The manifest \<open>serve\<close> registers, and the hook subscriber it starts.\<close>

definition serve_manifest :: "('t, 's, 'l, 'b) sdk_agent \<Rightarrow> agent_manifest" where
  "serve_manifest a = to_manifest (sg_name a) (sg_version a)
     (case sg_endpoint a of None \<Rightarrow> [] | Some e \<Rightarrow> e) (sg_capabilities a) (sg_soul_toml a)"

definition serve_subscribes :: "('t, 's, 'l, 'b) sdk_agent \<Rightarrow> (string \<times> string) option" where
  "serve_subscribes a = (if has_any (sg_hooks a) then Some (sg_nats_url a, sg_name a) else None)"

text \<open>The \<open>Call\<close> RPC of an agent: the handler is a parameter.\<close>

definition agent_service_call ::
  "(string \<Rightarrow> string + 'j) \<Rightarrow> ('j \<Rightarrow> string) \<Rightarrow> ('j message \<Rightarrow> string + 'j) \<Rightarrow> call_request \<Rightarrow> (code \<times> string) + call_response" where
  "agent_service_call parse print handler r =
     (case from_call_request parse r of
        Inl e \<Rightarrow> Inl (Invalid_argument, e)
      | Inr msg \<Rightarrow> (case handler msg of
          Inl e \<Rightarrow> Inl (Internal, e)
        | Inr resp \<Rightarrow> Inr \<lparr>cs_result = print resp, cs_error = [], cs_trace_id = ms_trace_id msg\<rparr>))"

subsection \<open>Retries\<close>

definition decode_reply :: "(string \<Rightarrow> string + 'j) \<Rightarrow> call_response \<Rightarrow> call_error + 'j" where
  "decode_reply parse body = (if cs_error body \<noteq> [] then Inl (Agent_error (cs_error body))
     else case parse (cs_result body) of Inl _ \<Rightarrow> Inl Invalid_json | Inr v \<Rightarrow> Inr v)"

definition failed_retryably :: "(code \<times> string) + call_response \<Rightarrow> bool" where
  "failed_retryably a = (case a of Inl (c, _) \<Rightarrow> is_retryable c | Inr _ \<Rightarrow> False)"

lemma call_loop_bound:
  fixes opts :: call_options
  assumes "co_retries opts \<noteq> -1" "a \<le> co_retries opts"
  shows "\<exists>m res. call_loop opts parse answer n a delay = Some (Suc m, res) \<and>
     n \<le> m \<and> m + unat a \<le> n + unat (co_retries opts) \<and> (\<forall>k \<in> {n..<m}. failed_retryably (answer k)) \<and>
     (case answer m of Inr body \<Rightarrow> res = decode_reply parse body
      | Inl (c, msg) \<Rightarrow> res = Inl (Rpc_failed c msg) \<or> res = Inl Duration_panic)"
  using assms(2)
proof (induction "unat (co_retries opts) - unat a" arbitrary: n a delay rule: less_induct)
  case less
  have le: "unat a \<le> unat (co_retries opts)"
    using less.prems by (simp add: word_le_nat_alt)
  show ?case
  proof (cases "answer n")
    case (Inr body)
    with le show ?thesis
      by (subst call_loop.simps) (auto simp: Let_def decode_reply_def intro!: exI [of _ n])
  next
    case (Inl p)
    obtain c msg where p: "p = (c, msg)" by (cases p)
    let ?d = "delay * co_backoff_factor opts"
    show ?thesis
    proof (cases "a + 1 \<le> co_retries opts \<and> is_retryable c \<and> \<not> (?d < 0 \<or> 2 ^ 64 \<le> ?d)")
      case True
      have next_attempt: "unat (a + 1) = unat a + 1"
        using next_hop_unat [OF assms(1) less.prems] True by blast
      have "unat (a + 1) \<le> unat (co_retries opts)"
        using True by (simp add: word_le_nat_alt)
      then have smaller: "unat (co_retries opts) - unat (a + 1) < unat (co_retries opts) - unat a"
        using next_attempt by simp
      obtain m res where m: "call_loop opts parse answer (Suc n) (a + 1) ?d = Some (Suc m, res)"
        "Suc n \<le> m" "m + unat (a + 1) \<le> Suc n + unat (co_retries opts)"
        "\<forall>k \<in> {Suc n..<m}. failed_retryably (answer k)"
        "case answer m of Inr body \<Rightarrow> res = decode_reply parse body
          | Inl (c, msg) \<Rightarrow> res = Inl (Rpc_failed c msg) \<or> res = Inl Duration_panic"
        using less.hyps [OF smaller, of "Suc n" ?d] True by blast
      have "call_loop opts parse answer n a delay = Some (Suc m, res)"
        using Inl p True m(1) by (subst call_loop.simps) (simp add: Let_def)
      moreover have "failed_retryably (answer k)" if "k \<in> {n..<m}" for k
        using that m(4) Inl p True by (cases "k = n") (auto simp: failed_retryably_def)
      ultimately show ?thesis
        using m next_attempt by (intro exI [of _ m] exI [of _ res]) auto
    next
      case False
      then have "\<exists>res. call_loop opts parse answer n a delay = Some (Suc n, res) \<and>
          (res = Inl (Rpc_failed c msg) \<or> res = Inl Duration_panic)"
        using Inl p by (subst call_loop.simps) (auto simp: Let_def)
      with Inl p le show ?thesis
        by (auto intro!: exI [of _ n])
    qed
  qed
qed

text \<open>With 2^32-1 retries the counter wraps, and a gateway that stays unavailable is asked for ever.\<close>

definition slow_backoff :: "call_options \<Rightarrow> rat \<Rightarrow> bool" where
  "slow_backoff opts delay \<longleftrightarrow> co_retries opts = -1 \<and> 0 \<le> delay \<and> delay < 2 ^ 64 \<and>
     0 \<le> co_backoff_factor opts \<and> co_backoff_factor opts \<le> 1"

lemma slow_backoff_step:
  assumes "slow_backoff opts delay"
  shows "slow_backoff opts (delay * co_backoff_factor opts)"
proof -
  have "delay * co_backoff_factor opts \<le> delay * 1"
    using assms by (intro mult_left_mono) (auto simp: slow_backoff_def)
  then show ?thesis
    using assms by (auto simp: slow_backoff_def)
qed

lemma slow_backoff_live:
  assumes "slow_backoff opts delay"
  shows "(delay * co_backoff_factor opts < 0 \<or> 2 ^ 64 \<le> delay * co_backoff_factor opts) = False" "a \<le> co_retries opts"
  using slow_backoff_step [OF assms] assms by (auto simp: slow_backoff_def)

lemma call_loop_unbounded:
  fixes opts :: call_options and answer :: "nat \<Rightarrow> (code \<times> string) + call_response"
  assumes "\<And>k. answer k = Inl (Unavailable, msg)" "slow_backoff opts delay"
  shows "call_loop opts parse answer n a delay = None"
proof (rule ccontr)
  assume "call_loop opts parse answer n a delay \<noteq> None"
  then obtain r where r: "call_loop opts parse answer n a delay = Some r" by blast
  define P where "P = (\<lambda>(opts :: call_options) (parse :: string \<Rightarrow> string + 'a) (answer :: nat \<Rightarrow> (code \<times> string) + call_response)
    (n :: nat) (a :: 32 word) delay (r :: nat \<times> (call_error + 'a)). \<not> ((\<forall>k. answer k = Inl (Unavailable, msg)) \<and> slow_backoff opts delay))"
  have "P opts parse answer n a delay r"
  proof (rule call_loop.raw_induct [where P = P, OF _ r], goal_cases)
    case (1 loop opts parse answer n a delay r)
    show ?case
      unfolding P_def
    proof (intro notI, elim conjE)
      assume down: "\<forall>k. answer k = Inl (Unavailable, msg)" and slow: "slow_backoff opts delay"
      from down 1(2) have "loop opts parse answer (Suc n) (a + 1) (delay * co_backoff_factor opts) = Some r"
        unfolding Let_def slow_backoff_live(1) [OF slow] if_False
        by (simp add: is_retryable_def slow_backoff_live(2) [OF slow])
      from 1(1) [OF this] down slow_backoff_step [OF slow] show False
        unfolding P_def by blast
    qed
  qed
  with assms show False unfolding P_def by blast
qed

subsection \<open>Chains of calls through the SDK\<close>

text \<open>Each agent of the chain calls the next one through the SDK, whatever hop count its own request came with: the
  request the gateway forwards carries it, but the message given to the handler does not.\<close>

fun sdk_chain :: "config \<Rightarrow> local_env \<Rightarrow> registry \<Rightarrow> string \<Rightarrow> string \<Rightarrow> 32 word \<Rightarrow> string list \<Rightarrow> status + 32 word" where
  "sdk_chain cfg E reg payload caller hop [] = Inr hop"
| "sdk_chain cfg E reg payload caller hop (target # targets) =
     (case forward_of cfg E (to_call_request (lo_fresh_id E) caller target ''invoke'' payload) reg of
        Inl st \<Rightarrow> Inl st
      | Inr (endpoint, req) \<Rightarrow> sdk_chain cfg E reg payload target (cq_hop_count req) targets)"

lemma sdk_forward:
  assumes "1 \<le> max_hops cfg" "permitted cfg caller target" "registry_get reg target \<noteq> None"
  shows "\<exists>endpoint req. forward_of cfg E (to_call_request i caller target m payload) reg = Inr (endpoint, req) \<and> cq_hop_count req = 1"
proof -
  obtain e where "registry_get reg target = Some e" using assms(3) by blast
  then have "route cfg reg caller target 0 = Inr \<lparr>rd_endpoint = ae_endpoint e, rd_hop_count = 1\<rparr>"
    using assms by (simp add: route_Inr)
  then show ?thesis
    by (simp add: forward_of_def to_call_request_def)
qed

subsection \<open>Properties\<close>

text \<open>
  C33. A call through the SDK ends: unless the retries are set to 2^32-1, at most retries + 1 requests are sent, a
  request is repeated only after \<open>Unavailable\<close> or \<open>DeadlineExceeded\<close>, and the result is that of the last request:
  the decoded reply, or the status it failed with (or the panic of an absurd delay).
\<close>

theorem sdk_call_ends:
  assumes "co_retries opts \<noteq> 2 ^ 32 - 1"
  shows "\<exists>m res. sdk_call opts parse answer = Some (Suc m, res) \<and> m \<le> unat (co_retries opts) \<and>
     (\<forall>k < m. case answer k of Inl (c, _) \<Rightarrow> c = Unavailable \<or> c = Deadline_exceeded | Inr _ \<Rightarrow> False) \<and>
     (case answer m of Inr body \<Rightarrow> res = decode_reply parse body
      | Inl (c, msg) \<Rightarrow> res = Inl (Rpc_failed c msg) \<or> res = Inl Duration_panic)"
proof -
  have "(2 ^ 32 - 1 :: 32 word) = -1"
    by simp
  with assms have ne: "co_retries opts \<noteq> -1"
    by metis
  obtain m res where m: "sdk_call opts parse answer = Some (Suc m, res)" "m \<le> unat (co_retries opts)"
    "\<forall>k \<in> {0..<m}. failed_retryably (answer k)"
    "case answer m of Inr body \<Rightarrow> res = decode_reply parse body
      | Inl (c, msg) \<Rightarrow> res = Inl (Rpc_failed c msg) \<or> res = Inl Duration_panic"
    using call_loop_bound [OF ne, of 0 parse answer 0 "1 / 5"] by (auto simp: sdk_call_def)
  from m(3) have "\<forall>k < m. case answer k of Inl (c, _) \<Rightarrow> c = Unavailable \<or> c = Deadline_exceeded | Inr _ \<Rightarrow> False"
    unfolding failed_retryably_def is_retryable_def atLeast0LessThan Ball_def lessThan_iff .
  with m show ?thesis by blast
qed

lemma sdk_call_ends_witness:
  "\<exists>m res. sdk_call default_call_options (\<lambda>s. Inr s) (\<lambda>_. Inl (Unavailable, ''down'')) = Some (Suc m, res) \<and>
     m \<le> unat (co_retries default_call_options) \<and>
     (\<forall>k < m. case (Inl (Unavailable, ''down'') :: (code \<times> string) + call_response) of
        Inl (c, _) \<Rightarrow> c = Unavailable \<or> c = Deadline_exceeded | Inr _ \<Rightarrow> False) \<and>
     (case (Inl (Unavailable, ''down'') :: (code \<times> string) + call_response) of Inr body \<Rightarrow> res = decode_reply (\<lambda>s. Inr s) body
      | Inl (c, msg) \<Rightarrow> res = Inl (Rpc_failed c msg) \<or> res = Inl Duration_panic)"
  by (rule sdk_call_ends) (simp add: default_call_options_def)

text \<open>
  The hop limit does not bound chains of agents that call through the SDK: each request starts at hop 0 again, so
  every chain along permitted edges between registered agents is routed to its end, however long it is, and
  always arrives with hop count 1.
\<close>

lemma sdk_chain_unbounded:
  assumes "1 \<le> max_hops cfg" "ts \<noteq> []" "permitted_path cfg caller ts" "list_all (\<lambda>t. registry_get reg t \<noteq> None) ts"
  shows "sdk_chain cfg E reg payload caller hop ts = Inr 1"
  using assms(2-)
proof (induction ts arbitrary: caller hop)
  case (Cons t ts)
  then obtain endpoint req where
    "forward_of cfg E (to_call_request (lo_fresh_id E) caller t ''invoke'' payload) reg = Inr (endpoint, req)" "cq_hop_count req = 1"
    using sdk_forward [OF assms(1), of caller t reg E "lo_fresh_id E" "''invoke''" payload] by auto
  with Cons show ?case
    by (cases "ts = []") simp_all
qed simp

definition demo_local_env :: local_env where
  "demo_local_env = \<lparr>lo_gateway = ''gw'', lo_json = mark_json, lo_seen_at = ''t'', lo_registered_at = ''t'', lo_fresh_id = ''id'',
     lo_sql_text = (\<lambda>_. []), lo_forward = (\<lambda>_ _. Call_failed []), lo_post = (\<lambda>_ _. Body [])\<rparr>"

lemma sdk_chain_unbounded_witness:
  "sdk_chain demo_cycle demo_local_env two_agents ''{}'' [] 0 [''w'', ''r'', ''w'', ''r'', ''w''] = Inr 1"
  by (rule sdk_chain_unbounded) (simp_all add: router_eval demo_cycle_def permitted_def)

text \<open>An agent without an endpoint cannot serve: the empty endpoint it registers is refused.\<close>

lemma serve_needs_endpoint:
  assumes "sg_endpoint a = None"
  shows "\<exists>msg. register E (serve_manifest a) s = (s, Inl (Status Invalid_argument msg))"
  using assms by (intro register_err) (simp add: manifest_ok_def serve_manifest_def to_manifest_def)

end
