(* ===== verification/Sidecar.thy ===== *)
theory Sidecar
  imports Local_Server
begin

text \<open>
  The sidecar (\<open>a2a-sidecar/src/main.rs\<close>): a \<open>LocalGateway\<close> server that hands every request to the gateway
  behind it. The service is a record of its RPCs over a state; the gateway's own is \<open>local_service\<close>, and
  \<open>proxy\<close> is the sidecar in front of any service. \<open>sidecar_start\<close> is the process up to the point where it serves;
  how connecting, making directories and binding end are parameters.

  Lemmas: the proxy is the service behind it, streams included; what a start needs and leaves.
\<close>

record 's gateway_service =
  gs_register :: "agent_manifest \<Rightarrow> 's \<Rightarrow> 's \<times> (status + register_ack)"
  gs_heartbeat :: "string \<Rightarrow> 's \<Rightarrow> 's \<times> (status + bool)"
  gs_call :: "call_request \<Rightarrow> 's \<Rightarrow> 's \<times> (status + call_response)"
  gs_stream :: "call_request \<Rightarrow> 's \<Rightarrow> 's \<times> (status + (status + stream_chunk) list)"
  gs_list_agents :: "'s \<Rightarrow> 's \<times> (status + agent_info list)"
  gs_health :: "'s \<Rightarrow> 's \<times> (status + health_status)"
  gs_get_soul :: "string \<Rightarrow> 's \<Rightarrow> 's \<times> (status + string)"
  gs_update_memory :: "string \<Rightarrow> string \<Rightarrow> 's \<Rightarrow> 's \<times> (status + bool)"
  gs_append_todo :: "string \<Rightarrow> string \<Rightarrow> 's \<Rightarrow> 's \<times> (status + bool)"
  gs_list_todos :: "string \<Rightarrow> bool \<Rightarrow> 's \<Rightarrow> 's \<times> (status + todo_msg list)"
  gs_complete_todo :: "int \<Rightarrow> string \<Rightarrow> 's \<Rightarrow> 's \<times> (status + bool)"

definition local_service :: "config \<Rightarrow> local_env \<Rightarrow> string \<Rightarrow> registry gateway_service" where
  "local_service cfg E now = \<lparr>gs_register = register E, gs_heartbeat = heartbeat_rpc E now, gs_call = call_rpc cfg E,
     gs_stream = (\<lambda>r. bindA (stream_rpc cfg E r) (\<lambda>item. ret [item])),
     gs_list_agents = askA list_agents_rpc, gs_health = askA health_rpc, gs_get_soul = get_soul_rpc E,
     gs_update_memory = update_memory_rpc E, gs_append_todo = append_todo_rpc E now,
     gs_list_todos = list_todos_rpc E, gs_complete_todo = complete_todo_rpc E now\<rparr>"

text \<open>\<open>Channel::from_shared\<close> and \<open>connect\<close>.\<close>

datatype 's grpc_connect = Bad_uri | No_channel | Channel "'s gateway_service"

text \<open>The loop of the \<open>stream!\<close> block: every item of the upstream is yielded, errors included.\<close>

fun bridge :: "'a list \<Rightarrow> 'a list" where
  "bridge [] = []"
| "bridge (item # incoming) = item # bridge incoming"

definition proxy_stream :: "'s gateway_service \<Rightarrow> call_request \<Rightarrow> 's \<Rightarrow> 's \<times> (status + (status + stream_chunk) list)" where
  "proxy_stream up req = bindA (gs_stream up req) (\<lambda>incoming. ret (bridge incoming))"

definition proxy :: "'s gateway_service \<Rightarrow> 's gateway_service" where
  "proxy up = \<lparr>gs_register = (\<lambda>req. gs_register up req), gs_heartbeat = (\<lambda>req. gs_heartbeat up req),
     gs_call = (\<lambda>req. gs_call up req), gs_stream = proxy_stream up, gs_list_agents = gs_list_agents up,
     gs_health = gs_health up, gs_get_soul = (\<lambda>req. gs_get_soul up req),
     gs_update_memory = (\<lambda>name patch. gs_update_memory up name patch), gs_append_todo = (\<lambda>name task. gs_append_todo up name task),
     gs_list_todos = (\<lambda>name b. gs_list_todos up name b), gs_complete_todo = (\<lambda>i notes. gs_complete_todo up i notes)\<rparr>"

lemma bridge_id: "bridge xs = xs"
  by (induction xs) simp_all

lemma bindA_ret_right: "bindA m ret = m"
  by (rule ext) (auto simp: bindA_def ret_def split: prod.split sum.split)

lemma proxy_stream_id: "proxy_stream up = gs_stream up"
  by (simp add: fun_eq_iff proxy_stream_def bridge_id bindA_ret_right)

lemma sidecar_transparent: "proxy up = up"
  by (cases up) (simp add: proxy_def proxy_stream_id)

subsection \<open>Starting\<close>

text \<open>
  \<open>Path::parent\<close>: what precedes the last component, without the separators between them; no parent of the root or
  of the empty path. (\<open>Path\<close> also drops components that are a single dot.)
\<close>

definition trim_seps :: "string \<Rightarrow> string" where
  "trim_seps p = rev (dropWhile (\<lambda>c. c = CHR ''/'') (rev p))"

definition parent_dir :: "string \<Rightarrow> string option" where
  "parent_dir p = (let t = trim_seps p in
     if t = [] then None
     else let up = rev (dropWhile (\<lambda>c. c \<noteq> CHR ''/'') (rev t)); q = trim_seps up in
       Some (if q = [] \<and> up \<noteq> [] then ''/'' else q))"

text \<open>
  \<open>sd_free\<close> is whether a file can be removed, \<open>sd_bind\<close> whether a socket can be made where no file is. The state is the
  set of files.
\<close>

record 's sidecar_env =
  sd_socket :: "string option"
  sd_gateway :: "string option"
  sd_make_dir :: "string \<Rightarrow> bool"
  sd_free :: "string \<Rightarrow> bool"
  sd_connect :: "string \<Rightarrow> 's grpc_connect"
  sd_bind :: "string \<Rightarrow> bool"

definition proxy_connect :: "(string \<Rightarrow> 's grpc_connect) \<Rightarrow> string \<Rightarrow> string + 's gateway_service" where
  "proxy_connect connects gateway_addr = (case connects gateway_addr of
     Bad_uri \<Rightarrow> Inl ''invalid gateway address''
   | No_channel \<Rightarrow> Inl (''connecting to gateway at '' @ gateway_addr)
   | Channel up \<Rightarrow> Inr (proxy up))"

definition sidecar_start :: "'s sidecar_env \<Rightarrow> string set \<Rightarrow> string set \<times> (string + 's gateway_service)" where
  "sidecar_start E files =
     (let socket_path = (case sd_socket E of Some p \<Rightarrow> p | None \<Rightarrow> ''/run/a2a/agent.sock'');
          gateway_addr = (case sd_gateway E of Some a \<Rightarrow> a | None \<Rightarrow> ''http://127.0.0.1:7240'');
          dir_ok = (case parent_dir socket_path of None \<Rightarrow> True | Some d \<Rightarrow> sd_make_dir E d) in
      if \<not> dir_ok then (files, Inl (''creating socket directory '' @ the (parent_dir socket_path)))
      else
        let files1 = (if sd_free E socket_path then files - {socket_path} else files) in
        case proxy_connect (sd_connect E) gateway_addr of
          Inl e \<Rightarrow> (files1, Inl e)
        | Inr service \<Rightarrow>
            if socket_path \<in> files1 \<or> \<not> sd_bind E socket_path
            then (files1, Inl (''binding Unix socket at '' @ socket_path))
            else (insert socket_path files1, Inr service))"

lemma parent_of_default: "parent_dir ''/run/a2a/agent.sock'' = Some ''/run/a2a''" "parent_dir ''agent.sock'' = Some []"
    "parent_dir ''/s'' = Some ''/''" "parent_dir ''/'' = None"
  by (simp_all add: parent_dir_def trim_seps_def Let_def)

text \<open>A sidecar that starts is the gateway it connected to, at its socket; a stale socket does not keep it from starting.\<close>

lemma sidecar_start_spec:
  assumes "sidecar_start E files = (files', Inr service)"
  shows "sd_connect E (case sd_gateway E of Some a \<Rightarrow> a | None \<Rightarrow> ''http://127.0.0.1:7240'') = Channel service \<and>
    (case sd_socket E of Some p \<Rightarrow> p | None \<Rightarrow> ''/run/a2a/agent.sock'') \<in> files' \<and> files \<subseteq> files'"
  using assms
  by (auto simp: sidecar_start_def proxy_connect_def sidecar_transparent Let_def split: if_splits grpc_connect.splits)

lemma stale_socket_removed:
  assumes "sd_socket E = Some p" "sd_gateway E = Some g" "\<And>d. sd_make_dir E d" "sd_free E p" "sd_bind E p"
    "sd_connect E g = Channel up"
  shows "sidecar_start E files = (insert p files, Inr up)"
  using assms by (auto simp: sidecar_start_def proxy_connect_def sidecar_transparent Let_def split: option.split)

end
