(* ===== verification/Sdk_Client.thy ===== *)
theory Sdk_Client
  imports Sdk Sidecar
begin

text \<open>
  The rest of the agent SDK: the gateway client (\<open>client.rs\<close>), the builder's setters, the agent that serves
  (\<open>agent.rs\<close>) and its hook subscriber (\<open>hooks.rs\<close>), over the service record of \<open>Sidecar\<close>. The gateway's call
  handler is stated once more with the agents behind it as services, so that a call can be followed from the
  client through sidecar, gateway and agent to the handler and back.

  Parameters: connections, fresh ids, the JSON codec, what happens in the world while a client waits, IPv6 addresses,
  and the status a client sees when a server's handler panics (\<open>gk_lost\<close>).

  Lemmas: the gateway with agents refines \<open>call_rpc\<close>; a call end to end, with its error paths; where an agent listens.
\<close>

subsection \<open>The gateway client\<close>

record 'w gateway_client =
  gk_inner :: "'w gateway_service"
  gk_agent_name :: string
  gk_lost :: "string \<Rightarrow> code \<times> string"

definition client_connect ::
  "(string \<Rightarrow> 'w grpc_connect) \<Rightarrow> (string \<Rightarrow> code \<times> string) \<Rightarrow> string \<Rightarrow> string \<Rightarrow> string + 'w gateway_client" where
  "client_connect connects lost endpoint agent_name = (case connects endpoint of
     Bad_uri \<Rightarrow> Inl ''invalid gateway endpoint''
   | No_channel \<Rightarrow> Inl ''failed to connect to gateway''
   | Channel up \<Rightarrow> Inr \<lparr>gk_inner = up, gk_agent_name = agent_name, gk_lost = lost\<rparr>)"

definition client_register :: "'w gateway_client \<Rightarrow> agent_manifest \<Rightarrow> 'w \<Rightarrow> 'w \<times> (status + unit)" where
  "client_register C manifest = bindA (gs_register (gk_inner C) manifest) (\<lambda>_. ret ())"

definition client_heartbeat :: "'w gateway_client \<Rightarrow> 'w \<Rightarrow> 'w \<times> (status + unit)" where
  "client_heartbeat C = bindA (gs_heartbeat (gk_inner C) (gk_agent_name C)) (\<lambda>_. ret ())"

text \<open>
  The n-th request of a call meets the world that the n requests and pauses before it left; \<open>wait n\<close> is what else
  happens during the n-th pause.
\<close>

fun turn_state :: "'w gateway_service \<Rightarrow> (nat \<Rightarrow> 'w \<Rightarrow> 'w) \<Rightarrow> call_request \<Rightarrow> 'w \<Rightarrow> nat \<Rightarrow> 'w" where
  "turn_state up wait req w 0 = w"
| "turn_state up wait req w (Suc n) = wait n (exec (gs_call up req) (turn_state up wait req w n))"

definition client_answer :: "'w gateway_client \<Rightarrow> call_request \<Rightarrow> 'w \<Rightarrow> (code \<times> string) + call_response" where
  "client_answer C req w = (case result (gs_call (gk_inner C) req) w of
     Inl (Status c msg) \<Rightarrow> Inl (c, msg)
   | Inl (Unwound msg) \<Rightarrow> Inl (gk_lost C msg)
   | Inr resp \<Rightarrow> Inr resp)"

definition client_call ::
  "'w gateway_client \<Rightarrow> string \<Rightarrow> (string \<Rightarrow> string + 'j) \<Rightarrow> ('j \<Rightarrow> string) \<Rightarrow> (nat \<Rightarrow> 'w \<Rightarrow> 'w) \<Rightarrow> string \<Rightarrow> string \<Rightarrow> 'j \<Rightarrow>
     call_options \<Rightarrow> 'w \<Rightarrow> ('w \<times> (call_error + 'j)) option" where
  "client_call C fresh_id parse print wait target method payload opts w =
     (let req = to_call_request fresh_id (gk_agent_name C) target method (print payload);
          world = turn_state (gk_inner C) wait req w in
      map_option (\<lambda>(n, res). (exec (gs_call (gk_inner C) req) (world (n - 1)), res))
        (sdk_call opts parse (\<lambda>n. client_answer C req (world n))))"

record sdk_chunk =
  ck_data :: string
  ck_done :: bool

fun chunks_of :: "(status + stream_chunk) list \<Rightarrow> (status + sdk_chunk) list" where
  "chunks_of [] = []"
| "chunks_of (item # s) = map_sum id (\<lambda>c. \<lparr>ck_data = sc_data c, ck_done = sc_done c\<rparr>) item # chunks_of s"

definition client_stream ::
  "'w gateway_client \<Rightarrow> string \<Rightarrow> ('j \<Rightarrow> string) \<Rightarrow> string \<Rightarrow> string \<Rightarrow> 'j \<Rightarrow> 'w \<Rightarrow> 'w \<times> (status + (status + sdk_chunk) list)" where
  "client_stream C fresh_id print target method payload =
     bindA (gs_stream (gk_inner C) (to_call_request fresh_id (gk_agent_name C) target method (print payload)))
       (\<lambda>stream. ret (chunks_of stream))"

record soul =
  so_content :: string

definition from_soul_content :: "string \<Rightarrow> soul" where
  "from_soul_content content_toml = \<lparr>so_content = content_toml\<rparr>"

text \<open>The messages \<open>MemoryPatch\<close> and \<open>TodoEntry\<close>: the agent and the text.\<close>

definition to_memory_patch :: "string \<Rightarrow> string \<Rightarrow> string \<times> string" where
  "to_memory_patch agent_name content = (agent_name, content)"

definition to_todo_entry :: "string \<Rightarrow> string \<Rightarrow> string \<times> string" where
  "to_todo_entry agent_name task = (agent_name, task)"

definition client_get_soul :: "'w gateway_client \<Rightarrow> 'w \<Rightarrow> 'w \<times> (status + soul)" where
  "client_get_soul C = bindA (gs_get_soul (gk_inner C) (gk_agent_name C)) (\<lambda>t. ret (from_soul_content t))"

definition client_update_memory :: "'w gateway_client \<Rightarrow> string \<Rightarrow> 'w \<Rightarrow> 'w \<times> (status + unit)" where
  "client_update_memory C content = (case to_memory_patch (gk_agent_name C) content of
     (name, patch) \<Rightarrow> bindA (gs_update_memory (gk_inner C) name patch) (\<lambda>_. ret ()))"

definition client_append_todo :: "'w gateway_client \<Rightarrow> string \<Rightarrow> 'w \<Rightarrow> 'w \<times> (status + unit)" where
  "client_append_todo C task = (case to_todo_entry (gk_agent_name C) task of
     (name, t) \<Rightarrow> bindA (gs_append_todo (gk_inner C) name t) (\<lambda>_. ret ()))"

definition client_list_todos :: "'w gateway_client \<Rightarrow> bool \<Rightarrow> 'w \<Rightarrow> 'w \<times> (status + todo_item list)" where
  "client_list_todos C include_done =
     bindA (gs_list_todos (gk_inner C) (gk_agent_name C) include_done) (\<lambda>ts. ret (map from_proto_todo ts))"

definition client_complete_todo :: "'w gateway_client \<Rightarrow> int \<Rightarrow> string \<Rightarrow> 'w \<Rightarrow> 'w \<times> (status + unit)" where
  "client_complete_todo C i notes = bindA (gs_complete_todo (gk_inner C) i notes) (\<lambda>_. ret ())"

definition client_health :: "'w gateway_client \<Rightarrow> 'w \<Rightarrow> 'w \<times> (status + health_status)" where
  "client_health C = gs_health (gk_inner C)"

definition client_list_agents :: "'w gateway_client \<Rightarrow> 'w \<Rightarrow> 'w \<times> (status + agent_info list)" where
  "client_list_agents C = gs_list_agents (gk_inner C)"

subsection \<open>The agent\<close>

definition agent_call_with ::
  "'w gateway_client \<Rightarrow> string \<Rightarrow> (string \<Rightarrow> string + 'j) \<Rightarrow> ('j \<Rightarrow> string) \<Rightarrow> (nat \<Rightarrow> 'w \<Rightarrow> 'w) \<Rightarrow> string \<Rightarrow> 'j \<Rightarrow>
     call_options \<Rightarrow> 'w \<Rightarrow> ('w \<times> (call_error + 'j)) option" where
  "agent_call_with C fresh_id parse print wait target payload opts =
     client_call C fresh_id parse print wait target ''invoke'' payload opts"

definition agent_call ::
  "'w gateway_client \<Rightarrow> string \<Rightarrow> (string \<Rightarrow> string + 'j) \<Rightarrow> ('j \<Rightarrow> string) \<Rightarrow> (nat \<Rightarrow> 'w \<Rightarrow> 'w) \<Rightarrow> string \<Rightarrow> 'j \<Rightarrow>
     'w \<Rightarrow> ('w \<times> (call_error + 'j)) option" where
  "agent_call C fresh_id parse print wait target payload =
     agent_call_with C fresh_id parse print wait target payload default_call_options"

definition agent_stream ::
  "'w gateway_client \<Rightarrow> string \<Rightarrow> ('j \<Rightarrow> string) \<Rightarrow> string \<Rightarrow> 'j \<Rightarrow> 'w \<Rightarrow> 'w \<times> (status + (status + sdk_chunk) list)" where
  "agent_stream C fresh_id print target payload = client_stream C fresh_id print target ''invoke'' payload"

text \<open>The setters of the builder.\<close>

definition with_name :: "string \<Rightarrow> ('t, 's, 'l, 'b) agent_builder \<Rightarrow> ('t, 's, 'l, 'b) agent_builder" where
  "with_name n b = b\<lparr>bd_name := Some n\<rparr>"

definition with_version :: "string \<Rightarrow> ('t, 's, 'l, 'b) agent_builder \<Rightarrow> ('t, 's, 'l, 'b) agent_builder" where
  "with_version v b = b\<lparr>bd_version := v\<rparr>"

definition with_gateway :: "string \<Rightarrow> ('t, 's, 'l, 'b) agent_builder \<Rightarrow> ('t, 's, 'l, 'b) agent_builder" where
  "with_gateway a b = b\<lparr>bd_gateway := Some a\<rparr>"

definition with_soul :: "string \<Rightarrow> ('t, 's, 'l, 'b) agent_builder \<Rightarrow> ('t, 's, 'l, 'b) agent_builder" where
  "with_soul toml b = b\<lparr>bd_soul_toml := toml\<rparr>"

definition with_endpoint :: "string \<Rightarrow> ('t, 's, 'l, 'b) agent_builder \<Rightarrow> ('t, 's, 'l, 'b) agent_builder" where
  "with_endpoint ep b = b\<lparr>bd_endpoint := Some ep\<rparr>"

definition with_nats_url :: "string \<Rightarrow> ('t, 's, 'l, 'b) agent_builder \<Rightarrow> ('t, 's, 'l, 'b) agent_builder" where
  "with_nats_url u b = b\<lparr>bd_nats_url := Some u\<rparr>"

definition with_on_task_assigned ::
  "('t \<Rightarrow> bool) \<Rightarrow> ('t, 's, 'l, 'b) agent_builder \<Rightarrow> ('t, 's, 'l, 'b) agent_builder" where
  "with_on_task_assigned f b = b\<lparr>bd_hooks := (bd_hooks b)\<lparr>on_task_assigned := Some f\<rparr>\<rparr>"

definition with_on_snapshot_changed ::
  "('s \<Rightarrow> bool) \<Rightarrow> ('t, 's, 'l, 'b) agent_builder \<Rightarrow> ('t, 's, 'l, 'b) agent_builder" where
  "with_on_snapshot_changed f b = b\<lparr>bd_hooks := (bd_hooks b)\<lparr>on_snapshot := Some f\<rparr>\<rparr>"

definition with_on_lifecycle ::
  "('l \<Rightarrow> bool) \<Rightarrow> ('t, 's, 'l, 'b) agent_builder \<Rightarrow> ('t, 's, 'l, 'b) agent_builder" where
  "with_on_lifecycle f b = b\<lparr>bd_hooks := (bd_hooks b)\<lparr>on_lifecycle := Some f\<rparr>\<rparr>"

definition with_on_broadcast ::
  "('b \<Rightarrow> bool) \<Rightarrow> ('t, 's, 'l, 'b) agent_builder \<Rightarrow> ('t, 's, 'l, 'b) agent_builder" where
  "with_on_broadcast f b = b\<lparr>bd_hooks := (bd_hooks b)\<lparr>on_broadcast := Some f\<rparr>\<rparr>"

lemmas builder_defs = default_builder_def no_hooks_def with_name_def with_version_def with_gateway_def with_soul_def
  with_endpoint_def with_nats_url_def with_on_task_assigned_def with_on_snapshot_changed_def with_on_lifecycle_def
  with_on_broadcast_def with_capability_def

subsection \<open>Serving\<close>

text \<open>\<open>trim_start_matches\<close>, and what \<open>SocketAddr\<close> parses: four octets and a port, or a bracketed address (a parameter).\<close>

function trim_start :: "string \<Rightarrow> string \<Rightarrow> string" where
  "trim_start p s = (if p \<noteq> [] \<and> starts_with p s then trim_start p (drop (length p) s) else s)"
  by auto
termination
  by (relation "measure (\<lambda>(p, s). length s)") (auto simp: starts_with_iff)

declare trim_start.simps [simp del]

definition is_octet :: "string \<Rightarrow> bool" where
  "is_octet s \<longleftrightarrow> s \<noteq> [] \<and> length s \<le> 3 \<and> list_all is_digit s \<and> (1 < length s \<longrightarrow> hd s \<noteq> CHR ''0'') \<and> digits_value 10 s \<le> 255"

definition is_port :: "string \<Rightarrow> bool" where
  "is_port s \<longleftrightarrow> s \<noteq> [] \<and> list_all is_digit s \<and> digits_value 10 s < 65536"

definition is_socket_addr :: "(string \<Rightarrow> bool) \<Rightarrow> string \<Rightarrow> bool" where
  "is_socket_addr v6 s = (if starts_with ''['' s then v6 s
     else case split_on (\<lambda>c. c = CHR '':'') s of
         [ip, port] \<Rightarrow> (let os = split_on (\<lambda>c. c = CHR ''.'') ip in length os = 4 \<and> list_all is_octet os) \<and> is_port port
       | _ \<Rightarrow> False)"

definition serve_addr :: "(string \<Rightarrow> bool) \<Rightarrow> string option \<Rightarrow> string" where
  "serve_addr v6 endpoint =
     (let text = trim_start ''http://'' (case endpoint of None \<Rightarrow> ''0.0.0.0:0'' | Some e \<Rightarrow> e) in
      if is_socket_addr v6 text then text else ''0.0.0.0:0'')"

text \<open>The subscriber: nothing without NATS; a subject that can not be subscribed to is left out.\<close>

definition spawn_hook_subscriber ::
  "(string \<Rightarrow> bool) \<Rightarrow> (string \<Rightarrow> bool) \<Rightarrow> string \<Rightarrow> string \<Rightarrow> ('t, 's, 'l, 'b) hook_registry \<Rightarrow> (string \<times> hook_kind) list" where
  "spawn_hook_subscriber nats_up subscribes nats_url agent_name hooks =
     (if \<not> nats_up nats_url then [] else filter (\<lambda>(subject, _). subscribes subject) (hook_subscriptions hooks agent_name))"

datatype serve_error = Register_failed status | Serve_failed string

record serving =
  sr_addr :: string
  sr_subscriptions :: "(string \<times> hook_kind) list"

definition agent_serve ::
  "(string \<Rightarrow> bool) \<Rightarrow> (string \<Rightarrow> bool) \<Rightarrow> (string \<Rightarrow> bool) \<Rightarrow> (string \<Rightarrow> string option) \<Rightarrow> 'w gateway_client \<Rightarrow>
     ('t, 's, 'l, 'b) sdk_agent \<Rightarrow> 'w \<Rightarrow> 'w \<times> (serve_error + serving)" where
  "agent_serve v6 nats_up subscribes bind_err C a =
     (let addr = serve_addr v6 (sg_endpoint a) in
      bindA (map_errA Register_failed (client_register C (serve_manifest a))) (\<lambda>_.
        let subs = (case serve_subscribes a of None \<Rightarrow> []
              | Some (url, name) \<Rightarrow> spawn_hook_subscriber nats_up subscribes url name (sg_hooks a)) in
        case bind_err addr of
          Some e \<Rightarrow> fail (Serve_failed e)
        | None \<Rightarrow> ret \<lparr>sr_addr = addr, sr_subscriptions = subs\<rparr>))"

text \<open>The service of an agent. The handler acts on the same world as the service.\<close>

type_synonym ('w, 'j) msg_handler = "'j message \<Rightarrow> 'w \<Rightarrow> 'w \<times> (string + 'j)"

definition agent_handle_call ::
  "(string \<Rightarrow> string + 'j) \<Rightarrow> ('j \<Rightarrow> string) \<Rightarrow> ('w, 'j) msg_handler \<Rightarrow> call_request \<Rightarrow> 'w \<Rightarrow> 'w \<times> (status + call_response)" where
  "agent_handle_call parse print handler r = (case from_call_request parse r of
     Inl e \<Rightarrow> fail (Status Invalid_argument e)
   | Inr msg \<Rightarrow> bindA (map_errA (Status Internal) (handler msg)) (\<lambda>resp.
       ret \<lparr>cs_result = print resp, cs_error = [], cs_trace_id = ms_trace_id msg\<rparr>))"

definition gateway_managed :: status where
  "gateway_managed = Status Unimplemented ''identity RPCs are gateway-managed''"

definition agent_service ::
  "(string \<Rightarrow> string + 'j) \<Rightarrow> ('j \<Rightarrow> string) \<Rightarrow> ('w, 'j) msg_handler \<Rightarrow> 'w gateway_service" where
  "agent_service parse print handler = \<lparr>
     gs_register = (\<lambda>_. fail (Status Unimplemented ''agents do not accept registrations'')),
     gs_heartbeat = (\<lambda>_. ret True),
     gs_call = agent_handle_call parse print handler,
     gs_stream = (\<lambda>_. fail (Status Unimplemented ''streaming not yet implemented in SDK AgentService'')),
     gs_list_agents = fail (Status Unimplemented ''list_agents not served by agents''),
     gs_health = ret \<lparr>hs_ok = True, hs_agent_count = 0, hs_peer_count = 0, hs_nats_ok = False, hs_reconciler_last_run = []\<rparr>,
     gs_get_soul = (\<lambda>_. fail gateway_managed), gs_update_memory = (\<lambda>_ _. fail gateway_managed),
     gs_append_todo = (\<lambda>_ _. fail gateway_managed), gs_list_todos = (\<lambda>_ _. fail gateway_managed),
     gs_complete_todo = (\<lambda>_ _. fail gateway_managed)\<rparr>"

text \<open>With a handler that leaves the world alone it is \<open>agent_service_call\<close>.\<close>

lemma agent_handle_call_pure:
  "agent_handle_call parse print (\<lambda>msg s. (s, h msg)) r s =
     (s, map_sum (\<lambda>(c, m). Status c m) id (agent_service_call parse print h r))"
  by (simp add: agent_handle_call_def agent_service_call_def act_simps split: sum.split)

subsection \<open>The gateway with its agents\<close>

text \<open>
  The call handler of \<open>local_server.rs\<close> where the agents are services on the world of the gateway itself, so that what a
  handler does to the gateway (through its own client) is seen.
\<close>

datatype 'w agent_link = Link_bad_uri string | Link_down string | Link "'w gateway_service"

record agent_net =
  an_at :: "string \<Rightarrow> registry agent_link"
  an_status_text :: "status \<Rightarrow> string"

definition call_agents ::
  "config \<Rightarrow> local_env \<Rightarrow> agent_net \<Rightarrow> call_request \<Rightarrow> registry \<Rightarrow> registry \<times> (status + call_response)" where
  "call_agents cfg E N r reg =
     (case forward_of cfg E r reg of
        Inl st \<Rightarrow> (reg, Inl st)
      | Inr (endpoint, req) \<Rightarrow> (case an_at N endpoint of
            Link_bad_uri e \<Rightarrow> (reg, Inl (Status Internal (''invalid agent endpoint: '' @ e)))
          | Link_down e \<Rightarrow> (reg, Inl (Status Unavailable (''agent unreachable: '' @ e)))
          | Link agent \<Rightarrow>
              map_errA (\<lambda>e. Status Unavailable (''agent call failed: '' @ an_status_text N e)) (gs_call agent req) reg))"

definition gateway_with_agents :: "config \<Rightarrow> local_env \<Rightarrow> string \<Rightarrow> agent_net \<Rightarrow> registry gateway_service" where
  "gateway_with_agents cfg E now N = (local_service cfg E now)\<lparr>gs_call := call_agents cfg E N\<rparr>"

text \<open>What the agents answer in a given world, as the parameter of \<open>call_rpc\<close>.\<close>

definition answers_at :: "agent_net \<Rightarrow> registry \<Rightarrow> string \<Rightarrow> call_request \<Rightarrow> forward_outcome" where
  "answers_at N reg endpoint req = (case an_at N endpoint of
     Link_bad_uri e \<Rightarrow> Invalid_uri e
   | Link_down e \<Rightarrow> Connect_failed e
   | Link agent \<Rightarrow> (case result (gs_call agent req) reg of
       Inl st \<Rightarrow> Call_failed (an_status_text N st) | Inr resp \<Rightarrow> Replied resp))"

lemma call_agents_refines:
  "result (call_agents cfg E N r) reg = result (call_rpc cfg (E\<lparr>lo_forward := answers_at N reg\<rparr>) r) reg"
  by (auto simp: call_agents_def call_rpc_def answers_at_def forward_of_def Let_def result_def map_errA_def
      split: sum.split prod.split agent_link.split)

lemma call_agents_link:
  assumes "hop + 1 \<le> max_hops cfg" "permitted cfg caller target" "registry_get reg target = Some e"
    "an_at N (ae_endpoint e) = Link agent" "i \<noteq> []"
  shows "call_agents cfg E N \<lparr>cq_target_agent = target, cq_method = m, cq_payload = p, cq_trace_id = i, cq_caller = caller,
      cq_hop_count = hop\<rparr> reg =
    map_errA (\<lambda>e. Status Unavailable (''agent call failed: '' @ an_status_text N e)) (gs_call agent
      \<lparr>cq_target_agent = target, cq_method = m, cq_payload = p, cq_trace_id = i, cq_caller = caller, cq_hop_count = hop + 1\<rparr>) reg"
proof -
  have "route cfg reg caller target hop = Inr \<lparr>rd_endpoint = ae_endpoint e, rd_hop_count = hop + 1\<rparr>"
    using assms(1-3) by (simp add: route_Inr)
  with assms(4,5) show ?thesis by (simp add: call_agents_def forward_of_def Let_def)
qed

text \<open>The message a handler gets for a request of a client.\<close>

definition message_of :: "'w gateway_client \<Rightarrow> string \<Rightarrow> string \<Rightarrow> 'j \<Rightarrow> 'j message" where
  "message_of C i method payload =
     \<lparr>ms_trace_id = i, ms_caller = gk_agent_name C, ms_method = method, ms_payload = payload\<rparr>"

text \<open>A client whose gateway (behind a sidecar or not) routes it to an SDK agent.\<close>

definition linked ::
  "config \<Rightarrow> (string \<Rightarrow> string + 'j) \<Rightarrow> ('j \<Rightarrow> string) \<Rightarrow> registry gateway_client \<Rightarrow> string \<Rightarrow> (registry, 'j) msg_handler \<Rightarrow>
     registry \<Rightarrow> bool" where
  "linked cfg parse print C target handler reg \<longleftrightarrow> 1 \<le> max_hops cfg \<and> permitted cfg (gk_agent_name C) target \<and>
     (\<exists>E now N e. gk_inner C = proxy (gateway_with_agents cfg E now N) \<and> registry_get reg target = Some e \<and>
        an_at N (ae_endpoint e) = Link (agent_service parse print handler))"

lemma linked_call:
  assumes "linked cfg parse print C target handler reg" "i \<noteq> []" "parse (print payload) = Inr payload"
  shows "\<exists>f. gs_call (gk_inner C) (to_call_request i (gk_agent_name C) target m (print payload)) reg =
    bindA (map_errA (\<lambda>e. Status Unavailable (''agent call failed: '' @ f e)) (handler (message_of C i m payload)))
      (\<lambda>resp. ret \<lparr>cs_result = print resp, cs_error = [], cs_trace_id = i\<rparr>) reg"
proof -
  from assms(1) obtain E now N e where
    g: "gk_inner C = proxy (gateway_with_agents cfg E now N)" and e: "registry_get reg target = Some e"
    and l: "an_at N (ae_endpoint e) = Link (agent_service parse print handler)"
    and r: "0 + 1 \<le> max_hops cfg" "permitted cfg (gk_agent_name C) target"
    by (auto simp: linked_def)
  show ?thesis
    unfolding g sidecar_transparent to_call_request_def
    by (rule exI [of _ "\<lambda>x. an_status_text N (Status Internal x)"],
        simp add: gateway_with_agents_def call_agents_link [OF r e l assms(2), simplified] agent_service_def)
      (auto simp: agent_handle_call_def from_call_request_def assms(3) message_of_def act_simps split: prod.split sum.split)
qed

subsection \<open>What the retry loop does with it\<close>

lemma sdk_call_first: "answer 0 = Inr body \<Longrightarrow> sdk_call opts parse answer = Some (1, decode_reply parse body)"
  by (simp add: sdk_call_def call_loop.simps decode_reply_def Let_def)

lemma sdk_call_unavailable:
  assumes "\<And>n. \<exists>msg. answer n = Inl (Unavailable, msg)"
  shows "\<exists>msg. sdk_call default_call_options parse answer = Some (4, Inl (Rpc_failed Unavailable msg))"
proof -
  obtain m where m: "\<And>n. answer n = Inl (Unavailable, m n)" using assms by metis
  have "call_loop default_call_options parse answer 3 3 d = Some (4, Inl (Rpc_failed Unavailable (m 3)))" for d
    by (subst call_loop.simps) (simp add: m default_call_options_def)
  then have "sdk_call default_call_options parse answer = Some (4, Inl (Rpc_failed Unavailable (m 3)))"
    unfolding sdk_call_def
    by (subst call_loop.simps, simp add: m default_call_options_def Let_def is_retryable_def)
      (subst call_loop.simps, simp add: m default_call_options_def Let_def is_retryable_def,
       subst call_loop.simps, simp add: m default_call_options_def Let_def is_retryable_def numeral_eq_Suc)
  then show ?thesis by blast
qed

lemma not_socket_addr:
  assumes "\<not> is_digit c" "c \<noteq> CHR ''[''"
  shows "\<not> is_socket_addr v6 (c # rest)"
proof -
  have octet: "\<not> is_octet (c # w)" "\<not> is_octet []" for w
    using assms(1) by (simp_all add: is_octet_def)
  have "\<not> list_all is_octet (split_on (\<lambda>c. c = CHR ''.'') ip)" if "ip = [] \<or> hd ip = c" for ip
    using that octet by (cases ip) (auto split: list.split)
  moreover have "hd (split_on p (c # rest)) = [] \<or> hd (hd (split_on p (c # rest))) = c" for p
    by (auto split: list.split)
  ultimately show ?thesis
    using assms(2) unfolding is_socket_addr_def starts_with_def Let_def
    by (auto split: list.split simp del: split_on.simps) (metis list.sel(1))+
qed

lemma trim_start_once: "p \<noteq> [] \<Longrightarrow> \<not> starts_with p s \<Longrightarrow> trim_start p (p @ s) = s"
  by (subst trim_start.simps, subst trim_start.simps) simp

lemma serve_addr_host:
  assumes "\<not> is_digit c" "c \<noteq> CHR ''[''" "\<not> starts_with ''http://'' (c # rest)"
  shows "serve_addr v6 (Some (''http://'' @ c # rest)) = ''0.0.0.0:0''"
proof -
  have "trim_start ''http://'' (''http://'' @ c # rest) = c # rest"
    by (rule trim_start_once) (simp_all add: assms(3))
  then show ?thesis using not_socket_addr [OF assms(1,2)] by (simp add: serve_addr_def Let_def)
qed

lemma register_routes:
  assumes "register E m s = (s', Inr ack)"
  shows "registry_get s' (am_name m) = Some (entry_of_manifest E m)"
proof -
  have "manifest_ok m" using register_err [of m E s] assms by (cases "manifest_ok m") auto
  then have "s' = runA (agent_step (lo_json E)) s (register_ops E m)"
    using assms by (simp add: register_ok)
  then show ?thesis
    by (simp add: register_ops_def registry_get_def agent_step_defs entry_of_manifest_def)
qed

lemma linked_cong:
  "registry_get s target = registry_get t target \<Longrightarrow> linked cfg parse print C target h s = linked cfg parse print C target h t"
  by (simp add: linked_def)

subsection \<open>Properties\<close>

text \<open>
  C21. A call from one SDK agent to another, through sidecar, gateway and the agent's service, returns what the handler
  returns: if the gateway routes it, the handler is run once, on the payload, method and trace id that were sent
  and under the name of the caller, and its answer comes back with the world as the handler left it.
\<close>

theorem call_end_to_end:
  assumes "linked cfg parse print C target handler reg" "i \<noteq> []"
    "parse (print payload) = Inr payload" "parse (print resp) = Inr resp"
    "handler (message_of C i ''invoke'' payload) reg = (reg', Inr resp)"
  shows "agent_call_with C i parse print wait target payload opts reg = Some (reg', Inr resp)"
proof -
  let ?req = "to_call_request i (gk_agent_name C) target ''invoke'' (print payload)"
  have c: "gs_call (gk_inner C) ?req reg = (reg', Inr \<lparr>cs_result = print resp, cs_error = [], cs_trace_id = i\<rparr>)"
    using linked_call [OF assms(1-3), of "''invoke''"] assms(5) by (auto simp: act_simps)
  then have "client_answer C ?req reg = Inr \<lparr>cs_result = print resp, cs_error = [], cs_trace_id = i\<rparr>"
    by (simp add: client_answer_def result_def)
  then show ?thesis
    using c by (simp add: agent_call_with_def client_call_def Let_def sdk_call_first decode_reply_def assms(4) exec_def)
qed

definition demo_agents :: "(registry, string) msg_handler \<Rightarrow> agent_net" where
  "demo_agents h = \<lparr>an_at = (\<lambda>e. if e = ''r'' then Link (agent_service Inr id h) else Link_down ''refused''),
     an_status_text = (\<lambda>_. ''failed'')\<rparr>"

definition demo_client :: "(registry, string) msg_handler \<Rightarrow> registry gateway_client" where
  "demo_client h = \<lparr>gk_inner = proxy (gateway_with_agents demo_cycle demo_local_env ''now'' (demo_agents h)),
     gk_agent_name = ''w'', gk_lost = (\<lambda>m. (Unknown_code, m))\<rparr>"

lemma demo_linked: "linked demo_cycle Inr id (demo_client h) ''r'' h two_agents"
proof -
  have "registry_get two_agents ''r'' = Some \<lparr>ae_name = ''r'', ae_version = [], ae_endpoint = ''r'',
      ae_capabilities = [], ae_soul_toml = [], ae_last_seen = None, ae_registered_at = []\<rparr>"
    by (simp add: router_eval)
  moreover have "1 \<le> max_hops demo_cycle" "permitted demo_cycle ''w'' ''r''"
    by (simp_all add: router_eval demo_cycle_def permitted_def)
  ultimately show ?thesis
    unfolding linked_def demo_client_def
    by (auto intro!: exI [of _ demo_local_env] exI [of _ "''now''"] exI [of _ "demo_agents h"] simp: demo_agents_def)
qed

lemma call_end_to_end_witness:
  "agent_call_with (demo_client (\<lambda>msg s. (s, Inr (ms_caller msg @ ms_payload msg)))) ''t'' Inr id (\<lambda>_ s. s) ''r'' ''q''
     default_call_options two_agents = Some (two_agents, Inr ''wq'')"
  by (rule call_end_to_end [OF demo_linked]) (simp_all add: message_of_def demo_client_def)

text \<open>
  C22. A handler that fails is run four times: the gateway reports every failure of an agent as \<open>Unavailable\<close>, which the
  SDK takes for a reason to try again. Whatever the handler did before it failed is done four times, and the
  caller never sees the code the agent failed with.
\<close>

theorem failed_handler_repeated:
  assumes "linked cfg parse print C target handler reg" "i \<noteq> []" "parse (print payload) = Inr payload"
    "\<And>s. handler (message_of C i ''invoke'' payload) s = (did s, Inl e)"
    "\<And>s. registry_get (did s) target = registry_get s target"
  shows "\<exists>msg. agent_call C i parse print (\<lambda>_ s. s) target payload reg = Some ((did ^^ 4) reg, Inl (Rpc_failed Unavailable msg))"
proof -
  let ?req = "to_call_request i (gk_agent_name C) target ''invoke'' (print payload)"
  let ?world = "turn_state (gk_inner C) (\<lambda>_ s. s) ?req reg"
  have call: "\<exists>m. gs_call (gk_inner C) ?req s = (did s, Inl (Status Unavailable m))"
    if "linked cfg parse print C target handler s" for s
    using linked_call [OF that assms(2,3), of "''invoke''"] by (auto simp: assms(4) act_simps)
  have w: "?world n = (did ^^ n) reg \<and> linked cfg parse print C target handler ((did ^^ n) reg)" for n
  proof (induction n)
    case (Suc n)
    then obtain m where "gs_call (gk_inner C) ?req (?world n) = (did (?world n), Inl (Status Unavailable m))"
      using call by force
    with Suc show ?case by (simp add: exec_def linked_cong [OF assms(5)])
  qed (simp add: assms(1))
  have "\<exists>msg. client_answer C ?req (?world n) = Inl (Unavailable, msg)" for n
    using call [of "(did ^^ n) reg"] w [of n] by (auto simp: client_answer_def result_def)
  then have "\<exists>msg. sdk_call default_call_options parse (\<lambda>n. client_answer C ?req (?world n)) =
      Some (4, Inl (Rpc_failed Unavailable msg))"
    by (rule sdk_call_unavailable)
  then obtain msg where "sdk_call default_call_options parse (\<lambda>n. client_answer C ?req (?world n)) =
      Some (4, Inl (Rpc_failed Unavailable msg))" ..
  moreover obtain m where "gs_call (gk_inner C) ?req (?world 3) = (did (?world 3), Inl (Status Unavailable m))"
    using call w [of 3] by auto
  ultimately show ?thesis
    using w [of 3] by (simp add: agent_call_def agent_call_with_def client_call_def Let_def exec_def numeral_eq_Suc)
qed

definition noting :: "registry \<Rightarrow> registry" where
  "noting s = s\<lparr>rg_db := (rg_db s)\<lparr>todo_serial := todo_serial (rg_db s) + 1\<rparr>\<rparr>"

lemma failed_handler_repeated_witness:
  "\<exists>msg. agent_call (demo_client (\<lambda>msg s. (noting s, Inl ''no''))) ''t'' Inr id (\<lambda>_ s. s) ''r'' ''q'' two_agents =
     Some ((noting ^^ 4) two_agents, Inl (Rpc_failed Unavailable msg))"
  by (rule failed_handler_repeated [OF demo_linked]) (simp_all add: noting_def registry_get_def)

text \<open>
  An agent whose endpoint names a host listens on a port of the system's choice: only an address is taken from the
  endpoint, so after a successful start the gateway routes calls to the endpoint while the agent serves on \<open>0.0.0.0:0\<close>.
\<close>

lemma host_endpoint_not_served:
  assumes "sg_endpoint a = Some (''http://'' @ c # rest)" "\<not> is_digit c" "c \<noteq> CHR ''[''" "\<not> starts_with ''http://'' (c # rest)"
    "gk_inner C = local_service cfg E now"
    "agent_serve v6 nats_up subscribes bind_err C a reg = (reg', Inr srv)"
  shows "sr_addr srv = ''0.0.0.0:0'' \<and> map_option ae_endpoint (registry_get reg' (sg_name a)) = sg_endpoint a"
proof -
  let ?m = "serve_manifest a"
  have addr: "serve_addr v6 (sg_endpoint a) = ''0.0.0.0:0''"
    unfolding assms(1) by (rule serve_addr_host) (use assms(2-4) in auto)
  from assms(6) obtain ack where ack: "register E ?m reg = (reg', Inr ack)" and srv: "sr_addr srv = ''0.0.0.0:0''"
    by (auto simp: agent_serve_def client_register_def addr assms(5) local_service_def act_simps Let_def
        split: prod.splits sum.splits option.splits)
  from register_routes [OF this(1)] have "registry_get reg' (am_name ?m) = Some (entry_of_manifest E ?m)" .
  then show ?thesis
    using srv assms(1) by (simp add: entry_of_manifest_def serve_manifest_def to_manifest_def)
qed

definition demo_sdk_agent :: "(string, string, string, string) sdk_agent" where
  "demo_sdk_agent = \<lparr>sg_name = ''research'', sg_version = ''1'', sg_gateway_addr = ''http://gw:7240'', sg_soul_toml = [],
     sg_capabilities = [], sg_endpoint = Some ''http://research:8080'', sg_nats_url = ''nats://n'', sg_hooks = no_hooks\<rparr>"

lemma demo_manifest_ok: "manifest_ok (serve_manifest demo_sdk_agent)"
proof -
  have "endpoint_allowed ''http://research:8080''"
    unfolding endpoint_allowed_def
    by (rule exI [of _ "''research:8080''"])
      (simp add: host_of_def host_blocked_def blocked_hosts_def to_lower_def lower_char_def less_eq_char_def starts_with_def)
  then show ?thesis
    by (simp add: manifest_ok_def serve_manifest_def to_manifest_def demo_sdk_agent_def is_alphanumeric_def is_digit_def
        less_eq_char_def)
qed

lemma host_endpoint_not_served_witness:
  "\<exists>reg' srv. agent_serve (\<lambda>_. False) (\<lambda>_. False) (\<lambda>_. False) (\<lambda>_. None)
      \<lparr>gk_inner = local_service demo_cycle demo_local_env ''now'', gk_agent_name = ''research'', gk_lost = (\<lambda>m. (Unknown_code, m))\<rparr>
      demo_sdk_agent two_agents = (reg', Inr srv) \<and>
    sr_addr srv = ''0.0.0.0:0'' \<and> map_option ae_endpoint (registry_get reg' (sg_name demo_sdk_agent)) = sg_endpoint demo_sdk_agent"
proof -
  obtain reg' srv where s: "agent_serve (\<lambda>_. False) (\<lambda>_. False) (\<lambda>_. False) (\<lambda>_. None)
      \<lparr>gk_inner = local_service demo_cycle demo_local_env ''now'', gk_agent_name = ''research'', gk_lost = (\<lambda>m. (Unknown_code, m))\<rparr>
      demo_sdk_agent two_agents = (reg', Inr srv)"
    by (auto simp: agent_serve_def client_register_def local_service_def register_ok [OF demo_manifest_ok] act_simps Let_def)
  from host_endpoint_not_served [OF _ _ _ _ _ s, of "CHR ''r''" "''esearch:8080''"] s show ?thesis
    by (simp add: demo_sdk_agent_def is_digit_def less_eq_char_def starts_with_def)
qed

end
