(* ===== verification/Cli.thy ===== *)
theory Cli
  imports Sidecar Web Object_Store
begin

text \<open>
  The operator's command line (\<open>a2a-cli/src/main.rs\<close>), from the parsed arguments on. A command is an effect on what it
  can reach (\<open>cs_world\<close>, for the gateway behind its web and gRPC interfaces), the files, and the terminal; it ends
  well, with exit code 1, with an error that \<open>main\<close> returns, or with a panic. Parameters: what HTTP requests and
  gRPC connections answer, JSON parsing and printing, how numbers and statuses print, and fresh trace ids.

  Lemmas: which web address a command goes to; what a locked dashboard answers it; what \<open>peers add\<close> writes.
\<close>

subsection \<open>The terminal and the network\<close>

datatype cli_out = Stdout string | Stderr string

datatype cli_end = Exit_1 | Failed string | Cli_panic string

datatype http_body = No_body | Form_body "(string \<times> string) list" | Json_request json

record http_call =
  hc_method :: string
  hc_url :: string
  hc_body :: http_body

text \<open>A reply: the code, how the status prints, the text of the body (or why it can not be read), and its JSON if it parses.\<close>

datatype http_reply = No_reply string | Reply nat string "string + string" "json option"

record 'w cli_net =
  cn_http :: "http_call \<Rightarrow> 'w \<Rightarrow> 'w \<times> http_reply"
  cn_connect :: "string \<Rightarrow> 'w grpc_connect"
  cn_status_text :: "status \<Rightarrow> string"
  cn_parse :: "string \<Rightarrow> json option"
  cn_print :: "json \<Rightarrow> string"
  cn_pretty :: "json \<Rightarrow> string"
  cn_lossy :: "string \<Rightarrow> string"
  cn_f64 :: "rat \<Rightarrow> string"
  cn_fresh_id :: string
  cn_config_path :: "string option"
  cn_writable :: "string \<Rightarrow> bool"

record 'w cli_state =
  cs_world :: 'w
  cs_files :: "string \<Rightarrow> string option"
  cs_out :: "cli_out list"

type_synonym ('w, 'a) cli = "'w cli_state \<Rightarrow> 'w cli_state \<times> (cli_end + 'a)"

definition nl :: string where "nl = [CHR 0x0A]"

definition emit :: "cli_out \<Rightarrow> ('w, unit) cli" where
  "emit x = (\<lambda>s. (s\<lparr>cs_out := cs_out s @ [x]\<rparr>, Inr ()))"

definition println :: "string \<Rightarrow> ('w, unit) cli" where
  "println t = emit (Stdout (t @ nl))"

definition eprintln :: "string \<Rightarrow> ('w, unit) cli" where
  "eprintln t = emit (Stderr (t @ nl))"

definition http :: "'w cli_net \<Rightarrow> string \<Rightarrow> string \<Rightarrow> http_body \<Rightarrow> ('w, http_reply) cli" where
  "http N method url body = (\<lambda>s. case cn_http N \<lparr>hc_method = method, hc_url = url, hc_body = body\<rparr> (cs_world s) of
     (w, r) \<Rightarrow> (s\<lparr>cs_world := w\<rparr>, Inr r))"

text \<open>An RPC whose error status \<open>main\<close> returns.\<close>

definition rpc :: "'w cli_net \<Rightarrow> ('w \<Rightarrow> 'w \<times> (status + 'a)) \<Rightarrow> ('w, 'a) cli" where
  "rpc N m = map_errA (\<lambda>st. Failed (cn_status_text N st)) (zoomA cs_world (\<lambda>w s. s\<lparr>cs_world := w\<rparr>) m)"

definition is_success :: "nat \<Rightarrow> bool" where
  "is_success code \<longleftrightarrow> 200 \<le> code \<and> code < 300"

definition dash :: string where "dash = [CHR 0xE2, CHR 0x80, CHR 0x94]"
definition right_arrow :: string where "right_arrow = [CHR 0xE2, CHR 0x86, CHR 0x92]"

text \<open>\<open>{:<n}\<close> and \<open>{:>n}\<close> count characters, not bytes.\<close>

definition char_count :: "string \<Rightarrow> nat" where
  "char_count s = length (filter (\<lambda>c. \<not> (128 \<le> (of_char c :: nat) \<and> (of_char c :: nat) < 192)) s)"

definition pad_right :: "nat \<Rightarrow> string \<Rightarrow> string" where
  "pad_right n s = s @ replicate (n - char_count s) (CHR '' '')"

definition pad_left :: "nat \<Rightarrow> string \<Rightarrow> string" where
  "pad_left n s = replicate (n - char_count s) (CHR '' '') @ s"

definition show_bool :: "bool \<Rightarrow> string" where
  "show_bool b = (if b then ''true'' else ''false'')"

text \<open>Reading JSON: indexing a value that has no such member reads null; numbers are rationals, an integral one an integer.\<close>

definition json_index :: "json \<Rightarrow> string \<Rightarrow> json" where
  "json_index v k = (case json_get k v of None \<Rightarrow> Jnull | Some x \<Rightarrow> x)"

definition as_u64 :: "json \<Rightarrow> nat option" where
  "as_u64 v = (case v of Jnum q \<Rightarrow> if of_int \<lfloor>q\<rfloor> = q \<and> 0 \<le> q \<and> q < 2 ^ 64 then Some (nat \<lfloor>q\<rfloor>) else None | _ \<Rightarrow> None)"

definition as_f64 :: "json \<Rightarrow> rat option" where
  "as_f64 v = (case v of Jnum q \<Rightarrow> Some q | _ \<Rightarrow> None)"

definition or_empty :: "string option \<Rightarrow> string" where
  "or_empty t = (case t of None \<Rightarrow> [] | Some x \<Rightarrow> x)"

definition or_default :: "string + string \<Rightarrow> string" where
  "or_default r = (case r of Inl _ \<Rightarrow> [] | Inr t \<Rightarrow> t)"

definition show_nat :: "nat \<Rightarrow> string" where
  "show_nat n = show_int (int n)"

subsection \<open>Commands over gRPC\<close>

definition cmd_health :: "'w cli_net \<Rightarrow> 'w gateway_service \<Rightarrow> ('w, unit) cli" where
  "cmd_health N client = bindA (rpc N (gs_health client)) (\<lambda>h.
     seqA (println (''ok:             '' @ show_bool (hs_ok h)))
    (seqA (println (''agents:         '' @ show_int (uint (hs_agent_count h))))
    (seqA (println (''peers:          '' @ show_int (uint (hs_peer_count h))))
    (seqA (println (''nats:           '' @ show_bool (hs_nats_ok h)))
          (println (''reconciler_run: '' @ hs_reconciler_last_run h))))))"

fun print_lines :: "string list \<Rightarrow> ('w, unit) cli" where
  "print_lines [] = ret ()"
| "print_lines (l # ls) = seqA (println l) (print_lines ls)"

definition agent_line :: "string \<Rightarrow> string \<Rightarrow> string \<Rightarrow> string \<Rightarrow> string" where
  "agent_line a b c d = pad_right 20 a @ '' '' @ pad_right 10 b @ '' '' @ pad_right 40 c @ '' '' @ d"

definition cmd_agents_list :: "'w cli_net \<Rightarrow> 'w gateway_service \<Rightarrow> ('w, unit) cli" where
  "cmd_agents_list N client = bindA (rpc N (gs_list_agents client)) (\<lambda>agents.
     if agents = [] then println ''(no agents registered)''
     else seqA (println (agent_line ''NAME'' ''VERSION'' ''ENDPOINT'' ''CAPABILITIES''))
       (print_lines (map (\<lambda>a. agent_line (ai_name a) (ai_version a) (ai_endpoint a)
          (join_with '', '' (ai_capabilities a))) agents)))"

text \<open>The result of a call: JSON, or else the bytes as text.\<close>

definition result_json :: "'w cli_net \<Rightarrow> call_response \<Rightarrow> json" where
  "result_json N resp = (case cn_parse N (cs_result resp) of Some v \<Rightarrow> v | None \<Rightarrow> Jstr (cn_lossy N (cs_result resp)))"

definition fail_on_error :: "call_response \<Rightarrow> ('w, unit) cli" where
  "fail_on_error resp = (if cs_error resp \<noteq> [] then seqA (eprintln (''error: '' @ cs_error resp)) (fail Exit_1) else ret ())"

definition cmd_agents_call ::
  "'w cli_net \<Rightarrow> 'w gateway_service \<Rightarrow> string \<Rightarrow> string \<Rightarrow> string \<Rightarrow> ('w, unit) cli" where
  "cmd_agents_call N client name payload caller =
     bindA (needA (Failed ''payload must be valid JSON'') (cn_parse N payload)) (\<lambda>v.
     bindA (rpc N (gs_call client \<lparr>cq_target_agent = name, cq_method = ''invoke'', cq_payload = cn_print N v,
        cq_trace_id = cn_fresh_id N, cq_caller = caller, cq_hop_count = 0\<rparr>)) (\<lambda>resp.
     seqA (fail_on_error resp) (println (cn_pretty N (result_json N resp)))))"

definition cmd_agents_prd :: "'w cli_net \<Rightarrow> 'w gateway_service \<Rightarrow> ('w, unit) cli" where
  "cmd_agents_prd N client =
     bindA (rpc N (gs_call client \<lparr>cq_target_agent = ''orchestrator'', cq_method = ''generate_prd'', cq_payload = ''{}'',
        cq_trace_id = cn_fresh_id N, cq_caller = ''cli'', cq_hop_count = 0\<rparr>)) (\<lambda>resp.
     seqA (fail_on_error resp)
       (case Option.bind (json_get ''prd'' (result_json N resp)) as_str of
          Some prd \<Rightarrow> println prd
        | None \<Rightarrow> println (cn_pretty N (result_json N resp))))"

definition cmd_identity_soul :: "'w cli_net \<Rightarrow> 'w gateway_service \<Rightarrow> string \<Rightarrow> ('w, unit) cli" where
  "cmd_identity_soul N client agent = bindA (rpc N (gs_get_soul client agent)) println"

definition todo_lines :: "todo_msg \<Rightarrow> string list" where
  "todo_lines t = (pad_left 6 (show_int (tm_id t)) @ ''  '' @ pad_right 12 (tm_status t) @ ''  '' @ tm_task t) #
     (if tm_notes t \<noteq> [] then [''         notes: '' @ tm_notes t] else [])"

definition cmd_identity_todos :: "'w cli_net \<Rightarrow> 'w gateway_service \<Rightarrow> string \<Rightarrow> bool \<Rightarrow> ('w, unit) cli" where
  "cmd_identity_todos N client agent include_done = bindA (rpc N (gs_list_todos client agent include_done)) (\<lambda>todos.
     if todos = [] then println ''(no todos)''
     else seqA (println (pad_left 6 ''ID'' @ ''  '' @ pad_right 12 ''STATUS'' @ ''  '' @ ''TASK''))
       (print_lines (concat (map todo_lines todos))))"

subsection \<open>Commands over the web interface\<close>

text \<open>\<open>rfind\<close> of a character.\<close>

definition rfind :: "char \<Rightarrow> string \<Rightarrow> nat option" where
  "rfind c s = (if c \<in> set s then Some (length s - 1 - length (takeWhile (\<lambda>x. x \<noteq> c) (rev s))) else None)"

definition web_base :: "string \<Rightarrow> string" where
  "web_base gateway = (case rfind CHR '':'' gateway of
     Some idx \<Rightarrow> take idx gateway @ '':7243''
   | None \<Rightarrow> gateway @ '':7243'')"

datatype projects_action =
    Projects_list
  | Projects_show string
  | Projects_add string string string
  | Projects_log string int
  | Projects_focus string string string string

definition cmd_projects :: "'w cli_net \<Rightarrow> string \<Rightarrow> projects_action \<Rightarrow> ('w, unit) cli" where
  "cmd_projects N gateway action =
     (let base = web_base gateway in
      case action of
        Projects_list \<Rightarrow> bindA (http N ''GET'' (base @ ''/dashboard'') No_body) (\<lambda>r. case r of
            No_reply _ \<Rightarrow> fail (Failed ''web request'')
          | Reply _ status _ _ \<Rightarrow>
              seqA (println (''dashboard: '' @ base @ ''/dashboard  (HTTP '' @ status @ '')''))
                (println (''tip: open '' @ base @ '' in your browser for the full UI'')))
      | Projects_show name \<Rightarrow>
          seqA (println (''project detail: '' @ base @ ''/projects  (search for '' @ quote @ name @ quote @ '')''))
            (println (''tip: use the web UI at '' @ base @ ''/dashboard''))
      | Projects_add name repo description \<Rightarrow>
          seqA (println ''To create a project, use the web UI or add it to gateway.toml.'')
            (println (''Project '' @ quote @ name @ quote @ '' / repo '' @ quote @ repo @ quote @ '' / desc '' @ quote @ description @ quote))
      | Projects_log name after \<Rightarrow>
          bindA (http N ''GET'' (base @ ''/projects/'' @ name @ ''/tasks?after='' @ show_int after) No_body) (\<lambda>r. case r of
            No_reply _ \<Rightarrow> fail (Failed ''fetch task log'')
          | Reply code status body _ \<Rightarrow>
              if is_success code then (case body of Inl e \<Rightarrow> fail (Failed e) | Inr t \<Rightarrow> println t)
              else eprintln (''error: '' @ status @ '' '' @ dash @ '' try `a2a projects list` first to find the project ID''))
      | Projects_focus name content entry_type agent \<Rightarrow>
          bindA (http N ''POST'' (base @ ''/projects/'' @ name @ ''/tasks'')
            (Form_body [(''entry_type'', entry_type), (''content'', content), (''agent_name'', agent)])) (\<lambda>r. case r of
            No_reply _ \<Rightarrow> fail (Failed ''write task log'')
          | Reply _ status _ _ \<Rightarrow> println (''status: '' @ status)))"

datatype groups_action =
    Groups_list
  | Groups_create string string
  | Groups_invite string
  | Groups_join string string

text \<open>The slice \<open>[..8]\<close> of the token panics when it is shorter or cut inside a character.\<close>

definition cmd_groups :: "string \<Rightarrow> groups_action \<Rightarrow> ('w, unit) cli" where
  "cmd_groups gateway action =
     (let base = web_base gateway in
      case action of
        Groups_list \<Rightarrow>
          seqA (println (''Groups visible at: '' @ base @ ''/dashboard'')) (println ''tip: full group management is in the web UI'')
      | Groups_create name description \<Rightarrow>
          println (''Create group '' @ quote @ name @ quote @ '' ('' @ description @ '') via web UI at '' @ base)
      | Groups_invite group_name \<Rightarrow>
          println (''Generate invite for '' @ quote @ group_name @ quote @ '' via web UI at '' @ base)
      | Groups_join endpoint invite_token \<Rightarrow>
          if \<not> is_char_boundary invite_token 8 then fail (Cli_panic ''byte index 8 is out of bounds'')
          else seqA (println (''Joining peer at '' @ quote @ endpoint @ quote @ '' with token '' @ quote @ take 8 invite_token @ quote))
            (println (''Use peer gRPC (port 7241) for JoinGroup RPC '' @ dash @ '' or via web UI if exposed.'')))"

datatype peers_action =
    Peers_list
  | Peers_add string string "string option"
  | Peers_ping string
  | Peers_list_projects string

definition peer_toml :: "string \<Rightarrow> string \<Rightarrow> string option \<Rightarrow> string" where
  "peer_toml name endpoint cert =
     nl @ ''[[peers]]'' @ nl @ ''name     = '' @ [CHR 0x22] @ name @ [CHR 0x22] @ nl @
     ''endpoint = '' @ [CHR 0x22] @ endpoint @ [CHR 0x22] @ nl @
     (case cert of None \<Rightarrow> [] | Some c \<Rightarrow> ''cert_path = '' @ [CHR 0x22] @ c @ [CHR 0x22] @ nl)"

definition append_file :: "'w cli_net \<Rightarrow> string \<Rightarrow> string \<Rightarrow> ('w, unit) cli" where
  "append_file N path text = (\<lambda>s. case cs_files s path of
     Some old \<Rightarrow> if cn_writable N path then (s\<lparr>cs_files := (cs_files s)(path \<mapsto> old @ text)\<rparr>, Inr ())
       else (s, Inl (Failed (''appending to '' @ path)))
   | None \<Rightarrow> (s, Inl (Failed (''appending to '' @ path))))"

definition cmd_peers :: "'w cli_net \<Rightarrow> string \<Rightarrow> peers_action \<Rightarrow> ('w, unit) cli" where
  "cmd_peers N gateway action =
     (let base = web_base gateway in
      case action of
        Peers_list \<Rightarrow>
          seqA (println ''Peers are configured in gateway.toml [[peers]] section.'') (println (''Web UI: '' @ base @ ''/dashboard''))
      | Peers_add name endpoint cert \<Rightarrow>
          if \<not> starts_with ''http://'' endpoint \<and> \<not> starts_with ''https://'' endpoint
          then fail (Failed ''peer endpoint must start with http:// or https://'')
          else
            let config_path = (case cn_config_path N of Some p \<Rightarrow> p | None \<Rightarrow> ''gateway.toml'') in
            seqA (emit (Stdout (''pinging '' @ endpoint @ ''... '')))
           (bindA (http N ''GET'' (endpoint @ ''/health'') No_body) (\<lambda>r.
            seqA (case r of
                Reply code status _ _ \<Rightarrow>
                  if is_success code then println (''ok (HTTP '' @ status @ '')'')
                  else println (''warning: HTTP '' @ status @ '' '' @ dash @ '' adding anyway'')
              | No_reply e \<Rightarrow> println (''unreachable ('' @ e @ '') '' @ dash @ '' adding anyway (will sync when available)''))
           (seqA (append_file N config_path (peer_toml name endpoint cert))
           (seqA (println (''added peer '' @ quote @ name @ quote @ '' '' @ right_arrow @ '' '' @ endpoint))
              (println ''restart the gateway to activate: docker compose restart gateway'')))))
      | Peers_ping endpoint \<Rightarrow> bindA (http N ''GET'' (endpoint @ ''/health'') No_body) (\<lambda>r. case r of
            Reply _ status _ _ \<Rightarrow> println (''peer '' @ endpoint @ '' '' @ right_arrow @ '' HTTP '' @ status)
          | No_reply e \<Rightarrow> eprintln (''peer '' @ endpoint @ '' unreachable: '' @ e))
      | Peers_list_projects endpoint \<Rightarrow> bindA (http N ''GET'' (endpoint @ ''/dashboard'') No_body) (\<lambda>r. case r of
            Reply _ status _ _ \<Rightarrow> println (''peer dashboard '' @ endpoint @ '' '' @ right_arrow @ '' HTTP '' @ status)
          | No_reply e \<Rightarrow> eprintln (''peer '' @ endpoint @ '' unreachable: '' @ e)))"

datatype lxc_action = Lxc_list_cmd | Lxc_spawn_cmd string | Lxc_stop_cmd "32 word"

definition nat_or_0 :: "nat option \<Rightarrow> nat" where
  "nat_or_0 x = (case x of None \<Rightarrow> 0 | Some n \<Rightarrow> n)"

definition lxc_line :: "'w cli_net \<Rightarrow> json \<Rightarrow> string" where
  "lxc_line N c =
     pad_right 8 (show_nat (nat_or_0 (as_u64 (json_index c ''vmid'')))) @ '' '' @
     pad_right 24 (or_empty (as_str (json_index c ''name''))) @ '' '' @
     pad_right 10 (or_empty (as_str (json_index c ''status''))) @ '' '' @
     pad_right 10 (show_nat (nat_or_0 (map_option (\<lambda>m. m div 1024 div 1024) (as_u64 (json_index c ''maxmem''))))) @ '' '' @
     cn_f64 N (case as_f64 (json_index c ''cpus'') of None \<Rightarrow> 0 | Some q \<Rightarrow> q)"

definition error_exit :: "string \<Rightarrow> string \<Rightarrow> ('w, unit) cli" where
  "error_exit status body = seqA (eprintln (''error '' @ status @ '': '' @ body)) (fail Exit_1)"

definition cmd_lxc :: "'w cli_net \<Rightarrow> string \<Rightarrow> lxc_action \<Rightarrow> ('w, unit) cli" where
  "cmd_lxc N gateway action =
     (let base = web_base gateway in
      case action of
        Lxc_list_cmd \<Rightarrow> bindA (http N ''GET'' (base @ ''/lxc'') No_body) (\<lambda>r. case r of
            No_reply _ \<Rightarrow> fail (Failed ''lxc list request'')
          | Reply code status body js \<Rightarrow>
              if \<not> is_success code then error_exit status (or_default body)
              else bindA (needA (Failed ''parsing lxc list'') js) (\<lambda>containers. case containers of
                  Jarr arr \<Rightarrow>
                    if arr = [] then println ''(no containers)''
                    else print_lines ((pad_right 8 ''VMID'' @ '' '' @ pad_right 24 ''NAME'' @ '' '' @ pad_right 10 ''STATUS'' @ '' '' @
                        pad_right 10 ''MEM(MiB)'' @ '' '' @ ''CPUs'') # map (lxc_line N) arr)
                | v \<Rightarrow> println (cn_pretty N v)))
      | Lxc_spawn_cmd name \<Rightarrow>
          bindA (http N ''POST'' (base @ ''/lxc/spawn'') (Json_request (Jobj [(''agent_name'', Jstr name)]))) (\<lambda>r. case r of
            No_reply _ \<Rightarrow> fail (Failed ''lxc spawn request'')
          | Reply code status _ js \<Rightarrow>
              let body = (case js of None \<Rightarrow> Jobj [] | Some v \<Rightarrow> v) in
              if \<not> is_success code then error_exit status (cn_print N body)
              else println (''spawned: vmid='' @ show_nat (nat_or_0 (as_u64 (json_index body ''vmid''))) @ '' name='' @
                     or_empty (as_str (json_index body ''name''))))
      | Lxc_stop_cmd vmid \<Rightarrow>
          bindA (http N ''POST'' (base @ ''/lxc/'' @ show_u32 vmid @ ''/stop'') No_body) (\<lambda>r. case r of
            No_reply _ \<Rightarrow> fail (Failed ''lxc stop request'')
          | Reply code status body _ \<Rightarrow>
              if \<not> is_success code then error_exit status (or_default body)
              else println (''shutdown signal sent to vmid '' @ show_u32 vmid)))"

subsection \<open>Main\<close>

datatype cli_command =
    Cmd_health
  | Cmd_agents_list
  | Cmd_agents_call string string string
  | Cmd_agents_prd
  | Cmd_identity_soul string
  | Cmd_identity_todos string bool
  | Cmd_projects projects_action
  | Cmd_groups groups_action
  | Cmd_peers peers_action
  | Cmd_lxc lxc_action

fun grpc_command :: "'w cli_net \<Rightarrow> 'w gateway_service \<Rightarrow> cli_command \<Rightarrow> ('w, unit) cli" where
  "grpc_command N client Cmd_health = cmd_health N client"
| "grpc_command N client Cmd_agents_list = cmd_agents_list N client"
| "grpc_command N client (Cmd_agents_call name payload caller) = cmd_agents_call N client name payload caller"
| "grpc_command N client Cmd_agents_prd = cmd_agents_prd N client"
| "grpc_command N client (Cmd_identity_soul agent) = cmd_identity_soul N client agent"
| "grpc_command N client (Cmd_identity_todos agent all) = cmd_identity_todos N client agent all"
| "grpc_command N client _ = fail (Cli_panic ''unreachable'')"

fun web_command :: "'w cli_net \<Rightarrow> string \<Rightarrow> cli_command \<Rightarrow> ('w, unit) cli option" where
  "web_command N gateway (Cmd_projects a) = Some (cmd_projects N gateway a)"
| "web_command N gateway (Cmd_groups a) = Some (cmd_groups gateway a)"
| "web_command N gateway (Cmd_peers a) = Some (cmd_peers N gateway a)"
| "web_command N gateway (Cmd_lxc a) = Some (cmd_lxc N gateway a)"
| "web_command N gateway _ = None"

definition cli_main :: "'w cli_net \<Rightarrow> string \<Rightarrow> cli_command \<Rightarrow> ('w, unit) cli" where
  "cli_main N gateway cmd = (case web_command N gateway cmd of
     Some m \<Rightarrow> m
   | None \<Rightarrow> (case cn_connect N gateway of
       Bad_uri \<Rightarrow> fail (Failed ''invalid gateway URL'')
     | No_channel \<Rightarrow> fail (Failed (''connecting to gateway at '' @ gateway))
     | Channel client \<Rightarrow> grpc_command N client cmd))"

subsection \<open>The web address\<close>

lemma rfind_last: "c \<notin> set t \<Longrightarrow> rfind c (s @ c # t) = Some (length s)"
proof -
  assume "c \<notin> set t"
  then have "takeWhile (\<lambda>x. x \<noteq> c) (rev t @ c # rev s) = rev t"
    by (simp add: takeWhile_append)
  then show ?thesis by (simp add: rfind_def)
qed

lemma web_base_port: "CHR '':'' \<notin> set port \<Longrightarrow> web_base (host @ '':'' @ port) = host @ '':7243''"
  by (simp add: web_base_def rfind_last)

text \<open>Without a port the colon of the scheme is taken for that of the port.\<close>

lemma web_base_no_port: "web_base ''http://gateway'' = ''http:7243''"
  by (simp add: web_base_def rfind_def)

subsection \<open>Against a dashboard with a token\<close>

text \<open>
  The web interface of a gateway as the network: \<open>router\<close> is axum's router with its extractors, \<open>query_token\<close>
  the token parameter of a URL. The commands send no header.
\<close>

definition behind_web ::
  "(http_call \<Rightarrow> web_request option) \<Rightarrow> (string \<Rightarrow> string option) \<Rightarrow> (nat \<Rightarrow> string) \<Rightarrow>
     (web_body \<Rightarrow> (string + string) \<times> json option) \<Rightarrow> web_env \<Rightarrow> http_call \<Rightarrow> on_state \<Rightarrow> on_state \<times> http_reply" where
  "behind_web router query_token status_text body_of E call s = (case router call of
     None \<Rightarrow> (s, Reply 404 (status_text 404) (Inr []) None)
   | Some r \<Rightarrow> (case Web.serve E \<lparr>wc_authorization = None, wc_token = query_token (hc_url call), wc_request = r\<rparr> s of
       (s', Response code b) \<Rightarrow> (s', Reply code (status_text code) (fst (body_of b)) (snd (body_of b)))))"

lemma ends_with_last: "ends_with p s \<Longrightarrow> p \<noteq> [] \<Longrightarrow> last s = last p"
  by (metis append_take_drop_id ends_with_def last_appendR)

text \<open>A request that is not for the health page, of a client without the token, is refused and changes nothing.\<close>

lemma refused:
  assumes "\<And>c. router c = Some Web_health \<Longrightarrow> ends_with ''/health'' (hc_url c)" "we_token E = Some t"
    "\<And>u. query_token u \<noteq> Some t" and url: "\<not> ends_with ''/health'' (hc_url c)"
  shows "\<exists>code st b js. behind_web router query_token status_text body_of E c w = (w, Reply code st b js) \<and> \<not> is_success code"
proof (cases "router c")
  case None
  then show ?thesis by (simp add: behind_web_def is_success_def)
next
  case (Some r)
  with assms(1) url have "r \<noteq> Web_health" by auto
  with Some show ?thesis
    using assms(2,3)
    by (simp add: behind_web_def serve_protected auth_middleware_def provided_token_def constant_time_eq_iff
        unauthorized_def is_success_def split: option.split)
qed

lemma lxc_urls:
  "\<not> ends_with ''/health'' (b @ ''/lxc'')" "\<not> ends_with ''/health'' (b @ ''/lxc/spawn'')"
  "\<not> ends_with ''/health'' (b @ ''/lxc/'' @ v @ ''/stop'')"
  by (auto dest: ends_with_last)

text \<open>
  With a dashboard token configured, the container commands never work: the command line sends no token, so every
  one of them ends with exit code 1, prints one error line and leaves the gateway as it was.
\<close>

lemma lxc_commands_locked_out:
  assumes "cn_http N = behind_web router query_token status_text body_of E"
    "\<And>c. router c = Some Web_health \<Longrightarrow> ends_with ''/health'' (hc_url c)" "we_token E = Some t"
    "\<And>u. query_token u \<noteq> Some t"
  shows "\<exists>line. cli_main N gateway (Cmd_lxc a) s = (s\<lparr>cs_out := cs_out s @ [Stderr line]\<rparr>, Inl Exit_1)"
proof -
  have h: "\<exists>code st b js. http N m u body s = (s, Inr (Reply code st b js)) \<and> \<not> is_success code"
    if "\<not> ends_with ''/health'' u" for m u body
  proof -
    have "\<exists>code st b js. behind_web router query_token status_text body_of E \<lparr>hc_method = m, hc_url = u, hc_body = body\<rparr>
        (cs_world s) = (cs_world s, Reply code st b js) \<and> \<not> is_success code"
      by (rule refused) (use assms(2-4) that in auto)
    then show ?thesis by (auto simp: http_def assms(1))
  qed
  note cmd = cli_main_def cmd_lxc_def Let_def bindA_def seqA_def fail_def error_exit_def eprintln_def emit_def
  show ?thesis
  proof (cases a)
    case Lxc_list_cmd
    with h [OF lxc_urls(1), of "''GET''" "web_base gateway" No_body] show ?thesis
      by (auto simp: cmd)
  next
    case (Lxc_spawn_cmd name)
    with h [OF lxc_urls(2), of "''POST''" "web_base gateway" "Json_request (Jobj [(''agent_name'', Jstr name)])"]
    show ?thesis by (auto simp: cmd)
  next
    case (Lxc_stop_cmd vmid)
    with h [OF lxc_urls(3), of "''POST''" "web_base gateway" "show_u32 vmid" No_body] show ?thesis
      by (auto simp: cmd)
  qed
qed

definition demo_router :: "http_call \<Rightarrow> web_request option" where
  "demo_router c = (if ends_with ''/health'' (hc_url c) then Some Web_health
     else if ends_with ''/lxc'' (hc_url c) then Some Lxc_list else None)"

definition demo_net :: "on_state cli_net" where
  "demo_net = \<lparr>cn_http = behind_web demo_router (\<lambda>_. None) (\<lambda>_. ''401 Unauthorized'') (\<lambda>_. (Inr [], None)) demo_web_env,
     cn_connect = (\<lambda>_. Bad_uri), cn_status_text = (\<lambda>_. []), cn_parse = (\<lambda>_. None), cn_print = (\<lambda>_. []),
     cn_pretty = (\<lambda>_. []), cn_lossy = id, cn_f64 = (\<lambda>_. []), cn_fresh_id = ''1'', cn_config_path = None,
     cn_writable = (\<lambda>_. True)\<rparr>"

definition demo_terminal :: "on_state cli_state" where
  "demo_terminal = \<lparr>cs_world = demo_on_state, cs_files = [''gateway.toml'' \<mapsto> ''x''], cs_out = []\<rparr>"

lemma lxc_commands_locked_out_witness:
  "\<exists>line. cli_main demo_net ''http://gw:7240'' (Cmd_lxc Lxc_list_cmd) demo_terminal =
     (demo_terminal\<lparr>cs_out := cs_out demo_terminal @ [Stderr line]\<rparr>, Inl Exit_1)"
  by (rule lxc_commands_locked_out [of _ demo_router "\<lambda>_. None" _ _ demo_web_env "''t''"])
    (auto simp: demo_net_def demo_web_env_def demo_router_def split: if_splits)

text \<open>
  \<open>peers add\<close> writes the configuration file exactly when it says that the peer is added: then the file is the old text
  with one peer table after it, whether or not the peer answered. An endpoint without an HTTP scheme, or a file that
  is missing or read-only, ends in an error with every file as it was.
\<close>

lemma peers_add_spec:
  "case cli_main N gateway (Cmd_peers (Peers_add name endpoint cert)) s of
     (s', Inr _) \<Rightarrow> (starts_with ''http://'' endpoint \<or> starts_with ''https://'' endpoint) \<and>
       (\<exists>path old. path = (case cn_config_path N of Some p \<Rightarrow> p | None \<Rightarrow> ''gateway.toml'') \<and> cs_files s path = Some old \<and>
         cs_files s' = (cs_files s)(path \<mapsto> old @ peer_toml name endpoint cert))
   | (s', Inl e) \<Rightarrow> cs_files s' = cs_files s \<and> (\<exists>m. e = Failed m)"
proof -
  define path where "path = (case cn_config_path N of Some p \<Rightarrow> p | None \<Rightarrow> ''gateway.toml'')"
  obtain w r where r: "cn_http N \<lparr>hc_method = ''GET'', hc_url = endpoint @ ''/health'', hc_body = No_body\<rparr> (cs_world s) = (w, r)"
    by (metis surj_pair)
  have "cli_main N gateway (Cmd_peers (Peers_add name endpoint cert)) = cmd_peers N gateway (Peers_add name endpoint cert)"
    by (simp add: cli_main_def)
  then show ?thesis
    unfolding cmd_peers_def Let_def peers_action.case path_def [symmetric]
    using r by (cases r; cases "cs_files s path")
      (simp_all add: bindA_def seqA_def fail_def emit_def println_def http_def append_file_def)
qed

end
