(* ===== verification/Agents.thy ===== *)
theory Agents
  imports Sdk_Client Cli
begin

text \<open>
  The example agents (\<open>agents/*/src/main.rs\<close>): orchestrator, research and writer, each a builder pipeline and a handler.
  The orchestrator asks a language model for a requirements document through the agent's own client of the
  gateway; the model's answer is a parameter (\<open>pd_post\<close>), and so are the environment and the JSON codec.

  Lemmas: what a client of any identity service may rely on; the document command from the command line through
  gateway and orchestrator to the model and back.
\<close>

subsection \<open>Environment and texts\<close>

record agent_env =
  ag_gateway :: "string option"
  ag_endpoint :: "string option"
  ag_pkg_version :: string

definition text_lines :: "string list \<Rightarrow> string" where
  "text_lines ls = nl @ concat (map (\<lambda>l. l @ nl) ls)"

definition dq :: "string \<Rightarrow> string" where
  "dq s = [CHR 0x22] @ s @ [CHR 0x22]"

definition default_gateway :: string where
  "default_gateway = ''http://127.0.0.1:7240''"

definition env_or :: "string \<Rightarrow> string option \<Rightarrow> string" where
  "env_or d v = (case v of Some x \<Rightarrow> x | None \<Rightarrow> d)"

definition str_or :: "string \<Rightarrow> string \<Rightarrow> json \<Rightarrow> string" where
  "str_or d k payload = (case Option.bind (json_get k payload) as_str of Some t \<Rightarrow> t | None \<Rightarrow> d)"

subsection \<open>Research\<close>

definition research_soul :: string where
  "research_soul = text_lines [''[agent]'', ''name        = '' @ dq ''research'', ''role        = '' @ dq ''researcher'',
     ''description = '' @ dq ''Gathers information and synthesises research results on any topic.'', [], ''[capabilities]'',
     ''research    = '' @ dq ''Search for information and summarise findings'',
     ''summarise   = '' @ dq ''Condense large texts into key points'']"

definition research_builder :: "agent_env \<Rightarrow> ('t, 's, 'l, 'b) agent_builder" where
  "research_builder E =
     with_capability ''summarise'' ''Condense large texts into key points''
    (with_capability ''research'' ''Search for information and summarise findings''
    (with_soul research_soul
    (with_endpoint (env_or ''http://research:8080'' (ag_endpoint E))
    (with_gateway (env_or default_gateway (ag_gateway E))
    (with_version (ag_pkg_version E)
    (with_name ''research'' default_builder))))))"

definition research_handler :: "('w, json) msg_handler" where
  "research_handler msg =
     (let query = str_or ''(no query)'' ''query'' (ms_payload msg) in
      ret (Jobj [(''query'', Jstr query),
        (''summary'', Jstr (''Research findings for '' @ quote @ query @ quote @ '': [stub result '' @ dash @ '' wire real search here]'')),
        (''sources'', Jarr [])]))"

subsection \<open>Writer\<close>

definition writer_soul :: string where
  "writer_soul = text_lines [''[agent]'', ''name        = '' @ dq ''writer'', ''role        = '' @ dq ''writer'',
     ''description = '' @ dq ''Drafts, edits, and reviews written content based on research inputs.'', [], ''[capabilities]'',
     ''write   = '' @ dq ''Draft clear, well-structured written content'',
     ''edit    = '' @ dq ''Review and improve existing drafts'',
     ''review  = '' @ dq ''Provide constructive feedback on content quality'']"

definition writer_builder :: "agent_env \<Rightarrow> ('t, 's, 'l, 'b) agent_builder" where
  "writer_builder E =
     with_capability ''review'' ''Provide constructive feedback on content quality''
    (with_capability ''edit'' ''Review and improve existing drafts''
    (with_capability ''write'' ''Draft clear, well-structured written content''
    (with_soul writer_soul
    (with_endpoint (env_or ''http://writer:8080'' (ag_endpoint E))
    (with_gateway (env_or default_gateway (ag_gateway E))
    (with_version (ag_pkg_version E)
    (with_name ''writer'' default_builder)))))))"

definition writer_handler :: "('w, json) msg_handler" where
  "writer_handler msg =
     (let payload = ms_payload msg; action = str_or ''write'' ''action'' payload in
      ret (if action = ''write'' then
          let topic = str_or ''(no topic)'' ''topic'' payload; context = str_or [] ''context'' payload in
          Jobj [(''action'', Jstr ''write''), (''topic'', Jstr topic),
            (''draft'', Jstr (''## '' @ topic @ nl @ nl @ (if context = [] then ''No context provided.'' else context) @
               nl @ nl @ ''[stub '' @ dash @ '' wire LLM here]'')),
            (''word_count'', Jnum 10)]
        else if action = ''edit'' then
          let draft = str_or [] ''draft'' payload; instructions = str_or ''improve clarity'' ''instructions'' payload in
          Jobj [(''action'', Jstr ''edit''),
            (''revised'', Jstr (draft @ nl @ nl @ ''[edited per: '' @ instructions @ '' '' @ dash @ '' stub]''))]
        else if action = ''review'' then
          let draft = str_or [] ''draft'' payload in
          Jobj [(''action'', Jstr ''review''), (''score'', Jnum 7),
            (''feedback'', Jstr (''Draft ('' @ show_nat (length draft) @ '' chars) reviewed. [stub feedback '' @ dash @ '' wire LLM here]'')),
            (''approved'', Jbool True)]
        else Jobj [(''error'', Jstr (''unknown action '' @ quote @ action @ quote @ '' '' @ dash @ '' supported: write, edit, review''))]))"

subsection \<open>Orchestrator\<close>

definition orchestrator_soul :: string where
  "orchestrator_soul = text_lines [''[agent]'', ''name        = '' @ dq ''orchestrator'', ''role        = '' @ dq ''coordinator'',
     ''description = '' @ dq ''Receives tasks, breaks them down, and delegates to specialist agents.'', [], ''[capabilities]'',
     ''orchestrate = '' @ dq ''Plan and coordinate multi-step tasks'',
     ''delegate    = '' @ dq ''Assign subtasks to the right specialist'']"

text \<open>Its hooks log the event and succeed.\<close>

definition orchestrator_builder :: "agent_env \<Rightarrow> ('t, 's, 'l, 'b) agent_builder" where
  "orchestrator_builder E =
     with_on_snapshot_changed (\<lambda>_. True)
    (with_on_task_assigned (\<lambda>_. True)
    (with_capability ''generate_prd'' ''Generate a PRD from current agent state via LLM''
    (with_capability ''delegate'' ''Assign subtasks to the right specialist''
    (with_capability ''orchestrate'' ''Plan and coordinate multi-step tasks''
    (with_soul orchestrator_soul
    (with_endpoint (env_or ''http://orchestrator:8080'' (ag_endpoint E))
    (with_gateway (env_or default_gateway (ag_gateway E))
    (with_version (ag_pkg_version E)
    (with_name ''orchestrator'' default_builder)))))))))"

text \<open>How the request to the model ends: not sent, refused with a status (as it prints), or answered with a body that is JSON or not.\<close>

datatype model_reply = Model_unsent string | Model_refused string | Model_answered "json option"

record prd_env =
  pd_api_key :: "string option"
  pd_post :: "string \<Rightarrow> json \<Rightarrow> model_reply"

definition json_at :: "json \<Rightarrow> nat \<Rightarrow> json" where
  "json_at v n = (case v of Jarr xs \<Rightarrow> if n < length xs then xs ! n else Jnull | _ \<Rightarrow> Jnull)"

definition todo_bullets :: "todo_item list \<Rightarrow> string" where
  "todo_bullets items = (if items = [] then ''(no todos)''
     else join_with nl (map (\<lambda>t. ''- ['' @ ti_status t @ ''] '' @ ti_task t) items))"

definition prd_request :: "string \<Rightarrow> string \<Rightarrow> json" where
  "prd_request soul todos_text =
     Jobj [(''model'', Jstr ''claude-sonnet-4-6-20250514''), (''max_tokens'', Jnum 4096),
       (''messages'', Jarr [Jobj [(''role'', Jstr ''user''),
         (''content'', Jstr (''Generate a structured PRD (Product Requirements Document) from this agent state.'' @ nl @ nl @
            ''## Agent Soul'' @ nl @ soul @ nl @ nl @ ''## Current Todos'' @ nl @ todos_text @ nl @ nl @
            ''Output a markdown PRD with: Overview, Goals, Requirements, Success Metrics, Timeline.''))]])]"

definition prd_text :: "json option \<Rightarrow> string" where
  "prd_text body = (case as_str (json_index (json_at (json_index (case body of None \<Rightarrow> Jobj [] | Some v \<Rightarrow> v) ''content'') 0) ''text'') of
     None \<Rightarrow> ''(no content)'' | Some t \<Rightarrow> t)"

text \<open>\<open>.ok()\<close>, \<open>unwrap_or\<close>: an effect whose error is dropped.\<close>

definition tryA :: "('w \<Rightarrow> 'w \<times> (status + 'a)) \<Rightarrow> 'w \<Rightarrow> 'w \<times> (string + 'a option)" where
  "tryA m = map_errA (\<lambda>_. []) (okA m)"

definition generate_prd ::
  "prd_env \<Rightarrow> (string \<Rightarrow> 'w grpc_connect) \<Rightarrow> (string \<Rightarrow> code \<times> string) \<Rightarrow> string \<Rightarrow> 'w \<Rightarrow> 'w \<times> (string + json)" where
  "generate_prd P connects lost gateway_addr =
     (case client_connect connects lost gateway_addr ''orchestrator'' of
        Inl e \<Rightarrow> fail e
      | Inr gw \<Rightarrow>
          bindA (tryA (client_get_soul gw)) (\<lambda>so.
          bindA (tryA (client_list_todos gw False)) (\<lambda>ts.
          let soul = (case so of Some x \<Rightarrow> so_content x | None \<Rightarrow> ''(no soul)'');
              todos_text = todo_bullets (case ts of Some xs \<Rightarrow> xs | None \<Rightarrow> []);
              api_key = (case pd_api_key P of Some k \<Rightarrow> k | None \<Rightarrow> []) in
          if api_key = [] then ret (Jobj [(''error'', Jstr ''ANTHROPIC_API_KEY not set'')])
          else case pd_post P api_key (prd_request soul todos_text) of
              Model_answered body \<Rightarrow>
                seqA (tryA (client_update_memory gw (''## Generated PRD'' @ nl @ prd_text body)))
                  (ret (Jobj [(''prd'', Jstr (prd_text body))]))
            | Model_refused status \<Rightarrow> ret (Jobj [(''error'', Jstr (''API error: '' @ status))])
            | Model_unsent e \<Rightarrow> ret (Jobj [(''error'', Jstr (''Request failed: '' @ e))]))))"

definition orchestrator_handler ::
  "prd_env \<Rightarrow> (string \<Rightarrow> 'w grpc_connect) \<Rightarrow> (string \<Rightarrow> code \<times> string) \<Rightarrow> string \<Rightarrow> ('w, json) msg_handler" where
  "orchestrator_handler P connects lost gw_addr msg =
     (if ms_method msg = ''generate_prd'' then generate_prd P connects lost gw_addr
      else
        let task = str_or ''unknown task'' ''task'' (ms_payload msg) in
        ret (Jobj [(''status'', Jstr ''accepted''), (''plan'', Jstr (''Orchestrating: '' @ task)),
          (''steps'', Jarr [Jstr ''research'', Jstr ''draft'', Jstr ''review''])]))"

subsection \<open>Main\<close>

text \<open>Build, then serve; the three programs differ in the builder (and the handler they serve).\<close>

datatype main_error = Build_failed err | Main_serve serve_error

definition agent_main ::
  "string option \<Rightarrow> (string \<Rightarrow> 'w grpc_connect) \<Rightarrow> (string \<Rightarrow> code \<times> string) \<Rightarrow> (string \<Rightarrow> bool) \<Rightarrow> (string \<Rightarrow> bool) \<Rightarrow> (string \<Rightarrow> bool) \<Rightarrow>
     (string \<Rightarrow> string option) \<Rightarrow> ('t, 's, 'l, 'b) agent_builder \<Rightarrow> 'w \<Rightarrow> 'w \<times> (main_error + serving)" where
  "agent_main env_nats connects lost v6 nats_up subscribes bind_err b =
     (let connect = (\<lambda>gw. case bd_name b of None \<Rightarrow> Inl [] | Some n \<Rightarrow> client_connect connects lost gw n) in
      case build_agent env_nats (\<lambda>gw. map_sum Anyhow (\<lambda>_. ()) (connect gw)) b of
        Inl e \<Rightarrow> fail (Build_failed e)
      | Inr a \<Rightarrow> (case connect (sg_gateway_addr a) of
          Inl e \<Rightarrow> fail (Build_failed (Anyhow e))
        | Inr C \<Rightarrow> map_errA Main_serve (agent_serve v6 nats_up subscribes bind_err C a)))"

subsection \<open>What a client relies on\<close>

text \<open>
  Reading a soul or todos changes nothing. An update of a memory is refused and changes nothing, where \<open>refused\<close> is what
  it answers.
\<close>

locale identity_service =
  fixes up :: "'w gateway_service" and refused :: status
  assumes soul_reads: "exec (gs_get_soul up n) w = w"
    and todos_read: "exec (gs_list_todos up n b) w = w"
    and memory_refused: "gs_update_memory up n c w = (w, Inl refused)"
begin

lemma try_reads:
  "\<exists>x. tryA (client_get_soul C) w = (w, Inr x)" "\<exists>y. tryA (client_list_todos C b) w = (w, Inr y)" if "gk_inner C = up" for C
  using that soul_reads [of "gk_agent_name C" w] todos_read [of "gk_agent_name C" b w]
  by (auto simp: client_get_soul_def client_list_todos_def tryA_def act_simps exec_def split: prod.split sum.split)

lemma try_update: "gk_inner C = up \<Longrightarrow> tryA (client_update_memory C c) w = (w, Inr None)"
  using memory_refused [of "gk_agent_name C"]
  by (simp add: tryA_def client_update_memory_def to_memory_patch_def act_simps)

text \<open>The document is the answer whatever became of it in the memory: the failed update is dropped.\<close>

lemma generate_prd_answered:
  assumes "connects addr = Channel up" "pd_api_key P = Some k" "k \<noteq> []" "\<And>r. pd_post P k r = Model_answered body"
  shows "generate_prd P connects lost addr w = (w, Inr (Jobj [(''prd'', Jstr (prd_text body))]))"
proof -
  let ?C = "\<lparr>gk_inner = up, gk_agent_name = ''orchestrator'', gk_lost = lost\<rparr>"
  obtain x y where r: "tryA (client_get_soul ?C) w = (w, Inr x)" "tryA (client_list_todos ?C False) w = (w, Inr y)"
    using try_reads(1) [where C = ?C and w = w] try_reads(2) [where C = ?C and w = w and b = False] by auto
  then show ?thesis
    using try_update [of ?C] by (auto simp: generate_prd_def client_connect_def assms bindA_def seqA_def ret_def Let_def)
qed

end

text \<open>The gateway's own service is one.\<close>

lemma local_service_reads:
  "exec (gs_get_soul (local_service cfg E now) n) s = s" "exec (gs_list_todos (local_service cfg E now) n b) s = s"
  using local_step_ops [of cfg E "Get_soul n" s] local_step_ops [of cfg E "List_todos n b" s]
  by (simp_all add: local_service_def)

lemma local_service_refuses:
  "gs_update_memory (local_service cfg E now) n c s = (s, Inl (internal (lo_sql_text E) (Sql_err [] Ambiguous_column)))"
  by (simp add: local_service_def update_memory_rpc_def append_memory_def act_simps db_act_def zoomA_def)

interpretation local_identity: identity_service "local_service cfg E now" "internal (lo_sql_text E) (Sql_err [] Ambiguous_column)"
  for cfg E now
  by unfold_locales (rule local_service_reads local_service_refuses)+

subsection \<open>Where the examples listen\<close>

text \<open>Started without an endpoint of their own in the environment, all three listen on a port the system chooses.\<close>

lemma examples_listen_elsewhere:
  assumes "ag_endpoint E = None"
  shows "serve_addr v6 (bd_endpoint (orchestrator_builder E)) = ''0.0.0.0:0''"
    "serve_addr v6 (bd_endpoint (research_builder E)) = ''0.0.0.0:0''"
    "serve_addr v6 (bd_endpoint (writer_builder E)) = ''0.0.0.0:0''"
  using serve_addr_host [of "CHR ''o''" "''rchestrator:8080''" v6] serve_addr_host [of "CHR ''r''" "''esearch:8080''" v6]
    serve_addr_host [of "CHR ''w''" "''riter:8080''" v6] assms
  by (simp_all add: orchestrator_builder_def research_builder_def writer_builder_def builder_defs env_or_def
      is_digit_def less_eq_char_def starts_with_def)

subsection \<open>The document command\<close>

definition prd_call :: "string \<Rightarrow> call_request" where
  "prd_call i = \<lparr>cq_target_agent = ''orchestrator'', cq_method = ''generate_prd'', cq_payload = ''{}'', cq_trace_id = i,
     cq_caller = ''cli'', cq_hop_count = 0\<rparr>"

lemma prd_main:
  "cn_connect N gateway = Channel up \<Longrightarrow> cli_main N gateway Cmd_agents_prd = bindA (rpc N (gs_call up (prd_call (cn_fresh_id N)))) (\<lambda>resp.
     seqA (fail_on_error resp)
       (case Option.bind (json_get ''prd'' (result_json N resp)) as_str of
          Some prd \<Rightarrow> println prd
        | None \<Rightarrow> println (cn_pretty N (result_json N resp))))"
  by (simp add: cli_main_def cmd_agents_prd_def prd_call_def)

text \<open>The call graph of the configuration file that comes with the program.\<close>

definition shipped_call_graph :: call_graph_config where
  "shipped_call_graph = \<lparr>cg_edges = [(''orchestrator'', [''research'', ''writer'', ''reviewer'']),
     (''research'', [''writer'', ''fact-checker'']), (''writer'', [''reviewer'']), (''reviewer'', [''research''])], cg_max_hops = 3\<rparr>"

text \<open>
  C34. Where the call graph lets \<open>cli\<close> call the orchestrator and the model answers, \<open>agents prd\<close> prints the document the model
  wrote, nothing else, and succeeds. The document is in the terminal only: the orchestrator sends it to its memory in the
  gateway, PostgreSQL refuses the statement (\<open>append_memory\<close>), the failure is dropped, and the gateway is as it was.
\<close>

theorem prd_command:
  assumes "cn_connect Nc gateway = Channel (gateway_with_agents cfg E now N)" "cn_fresh_id Nc \<noteq> []"
    "permitted cfg ''cli'' ''orchestrator''" "1 \<le> max_hops cfg"
    "registry_get (cs_world s) ''orchestrator'' = Some e"
    "an_at N (ae_endpoint e) = Link (agent_service parse print (orchestrator_handler P connects lost addr))"
    "connects addr = Channel (local_service cfg E now)" "parse ''{}'' = Inr v"
    "cn_parse Nc (print (Jobj [(''prd'', Jstr (prd_text body))])) = Some (Jobj [(''prd'', Jstr (prd_text body))])"
    "pd_api_key P = Some k" "k \<noteq> []" "\<And>r. pd_post P k r = Model_answered body"
  shows "cli_main Nc gateway Cmd_agents_prd s = (s\<lparr>cs_out := cs_out s @ [Stdout (prd_text body @ nl)]\<rparr>, Inr ())"
proof -
  let ?i = "cn_fresh_id Nc" and ?prd = "Jobj [(''prd'', Jstr (prd_text body))]"
  have g: "generate_prd P connects lost addr (cs_world s) = (cs_world s, Inr ?prd)"
    using local_identity.generate_prd_answered [where connects = connects and lost = lost, OF assms(7,10,11,12)] .
  have hop: "0 + 1 \<le> max_hops cfg" using assms(4) by simp
  have "gs_call (gateway_with_agents cfg E now N) (prd_call ?i) (cs_world s) =
      (cs_world s, Inr \<lparr>cs_result = print ?prd, cs_error = [], cs_trace_id = ?i\<rparr>)"
    by (simp add: gateway_with_agents_def prd_call_def call_agents_link [OF hop assms(3,5,6,2), simplified] agent_service_def
        agent_handle_call_def from_call_request_def assms(8) orchestrator_handler_def g act_simps)
  then show ?thesis
    unfolding prd_main [OF assms(1)]
    by (simp add: rpc_def zoomA_def act_simps fail_on_error_def result_json_def assms(9) json_get_def as_str_def println_def emit_def)
qed

definition prd_world :: registry where
  "prd_world = exec (upsert mark_json \<lparr>ae_name = ''orchestrator'', ae_version = ''1'', ae_endpoint = ''http://o'', ae_capabilities = [],
     ae_soul_toml = [], ae_last_seen = None, ae_registered_at = ''t''\<rparr>) \<lparr>rg_db = empty_db, rg_cache = []\<rparr>"

definition prd_config :: config where
  "prd_config = demo_config [(''cli'', [''orchestrator''])] 3"

definition prd_agents :: agent_net where
  "prd_agents = \<lparr>an_at = (\<lambda>_. Link (agent_service (\<lambda>_. Inr Jnull) (\<lambda>_. ''doc'') (orchestrator_handler
       \<lparr>pd_api_key = Some ''k'', pd_post = (\<lambda>_ _. Model_answered None)\<rparr>
       (\<lambda>_. Channel (local_service prd_config demo_local_env ''now'')) (\<lambda>m. (Unknown_code, m)) ''http://gw''))),
     an_status_text = (\<lambda>_. [])\<rparr>"

definition prd_net :: "config \<Rightarrow> registry cli_net" where
  "prd_net cfg = \<lparr>cn_http = (\<lambda>_ w. (w, No_reply [])),
     cn_connect = (\<lambda>_. Channel (gateway_with_agents cfg demo_local_env ''now'' prd_agents)), cn_status_text = (\<lambda>_. ''denied''),
     cn_parse = (\<lambda>_. Some (Jobj [(''prd'', Jstr (prd_text None))])), cn_print = (\<lambda>_. []), cn_pretty = (\<lambda>_. []), cn_lossy = id,
     cn_f64 = (\<lambda>_. []), cn_fresh_id = ''1'', cn_config_path = None, cn_writable = (\<lambda>_. True)\<rparr>"

definition prd_terminal :: "registry cli_state" where
  "prd_terminal = \<lparr>cs_world = prd_world, cs_files = Map.empty, cs_out = []\<rparr>"

lemma prd_command_witness:
  "cli_main (prd_net prd_config) ''http://gw'' Cmd_agents_prd prd_terminal =
     (prd_terminal\<lparr>cs_out := cs_out prd_terminal @ [Stdout (prd_text None @ nl)]\<rparr>, Inr ())"
proof -
  have w: "registry_get prd_world ''orchestrator'' = Some \<lparr>ae_name = ''orchestrator'', ae_version = ''1'', ae_endpoint = ''http://o'',
      ae_capabilities = [], ae_soul_toml = [], ae_last_seen = None, ae_registered_at = ''t''\<rparr>"
    by (simp add: prd_world_def exec_def upsert_def Let_def registry_get_def)
  have c: "permitted prd_config ''cli'' ''orchestrator''" "1 \<le> max_hops prd_config"
    by (simp_all add: prd_config_def permitted_def router_eval)
  show ?thesis
    by (rule prd_command [OF _ _ c, where E = demo_local_env and now = "''now''" and N = prd_agents and k = "''k''" and
          P = "\<lparr>pd_api_key = Some ''k'', pd_post = (\<lambda>_ _. Model_answered None)\<rparr>" and parse = "\<lambda>_. Inr Jnull" and
          print = "\<lambda>_. ''doc''" and connects = "\<lambda>_. Channel (local_service prd_config demo_local_env ''now'')" and
          lost = "\<lambda>m. (Unknown_code, m)" and addr = "''http://gw''"])
      (simp_all add: prd_net_def prd_terminal_def prd_agents_def w)
qed

text \<open>
  With the call graph of the shipped configuration \<open>agents prd\<close> never works: no edge starts at \<open>cli\<close>, so the gateway
  answers \<open>PermissionDenied\<close>, and nothing is called, printed or written.
\<close>

lemma prd_refused_by_default:
  assumes "cf_call_graph cfg = shipped_call_graph" "cn_connect Nc gateway = Channel (gateway_with_agents cfg E now N)"
  shows "\<exists>msg. cli_main Nc gateway Cmd_agents_prd s = (s, Inl (Failed (cn_status_text Nc (Status Permission_denied msg))))"
proof -
  have "route cfg (cs_world s) ''cli'' ''orchestrator'' 0 = Inl (Not_permitted ''cli'' ''orchestrator'')"
    using assms(1) by (simp add: route_cases permitted_def is_allowed_def max_hops_def shipped_call_graph_def)
  then have "\<exists>msg. gs_call (gateway_with_agents cfg E now N) (prd_call (cn_fresh_id Nc)) (cs_world s) =
      (cs_world s, Inl (Status Permission_denied msg))"
    by (simp add: gateway_with_agents_def prd_call_def call_agents_def forward_of_def Let_def router_err_to_status_def)
  then show ?thesis
    unfolding prd_main [OF assms(2)] by (auto simp: rpc_def zoomA_def act_simps)
qed

lemma prd_refused_by_default_witness:
  "\<exists>msg. cli_main (prd_net (prd_config\<lparr>cf_call_graph := shipped_call_graph\<rparr>)) ''http://gw'' Cmd_agents_prd prd_terminal =
     (prd_terminal, Inl (Failed (cn_status_text (prd_net (prd_config\<lparr>cf_call_graph := shipped_call_graph\<rparr>)) (Status Permission_denied msg))))"
  by (rule prd_refused_by_default [where cfg = "prd_config\<lparr>cf_call_graph := shipped_call_graph\<rparr>" and E = demo_local_env and
        now = "''now''" and N = prd_agents]) (simp_all add: prd_net_def)

end
