(* ===== verification/Background.thy ===== *)
theory Background
  imports Gateway Agents
begin

text \<open>
  What runs beside the servers: the connections of the event buses with their credentials (\<open>nats_bus.rs\<close>,
  \<open>pulsar_bus.rs\<close>), the older bus type of \<open>nats_bus.rs\<close>, what a broker accepts of what is sent to it, and the loops around
  the reconciler and the peer synchronisation; and the process from its configuration file on. A broker is a parameter: the logins it accepts, and the subjects it takes.

  Lemmas: the loops are runs of gateway events; agents have no hooks on a broker that wants a password.
\<close>

subsection \<open>Connections\<close>

datatype login = Anonymous | User_password string string | Token string

text \<open>The environment of a process: \<open>NATS_USER\<close>, \<open>NATS_PASSWORD\<close>, \<open>PULSAR_TOKEN\<close>.\<close>

record broker_env =
  be_nats_user :: "string option"
  be_nats_password :: "string option"
  be_pulsar_token :: "string option"

definition nats_login :: "broker_env \<Rightarrow> login" where
  "nats_login V = (case (be_nats_user V, be_nats_password V) of
     (Some user, Some pass) \<Rightarrow> if user \<noteq> [] \<and> pass \<noteq> [] then User_password user pass else Anonymous
   | _ \<Rightarrow> Anonymous)"

definition pulsar_login :: "broker_env \<Rightarrow> login" where
  "pulsar_login V = (case be_pulsar_token V of
     Some token \<Rightarrow> if token \<noteq> [] then Token token else Anonymous
   | None \<Rightarrow> Anonymous)"

text \<open>A connected bus is the name of its gateway.\<close>

definition nats_connect :: "broker_env \<Rightarrow> (string \<Rightarrow> login \<Rightarrow> bool) \<Rightarrow> string \<Rightarrow> string \<Rightarrow> string option" where
  "nats_connect V accepts url gateway_name = (if accepts url (nats_login V) then Some gateway_name else None)"

definition pulsar_connect :: "broker_env \<Rightarrow> (string \<Rightarrow> login \<Rightarrow> bool) \<Rightarrow> string \<Rightarrow> string \<Rightarrow> string option" where
  "pulsar_connect V accepts url gateway_name = (if accepts url (pulsar_login V) then Some gateway_name else None)"

definition event_bus_connect :: "broker_env \<Rightarrow> (string \<Rightarrow> login \<Rightarrow> bool) \<Rightarrow> string \<Rightarrow> string option \<Rightarrow> string \<Rightarrow> bus" where
  "event_bus_connect V accepts gateway_name pulsar_url nats_url =
     (case Option.bind pulsar_url (\<lambda>url. pulsar_connect V accepts url gateway_name) of
        Some gw \<Rightarrow> Pulsar_bus gw
      | None \<Rightarrow> (case nats_connect V accepts nats_url gateway_name of Some gw \<Rightarrow> Nats_bus gw | None \<Rightarrow> Null_bus))"

text \<open>It is \<open>bus_connect\<close>, with what the broker says to the login as the parameter.\<close>

lemma event_bus_connect_eq:
  "event_bus_connect V accepts gw pulsar_url nats_url =
     bus_connect (\<lambda>u. accepts u (pulsar_login V)) (\<lambda>u. accepts u (nats_login V)) gw pulsar_url nats_url"
  by (simp add: event_bus_connect_def bus_connect_def nats_connect_def pulsar_connect_def split: option.split)

text \<open>What is lost on the way is logged and dropped: a message is delivered if the broker takes it.\<close>

definition deliver :: "(string \<Rightarrow> bool) \<Rightarrow> Event_Bus.message list \<Rightarrow> Event_Bus.message list" where
  "deliver takes ms = filter (\<lambda>(subject, _). takes subject) ms"

subsection \<open>The older bus type\<close>

text \<open>\<open>nats_bus::Bus\<close>: NATS or nothing.\<close>

datatype nats_or_null = Nats_inner string | Null_inner

definition bus_from_option :: "string option \<Rightarrow> nats_or_null" where
  "bus_from_option inner = (case inner of Some n \<Rightarrow> Nats_inner n | None \<Rightarrow> Null_inner)"

fun old_publish_snapshot :: "nats_or_null \<Rightarrow> string \<Rightarrow> string \<Rightarrow> string \<Rightarrow> Event_Bus.message list" where
  "old_publish_snapshot (Nats_inner gw) pid pname sid = nats_publish_snapshot gw pid pname sid"
| "old_publish_snapshot Null_inner pid pname sid = []"

fun old_publish_task_log :: "nats_or_null \<Rightarrow> string \<Rightarrow> int \<Rightarrow> Event_Bus.message list" where
  "old_publish_task_log (Nats_inner gw) pid cursor = nats_publish_task_log gw pid cursor"
| "old_publish_task_log Null_inner pid cursor = []"

fun old_publish_online :: "nats_or_null \<Rightarrow> string \<Rightarrow> nat \<Rightarrow> Event_Bus.message list" where
  "old_publish_online (Nats_inner gw) version n = nats_publish_online version gw n"
| "old_publish_online Null_inner version n = []"

fun old_publish_task_assigned :: "nats_or_null \<Rightarrow> string \<Rightarrow> string \<Rightarrow> string \<Rightarrow> int option \<Rightarrow> Event_Bus.message list" where
  "old_publish_task_assigned (Nats_inner gw) agent pid task todo = nats_publish_task_assigned gw agent pid task todo"
| "old_publish_task_assigned Null_inner agent pid task todo = []"

fun old_publish_agent_snapshot :: "nats_or_null \<Rightarrow> string \<Rightarrow> string \<Rightarrow> string \<Rightarrow> string \<Rightarrow> Event_Bus.message list" where
  "old_publish_agent_snapshot (Nats_inner gw) agent pid pname sid = nats_publish_agent_snapshot gw agent pid pname sid"
| "old_publish_agent_snapshot Null_inner agent pid pname sid = []"

text \<open>Without Pulsar both types publish the same.\<close>

lemma old_bus_same:
  assumes "event_bus_connect V accepts gw None url = b" "bus_from_option (nats_connect V accepts url gw) = o_bus"
  shows "old_publish_snapshot o_bus pid pname sid = publish_snapshot b now pid pname sid"
    "old_publish_task_log o_bus pid c = publish_task_log b now pid c"
    "old_publish_online o_bus ver n = publish_online b now ver n"
    "old_publish_task_assigned o_bus a pid task todo = publish_task_assigned b now a pid task todo"
  using assms by (auto simp: event_bus_connect_def bus_from_option_def nats_connect_def)

text \<open>
  The hook subscriber of an agent connects without a login. On a NATS server that wants a password the gateway
  publishes, and no agent is subscribed.
\<close>

lemma hooks_need_anonymous:
  assumes "\<And>url. \<not> accepts url Anonymous" "accepts url (User_password u p)" "u \<noteq> []" "p \<noteq> []"
    "be_nats_user V = Some u" "be_nats_password V = Some p"
  shows "event_bus_connect V accepts gw None url = Nats_bus gw \<and>
    spawn_hook_subscriber (\<lambda>x. accepts x Anonymous) subscribes nats_url agent hooks = []"
  using assms by (simp add: event_bus_connect_def nats_connect_def nats_login_def spawn_hook_subscriber_def)

subsection \<open>The loops\<close>

text \<open>
  What a background task has done after its first passes. \<open>tokio::time::interval\<close> panics on a zero period, which ends the
  task before its first pass; an error of a pass is logged and the loop goes on.
\<close>

fun reconciler_loop :: "64 word \<Rightarrow> (pass_env \<times> (task_groups \<Rightarrow> task_groups) \<times> bool) list \<Rightarrow> rec_state \<Rightarrow> rec_state" where
  "reconciler_loop interval [] s = s"
| "reconciler_loop interval ((E, iter, writable) # passes) s =
     (if interval = 0 then s else reconciler_loop interval passes (run_once E iter writable s))"

fun sync_loop :: "peer_config list \<Rightarrow> pull_env list \<Rightarrow> obj_state \<Rightarrow> obj_state" where
  "sync_loop peers [] s = s"
| "sync_loop peers (E # rounds) s = sync_loop peers rounds (exec (sync_round E peers) s)"

abbreviation reconcile_view :: "gateway \<Rightarrow> rec_state" where
  "reconcile_view g \<equiv> \<lparr>rs_db = gw_db g, rs_sent = gw_sent g, rs_todo_md = gw_todo_md g\<rparr>"

abbreviation reconcile_events :: "(pass_env \<times> (task_groups \<Rightarrow> task_groups) \<times> bool) list \<Rightarrow> gw_event list" where
  "reconcile_events \<equiv> map (\<lambda>(E, iter, writable). Reconcile_event E iter writable)"

text \<open>Left alone, the loops are runs of the gateway's events.\<close>

lemma reconciler_loop_events:
  assumes "gw_up g" "interval \<noteq> 0"
  shows "reconcile_view (runA (gw_step cfg) g (reconcile_events passes)) = reconciler_loop interval passes (reconcile_view g)"
  using assms(1)
proof (induction passes arbitrary: g)
  case (Cons p passes)
  obtain E iter w where p: "p = (E, iter, w)" by (cases p)
  let ?g = "gw_step cfg (Reconcile_event E iter w) g"
  have "reconcile_view ?g = run_once E iter w (reconcile_view g)" "gw_up ?g"
    using Cons.prems by (simp_all add: gw_step_def on_reconcile_def Let_def)
  with Cons.IH [of ?g] p assms(2) show ?case by simp
qed simp

lemma sync_loop_events:
  assumes "gw_up g" "cf_peers cfg \<noteq> []"
  shows "store_of (runA (gw_step cfg) g (map Sync_event rounds)) = sync_loop (cf_peers cfg) rounds (store_of g)"
  using assms(1)
proof (induction rounds arbitrary: g)
  case (Cons E rounds)
  let ?g = "gw_step cfg (Sync_event E) g"
  have "store_of ?g = exec (sync_round E (cf_peers cfg)) (store_of g)" "gw_up ?g"
    using Cons.prems assms(2) by (simp_all add: gw_step_def on_sync_def)
  with Cons.IH [of ?g] show ?case by simp
qed simp

text \<open>With an interval of 0 in the configuration nothing is ever reconciled.\<close>

lemma zero_interval_stops: "reconciler_loop 0 passes s = s"
  by (cases passes) auto

subsection \<open>From the configuration file on\<close>

text \<open>\<open>Config::load\<close>: the file system and the TOML parser are parameters.\<close>

definition load_config :: "(string \<Rightarrow> string option) \<Rightarrow> (string \<Rightarrow> config option) \<Rightarrow> string \<Rightarrow> err + config" where
  "load_config reads parse path = (case reads path of
     None \<Rightarrow> Inl (Anyhow (''reading config file: '' @ path))
   | Some content \<Rightarrow> (case parse content of
       None \<Rightarrow> Inl (Anyhow (''parsing config file: '' @ path))
     | Some cfg \<Rightarrow> Inr cfg))"

definition gateway_main ::
  "string option \<Rightarrow> (string \<Rightarrow> string option) \<Rightarrow> (string \<Rightarrow> config option) \<Rightarrow> start_env \<Rightarrow> (string \<Rightarrow> string option) \<Rightarrow> (db, config \<times> gateway) act" where
  "gateway_main config_env reads parse S disk =
     (case load_config reads parse (case config_env of Some p \<Rightarrow> p | None \<Rightarrow> ''gateway.toml'') of
        Inl e \<Rightarrow> fail e
      | Inr cfg \<Rightarrow> bindA (start_gateway S cfg disk) (\<lambda>g. ret (cfg, g)))"

text \<open>However the process starts, the database moves along its order, and a bad configuration leaves it alone.\<close>

lemma gateway_main_order:
  fixes d :: db
  shows "db_order UNIV d (fst (gateway_main c reads parse S disk d))"
  unfolding gateway_main_def
  using start_order [of _ UNIV d S disk]
  by (auto simp: act_simps db_rules.ext_refl split: sum.split prod.split) (metis fst_conv)+

lemma gateway_main_unread:
  assumes "reads (case c of Some p \<Rightarrow> p | None \<Rightarrow> ''gateway.toml'') = None"
  shows "\<exists>m. gateway_main c reads parse S disk d = (d, Inl (Anyhow m))"
  using assms by (simp add: gateway_main_def load_config_def fail_def)

end
