(* ===== verification/Hook_Events.thy ===== *)
theory Hook_Events
  imports Sdk_Client Reconciler
begin

text \<open>
  The events of the bus as JSON, from the structs of \<open>nats_bus.rs\<close> and \<open>pulsar_bus.rs\<close> that are serialised to the structs of
  \<open>a2a-sdk/src/hooks.rs\<close> that are read back: the two crates declare them separately. A JSON text is what serde reads of it, so
  integers and floats are apart and an object keeps its entries in order, duplicates included. Printing, parsing and the
  brokers are parameters: what \<open>to_vec\<close> makes of a value, what \<open>from_slice\<close> reads, which
  subjects a NATS subscription matches. In \<open>calls_of\<close> NATS takes and delivers every message, and no callback panics (a panic
  would end the task that reads the subscription).

  Lemmas: an event of the gateway decodes to the same fields in the SDK; a pass of the reconciler runs the task hook of an agent
  once for each todo it assigns to it.
\<close>

subsection \<open>JSON\<close>

datatype jvalue =
    Vnull
  | Vbool bool
  | Vint int
  | Vfloat rat
  | Vstr string
  | Varr "jvalue list"
  | Vobj "(string \<times> jvalue) list"

definition i64 :: "int \<Rightarrow> bool" where
  "i64 i \<longleftrightarrow> - (2 ^ 63) \<le> i \<and> i < 2 ^ 63"

text \<open>What the derived \<open>Serialize\<close> of the event structs writes. The Pulsar struct has the agent's name in the fourth place.\<close>

fun event_fields :: "event \<Rightarrow> (string \<times> jvalue) list" where
  "event_fields (Snapshot_ev e) = [(''project_id'', Vstr (se_project_id e)), (''project_name'', Vstr (se_project_name e)),
     (''snapshot_id'', Vstr (se_snapshot_id e)), (''gateway_name'', Vstr (se_gateway_name e))]"
| "event_fields (Task_log_ev e) = [(''project_id'', Vstr (tl_project_id e)), (''gateway_name'', Vstr (tl_gateway_name e)),
     (''head_cursor'', Vint (tl_head_cursor e))]"
| "event_fields (Task_assigned_ev e) = [(''project_id'', Vstr (ta_project_id e)), (''task'', Vstr (ta_task e)),
     (''assigned_by'', Vstr (ta_assigned_by e)), (''todo_id'', case ta_todo_id e of None \<Rightarrow> Vnull | Some i \<Rightarrow> Vint i)]"
| "event_fields (Online_ev e) = [(''gateway_name'', Vstr (go_gateway_name e)), (''agent_count'', Vint (int (go_agent_count e))),
     (''version'', Vstr (go_version e))]"
| "event_fields (Stamped e t) = event_fields e @ [(''timestamp'', Vfloat t)]"
| "event_fields (For_agent e a) = take 3 (event_fields e) @ [(''agent_name'', Vstr a)] @ drop 3 (event_fields e)"

definition event_json :: "event \<Rightarrow> jvalue" where
  "event_json e = Vobj (event_fields e)"

text \<open>
  What the derived \<open>Deserialize\<close> of a struct reads: an object in which every field occurs once (an \<open>Option\<close> may be
  absent or null) and other keys are ignored, or an array of exactly the fields in order. Only success matters to the callers.
\<close>

fun de_string :: "jvalue \<Rightarrow> string option" where
  "de_string (Vstr s) = Some s"
| "de_string _ = None"

fun de_i64 :: "jvalue \<Rightarrow> int option" where
  "de_i64 (Vint i) = (if i64 i then Some i else None)"
| "de_i64 _ = None"

fun de_f64 :: "jvalue \<Rightarrow> rat option" where
  "de_f64 (Vfloat r) = Some r"
| "de_f64 (Vint i) = Some (of_int i)"
| "de_f64 _ = None"

definition de_option :: "(jvalue \<Rightarrow> 'a option) \<Rightarrow> jvalue \<Rightarrow> 'a option option" where
  "de_option de v = (if v = Vnull then Some None else map_option Some (de v))"

definition field_values :: "string \<Rightarrow> (string \<times> jvalue) list \<Rightarrow> jvalue list" where
  "field_values k kvs = map snd (filter (\<lambda>kv. fst kv = k) kvs)"

definition field :: "(jvalue \<Rightarrow> 'a option) \<Rightarrow> string \<Rightarrow> (string \<times> jvalue) list \<Rightarrow> 'a option" where
  "field de k kvs = (case field_values k kvs of [v] \<Rightarrow> de v | _ \<Rightarrow> None)"

definition opt_field :: "(jvalue \<Rightarrow> 'a option) \<Rightarrow> string \<Rightarrow> (string \<times> jvalue) list \<Rightarrow> 'a option option" where
  "opt_field de k kvs = (case field_values k kvs of [] \<Rightarrow> Some None | [v] \<Rightarrow> de_option de v | _ \<Rightarrow> None)"

text \<open>An array read as the object with the names of the struct.\<close>

definition struct_entries :: "string list \<Rightarrow> jvalue \<Rightarrow> (string \<times> jvalue) list option" where
  "struct_entries names v = (case v of
     Vobj kvs \<Rightarrow> Some kvs
   | Varr vs \<Rightarrow> if length vs = length names then Some (zip names vs) else None
   | _ \<Rightarrow> None)"

definition de_task_assigned :: "jvalue \<Rightarrow> task_assigned_event option" where
  "de_task_assigned v = Option.bind (struct_entries [''project_id'', ''task'', ''assigned_by'', ''todo_id''] v) (\<lambda>kvs.
     Option.bind (field de_string ''project_id'' kvs) (\<lambda>p. Option.bind (field de_string ''task'' kvs) (\<lambda>t.
     Option.bind (field de_string ''assigned_by'' kvs) (\<lambda>g. Option.bind (opt_field de_i64 ''todo_id'' kvs) (\<lambda>i.
       Some \<lparr>ta_project_id = p, ta_task = t, ta_assigned_by = g, ta_todo_id = i\<rparr>)))))"

record snapshot_changed_event =
  sc_project_id :: string
  sc_project_name :: string
  sc_snapshot_id :: string
  sc_gateway_name :: string

definition de_snapshot_changed :: "jvalue \<Rightarrow> snapshot_changed_event option" where
  "de_snapshot_changed v = Option.bind (struct_entries [''project_id'', ''project_name'', ''snapshot_id'', ''gateway_name''] v) (\<lambda>kvs.
     Option.bind (field de_string ''project_id'' kvs) (\<lambda>p. Option.bind (field de_string ''project_name'' kvs) (\<lambda>n.
     Option.bind (field de_string ''snapshot_id'' kvs) (\<lambda>s. Option.bind (field de_string ''gateway_name'' kvs) (\<lambda>g.
       Some \<lparr>sc_project_id = p, sc_project_name = n, sc_snapshot_id = s, sc_gateway_name = g\<rparr>)))))"

datatype lifecycle_type = Registered | Heartbeat_lost | Shutdown

text \<open>A unit variant is its name, or an object from the name to null.\<close>

definition de_lifecycle_type :: "jvalue \<Rightarrow> lifecycle_type option" where
  "de_lifecycle_type v = (case (case v of Vstr s \<Rightarrow> Some s | Vobj [(s, Vnull)] \<Rightarrow> Some s | _ \<Rightarrow> None) of
     None \<Rightarrow> None
   | Some s \<Rightarrow> if s = ''registered'' then Some Registered else if s = ''heartbeat_lost'' then Some Heartbeat_lost
       else if s = ''shutdown'' then Some Shutdown else None)"

record lifecycle_event =
  lv_event_type :: lifecycle_type
  lv_agent :: string
  lv_gateway :: string
  lv_message :: string

definition de_lifecycle :: "jvalue \<Rightarrow> lifecycle_event option" where
  "de_lifecycle v = Option.bind (struct_entries [''event_type'', ''agent_name'', ''gateway'', ''message''] v) (\<lambda>kvs.
     Option.bind (field de_lifecycle_type ''event_type'' kvs) (\<lambda>t. Option.bind (field de_string ''agent_name'' kvs) (\<lambda>a.
     Option.bind (field de_string ''gateway'' kvs) (\<lambda>g. Option.bind (field de_string ''message'' kvs) (\<lambda>m.
       Some \<lparr>lv_event_type = t, lv_agent = a, lv_gateway = g, lv_message = m\<rparr>)))))"

record broadcast_event =
  bc_gateway :: string
  bc_event_type :: string
  bc_message :: string

definition de_broadcast :: "jvalue \<Rightarrow> broadcast_event option" where
  "de_broadcast v = Option.bind (struct_entries [''gateway'', ''event_type'', ''message''] v) (\<lambda>kvs.
     Option.bind (field de_string ''gateway'' kvs) (\<lambda>g. Option.bind (field de_string ''event_type'' kvs) (\<lambda>t.
     Option.bind (field de_string ''message'' kvs) (\<lambda>m. Some \<lparr>bc_gateway = g, bc_event_type = t, bc_message = m\<rparr>))))"

type_synonym hooks = "(task_assigned_event, snapshot_changed_event, lifecycle_event, broadcast_event) hook_registry"

definition decoders :: "(string \<Rightarrow> jvalue option) \<Rightarrow>
    (task_assigned_event, snapshot_changed_event, lifecycle_event, broadcast_event) hook_decoders" where
  "decoders parse = \<lparr>dec_task_assigned = (\<lambda>p. Option.bind (parse p) de_task_assigned),
     dec_snapshot = (\<lambda>p. Option.bind (parse p) de_snapshot_changed),
     dec_lifecycle = (\<lambda>p. Option.bind (parse p) de_lifecycle), dec_broadcast = (\<lambda>p. Option.bind (parse p) de_broadcast)\<rparr>"

subsection \<open>The brokers\<close>

text \<open>\<open>NatsBus::publish\<close>: what reaches the server. A failure is logged and the message is lost.\<close>

definition nats_publish :: "(jvalue \<Rightarrow> string + string) \<Rightarrow> (string \<Rightarrow> bool) \<Rightarrow> Event_Bus.message \<Rightarrow> (string \<times> string) list" where
  "nats_publish to_vec accepts m = (case m of (subject, e) \<Rightarrow>
     (case to_vec (event_json e) of Inl _ \<Rightarrow> [] | Inr bytes \<Rightarrow> if accepts subject then [(subject, bytes)] else []))"

text \<open>Pulsar: each event type becomes a message of its bytes, and a consumer of an agent's tasks reads them back.\<close>

datatype pulsar_error = Custom string

definition serialize_message :: "(jvalue \<Rightarrow> string + string) \<Rightarrow> event \<Rightarrow> pulsar_error + string" where
  "serialize_message to_vec e = (case to_vec (event_json e) of Inl m \<Rightarrow> Inl (Custom m) | Inr bytes \<Rightarrow> Inr bytes)"

definition deserialize_message :: "(string \<Rightarrow> jvalue option) \<Rightarrow> string \<Rightarrow> event option" where
  "deserialize_message from_slice payload = Option.bind (from_slice payload) (\<lambda>v.
     Option.bind (struct_entries [''project_id'', ''task'', ''assigned_by'', ''agent_name'', ''todo_id'', ''timestamp''] v) (\<lambda>kvs.
     Option.bind (field de_string ''project_id'' kvs) (\<lambda>p. Option.bind (field de_string ''task'' kvs) (\<lambda>t.
     Option.bind (field de_string ''assigned_by'' kvs) (\<lambda>g. Option.bind (field de_string ''agent_name'' kvs) (\<lambda>a.
     Option.bind (opt_field de_i64 ''todo_id'' kvs) (\<lambda>i. Option.bind (field de_f64 ''timestamp'' kvs) (\<lambda>now.
       Some (Stamped (For_agent (Task_assigned_ev
         \<lparr>ta_project_id = p, ta_task = t, ta_assigned_by = g, ta_todo_id = i\<rparr>) a) now)))))))))"

definition pulsar_send ::
  "(jvalue \<Rightarrow> string + string) \<Rightarrow> (string \<Rightarrow> bool) \<Rightarrow> (string \<Rightarrow> string \<Rightarrow> bool) \<Rightarrow> Event_Bus.message \<Rightarrow> (string \<times> string) list" where
  "pulsar_send to_vec builds sends m = (case m of (topic, e) \<Rightarrow>
     if builds topic
     then (case serialize_message to_vec e of Inl _ \<Rightarrow> [] | Inr payload \<Rightarrow> if sends topic payload then [(topic, payload)] else [])
     else [])"

subsection \<open>A subscriber\<close>

text \<open>The callbacks that a message runs, with what they get: \<open>dispatch_event\<close> read as calls.\<close>

datatype hook_call =
    Task_call task_assigned_event
  | Snapshot_call snapshot_changed_event
  | Lifecycle_call lifecycle_event
  | Broadcast_call broadcast_event

definition call_of :: "('e \<Rightarrow> hook_call) \<Rightarrow> ('e \<Rightarrow> bool) option \<Rightarrow> 'e option \<Rightarrow> hook_call list" where
  "call_of C cb v = (case (cb, v) of (Some _, Some e) \<Rightarrow> [C e] | _ \<Rightarrow> [])"

fun hook_calls :: "(string \<Rightarrow> jvalue option) \<Rightarrow> hook_kind \<Rightarrow> string \<Rightarrow> hooks \<Rightarrow> hook_call list" where
  "hook_calls parse Task_assigned_hook p h = call_of Task_call (on_task_assigned h) (Option.bind (parse p) de_task_assigned)"
| "hook_calls parse Snapshot_hook p h = call_of Snapshot_call (on_snapshot h) (Option.bind (parse p) de_snapshot_changed)"
| "hook_calls parse Lifecycle_hook p h = call_of Lifecycle_call (on_lifecycle h) (Option.bind (parse p) de_lifecycle)"
| "hook_calls parse Broadcast_hook p h = call_of Broadcast_call (on_broadcast h) (Option.bind (parse p) de_broadcast)"

lemma hook_calls_dispatch:
  "hook_calls parse k p h = [] \<longleftrightarrow> dispatch_event (decoders parse) k p h \<in> {Not_hooked, Bad_payload}"
  by (cases k) (simp_all add: call_of_def run_hook_def decoders_def split: option.split)

text \<open>
  What an agent that is being served hears of the messages the gateway hands to NATS: each subscription whose subject matches
  gets the bytes. An agent without hooks does not connect.
\<close>

definition agent_subscriptions :: "(string \<Rightarrow> bool) \<Rightarrow> (string \<Rightarrow> bool) \<Rightarrow>
    (task_assigned_event, snapshot_changed_event, lifecycle_event, broadcast_event) sdk_agent \<Rightarrow> (string \<times> hook_kind) list" where
  "agent_subscriptions nats_up subscribes a = (case serve_subscribes a of None \<Rightarrow> []
     | Some (url, name) \<Rightarrow> spawn_hook_subscriber nats_up subscribes url name (sg_hooks a))"

definition hears ::
  "(string \<Rightarrow> string \<Rightarrow> bool) \<Rightarrow> (string \<Rightarrow> jvalue option) \<Rightarrow> (string \<times> hook_kind) list \<Rightarrow> hooks \<Rightarrow> string \<times> string \<Rightarrow> hook_call list" where
  "hears matches parse subs h m = (case m of (subject, payload) \<Rightarrow>
     concat (map (\<lambda>(s, k). if matches s subject then hook_calls parse k payload h else []) subs))"

definition calls_of ::
  "(string \<Rightarrow> string \<Rightarrow> bool) \<Rightarrow> (jvalue \<Rightarrow> string + string) \<Rightarrow> (string \<Rightarrow> jvalue option) \<Rightarrow> (string \<times> hook_kind) list \<Rightarrow> hooks \<Rightarrow>
     Event_Bus.message list \<Rightarrow> hook_call list" where
  "calls_of matches to_vec parse subs h ms = concat (map (hears matches parse subs h)
     (concat (map (nats_publish to_vec (\<lambda>_. True)) ms)))"

text \<open>
  Of NATS: a subject without wildcards matches itself only, and the broadcast wildcard what starts like it. Of serde: what is
  printed of a task assignment reads back.
\<close>

definition nats_laws :: "(string \<Rightarrow> string \<Rightarrow> bool) \<Rightarrow> bool" where
  "nats_laws matches \<longleftrightarrow>
     (\<forall>s t. CHR ''*'' \<notin> set s \<longrightarrow> CHR ''>'' \<notin> set s \<longrightarrow> matches s t = (s = t)) \<and>
     (\<forall>t. matches ''a2a.broadcast.>'' t \<longrightarrow> starts_with ''a2a.broadcast.'' t)"

definition json_laws :: "(jvalue \<Rightarrow> string + string) \<Rightarrow> (string \<Rightarrow> jvalue option) \<Rightarrow> bool" where
  "json_laws to_vec parse \<longleftrightarrow> (\<forall>e. (\<forall>i. ta_todo_id e = Some i \<longrightarrow> i64 i) \<longrightarrow>
     (\<exists>p. to_vec (event_json (Task_assigned_ev e)) = Inr p \<and> parse p = Some (event_json (Task_assigned_ev e))))"

subsection \<open>The two crates agree on the fields\<close>

lemmas field_defs = field_def opt_field_def field_values_def de_option_def struct_entries_def event_json_def

lemma task_assigned_decodes:
  assumes "\<And>i. ta_todo_id e = Some i \<Longrightarrow> i64 i"
  shows "de_task_assigned (event_json (Task_assigned_ev e)) = Some e"
  using assms by (cases "ta_todo_id e") (simp_all add: de_task_assigned_def field_defs)

lemma snapshot_decodes:
  "de_snapshot_changed (event_json (Snapshot_ev e)) = Some \<lparr>sc_project_id = se_project_id e, sc_project_name = se_project_name e,
     sc_snapshot_id = se_snapshot_id e, sc_gateway_name = se_gateway_name e\<rparr>"
  by (simp add: de_snapshot_changed_def field_defs)

text \<open>The extra fields of the Pulsar struct do not disturb the SDK's; the gateway's own reader gets all of them.\<close>

lemma pulsar_task_decodes:
  assumes "\<And>i. ta_todo_id e = Some i \<Longrightarrow> i64 i"
  shows "de_task_assigned (event_json (Stamped (For_agent (Task_assigned_ev e) a) t)) = Some e"
  using assms by (cases "ta_todo_id e") (simp_all add: de_task_assigned_def field_defs)

lemma pulsar_delivery:
  assumes "pulsar_publish_task_assigned now gw agent pid task todo = [(topic, e)]" "\<And>i. todo = Some i \<Longrightarrow> i64 i"
    "to_vec (event_json e) = Inr p" "parse p = Some (event_json e)" "builds topic" "sends topic p"
  shows "pulsar_send to_vec builds sends (topic, e) = [(fst (pulsar_subscribe_task_assigned gw agent), p)] \<and>
    deserialize_message parse p = Some e"
proof
  show "pulsar_send to_vec builds sends (topic, e) = [(fst (pulsar_subscribe_task_assigned gw agent), p)]"
    using assms by (auto simp: pulsar_send_def serialize_message_def pulsar_publish_task_assigned_def
        pulsar_subscribe_task_assigned_def)
  show "deserialize_message parse p = Some e"
    using assms(1,2,4) by (cases todo) (auto simp: deserialize_message_def pulsar_publish_task_assigned_def field_defs)
qed

subsection \<open>What a pass runs\<close>

lemma registered_plain:
  assumes "register L (serve_manifest a) r = (r', Inr ack)"
  shows "CHR ''*'' \<notin> set (sg_name a)" "CHR ''>'' \<notin> set (sg_name a)"
proof -
  have "manifest_ok (serve_manifest a)"
    using register_err [of "serve_manifest a" L r] assms by fastforce
  then have "set (sg_name a) \<subseteq> {c. is_alphanumeric c \<or> c = CHR ''-'' \<or> c = CHR ''_''}"
    by (simp add: manifest_ok_def serve_manifest_def to_manifest_def)
  moreover have "\<not> is_alphanumeric (CHR ''*'')" "\<not> is_alphanumeric (CHR ''>'')"
    by code_simp+
  ultimately show "CHR ''*'' \<notin> set (sg_name a)" "CHR ''>'' \<notin> set (sg_name a)" by auto
qed

lemma assignment_heard:
  assumes "nats_laws matches" "json_laws to_vec parse" "CHR ''*'' \<notin> set (sg_name a)" "CHR ''>'' \<notin> set (sg_name a)"
    "on_task_assigned (sg_hooks a) = Some f" "up (sg_nats_url a)" "\<And>s. subscribes s" "i64 i"
  shows "calls_of matches to_vec parse (agent_subscriptions up subscribes a) (sg_hooks a)
      (nats_publish_task_assigned gw x p t (Some i)) =
    (if x = sg_name a then [Task_call \<lparr>ta_project_id = p, ta_task = t, ta_assigned_by = gw, ta_todo_id = Some i\<rparr>] else [])"
proof -
  let ?e = "\<lparr>ta_project_id = p, ta_task = t, ta_assigned_by = gw, ta_todo_id = Some i\<rparr>" and ?h = "sg_hooks a"
  define U where "U = ''a2a.agent.'' @ x @ ''.task_assigned''"
  define T where "T = ''a2a.agent.'' @ sg_name a @ ''.task_assigned''"
  define S where "S = ''a2a.agent.'' @ sg_name a @ ''.snapshot''"
  define L where "L = ''a2a.agent.'' @ sg_name a @ ''.lifecycle''"
  have subs: "agent_subscriptions up subscribes a = [(T, Task_assigned_hook)] @
      (if on_snapshot ?h \<noteq> None then [(S, Snapshot_hook)] else []) @
      (if on_lifecycle ?h \<noteq> None then [(L, Lifecycle_hook)] else []) @
      (if on_broadcast ?h \<noteq> None then [(''a2a.broadcast.>'', Broadcast_hook)] else [])"
    using assms(5-7)
    by (simp add: agent_subscriptions_def serve_subscribes_def has_any_def spawn_hook_subscriber_def hook_subscriptions_def
        T_def S_def L_def)
  have exact: "matches s u \<longleftrightarrow> s = u" if "s \<in> {T, S, L}" for s u
    using assms(1,3,4) that unfolding nats_laws_def T_def S_def L_def by auto
  have "\<not> matches ''a2a.broadcast.>'' U"
    using assms(1) unfolding nats_laws_def U_def by (auto simp: starts_with_def)
  moreover have "S \<noteq> U" "L \<noteq> U"
    unfolding S_def L_def U_def by (rule notI, drule arg_cong [of _ _ last], simp)+
  moreover have "T = U \<longleftrightarrow> x = sg_name a"
    unfolding T_def U_def by auto
  ultimately have heard: "hears matches parse (agent_subscriptions up subscribes a) ?h (U, b) =
      (if x = sg_name a then hook_calls parse Task_assigned_hook b ?h else [])" for b
    by (simp add: subs hears_def exact)
  obtain b where b: "to_vec (event_json (Task_assigned_ev ?e)) = Inr b" "parse b = Some (event_json (Task_assigned_ev ?e))"
    using assms(2,8) unfolding json_laws_def by force
  have "calls_of matches to_vec parse (agent_subscriptions up subscribes a) ?h (nats_publish_task_assigned gw x p t (Some i)) =
      hears matches parse (agent_subscriptions up subscribes a) ?h (U, b)"
    by (simp add: calls_of_def nats_publish_task_assigned_def nats_publish_def b(1) U_def)
  then show ?thesis
    using b(2) assms(5,8) task_assigned_decodes [of ?e] by (simp add: heard call_of_def)
qed

lemma mset_by_key:
  assumes "finite K" "key ` set xs \<subseteq> K"
  shows "mset xs = (\<Sum>k\<in>K. mset (filter (\<lambda>x. key x = k) xs))"
  using assms(2)
proof (induction xs)
  case (Cons x xs)
  have "(\<Sum>k\<in>K. mset (filter (\<lambda>x. key x = k) (x # xs))) =
      (\<Sum>k\<in>K. mset (filter (\<lambda>x. key x = k) xs) + (if key x = k then {#x#} else {#}))"
    by (rule sum.cong) auto
  also have "\<dots> = mset xs + {#x#}"
    using Cons assms(1) by (simp add: sum.distrib sum.delta)
  finally show ?case by simp
qed simp

lemma image_sums: "image_mset f (\<Sum>k\<in>K. M k) = (\<Sum>k\<in>K. image_mset f (M k))"
  by (induction K rule: infinite_finite_induct) simp_all

text \<open>The group of a task has the open todos with that text, in order.\<close>

definition row_key :: "string \<times> string \<times> int \<Rightarrow> string" where
  "row_key r = normalise_task (fst (snd r))"

definition row_entry :: "string \<times> string \<times> int \<Rightarrow> string \<times> int" where
  "row_entry r = (fst r, snd (snd r))"

lemma group_members:
  assumes "g \<in> set (group_by_task rows)"
  shows "snd g = map row_entry (filter (\<lambda>r. row_key r = fst g) rows)" "snd g \<noteq> []"
proof -
  have "map_of (group_by_task rows) (fst g) = Some (snd g)"
    using assms group_distinct by simp
  then show "snd g = map row_entry (filter (\<lambda>r. row_key r = fst g) rows)" "snd g \<noteq> []"
    by (auto simp: group_lookup Let_def row_key_def row_entry_def [abs_def] case_prod_beta' split: if_splits)
qed

text \<open>Over all groups, what is done for the groups of one todo is done for the todos that are alone.\<close>

lemma groups_alone:
  assumes "mset gs = mset (group_by_task rows)"
    "\<And>g. g \<in> set (group_by_task rows) \<Longrightarrow> F g = (if length (snd g) = 1 \<and> P (fst g) (snd g ! 0) then [H (fst g) (snd g ! 0)] else [])"
  shows "mset (concat (map F gs)) = mset (map (\<lambda>r. H (row_key r) (row_entry r))
    (filter (\<lambda>r. length (filter (\<lambda>q. row_key q = row_key r) rows) = 1 \<and> P (row_key r) (row_entry r)) rows))"
    (is "_ = mset (map ?H (filter ?P rows))")
proof -
  let ?G = "group_by_task rows"
  have "distinct gs" "set gs = set ?G"
    using group_distinct [of rows] assms(1) by (metis distinct_map mset_eq_imp_distinct_iff, metis set_mset_mset)
  then have "mset (concat (map F gs)) = (\<Sum>g\<in>set ?G. mset (F g))"
    by (simp add: mset_concat comp_def sum_list_distinct_conv_sum_set)
  also have "\<dots> = (\<Sum>g\<in>set ?G. mset (map ?H (filter (\<lambda>r. row_key r = fst g) (filter ?P rows))))"
  proof (rule sum.cong [OF refl])
    fix g assume g: "g \<in> set ?G"
    obtain r rs where r: "filter (\<lambda>r. row_key r = fst g) rows = r # rs"
      using group_members [OF g] by (cases "filter (\<lambda>r. row_key r = fst g) rows") auto
    have "r \<in> set (filter (\<lambda>r. row_key r = fst g) rows)" unfolding r by simp
    then have "row_key r = fst g" by simp
    have "filter (\<lambda>r. row_key r = fst g) (filter ?P rows) = filter ?P (filter (\<lambda>r. row_key r = fst g) rows)"
      unfolding filter_filter by (rule filter_cong) auto
    also have "\<dots> = filter (\<lambda>r. length (snd g) = 1 \<and> P (row_key r) (row_entry r)) (filter (\<lambda>r. row_key r = fst g) rows)"
      using group_members(1) [OF g] by (intro filter_cong refl) auto
    finally show "mset (F g) = mset (map ?H (filter (\<lambda>r. row_key r = fst g) (filter ?P rows)))"
      using assms(2) [OF g] group_members(1) [OF g] \<open>row_key r = fst g\<close> by (simp add: r)
  qed
  also have "\<dots> = (\<Sum>k\<in>fst ` set ?G. mset (map ?H (filter (\<lambda>r. row_key r = k) (filter ?P rows))))"
    using group_distinct [of rows] by (simp add: sum.reindex distinct_map)
  also have "\<dots> = image_mset ?H (\<Sum>k\<in>fst ` set ?G. mset (filter (\<lambda>r. row_key r = k) (filter ?P rows)))"
    by (simp add: image_sums)
  also have "(\<Sum>k\<in>fst ` set ?G. mset (filter (\<lambda>r. row_key r = k) (filter ?P rows))) = mset (filter ?P rows)"
    by (rule mset_by_key [symmetric]) (auto simp: group_keys row_key_def case_prod_beta')
  finally show ?thesis by simp
qed

text \<open>The open todos of an agent that nobody else has, and that match a capability of it.\<close>

definition assignable :: "caps_json \<Rightarrow> db \<Rightarrow> string \<Rightarrow> (string \<times> string \<times> int) list" where
  "assignable J d agent = filter (\<lambda>r. fst r = agent \<and> length (filter (\<lambda>q. row_key q = row_key r) (open_todos d)) = 1 \<and>
     agent_has_capability J d agent (row_key r)) (open_todos d)"

lemma calls_of_append:
  "calls_of matches to_vec parse subs h (concat mss) = concat (map (calls_of matches to_vec parse subs h) mss)"
  by (induction mss) (simp_all add: calls_of_def)

lemma concat_filtered: "concat (map f (filter P xs)) = concat (map (\<lambda>x. if P x then f x else []) xs)"
  by (induction xs) simp_all

lemma open_ids: "r \<in> set (open_todos d) \<Longrightarrow> \<exists>t \<in> set (todos d). snd (snd r) = td_id t"
  unfolding open_todos_set by auto

subsection \<open>Properties\<close>

text \<open>
  C38. From a pass of the reconciler to the callbacks of an agent. For an agent that registered, on NATS: whatever order the
  groups are visited in, its task hook is run once for each open todo of its own that no other open todo repeats
  and that matches one of its capabilities, with the fields the gateway wrote, and none of its other hooks is run.
\<close>

theorem pass_runs_hooks:
  assumes "\<And>xs. mset (iter xs) = mset xs" "pe_bus E = Nats_bus gw" "register L (serve_manifest a) r = (r', Inr ack)"
    "on_task_assigned (sg_hooks a) = Some f" "up (sg_nats_url a)" "\<And>s. subscribes s" "nats_laws matches" "json_laws to_vec parse"
    "td_id ` set (todos (rs_db s)) \<subseteq> {i. i64 i}"
  shows "\<exists>sent. rs_sent (fst (reconcile_todos E iter s)) = rs_sent s @ sent \<and>
    mset (calls_of matches to_vec parse (agent_subscriptions up subscribes a) (sg_hooks a) sent) =
    mset (map (\<lambda>r. Task_call \<lparr>ta_project_id = ''global'', ta_task = row_key r, ta_assigned_by = gw, ta_todo_id = Some (snd (snd r))\<rparr>)
      (assignable (pe_caps E) (rs_db s) (sg_name a)))"
proof -
  let ?rows = "open_todos (rs_db s)" and ?calls = "calls_of matches to_vec parse (agent_subscriptions up subscribes a) (sg_hooks a)"
  let ?gs = "iter (group_by_task ?rows)" and ?name = "sg_name a"
  let ?H = "\<lambda>k e. Task_call \<lparr>ta_project_id = ''global'', ta_task = k, ta_assigned_by = gw, ta_todo_id = Some (snd (e :: string \<times> int))\<rparr>"
  let ?P = "\<lambda>k e. fst (e :: string \<times> int) = ?name \<and> agent_has_capability (pe_caps E) (rs_db s) ?name k"
  let ?F = "\<lambda>g. if group_matches E (rs_db s) g then ?calls (group_notice E g) else []"
  obtain t m n k where "reconcile_todos E iter s = (t, m, n, k)"
    by (metis prod_cases4)
  from reconcile_todos_result(1) [OF this assms(1)] this
  have sent: "rs_sent (fst (reconcile_todos E iter s)) =
      rs_sent s @ concat (map (group_notice E) (filter (group_matches E (rs_db s)) ?gs))"
    by (simp add: pass_result_def)
  have "?calls (concat (map (group_notice E) (filter (group_matches E (rs_db s)) ?gs))) = concat (map ?F ?gs)"
    unfolding calls_of_append map_map by (simp add: concat_filtered comp_def)
  moreover have "mset (concat (map ?F ?gs)) = mset (map (\<lambda>r. ?H (row_key r) (row_entry r))
      (filter (\<lambda>r. length (filter (\<lambda>q. row_key q = row_key r) ?rows) = 1 \<and> ?P (row_key r) (row_entry r)) ?rows))"
  proof (rule groups_alone [OF assms(1)])
    fix g assume g: "g \<in> set (group_by_task ?rows)"
    have "snd (snd g ! 0) \<in> td_id ` set (todos (rs_db s))"
    proof -
      have "snd g ! 0 \<in> set (snd g)" using group_members(2) [OF g] by simp
      then obtain q where "q \<in> set ?rows" "snd g ! 0 = row_entry q"
        unfolding group_members(1) [OF g] by auto
      with open_ids [of q "rs_db s"] show ?thesis by (auto simp: row_entry_def)
    qed
    then have "i64 (snd (snd g ! 0))" using assms(9) by auto
    note heard = assignment_heard [where subscribes = subscribes and up = up and a = a,
        OF assms(7,8) registered_plain [OF assms(3)] assms(4,5,6) this]
    have "length (snd g) \<le> 1 \<longleftrightarrow> length (snd g) = 1"
      using group_members(2) [OF g] by (cases "snd g") auto
    then show "?F g = (if length (snd g) = 1 \<and> ?P (fst g) (snd g ! 0) then [?H (fst g) (snd g ! 0)] else [])"
      by (auto simp: group_matches_def group_notice_def assms(2) heard)
  qed
  ultimately show ?thesis
    using sent by (simp add: assignable_def row_entry_def conj_ac cong: conj_cong)
qed

text \<open>One broker and one printer with these properties.\<close>

definition demo_matches :: "string \<Rightarrow> string \<Rightarrow> bool" where
  "demo_matches s t \<longleftrightarrow> s = t \<or> (s = ''a2a.broadcast.>'' \<and> starts_with ''a2a.broadcast.'' t)"

lemma demo_matches_laws: "nats_laws demo_matches"
  by (auto simp: nats_laws_def demo_matches_def starts_with_def)

definition demo_to_vec :: "jvalue \<Rightarrow> string + string" where
  "demo_to_vec v = (case de_task_assigned v of None \<Rightarrow> Inl []
     | Some e \<Rightarrow> Inr (mark_words [ta_project_id e, ta_task e, ta_assigned_by e,
         (case ta_todo_id e of None \<Rightarrow> [] | Some i \<Rightarrow> show_radix 10 (nat (i + 2 ^ 63)))]))"

definition demo_parse :: "string \<Rightarrow> jvalue option" where
  "demo_parse t = (case mark_dec t of
     Some [p, k, g, i] \<Rightarrow> Some (event_json (Task_assigned_ev \<lparr>ta_project_id = p, ta_task = k, ta_assigned_by = g,
       ta_todo_id = map_option (\<lambda>n. int n - 2 ^ 63) (parse_radix 10 (2 ^ 64) i)\<rparr>))
   | _ \<Rightarrow> None)"

lemma demo_json_laws: "json_laws demo_to_vec demo_parse"
  unfolding json_laws_def
proof (intro allI impI)
  fix e :: task_assigned_event
  assume range: "\<forall>i. ta_todo_id e = Some i \<longrightarrow> i64 i"
  have "parse_radix 10 (2 ^ 64) (show_radix 10 (nat (i + 2 ^ 63))) = Some (nat (i + 2 ^ 63))" if "i64 i" for i
    using that by (intro parse_show_radix) (auto simp: i64_def)
  moreover have "parse_radix 10 (2 ^ 64) [] = None"
    by (simp add: parse_radix_def strip_plus_def)
  ultimately have "demo_parse (mark_words [ta_project_id e, ta_task e, ta_assigned_by e,
      (case ta_todo_id e of None \<Rightarrow> [] | Some i \<Rightarrow> show_radix 10 (nat (i + 2 ^ 63)))]) = Some (event_json (Task_assigned_ev e))"
    using range by (cases "ta_todo_id e"; cases e) (auto simp: demo_parse_def i64_def)
  then show "\<exists>p. demo_to_vec (event_json (Task_assigned_ev e)) = Inr p \<and> demo_parse p = Some (event_json (Task_assigned_ev e))"
    using range by (simp add: demo_to_vec_def task_assigned_decodes)
qed

definition demo_hook_agent :: "(task_assigned_event, snapshot_changed_event, lifecycle_event, broadcast_event) sdk_agent" where
  "demo_hook_agent = \<lparr>sg_name = ''a'', sg_version = ''1'', sg_gateway_addr = ''http://gw:7240'', sg_soul_toml = [],
     sg_capabilities = [\<lparr>cb_name = ''rust'', cb_description = []\<rparr>], sg_endpoint = Some ''http://research:8080'',
     sg_nats_url = ''nats://n'', sg_hooks = no_hooks\<lparr>on_task_assigned := Some (\<lambda>_. True)\<rparr>\<rparr>"

lemma demo_hook_registers: "\<exists>r' ack. register demo_local_env (serve_manifest demo_hook_agent) demo_registry = (r', Inr ack)"
proof -
  have "manifest_ok (serve_manifest demo_hook_agent)"
    using demo_manifest_ok
    by (simp add: manifest_ok_def serve_manifest_def to_manifest_def demo_sdk_agent_def demo_hook_agent_def is_alphanumeric_def
        is_digit_def less_eq_char_def)
  then show ?thesis by (simp add: register_ok)
qed

text \<open>Of three open todos, one is the agent's alone.\<close>

definition demo_work :: rec_state where
  "demo_work = \<lparr>rs_db = exec (seqA (append_todo ''t'' ''a'' ''Rust fix '') (seqA (append_todo ''t'' ''a'' ''doc'') (append_todo ''t'' ''a'' ''Doc'')))
     (rg_db demo_registry), rs_sent = [], rs_todo_md = None\<rparr>"

lemma demo_assignable: "assignable mark_json (rs_db demo_work) ''a'' = [(''a'', ''Rust fix '', 1)]"
  by code_simp

lemma pass_runs_hooks_witness:
  "\<exists>sent. rs_sent (fst (reconcile_todos demo_env rev demo_work)) = [] @ sent \<and>
    mset (calls_of demo_matches demo_to_vec demo_parse (agent_subscriptions (\<lambda>_. True) (\<lambda>_. True) demo_hook_agent)
      (sg_hooks demo_hook_agent) sent) =
    {#Task_call \<lparr>ta_project_id = ''global'', ta_task = ''rust fix'', ta_assigned_by = ''gw'', ta_todo_id = Some 1\<rparr>#}"
proof -
  obtain r' ack where r: "register demo_local_env (serve_manifest demo_hook_agent) demo_registry = (r', Inr ack)"
    using demo_hook_registers by blast
  have key: "row_key (''a'', ''Rust fix '', 1) = ''rust fix''" by code_simp
  have "map td_id (todos (rs_db demo_work)) = [1, 2, 3]" by code_simp
  then have ids: "td_id ` set (todos (rs_db demo_work)) \<subseteq> {i. i64 i}"
    by (simp add: i64_def flip: set_map)
  have base: "rs_sent demo_work = []" "pe_caps demo_env = mark_json" "sg_name demo_hook_agent = ''a''" "pe_bus demo_env = Nats_bus ''gw''"
    "on_task_assigned (sg_hooks demo_hook_agent) = Some (\<lambda>_. True)"
    by (simp_all add: demo_work_def demo_env_def demo_hook_agent_def)
  from pass_runs_hooks [where iter = rev and up = "\<lambda>_. True" and subscribes = "\<lambda>_. True",
      OF mset_rev base(4) r base(5) TrueI TrueI demo_matches_laws demo_json_laws ids]
  show ?thesis by (simp add: base demo_assignable key)
qed

end
