(* ===== verification/Interleaving.thy ===== *)
theory Interleaving
  imports Contributions Task_Log
begin

text \<open>
  Handlers that overlap: a vote (\<open>contributions.rs\<close>) and an append to the task log (\<open>task_log.rs\<close>) as the statements they
  send to the database, interleaved with those of other requests. The gateway opens no transaction, so each statement is
  atomic and nothing more. A statement sees the rows committed when it starts (PostgreSQL's default isolation); an
  insert whose value is a subquery computes it from those and writes later.

  Lemmas: an uninterrupted run of the statements is the handler of \<open>Contributions\<close> or \<open>Task_Log\<close>; what holds under every
  schedule, and what does not.
\<close>

subsection \<open>Votes, statement by statement\<close>

record vote_request =
  vr_id :: string
  vr_time :: time
  vr_proposal :: string
  vr_gateway :: string
  vr_agent :: string
  vr_kind :: vote_kind
  vr_reason :: string

text \<open>Where a request is: what the statements so far have read.\<close>

datatype vote_pc =
    Asked
  | Checked proposal
  | Inserted proposal
  | Tallied proposal int int
  | Answered "err + vote_outcome"

record vote_system =
  vy_db :: db
  vy_pc :: "nat \<Rightarrow> vote_pc"

definition request_row :: "vote_request \<Rightarrow> vote_row" where
  "request_row r = vote_row_of \<lparr>vo_id = vr_id r, vo_proposal_id = vr_proposal r, vo_gateway_name = vr_gateway r,
     vo_agent_name = vr_agent r, vo_vote = vr_kind r, vo_reason = vr_reason r, vo_voted_at = vr_time r\<rparr>"

definition check_stmt :: "vote_request \<Rightarrow> db \<Rightarrow> vote_pc" where
  "check_stmt r d = (case get_proposal d (vr_proposal r) of
     None \<Rightarrow> Answered (Inl (Anyhow ''proposal not found''))
   | Some proposal \<Rightarrow>
       if po_status proposal \<noteq> Voting
       then Answered (Inl (Anyhow (''proposal is not in voting state (status='' @ status_as_str (po_status proposal) @ '')'')))
       else Checked proposal)"

definition insert_stmt :: "vote_request \<Rightarrow> proposal \<Rightarrow> db \<Rightarrow> db \<times> vote_pc" where
  "insert_stmt r proposal d = (let row = request_row r in
     if has_key voter_key (voter_key row) (votes d) then (d, Inserted proposal)
     else if has_key vt_id (vr_id r) (votes d) then (d, Answered (Inl (Sql_err ''insert vote'' Unique_violation)))
     else (d\<lparr>votes := votes d @ [row]\<rparr>, Inserted proposal))"

definition resolve_stmt :: "vote_request \<Rightarrow> proposal \<Rightarrow> int \<Rightarrow> int \<Rightarrow> db \<Rightarrow> db \<times> vote_pc" where
  "resolve_stmt r proposal approvals rejections d = (let majority = majority_of (po_gateway_count proposal) in
     if majority \<le> approvals
     then (resolve (vr_time r) (vr_proposal r) Accepted ''vote-majority'' d, Answered (Inr VoteAccepted))
     else if majority \<le> rejections
     then (resolve (vr_time r) (vr_proposal r) Rejected ''vote-majority'' d, Answered (Inr VoteRejected))
     else (d, Answered (Inr (VotePending approvals rejections majority))))"

text \<open>The next statement of one request.\<close>

definition next_stmt :: "vote_request \<Rightarrow> vote_pc \<Rightarrow> db \<Rightarrow> db \<times> vote_pc" where
  "next_stmt r pc d = (case pc of
     Asked \<Rightarrow> (d, check_stmt r d)
   | Checked proposal \<Rightarrow> insert_stmt r proposal d
   | Inserted proposal \<Rightarrow> (d, Tallied proposal (tally d (vr_proposal r) Approve) (tally d (vr_proposal r) Reject))
   | Tallied proposal a b \<Rightarrow> resolve_stmt r proposal a b d
   | Answered x \<Rightarrow> (d, Answered x))"

definition vote_turn :: "(nat \<Rightarrow> vote_request) \<Rightarrow> nat \<Rightarrow> vote_system \<Rightarrow> vote_system" where
  "vote_turn rq i s = (case next_stmt (rq i) (vy_pc s i) (vy_db s) of
     (d, pc) \<Rightarrow> \<lparr>vy_db = d, vy_pc = (vy_pc s)(i := pc)\<rparr>)"

text \<open>Without interruption it is the handler.\<close>

abbreviation handler_of :: "vote_request \<Rightarrow> (db, vote_outcome) act" where
  "handler_of r \<equiv> cast_vote (vr_id r) (vr_time r) (vr_proposal r) (vr_gateway r) (vr_agent r) (vr_kind r) (vr_reason r)"

definition stmt :: "vote_request \<Rightarrow> db \<times> vote_pc \<Rightarrow> db \<times> vote_pc" where
  "stmt r x = next_stmt r (snd x) (fst x)"

lemma stmt_simps:
  "stmt r (d, Asked) = (d, check_stmt r d)" "stmt r (d, Checked pr) = insert_stmt r pr d"
  "stmt r (d, Inserted pr) = (d, Tallied pr (tally d (vr_proposal r) Approve) (tally d (vr_proposal r) Reject))"
  "stmt r (d, Tallied pr x y) = resolve_stmt r pr x y d" "stmt r (d, Answered z) = (d, Answered z)"
  by (simp_all add: stmt_def next_stmt_def)

lemma count_then_resolve:
  "stmt r (stmt r (d, Inserted pr)) = (case check_vote_outcome (vr_time r) (vr_proposal r) pr d of (d', x) \<Rightarrow> (d', Answered x))"
  by (simp add: stmt_simps resolve_stmt_def check_vote_outcome_def Let_def)

lemma four_stmts: "stmt r (stmt r (stmt r (stmt r (d, Asked)))) = (case handler_of r d of (d', x) \<Rightarrow> (d', Answered x))"
proof (cases "get_proposal d (vr_proposal r)")
  case None
  then show ?thesis by (simp add: stmt_simps check_stmt_def cast_vote_def)
next
  case (Some pr)
  show ?thesis
  proof (cases "po_status pr = Voting")
    case True
    with Some have "stmt r (d, Asked) = (d, Checked pr)" by (simp add: stmt_simps check_stmt_def)
    with Some True show ?thesis
      by (simp add: stmt_simps(2) insert_stmt_def cast_vote_def request_row_def count_then_resolve stmt_simps(5) Let_def)
  qed (simp add: Some stmt_simps check_stmt_def cast_vote_def)
qed

lemma turn_stmt: "(vy_db (vote_turn rq i s), vy_pc (vote_turn rq i s) i) = stmt (rq i) (vy_db s, vy_pc s i)"
  by (simp add: vote_turn_def stmt_def split: prod.split)

lemma vote_uninterrupted:
  assumes "vy_pc s i = Asked"
  shows "vy_db (runA (vote_turn rq) s [i, i, i, i]) = exec (handler_of (rq i)) (vy_db s)"
    "vy_pc (runA (vote_turn rq) s [i, i, i, i]) i = Answered (result (handler_of (rq i)) (vy_db s))"
proof -
  have "(vy_db (runA (vote_turn rq) s [i, i, i, i]), vy_pc (runA (vote_turn rq) s [i, i, i, i]) i) =
      stmt (rq i) (stmt (rq i) (stmt (rq i) (stmt (rq i) (vy_db s, Asked))))"
    by (simp add: turn_stmt assms)
  then show "vy_db (runA (vote_turn rq) s [i, i, i, i]) = exec (handler_of (rq i)) (vy_db s)"
    "vy_pc (runA (vote_turn rq) s [i, i, i, i]) i = Answered (result (handler_of (rq i)) (vy_db s))"
    unfolding four_stmts by (auto simp: exec_def result_def split: prod.splits)
qed

subsection \<open>One vote per gateway: the decision stands\<close>

definition voted :: "vote_pc \<Rightarrow> bool" where
  "voted pc \<longleftrightarrow> (case pc of Asked \<Rightarrow> False | Checked _ \<Rightarrow> False | _ \<Rightarrow> True)"

fun pc_count :: "vote_pc \<Rightarrow> int option" where
  "pc_count (Checked pr) = Some (po_gateway_count pr)"
| "pc_count (Inserted pr) = Some (po_gateway_count pr)"
| "pc_count (Tallied pr _ _) = Some (po_gateway_count pr)"
| "pc_count _ = None"

text \<open>
  \<open>k\<close> requests on a proposal among \<open>n\<close> gateways. There are no more votes than requests that sent theirs, what a request has
  counted is there, and a decision has its majority.
\<close>

definition votes_cover :: "nat \<Rightarrow> string \<Rightarrow> vote_system \<Rightarrow> bool" where
  "votes_cover k p s \<longleftrightarrow> tally (vy_db s) p Approve + tally (vy_db s) p Reject \<le> int (card {i. i < k \<and> voted (vy_pc s i)})"

definition counts_hold :: "(nat \<Rightarrow> vote_request) \<Rightarrow> nat \<Rightarrow> string \<Rightarrow> int \<Rightarrow> vote_system \<Rightarrow> bool" where
  "counts_hold rq k p n s \<longleftrightarrow> (\<forall>i < k. vr_proposal (rq i) = p \<longrightarrow> (\<forall>m. pc_count (vy_pc s i) = Some m \<longrightarrow> m = n) \<and>
     (\<forall>pr a b. vy_pc s i = Tallied pr a b \<longrightarrow> a \<le> tally (vy_db s) p Approve \<and> b \<le> tally (vy_db s) p Reject))"

definition decision_backed :: "string \<Rightarrow> int \<Rightarrow> db \<Rightarrow> bool" where
  "decision_backed p n d \<longleftrightarrow> map_option po_gateway_count (get_proposal d p) = Some n \<and>
     (status_of d p = Some Accepted \<longrightarrow> majority_of n \<le> tally d p Approve) \<and>
     (status_of d p = Some Rejected \<longrightarrow> majority_of n \<le> tally d p Reject)"

lemma tally_snoc:
  "tally (d\<lparr>votes := votes d @ [row]\<rparr>) p k = tally d p k + (if vt_proposal_id row = p \<and> vt_vote row = vote_as_str k then 1 else 0)"
  by (simp add: tally_def)

lemma tally_resolve [simp]: "tally (resolve now i st w d) p k = tally d p k"
  by (simp add: tally_def resolve_def)

lemma count_resolve [simp]:
  "map_option po_gateway_count (get_proposal (resolve now i st w d) p) = map_option po_gateway_count (get_proposal d p)"
  by (cases "find_by pp_id p (proposals d)")
    (auto simp: get_proposal_def resolve_def find_by_update_where proposal_of_row_def)

lemma get_votes [simp]: "get_proposal (d\<lparr>votes := vs\<rparr>) p = get_proposal d p"
  by (simp add: get_proposal_def)

lemma request_row_sel [simp]: "vt_proposal_id (request_row r) = vr_proposal r" "vt_vote (request_row r) = vote_as_str (vr_kind r)"
  by (simp_all add: request_row_def vote_row_of_def)

text \<open>What one statement may do to the database.\<close>

lemma resolve_stmt_cases:
  "fst (resolve_stmt r pr a b d) = d \<or> (\<exists>st. fst (resolve_stmt r pr a b d) = resolve (vr_time r) (vr_proposal r) st ''vote-majority'' d \<and>
     (st = Accepted \<and> majority_of (po_gateway_count pr) \<le> a \<or> st = Rejected \<and> majority_of (po_gateway_count pr) \<le> b))"
  by (auto simp: resolve_stmt_def Let_def)

lemma insert_stmt_cases:
  "fst (insert_stmt r pr d) = d \<or> insert_stmt r pr d = (d\<lparr>votes := votes d @ [request_row r]\<rparr>, Inserted pr)"
  by (simp add: insert_stmt_def Let_def)

lemma next_stmt_cases:
  assumes "next_stmt r pc d = (d', pc')"
  obtains (same) "d' = d"
  | (vote) pr where "pc = Checked pr" "pc' = Inserted pr" "d' = d\<lparr>votes := votes d @ [request_row r]\<rparr>"
  | (decide) pr a b st where "pc = Tallied pr a b" "d' = resolve (vr_time r) (vr_proposal r) st ''vote-majority'' d"
      "st = Accepted \<and> majority_of (po_gateway_count pr) \<le> a \<or> st = Rejected \<and> majority_of (po_gateway_count pr) \<le> b"
proof (cases pc)
  case (Checked pr)
  with assms insert_stmt_cases [of r pr d] that(1,2) show ?thesis by (auto simp: next_stmt_def)
next
  case (Tallied pr a b)
  with assms have "fst (resolve_stmt r pr a b d) = d'" by (simp add: next_stmt_def)
  with resolve_stmt_cases [of r pr a b d] that(1) that(3) [OF Tallied] show ?thesis by metis
qed (use assms that(1) in \<open>simp_all add: next_stmt_def\<close>)

lemma tally_grows: "next_stmt r pc d = (d', pc') \<Longrightarrow> tally d p k \<le> tally d' p k"
  by (erule next_stmt_cases) (simp_all add: tally_snoc)

lemma voted_stays: "next_stmt r pc d = (d', pc') \<Longrightarrow> voted pc \<Longrightarrow> voted pc'"
  by (cases pc) (auto simp: voted_def next_stmt_def resolve_stmt_def Let_def split: if_splits)

lemma vote_turn_eq:
  "next_stmt (rq i) (vy_pc s i) (vy_db s) = (d', pc') \<Longrightarrow> vote_turn rq i s = \<lparr>vy_db = d', vy_pc = (vy_pc s)(i := pc')\<rparr>"
  by (simp add: vote_turn_def)

lemma votes_cover_turn:
  assumes "votes_cover k p s" "i < k"
  shows "votes_cover k p (vote_turn rq i s)"
proof -
  obtain d' pc' where n: "next_stmt (rq i) (vy_pc s i) (vy_db s) = (d', pc')" by fastforce
  let ?old = "{j. j < k \<and> voted (vy_pc s j)}" and ?new = "{j. j < k \<and> voted (((vy_pc s)(i := pc')) j)}"
  have fin: "finite ?old" "finite ?new" by auto
  have sub: "?old \<subseteq> ?new" using voted_stays [OF n] by auto
  then have card: "card ?old \<le> card ?new" using fin(2) by (rule card_mono [rotated])
  from n have "tally d' p Approve + tally d' p Reject \<le> int (card ?new)"
  proof (cases rule: next_stmt_cases)
    case (vote pr)
    then have "insert i ?old \<subseteq> ?new" "i \<notin> ?old" using sub assms(2) by (auto simp: voted_def)
    then have "Suc (card ?old) \<le> card ?new"
      using card_mono [OF fin(2), of "insert i ?old"] fin(1) by simp
    with vote assms(1) show ?thesis
      by (cases "vr_kind (rq i)") (auto simp: votes_cover_def tally_snoc)
  qed (use assms(1) card in \<open>auto simp: votes_cover_def\<close>)
  then show ?thesis by (simp add: votes_cover_def vote_turn_eq [where rq = rq and i = i and s = s, OF n])
qed

definition vote_inv :: "(nat \<Rightarrow> vote_request) \<Rightarrow> nat \<Rightarrow> string \<Rightarrow> int \<Rightarrow> vote_system \<Rightarrow> bool" where
  "vote_inv rq k p n s \<longleftrightarrow> votes_cover k p s \<and> counts_hold rq k p n s \<and> decision_backed p n (vy_db s)"

lemma own_count:
  assumes "next_stmt r pc d = (d', pc')" "vr_proposal r = p" "map_option po_gateway_count (get_proposal d p) = Some n"
    "\<And>m. pc_count pc = Some m \<Longrightarrow> m = n"
  shows "\<And>m. pc_count pc' = Some m \<Longrightarrow> m = n"
    "\<And>pr a b. pc' = Tallied pr a b \<Longrightarrow> a \<le> tally d' p Approve \<and> b \<le> tally d' p Reject"
  using assms
  by (cases pc; auto simp: next_stmt_def check_stmt_def insert_stmt_def resolve_stmt_def Let_def split: option.splits if_splits)+

lemma counts_hold_turn:
  assumes "counts_hold rq k p n s" "map_option po_gateway_count (get_proposal (vy_db s) p) = Some n"
  shows "counts_hold rq k p n (vote_turn rq i s)"
proof -
  obtain d' pc' where n: "next_stmt (rq i) (vy_pc s i) (vy_db s) = (d', pc')" by fastforce
  have "(\<forall>m. pc_count (((vy_pc s)(i := pc')) j) = Some m \<longrightarrow> m = n) \<and>
      (\<forall>pr a b. ((vy_pc s)(i := pc')) j = Tallied pr a b \<longrightarrow> a \<le> tally d' p Approve \<and> b \<le> tally d' p Reject)"
    if "j < k" "vr_proposal (rq j) = p" for j
  proof (cases "j = i")
    case True
    then have "\<And>m. pc_count (vy_pc s i) = Some m \<Longrightarrow> m = n"
      using that assms(1) by (auto simp: counts_hold_def)
    from own_count [OF n _ assms(2) this] True that(2) show ?thesis by simp
  next
    case False
    have "(\<forall>m. pc_count (vy_pc s j) = Some m \<longrightarrow> m = n) \<and> (\<forall>pr a b. vy_pc s j = Tallied pr a b \<longrightarrow>
        a \<le> tally (vy_db s) p Approve \<and> b \<le> tally (vy_db s) p Reject)"
      using that assms(1) by (simp add: counts_hold_def)
    with False tally_grows [OF n, of p Approve] tally_grows [OF n, of p Reject] show ?thesis by fastforce
  qed
  then show ?thesis by (simp add: counts_hold_def vote_turn_eq [where rq = rq and i = i and s = s, OF n])
qed

lemma decision_backed_turn:
  assumes "decision_backed p n (vy_db s)" "counts_hold rq k p n s" "i < k"
  shows "decision_backed p n (vy_db (vote_turn rq i s))"
proof -
  obtain d' pc' where n: "next_stmt (rq i) (vy_pc s i) (vy_db s) = (d', pc')" by fastforce
  then have "decision_backed p n d'"
  proof (cases rule: next_stmt_cases)
    case (vote pr)
    with assms(1) show ?thesis by (auto simp: decision_backed_def tally_snoc)
  next
    case (decide pr a b st)
    show ?thesis
    proof (cases "vr_proposal (rq i) = p")
      case True
      then have "po_gateway_count pr = n" "a \<le> tally (vy_db s) p Approve" "b \<le> tally (vy_db s) p Reject"
        using assms(2,3) decide(1) by (auto simp: counts_hold_def)
      with decide(2,3) True assms(1) show ?thesis
        by (auto simp: decision_backed_def status_resolve)
    qed (use decide assms(1) in \<open>auto simp: decision_backed_def status_resolve\<close>)
  qed (use assms(1) in simp)
  then show ?thesis by (simp add: vote_turn_eq [where rq = rq and i = i and s = s, OF n])
qed

lemma vote_inv_run: "vote_inv rq k p n s \<Longrightarrow> set xs \<subseteq> {..<k} \<Longrightarrow> vote_inv rq k p n (runA (vote_turn rq) s xs)"
proof (induction xs arbitrary: s)
  case (Cons i xs)
  then have i: "i < k" and v: "votes_cover k p s" and c: "counts_hold rq k p n s" and b: "decision_backed p n (vy_db s)"
    by (simp_all add: vote_inv_def)
  from b have "map_option po_gateway_count (get_proposal (vy_db s) p) = Some n" by (simp only: decision_backed_def)
  with v c b i have "vote_inv rq k p n (vote_turn rq i s)"
    unfolding vote_inv_def using votes_cover_turn counts_hold_turn decision_backed_turn by blast
  with Cons show ?case by simp
qed simp

lemma tally_run: "tally (vy_db s) p k \<le> tally (vy_db (runA (vote_turn rq) s xs)) p k"
proof (induction xs arbitrary: s)
  case (Cons i xs)
  obtain d' pc' where n: "next_stmt (rq i) (vy_pc s i) (vy_db s) = (d', pc')" by fastforce
  from tally_grows [OF n, of p k] Cons [of "vote_turn rq i s"] show ?case
    by (simp add: vote_turn_eq [where rq = rq and i = i and s = s, OF n])
qed simp

lemma status_run:
  "status_of (vy_db (runA (vote_turn rq) s xs)) p = status_of (vy_db s) p \<or>
     status_of (vy_db (runA (vote_turn rq) s xs)) p \<in> {Some Accepted, Some Rejected}"
  if "status_of (vy_db s) p \<noteq> None"
  using that
proof (induction xs arbitrary: s)
  case (Cons i xs)
  obtain d' pc' where n: "next_stmt (rq i) (vy_pc s i) (vy_db s) = (d', pc')" by fastforce
  then have "status_of d' p = status_of (vy_db s) p \<or> status_of d' p \<in> {Some Accepted, Some Rejected}"
    by (cases rule: next_stmt_cases) (use Cons.prems in \<open>auto simp: status_resolve\<close>)
  with Cons.IH [of "vote_turn rq i s"] Cons.prems show ?case
    by (auto simp: vote_turn_eq [where rq = rq and i = i and s = s, OF n])
qed simp

subsection \<open>The task log\<close>

text \<open>The insert of an append: \<open>seen\<close> is the database when the statement starts, the effect is on the one when it writes.\<close>

definition append_stmt ::
  "db \<Rightarrow> mac \<Rightarrow> string \<Rightarrow> string \<Rightarrow> time \<Rightarrow> string \<Rightarrow> string \<Rightarrow> string \<Rightarrow> entry_type \<Rightarrow> string \<Rightarrow> int option \<Rightarrow>
     task_status option \<Rightarrow> time option \<Rightarrow> (db, log_entry) act" where
  "append_stmt seen H secret i now project_id gateway_name agent_name etype content todo_id status valid_to = (\<lambda>d.
     let sig = sign H secret i project_id gateway_name content now;
         cursor = head_cursor seen project_id + 1;
         e = \<lparr>le_id = i, le_project_id = project_id, le_gateway_name = gateway_name, le_agent_name = agent_name,
              le_entry_type = etype, le_content = content, le_cursor = cursor, le_created_at = now,
              le_todo_id = todo_id, le_signature = Some sig, le_task_status = status,
              le_valid_from = Some now, le_valid_to = valid_to\<rparr>
     in if has_key lr_id i (task_log d) then (d, Inl (Sql_err ''insert log entry'' Unique_violation))
        else if \<not> project_exists d project_id \<or> \<not> todo_known d todo_id
        then (d, Inl (Sql_err ''insert log entry'' Foreign_key_violation))
        else (d\<lparr>task_log := task_log d @ [log_row_of project_id e]\<rparr>, Inr e))"

lemma append_alone: "append_stmt d H k i now p g a t c td st vt d = append_with_status True H k i now p g a t c td st vt d"
  by (simp add: append_stmt_def append_with_status_def Let_def)

lemma since_none: "(\<And>r. r \<in> set (task_log d) \<Longrightarrow> lr_project_id r = p \<Longrightarrow> lr_cursor r \<le> c) \<Longrightarrow> since d p c = []"
  by (auto simp: since_def order_by_def filter_empty_conv not_less)

subsection \<open>Properties\<close>

text \<open>
  C14. Votes on a proposal may overlap in any way, statement by statement: as long as no more votes are sent than there are
  gateways (one agent per gateway), the first decision stands.
\<close>

theorem decision_stands:
  assumes "get_proposal (vy_db s) p = Some pr" "po_status pr = Voting" "filter (\<lambda>r. vt_proposal_id r = p) (votes (vy_db s)) = []"
    "\<And>i. i < k \<Longrightarrow> vy_pc s i = Asked" "int k \<le> po_gateway_count pr" "set (xs @ ys) \<subseteq> {..<k}"
    "status_of (vy_db (runA (vote_turn rq) s xs)) p = Some t" "t \<noteq> Voting"
  shows "status_of (vy_db (runA (vote_turn rq) s (xs @ ys))) p = Some t"
proof -
  let ?n = "po_gateway_count pr" and ?s1 = "runA (vote_turn rq) s xs"
  let ?s2 = "runA (vote_turn rq) ?s1 ys"
  have "tally (vy_db s) p k' = 0" for k'
    using assms(3) by (auto simp: tally_def filter_empty_conv)
  moreover have st: "status_of (vy_db s) p = Some Voting" using assms(1,2) by (simp add: status_of_def)
  ultimately have "vote_inv rq k p ?n s"
    using assms(1,4) by (auto simp: vote_inv_def votes_cover_def counts_hold_def decision_backed_def)
  then have i1: "vote_inv rq k p ?n ?s1" and i2: "vote_inv rq k p ?n ?s2"
    using vote_inv_run assms(6) by (metis le_sup_iff set_append)+
  have t: "t = Accepted \<or> t = Rejected"
    using status_run [of s p rq xs] st assms(7,8) by auto
  have s2: "status_of (vy_db ?s2) p = Some t \<or> status_of (vy_db ?s2) p \<in> {Some Accepted, Some Rejected}"
    using status_run [of ?s1 p rq ys] assms(7) by auto
  have sum: "tally (vy_db ?s2) p Approve + tally (vy_db ?s2) p Reject \<le> ?n"
  proof -
    have "card {i. i < k \<and> voted (vy_pc ?s2 i)} \<le> card {i. i < k}" by (rule card_mono) auto
    then show ?thesis using i2 assms(5) by (simp add: vote_inv_def votes_cover_def)
  qed
  have "t = Accepted \<longrightarrow> ?n < 2 * tally (vy_db ?s2) p Approve" "t = Rejected \<longrightarrow> ?n < 2 * tally (vy_db ?s2) p Reject"
    using i1 assms(7) tally_run [of ?s1 p Approve rq ys] tally_run [of ?s1 p Reject rq ys]
    by (auto simp: vote_inv_def decision_backed_def majority_iff)
  moreover have "status_of (vy_db ?s2) p = Some Accepted \<longrightarrow> ?n < 2 * tally (vy_db ?s2) p Approve"
    "status_of (vy_db ?s2) p = Some Rejected \<longrightarrow> ?n < 2 * tally (vy_db ?s2) p Reject"
    using i2 by (auto simp: vote_inv_def decision_backed_def majority_iff)
  ultimately show ?thesis using t s2 sum by (auto simp: runA_append)
qed

definition four_voters :: "nat \<Rightarrow> vote_request" where
  "four_voters i = \<lparr>vr_id = [char_of (48 + i)], vr_time = 0, vr_proposal = ''x'', vr_gateway = (if i < 2 then ''g'' else ''h''),
     vr_agent = [char_of (97 + i)], vr_kind = (if i < 2 then Reject else Approve), vr_reason = []\<rparr>"

definition vote_start :: vote_system where
  "vote_start = \<lparr>vy_db = vote_db, vy_pc = (\<lambda>_. Asked)\<rparr>"

lemma decision_stands_witness:
  "status_of (vy_db (runA (vote_turn four_voters) vote_start ([0, 1, 2, 0, 1, 2, 0, 1, 0] @ [2, 2, 1, 1]))) ''x'' = Some Rejected"
proof (rule decision_stands [where k = 3 and pr = "proposal_of_row (hd (proposals vote_db))"])
  show "get_proposal (vy_db vote_start) ''x'' = Some (proposal_of_row (hd (proposals vote_db)))"
    by (simp add: vote_start_def vote_db_proposal)
  show "status_of (vy_db (runA (vote_turn four_voters) vote_start [0, 1, 2, 0, 1, 2, 0, 1, 0])) ''x'' = Some Rejected"
    by code_simp
qed (simp_all add: vote_start_def vote_db_def empty_db_def proposal_of_row_def status_from_str_def)

text \<open>
  C24. Two appends that overlap get the same cursor, and one of them is lost to a peer: a puller that has received the first
  one never receives the second, although it is in the log.
\<close>

theorem overlapping_append_lost:
  assumes "project_exists d p" "i \<noteq> j" "i \<notin> lr_id ` set (task_log d)" "j \<notin> lr_id ` set (task_log d)"
  shows "\<exists>e1 e2 d1 d2. append_stmt d H k i now p g a t c None st vt d = (d1, Inr e1) \<and>
      append_stmt d H k j now' p g' a' t' c' None st' vt' d1 = (d2, Inr e2) \<and>
      le_cursor e1 = head_cursor d p + 1 \<and> le_cursor e2 = le_cursor e1 \<and>
      since d1 p (head_cursor d p) = [log_entry_of_row (log_row_of p e1)] \<and>
      log_row_of p e2 \<in> set (task_log d2) \<and> since d2 p (le_cursor e1) = []"
proof -
  let ?c = "head_cursor d p + 1"
  obtain e1 where e1: "append_stmt d H k i now p g a t c None st vt d = (d\<lparr>task_log := task_log d @ [log_row_of p e1]\<rparr>, Inr e1)"
    "le_cursor e1 = ?c" "le_id e1 = i"
    using assms(1,3) by (auto simp: append_stmt_def Let_def has_key_iff todo_known_def)
  let ?d1 = "d\<lparr>task_log := task_log d @ [log_row_of p e1]\<rparr>"
  obtain e2 where e2: "append_stmt d H k j now' p g' a' t' c' None st' vt' ?d1 =
      (?d1\<lparr>task_log := task_log ?d1 @ [log_row_of p e2]\<rparr>, Inr e2)" "le_cursor e2 = ?c"
    using assms(1,2,4) e1(3) by (auto simp: append_stmt_def Let_def has_key_iff todo_known_def)
  let ?d2 = "?d1\<lparr>task_log := task_log ?d1 @ [log_row_of p e2]\<rparr>"
  have "since ?d1 p (head_cursor d p) = [log_entry_of_row (log_row_of p e1)]"
    using since_snoc [of d "log_row_of p e1"] e1(2) by simp
  moreover have "since ?d2 p ?c = []"
  proof (rule since_none)
    fix r assume r: "r \<in> set (task_log ?d2)" "lr_project_id r = p"
    then consider "r \<in> set (task_log d)" | "r = log_row_of p e1" | "r = log_row_of p e2" by auto
    then show "lr_cursor r \<le> ?c"
      by cases (use r(2) head_cursor_ge [of r d p] e1(2) e2(2) in \<open>simp_all add: project_log_def\<close>)
  qed
  ultimately show ?thesis
    using e1 e2 by (intro exI [of _ e1] exI [of _ e2] exI [of _ ?d1] exI [of _ ?d2]) simp
qed

lemma overlapping_append_lost_witness:
  "\<exists>e1 e2 d1 d2. append_stmt log_db demo_mac ''k'' ''1'' 0 ''p'' ''gw'' ''a'' Focus ''one'' None None None log_db = (d1, Inr e1) \<and>
      append_stmt log_db demo_mac ''k'' ''2'' 0 ''p'' ''gw'' ''b'' Focus ''two'' None None None d1 = (d2, Inr e2) \<and>
      le_cursor e1 = head_cursor log_db ''p'' + 1 \<and> le_cursor e2 = le_cursor e1 \<and>
      since d1 ''p'' (head_cursor log_db ''p'') = [log_entry_of_row (log_row_of ''p'' e1)] \<and>
      log_row_of ''p'' e2 \<in> set (task_log d2) \<and> since d2 ''p'' (le_cursor e1) = []"
  by (rule overlapping_append_lost) (simp_all add: log_db_def empty_db_def has_key_def)

text \<open>With two agents of a gateway voting, overlapping votes can turn a decision over.\<close>

lemma votes_turn_over:
  "status_of (vy_db (runA (vote_turn four_voters) vote_start [0, 1, 2, 3, 2, 0, 1, 1, 1])) ''x'' = Some Rejected"
  "status_of (vy_db (runA (vote_turn four_voters) vote_start [0, 1, 2, 3, 2, 0, 1, 1, 1, 3, 3, 3])) ''x'' = Some Accepted"
  by code_simp+

end
