(* ===== verification/Overlap.thy ===== *)
theory Overlap
  imports Identity Projects Group_Store Contributions
begin

text \<open>
  More handlers as the statements they send, interleaved with each other and with whole operations of other handlers:
  reviews (\<open>contributions.rs\<close>), redeemed invites (\<open>groups.rs\<close>), registrations (\<open>registry.rs\<close>) and visibility changes
  (\<open>projects.rs\<close>). As in \<open>Interleaving\<close> a statement is atomic and nothing more is; here the pattern is a function of the
  statements of one request.

  Lemmas: an uninterrupted run is the handler of the store; what every schedule keeps, and what overlapping breaks.
\<close>

subsection \<open>Requests as threads\<close>

record ('s, 'p) threads =
  th_state :: 's
  th_pc :: "nat \<Rightarrow> 'p"

datatype 'op slot = Turn nat | Other 'op

text \<open>One slot of a schedule: the next statement of a request, or an operation of somebody else.\<close>

fun slot_step ::
  "('r \<Rightarrow> 'p \<Rightarrow> 's \<Rightarrow> 's \<times> 'p) \<Rightarrow> ('op \<Rightarrow> 's \<Rightarrow> 's) \<Rightarrow> (nat \<Rightarrow> 'r) \<Rightarrow> 'op slot \<Rightarrow> ('s, 'p) threads \<Rightarrow> ('s, 'p) threads" where
  "slot_step stmt step rq (Turn i) t = (case stmt (rq i) (th_pc t i) (th_state t) of
     (s, pc) \<Rightarrow> t\<lparr>th_state := s, th_pc := (th_pc t)(i := pc)\<rparr>)"
| "slot_step stmt step rq (Other op) t = t\<lparr>th_state := step op (th_state t)\<rparr>"

abbreviation turns :: "('r \<Rightarrow> 'p \<Rightarrow> 's \<Rightarrow> 's \<times> 'p) \<Rightarrow> (nat \<Rightarrow> 'r) \<Rightarrow> ('s, 'p) threads \<Rightarrow> nat list \<Rightarrow> ('s, 'p) threads" where
  "turns stmt rq t is \<equiv> runA (slot_step stmt (\<lambda>_ :: unit. id) rq) t (map Turn is)"

definition threads_at :: "'s \<Rightarrow> 'p \<Rightarrow> ('s, 'p) threads" where
  "threads_at s pc = \<lparr>th_state = s, th_pc = (\<lambda>_. pc)\<rparr>"

lemma threads_at_sel [simp]: "th_state (threads_at s pc) = s" "th_pc (threads_at s pc) i = pc"
  by (simp_all add: threads_at_def)

text \<open>Statements that move along an order, as the operations beside them do: so does every schedule.\<close>

locale moving_statements = history_system step ext
  for step :: "'op \<Rightarrow> 's \<Rightarrow> 's" and ext :: "'s \<Rightarrow> 's \<Rightarrow> bool" +
  fixes stmt :: "'r \<Rightarrow> 'p \<Rightarrow> 's \<Rightarrow> 's \<times> 'p"
  assumes stmt_ext: "ext s (fst (stmt r pc s))"
begin

lemma slot_ext: "ext (th_state t) (th_state (slot_step stmt step rq x t))"
  using stmt_ext by (cases x) (auto simp: step_ext split: prod.split, metis fst_conv)

lemma schedule_ext: "ext (th_state t) (th_state (runA (slot_step stmt step rq) t xs))"
  by (induction xs arbitrary: t) (auto intro: ext_refl ext_trans slot_ext)

end

text \<open>Invariants of the threads and their state, over the slots a schedule may have.\<close>

locale thread_invariant =
  fixes stmt :: "'r \<Rightarrow> 'p \<Rightarrow> 's \<Rightarrow> 's \<times> 'p" and step :: "'op \<Rightarrow> 's \<Rightarrow> 's" and rq :: "nat \<Rightarrow> 'r"
    and may :: "'op slot \<Rightarrow> bool" and inv :: "'s \<Rightarrow> (nat \<Rightarrow> 'p) \<Rightarrow> bool"
  assumes turn_inv: "inv s pcs \<Longrightarrow> may (Turn i) \<Longrightarrow> stmt (rq i) (pcs i) s = (s', pc) \<Longrightarrow> inv s' (pcs(i := pc))"
    and other_inv: "inv s pcs \<Longrightarrow> may (Other op) \<Longrightarrow> inv (step op s) pcs"
begin

lemma slot_inv: "inv (th_state t) (th_pc t) \<Longrightarrow> may x \<Longrightarrow>
    inv (th_state (slot_step stmt step rq x t)) (th_pc (slot_step stmt step rq x t))"
  by (cases x) (auto simp: other_inv split: prod.split intro: turn_inv)

lemma schedule_inv: "inv (th_state t) (th_pc t) \<Longrightarrow> list_all may xs \<Longrightarrow>
    inv (th_state (runA (slot_step stmt step rq) t xs)) (th_pc (runA (slot_step stmt step rq) t xs))"
  by (induction xs arbitrary: t) (auto intro: slot_inv)

end

subsection \<open>Reviews\<close>

record review =
  rv_time :: time
  rv_proposal :: string
  rv_reviewer :: string
  rv_accept :: bool

datatype review_pc = Unread | Was_pending | Marked | Reviewed "err + unit"

definition review_read :: "review \<Rightarrow> db \<Rightarrow> review_pc" where
  "review_read r d = (case get_proposal d (rv_proposal r) of
     None \<Rightarrow> Reviewed (Inl (Anyhow ''proposal not found''))
   | Some proposal \<Rightarrow>
       if po_status proposal \<noteq> PrPending then Reviewed (Inl (Anyhow ''proposal is not in pr_pending state'')) else Was_pending)"

text \<open>\<open>accept_pr\<close> writes twice, \<open>reject_pr\<close> once.\<close>

definition review_stmt :: "review \<Rightarrow> review_pc \<Rightarrow> db \<Rightarrow> db \<times> review_pc" where
  "review_stmt r pc d = (case pc of
     Unread \<Rightarrow> (d, review_read r d)
   | Was_pending \<Rightarrow>
       if rv_accept r then (set_status (rv_proposal r) PrAccepted d, Marked)
       else (resolve (rv_time r) (rv_proposal r) Rejected (rv_reviewer r) d, Reviewed (Inr ()))
   | Marked \<Rightarrow> (resolve (rv_time r) (rv_proposal r) Accepted (rv_reviewer r) d, Reviewed (Inr ()))
   | Reviewed x \<Rightarrow> (d, Reviewed x))"

abbreviation review_of :: "review \<Rightarrow> (db, unit) act" where
  "review_of r \<equiv> (if rv_accept r then accept_pr else reject_pr) (rv_time r) (rv_proposal r) (rv_reviewer r)"

lemma review_stmt_simps:
  "review_stmt r Unread d = (d, review_read r d)"
  "rv_accept r \<Longrightarrow> review_stmt r Was_pending d = (set_status (rv_proposal r) PrAccepted d, Marked)"
  "\<not> rv_accept r \<Longrightarrow> review_stmt r Was_pending d = (resolve (rv_time r) (rv_proposal r) Rejected (rv_reviewer r) d, Reviewed (Inr ()))"
  "review_stmt r Marked d = (resolve (rv_time r) (rv_proposal r) Accepted (rv_reviewer r) d, Reviewed (Inr ()))"
  "review_stmt r (Reviewed x) d = (d, Reviewed x)"
  by (simp_all add: review_stmt_def)

lemma review_read_pending: "status_of d (rv_proposal r) = Some PrPending \<Longrightarrow> review_read r d = Was_pending"
  by (auto simp: review_read_def status_of_def)

lemma review_refused:
  assumes "status_of d (rv_proposal r) \<noteq> Some PrPending"
  obtains e where "review_read r d = Reviewed (Inl e)" "review_of r d = (d, Inl e)"
  using assms
  by (cases "get_proposal d (rv_proposal r)") (auto simp: review_read_def accept_pr_def reject_pr_def status_of_def)

lemma review_pending:
  assumes "status_of d (rv_proposal r) = Some PrPending"
  shows "review_of r d = (resolve (rv_time r) (rv_proposal r) (if rv_accept r then Accepted else Rejected) (rv_reviewer r)
    (if rv_accept r then set_status (rv_proposal r) PrAccepted d else d), Inr ())"
  using assms by (auto simp: accept_pr_def reject_pr_def status_of_def)

lemma review_uninterrupted:
  assumes "th_pc t i = Unread"
  shows "th_state (turns review_stmt rq t [i, i, i]) = exec (review_of (rq i)) (th_state t)"
    "th_pc (turns review_stmt rq t [i, i, i]) i = Reviewed (result (review_of (rq i)) (th_state t))"
proof -
  let ?d = "th_state t" and ?r = "rq i"
  have "th_state (turns review_stmt rq t [i, i, i]) = fst (review_of ?r ?d) \<and>
      th_pc (turns review_stmt rq t [i, i, i]) i = Reviewed (snd (review_of ?r ?d))"
  proof (cases "status_of ?d (rv_proposal ?r) = Some PrPending")
    case True
    then show ?thesis
      unfolding review_pending [OF True] by (cases "rv_accept ?r") (simp_all add: assms review_stmt_simps review_read_pending)
  next
    case False
    then obtain e where "review_read ?r ?d = Reviewed (Inl e)" "review_of ?r ?d = (?d, Inl e)" by (rule review_refused)
    then show ?thesis by (simp add: assms review_stmt_simps)
  qed
  then show "th_state (turns review_stmt rq t [i, i, i]) = exec (review_of ?r) ?d"
    "th_pc (turns review_stmt rq t [i, i, i]) i = Reviewed (result (review_of ?r) ?d)"
    by (simp_all add: exec_def result_def)
qed

definition verdict :: "review \<Rightarrow> proposal_status" where
  "verdict r = (if rv_accept r then Accepted else Rejected)"

fun reviews :: "string \<Rightarrow> proposal_op \<Rightarrow> bool" where
  "reviews p (Accept_pr _ q _) \<longleftrightarrow> q = p"
| "reviews p (Reject_pr _ q _) \<longleftrightarrow> q = p"
| "reviews p _ \<longleftrightarrow> False"

lemma status_elsewhere:
  assumes "status_of d p = Some s" "s \<noteq> Voting" "\<not> reviews p op"
  shows "status_of (proposal_step op d) p = Some s"
proof (cases op)
  case (Cast_vote i now q g a k r)
  show ?thesis
  proof (cases "q = p")
    case True
    with assms have "exec (cast_vote i now q g a k r) d = d"
      by (auto simp: exec_def cast_vote_def status_of_def split: option.splits)
    with Cast_vote assms show ?thesis by simp
  next
    case False
    with Cast_vote assms(1) show ?thesis
      by (auto simp: exec_def cast_vote_def check_vote_outcome_def Let_def status_resolve split: option.splits)
  qed
next
  case (Open_proposal i now q g a sn de n)
  with status_open [OF assms(1)] show ?thesis by simp
qed (use assms in \<open>auto simp: exec_def accept_pr_def reject_pr_def status_resolve status_set split: option.splits\<close>)

text \<open>
  Up to now nobody wrote; or somebody is between the two updates; or the status is the verdict of a review that was
  answered with success.
\<close>

definition review_inv :: "(nat \<Rightarrow> review) \<Rightarrow> nat \<Rightarrow> string \<Rightarrow> db \<Rightarrow> (nat \<Rightarrow> review_pc) \<Rightarrow> bool" where
  "review_inv rq k p d pcs \<longleftrightarrow> (\<forall>i < k. rv_proposal (rq i) = p \<and> (pcs i = Marked \<longrightarrow> rv_accept (rq i))) \<and>
     (status_of d p = Some PrPending \<and> (\<forall>i < k. pcs i = Unread \<or> pcs i = Was_pending) \<or>
      status_of d p = Some PrAccepted \<and> (\<exists>i < k. pcs i = Marked) \<or>
      (\<exists>i < k. pcs i = Reviewed (Inr ()) \<and> status_of d p = Some (verdict (rq i))))"

fun review_slot :: "nat \<Rightarrow> string \<Rightarrow> proposal_op slot \<Rightarrow> bool" where
  "review_slot k p (Turn i) \<longleftrightarrow> i < k"
| "review_slot k p (Other op) \<longleftrightarrow> \<not> reviews p op"

lemma review_inv_status: "review_inv rq k p d pcs \<Longrightarrow> \<exists>s. status_of d p = Some s \<and> s \<noteq> Voting"
  by (auto simp: review_inv_def verdict_def)

lemma review_inv_turn:
  assumes "review_inv rq k p d pcs" "i < k" "review_stmt (rq i) (pcs i) d = (d', pc)"
  shows "review_inv rq k p d' (pcs(i := pc))"
proof -
  have own: "rv_proposal (rq i) = p" "pcs i = Marked \<Longrightarrow> rv_accept (rq i)"
    using assms(1,2) by (simp_all add: review_inv_def)
  obtain s where s: "status_of d p = Some s" using review_inv_status [OF assms(1)] by blast
  show ?thesis
  proof (cases "pcs i")
    case Unread
    then have "d' = d" "pc = Was_pending \<and> s = PrPending \<or> (\<exists>e. pc = Reviewed (Inl e)) \<and> s \<noteq> PrPending"
      using assms(3) own s by (auto simp: review_stmt_def review_read_def status_of_def split: option.splits if_splits)
    note step = this
    have others: "(pcs(i := pc)) j = pcs j" if "pcs j = Marked \<or> pcs j = Reviewed (Inr ())" for j
      using that Unread by auto
    have "rv_proposal (rq j) = p \<and> ((pcs(i := pc)) j = Marked \<longrightarrow> rv_accept (rq j))" if "j < k" for j
      using that assms(1) step(2) by (auto simp: review_inv_def)
    moreover have "s = PrPending \<and> (\<forall>j<k. pcs j = Unread \<or> pcs j = Was_pending) \<or> s = PrAccepted \<and> (\<exists>j<k. pcs j = Marked) \<or>
        (\<exists>j<k. pcs j = Reviewed (Inr ()) \<and> s = verdict (rq j))"
      using assms(1) s unfolding review_inv_def by simp
    then have "s = PrPending \<and> (\<forall>j<k. (pcs(i := pc)) j = Unread \<or> (pcs(i := pc)) j = Was_pending) \<or>
        s = PrAccepted \<and> (\<exists>j<k. (pcs(i := pc)) j = Marked) \<or> (\<exists>j<k. (pcs(i := pc)) j = Reviewed (Inr ()) \<and> s = verdict (rq j))"
    proof (elim disjE)
      assume "s = PrPending \<and> (\<forall>j<k. pcs j = Unread \<or> pcs j = Was_pending)"
      with step(2) show ?thesis by simp
    qed (use others in metis)+
    ultimately show ?thesis unfolding review_inv_def step(1) s by simp
  next
    case Was_pending
    show ?thesis
    proof (cases "rv_accept (rq i)")
      case True
      then have "d' = set_status p PrAccepted d" "pc = Marked"
        using assms(3) own(1) Was_pending by (simp_all add: review_stmt_simps)
      with assms(1,2) s True show ?thesis by (auto simp: review_inv_def status_set)
    next
      case False
      then have "d' = resolve (rv_time (rq i)) p Rejected (rv_reviewer (rq i)) d" "pc = Reviewed (Inr ())"
        using assms(3) own(1) Was_pending by (simp_all add: review_stmt_simps)
      with assms(1,2) s False show ?thesis by (auto simp: review_inv_def status_resolve verdict_def)
    qed
  next
    case Marked
    then have "d' = resolve (rv_time (rq i)) p Accepted (rv_reviewer (rq i)) d" "pc = Reviewed (Inr ())"
      using assms(3) own by (auto simp: review_stmt_def)
    with assms(1,2) s own Marked show ?thesis by (auto simp: review_inv_def status_resolve verdict_def)
  next
    case (Reviewed x)
    with assms(3) have "d' = d" "pcs(i := pc) = pcs" by (auto simp: review_stmt_def)
    with assms(1) show ?thesis by simp
  qed
qed

interpretation review_threads: thread_invariant review_stmt proposal_step rq "review_slot k p" "review_inv rq k p" for rq k p
proof
  show "review_inv rq k p (proposal_step op d) pcs" if inv: "review_inv rq k p d pcs" and slot: "review_slot k p (Other op)" for d pcs op
  proof -
    obtain s where "status_of d p = Some s" "s \<noteq> Voting" using review_inv_status [OF inv] by blast
    with slot have "status_of (proposal_step op d) p = status_of d p" by (simp add: status_elsewhere)
    with inv show ?thesis by (simp add: review_inv_def)
  qed
qed (simp add: review_inv_turn)

lemma contradicting_reviews:
  assumes "status_of d p = Some PrPending" "rv_proposal (rq 0) = p" "rv_proposal (rq 1) = p" "rv_accept (rq 0)" "\<not> rv_accept (rq 1)"
  shows "let t = turns review_stmt rq (threads_at d Unread) [0, 1, 0, 0, 1] in
    th_pc t 0 = Reviewed (Inr ()) \<and> th_pc t 1 = Reviewed (Inr ()) \<and> status_of (th_state t) p = Some Rejected"
proof -
  have read: "review_read (rq 0) d = Was_pending" "review_read (rq 1) d = Was_pending"
    using assms(1,2,3) by (simp_all add: review_read_pending)
  have "th_state (turns review_stmt rq (threads_at d Unread) [0, 1, 0, 0, 1]) =
      resolve (rv_time (rq 1)) p Rejected (rv_reviewer (rq 1)) (resolve (rv_time (rq 0)) p Accepted (rv_reviewer (rq 0)) (set_status p PrAccepted d))"
    "th_pc (turns review_stmt rq (threads_at d Unread) [0, 1, 0, 0, 1]) 0 = Reviewed (Inr ())"
    "th_pc (turns review_stmt rq (threads_at d Unread) [0, 1, 0, 0, 1]) 1 = Reviewed (Inr ())"
    using assms(2-5) read by (simp_all add: review_stmt_simps)
  note end_state = this
  show ?thesis
    unfolding Let_def end_state by (simp add: status_resolve status_set assms(1))
qed

subsection \<open>Invites\<close>

record invite_request =
  iq_time :: time
  iq_token :: string
  iq_gateway :: string

datatype invite_pc = Waiting | Granted string string | Joined string | Concluded "err + group"

definition invite_stmt :: "invite_request \<Rightarrow> invite_pc \<Rightarrow> db \<Rightarrow> db \<times> invite_pc" where
  "invite_stmt q pc d = (case pc of
     Waiting \<Rightarrow> (case redeem (iq_time q) (iq_token q) (iq_gateway q) d of
         (d', None) \<Rightarrow> (d', Concluded (Inl (Anyhow ''invite token is expired or already used'')))
       | (d', Some (g, by)) \<Rightarrow> (d', Granted g by))
   | Granted g by \<Rightarrow> (case add_member (iq_time q) g (iq_gateway q) by d of
         (d', Inl e) \<Rightarrow> (d', Concluded (Inl e))
       | (d', Inr _) \<Rightarrow> (d', Joined g))
   | Joined g \<Rightarrow> (d, Concluded (case get_group d g of
         None \<Rightarrow> Inl (Anyhow ''group not found after invite consume'')
       | Some x \<Rightarrow> Inr x))
   | Concluded x \<Rightarrow> (d, Concluded x))"

lemma invite_uninterrupted:
  assumes "th_pc t i = Waiting"
  shows "th_state (turns invite_stmt rq t [i, i, i]) =
      exec (consume_invite (iq_time (rq i)) (iq_token (rq i)) (iq_gateway (rq i))) (th_state t)"
    "th_pc (turns invite_stmt rq t [i, i, i]) i =
      Concluded (result (consume_invite (iq_time (rq i)) (iq_token (rq i)) (iq_gateway (rq i))) (th_state t))"
proof -
  let ?q = "rq i"
  obtain d1 o1 where red: "redeem (iq_time ?q) (iq_token ?q) (iq_gateway ?q) (th_state t) = (d1, o1)" by fastforce
  have "th_state (turns invite_stmt rq t [i, i, i]) = fst (consume_invite (iq_time ?q) (iq_token ?q) (iq_gateway ?q) (th_state t)) \<and>
      th_pc (turns invite_stmt rq t [i, i, i]) i = Concluded (snd (consume_invite (iq_time ?q) (iq_token ?q) (iq_gateway ?q) (th_state t)))"
  proof (cases o1)
    case None
    with assms red show ?thesis by (simp add: invite_stmt_def consume_invite_def)
  next
    case (Some x)
    obtain g cb where x: "x = (g, cb)" by fastforce
    obtain d2 y where "add_member (iq_time ?q) g (iq_gateway ?q) cb d1 = (d2, y)" by fastforce
    with Some x assms red show ?thesis
      by (cases y) (auto simp: invite_stmt_def consume_invite_def act_simps split: option.split)
  qed
  then show "th_state (turns invite_stmt rq t [i, i, i]) = exec (consume_invite (iq_time ?q) (iq_token ?q) (iq_gateway ?q)) (th_state t)"
    "th_pc (turns invite_stmt rq t [i, i, i]) i = Concluded (result (consume_invite (iq_time ?q) (iq_token ?q) (iq_gateway ?q)) (th_state t))"
    by (simp_all add: exec_def result_def)
qed

text \<open>What a request got: the right to join, the membership, the group.\<close>

fun admitted :: "invite_pc \<Rightarrow> bool" where
  "admitted (Granted _ _) = True"
| "admitted (Joined _) = True"
| "admitted (Concluded (Inr _)) = True"
| "admitted _ = False"

fun member_at :: "db \<Rightarrow> string \<Rightarrow> invite_pc \<Rightarrow> bool" where
  "member_at d gw (Joined g) \<longleftrightarrow> is_member d g gw"
| "member_at d gw (Concluded (Inr x)) \<longleftrightarrow> is_member d (grp_id x) gw"
| "member_at d gw _ \<longleftrightarrow> True"

definition invite_inv :: "(nat \<Rightarrow> invite_request) \<Rightarrow> db \<Rightarrow> (nat \<Rightarrow> invite_pc) \<Rightarrow> bool" where
  "invite_inv rq d pcs \<longleftrightarrow> group_inv d \<and>
     (\<forall>i. admitted (pcs i) \<longrightarrow> token_used d (iq_token (rq i)) \<and> (\<forall>j. admitted (pcs j) \<and> iq_token (rq j) = iq_token (rq i) \<longrightarrow> j = i)) \<and>
     (\<forall>i. member_at d (iq_gateway (rq i)) (pcs i))"

lemma members_step: "set (members d) \<subseteq> set (members (group_step op d))"
proof (cases op)
  case (Consume_invite now t gw)
  then show ?thesis
    using redeem_frame(2) [of now t gw d] consume_exec [of now t gw d]
    by (auto simp: add_member_def exec_def simp del: redeem_frame split: prod.splits option.splits)
qed (auto simp: exec_def add_member_def create_group_def create_invite_def add_project_def Let_def bindA_def ret_def)

lemma member_at_mono: "set (members d) \<subseteq> set (members d') \<Longrightarrow> member_at d gw pc \<Longrightarrow> member_at d' gw pc"
  by (cases "(d, gw, pc)" rule: member_at.cases) (auto simp: is_member_def has_key_iff)

text \<open>The threads keep the invariant when the others keep the tables and what they had, and the own step is accounted for.\<close>

lemma invite_inv_step:
  assumes "invite_inv rq d pcs" "group_inv d'" "set (members d) \<subseteq> set (members d')"
    "\<And>t. token_used d t \<Longrightarrow> token_used d' t" "member_at d' (iq_gateway (rq i)) pc"
    "admitted pc \<Longrightarrow> admitted (pcs i) \<or> \<not> token_used d (iq_token (rq i)) \<and> token_used d' (iq_token (rq i))"
  shows "invite_inv rq d' (pcs(i := pc))"
proof -
  have used: "admitted (pcs j) \<Longrightarrow> token_used d (iq_token (rq j))" for j
    using assms(1) by (simp add: invite_inv_def)
  have one: "admitted (pcs j) \<Longrightarrow> admitted (pcs l) \<Longrightarrow> iq_token (rq l) = iq_token (rq j) \<Longrightarrow> l = j" for j l
    using assms(1) unfolding invite_inv_def by blast
  have "token_used d' (iq_token (rq j)) \<and> (\<forall>l. admitted ((pcs(i := pc)) l) \<and> iq_token (rq l) = iq_token (rq j) \<longrightarrow> l = j)"
    if j: "admitted ((pcs(i := pc)) j)" for j
  proof (cases "admitted pc \<longrightarrow> admitted (pcs i)")
    case True
    then have "admitted ((pcs(i := pc)) l) \<Longrightarrow> admitted (pcs l)" for l by (cases "l = i") auto
    with j used one assms(4) show ?thesis by blast
  next
    case False
    with assms(6) have new: "\<not> token_used d (iq_token (rq i))" "token_used d' (iq_token (rq i))" by blast+
    have old: "iq_token (rq l) \<noteq> iq_token (rq i)" if "admitted (pcs l)" for l
      using used [OF that] new(1) by metis
    show ?thesis
    proof (cases "j = i")
      case True
      with old new(2) show ?thesis by (metis fun_upd_other)
    next
      case False
      with j have "admitted (pcs j)" by simp
      with False old one used assms(4) show ?thesis by (metis fun_upd_other)
    qed
  qed
  moreover have "member_at d' (iq_gateway (rq j)) ((pcs(i := pc)) j)" for j
    using assms(1,3,5) member_at_mono by (auto simp: invite_inv_def)
  ultimately show ?thesis using assms(2) by (simp add: invite_inv_def)
qed

lemma invite_inv_turn:
  assumes inv: "invite_inv rq d pcs" and stmt: "invite_stmt (rq i) (pcs i) d = (d', pc)"
  shows "invite_inv rq d' (pcs(i := pc))"
proof (cases "pcs i")
  case Waiting
  let ?q = "rq i"
  have g: "group_inv d" using inv by (simp add: invite_inv_def)
  obtain o' where red: "redeem (iq_time ?q) (iq_token ?q) (iq_gateway ?q) d = (d', o')"
    using Waiting stmt by (auto simp: invite_stmt_def split: prod.splits option.splits)
  have frame: "group_inv d'" "members d' = members d" "\<And>t. token_used d t \<Longrightarrow> token_used d' t"
    using group_inv_redeem [OF g, of "iq_time ?q" "iq_token ?q" "iq_gateway ?q"]
      token_used_redeem [of d _ "iq_time ?q" "iq_token ?q" "iq_gateway ?q"]
      redeem_frame(2) [of "iq_time ?q" "iq_token ?q" "iq_gateway ?q" d] red by simp_all
  have pc: "pc = (case o' of None \<Rightarrow> Concluded (Inl (Anyhow ''invite token is expired or already used'')) | Some (g, by) \<Rightarrow> Granted g by)"
    using Waiting stmt red by (auto simp: invite_stmt_def split: option.splits)
  have "\<not> token_used d (iq_token ?q) \<and> token_used d' (iq_token ?q)" if adm: "admitted pc"
  proof -
    from adm pc obtain x where "o' = Some x" by (cases o') auto
    moreover have "\<not> token_used d (iq_token ?q)"
      using redeem_used [of d "iq_token ?q" "iq_time ?q" "iq_gateway ?q"] red calculation by auto
    moreover have "token_used d' (iq_token ?q)"
      using redeem_marks(1) [of "iq_time ?q" "iq_token ?q" "iq_gateway ?q" d d' x] red calculation(1) g by (simp add: group_inv_def)
    ultimately show ?thesis by blast
  qed
  note adm = this
  show ?thesis
  proof (rule invite_inv_step [OF inv frame(1) _ frame(3)])
    show "set (members d) \<subseteq> set (members d')" by (simp add: frame(2))
    show "member_at d' (iq_gateway ?q) pc" by (cases o') (auto simp: pc)
  qed (simp_all add: adm)
next
  case (Granted g cb)
  have "group_inv d" using inv by (simp add: invite_inv_def)
  then have step: "group_inv d'" "invites d = invites d'" "set (members d) \<subseteq> set (members d')" "member_at d' (iq_gateway (rq i)) pc"
    using group_inv_add_member [of d "iq_time (rq i)" g "iq_gateway (rq i)" cb] Granted stmt
    by (auto simp: invite_stmt_def add_member_def exec_def is_member_def has_key_iff split: if_splits)
  show ?thesis
    by (rule invite_inv_step [OF inv step(1,3) _ step(4)]) (simp_all add: Granted token_used_cong [OF step(2)])
next
  case (Joined g)
  have "group_inv d" "is_member d g (iq_gateway (rq i))" using inv Joined by (auto simp: invite_inv_def dest: spec [of _ i])
  with Joined stmt show ?thesis
    by (intro invite_inv_step [OF inv]) (auto simp: invite_stmt_def get_group_def group_of_row_def dest: find_by_Some split: option.splits)
next
  case (Concluded x)
  with stmt have "d' = d" "pcs(i := pc) = pcs" by (auto simp: invite_stmt_def)
  with inv show ?thesis by simp
qed

interpretation invite_threads: thread_invariant invite_stmt group_step rq "\<lambda>_. True" "invite_inv rq" for rq
proof
  show "invite_inv rq (group_step op d) pcs" if inv: "invite_inv rq d pcs" for d pcs op
  proof -
    have "invite_inv rq (group_step op d) (pcs(0 := pcs 0))"
      by (rule invite_inv_step [OF inv])
        (use inv members_step [of d op] in \<open>auto simp: invite_inv_def group_inv_step token_used_step intro: member_at_mono\<close>)
    then show ?thesis by simp
  qed
qed (rule invite_inv_turn)

subsection \<open>Registrations\<close>

datatype reg_pc = To_insert | To_remember | To_cache | Registered "err + unit"

definition reg_stmt :: "caps_json \<Rightarrow> agent_entry \<Rightarrow> reg_pc \<Rightarrow> registry \<Rightarrow> registry \<times> reg_pc" where
  "reg_stmt J e pc s = (let d = rg_db s in case pc of
     To_insert \<Rightarrow> (s\<lparr>rg_db := d\<lparr>agents := insert_or ar_name (agent_row_of J e) (merge_agent J e) (agents d)\<rparr>\<rparr>, To_remember)
   | To_remember \<Rightarrow>
       if agent_exists d (ae_name e)
       then (s\<lparr>rg_db := d\<lparr>memories := insert_ignore fst (ae_name e, []) (memories d)\<rparr>\<rparr>, To_cache)
       else (s, Registered (Inl (Sql_err ''insert memory'' Foreign_key_violation)))
   | To_cache \<Rightarrow> (s\<lparr>rg_cache := cache_insert e (rg_cache s)\<rparr>, Registered (Inr ()))
   | Registered x \<Rightarrow> (s, Registered x))"

lemma reg_stmt_simps:
  "reg_stmt J e To_insert s = (s\<lparr>rg_db := (rg_db s)\<lparr>agents := insert_or ar_name (agent_row_of J e) (merge_agent J e) (agents (rg_db s))\<rparr>\<rparr>, To_remember)"
  "agent_exists (rg_db s) (ae_name e) \<Longrightarrow>
     reg_stmt J e To_remember s = (s\<lparr>rg_db := (rg_db s)\<lparr>memories := insert_ignore fst (ae_name e, []) (memories (rg_db s))\<rparr>\<rparr>, To_cache)"
  "reg_stmt J e To_cache s = (s\<lparr>rg_cache := cache_insert e (rg_cache s)\<rparr>, Registered (Inr ()))"
  by (simp_all add: reg_stmt_def Let_def)

lemma agent_inserted: "has_key ar_name (ae_name e) (insert_or ar_name (agent_row_of J e) (merge_agent J e) rows)"
  using find_agent_upsert [of "ae_name e" J e rows] find_by_None [of ar_name "ae_name e" "insert_or ar_name (agent_row_of J e) (merge_agent J e) rows"]
  by (simp add: has_key_iff)

lemma reg_uninterrupted:
  assumes "th_pc t i = To_insert"
  shows "th_state (turns (reg_stmt J) rq t [i, i, i]) = exec (upsert J (rq i)) (th_state t)"
    "th_pc (turns (reg_stmt J) rq t [i, i, i]) i = Registered (result (upsert J (rq i)) (th_state t))"
  using assms by (simp_all add: reg_stmt_def upsert_def exec_def result_def agent_inserted Let_def)

lemma reg_stmt_soul: "soul_kept s (fst (reg_stmt J e pc s))"
proof -
  have "soul_of (fst (reg_stmt J e pc s)) = (if pc = To_insert then soul_of (exec (upsert J e) s) else soul_of s)"
    by (cases pc) (auto simp: reg_stmt_def Let_def fun_eq_iff soul_of_def agent_step_defs)
  then show ?thesis by (auto simp: soul_kept_def soul_of_upsert)
qed

lemma reg_stmt_memory: "memory_kept s (fst (reg_stmt J e pc s))"
  by (cases pc) (auto simp: reg_stmt_def Let_def memory_kept_def memory_of_def insert_ignore_def find_by_append split: option.splits)

text \<open>Souls and memories are kept whatever overlaps.\<close>

interpretation souls: moving_statements "agent_step J" soul_kept "reg_stmt J" for J
  by unfold_locales (rule reg_stmt_soul)

interpretation memories: moving_statements "agent_step J" memory_kept "reg_stmt J" for J
  by unfold_locales (rule reg_stmt_memory)

lemma registrations_overlap:
  assumes "soul_of s n = Some x" "x \<noteq> []" "memory_of s n = Some m"
  shows "let s' = th_state (runA (slot_step (reg_stmt J) (agent_step J) rq) (threads_at s To_insert) xs) in
    soul_of s' n = Some x \<and> (\<exists>more. memory_of s' n = Some (m @ more))"
  using souls.schedule_ext [of "threads_at s To_insert" J rq xs] memories.schedule_ext [of "threads_at s To_insert" J rq xs] assms
  by (auto simp: Let_def soul_kept_def memory_kept_def)

lemma registrations_disagree:
  assumes "ae_name (rq 0) = n" "ae_name (rq 1) = n" "keyed ar_name (agents (rg_db s))"
  shows "let t = turns (reg_stmt J) rq (threads_at s To_insert) [0, 1, 1, 1, 0, 0]; s' = th_state t in
    th_pc t 0 = Registered (Inr ()) \<and> th_pc t 1 = Registered (Inr ()) \<and>
    map_option ae_endpoint (registry_get s' n) = Some (ae_endpoint (rq 0)) \<and>
    map_option ae_endpoint (registry_get (registry_new J (rg_db s')) n) = Some (ae_endpoint (rq 1))"
proof -
  let ?a1 = "insert_or ar_name (agent_row_of J (rq 0)) (merge_agent J (rq 0)) (agents (rg_db s))"
  let ?a2 = "insert_or ar_name (agent_row_of J (rq 1)) (merge_agent J (rq 1)) ?a1"
  have known: "has_key ar_name n ?a1" "has_key ar_name n ?a2"
    using agent_inserted [of "rq 0" J "agents (rg_db s)"] agent_inserted [of "rq 1" J ?a1] assms(1,2) by simp_all
  have keyed: "keyed ar_name ?a2" using assms(3) by (intro keyed_agents_upsert)
  obtain r where r: "find_by ar_name n ?a2 = Some r" "ar_endpoint r = ae_endpoint (rq 1)"
    using find_agent_upsert [of n J "rq 1" ?a1] assms(2)
    by (auto simp: merge_agent_def agent_row_of_def split: option.splits)
  have "ae_endpoint (entry_of_row J r) = ae_endpoint (rq 1)" by (simp add: entry_of_row_def r(2))
  with known keyed r(1) assms(1,2) show ?thesis
    by (simp add: reg_stmt_simps registry_get_def registry_new_def cache_get_reload del: One_nat_def)
qed

subsection \<open>Visibility\<close>

record visibility_request =
  vq_time :: time
  vq_project :: string
  vq_next :: visibility

datatype visibility_pc = Unchecked | Cleared | Switched "err + unit"

definition visibility_stmt :: "visibility_request \<Rightarrow> visibility_pc \<Rightarrow> db \<Rightarrow> db \<times> visibility_pc" where
  "visibility_stmt q pc d = (case pc of
     Unchecked \<Rightarrow> (d, case get_project d (vq_project q) of
         None \<Rightarrow> Switched (Inl (Anyhow ''project not found''))
       | Some project \<Rightarrow>
           if pj_is_active project then Switched (Inl (Anyhow ''cannot change visibility while project is active''))
           else if \<not> can_transition_to (pj_visibility project) (vq_next q)
           then Switched (Inl (Anyhow (''project is already at visibility '' @ [CHR 0x27] @ visibility_as_str (vq_next q) @ [CHR 0x27])))
           else Cleared)
   | Cleared \<Rightarrow> (update_project (vq_project q) (vq_time q) (\<lambda>r. r\<lparr>pr_visibility := visibility_as_str (vq_next q)\<rparr>) d, Switched (Inr ()))
   | Switched x \<Rightarrow> (d, Switched x))"

lemma visibility_uninterrupted:
  assumes "th_pc t i = Unchecked"
  shows "th_state (turns visibility_stmt rq t [i, i]) = exec (set_visibility (vq_time (rq i)) (vq_project (rq i)) (vq_next (rq i))) (th_state t)"
    "th_pc (turns visibility_stmt rq t [i, i]) i = Switched (result (set_visibility (vq_time (rq i)) (vq_project (rq i)) (vq_next (rq i))) (th_state t))"
  using assms by (auto simp: visibility_stmt_def set_visibility_def exec_def result_def split: option.splits)

lemma visibility_write:
  "get_project d p \<noteq> None \<Longrightarrow> visibility_at (update_project p now (\<lambda>r. r\<lparr>pr_visibility := visibility_as_str v\<rparr>) d) p = Some v"
proof -
  assume "get_project d p \<noteq> None"
  then obtain r where "find_by pr_id p (projects d) = Some r" by (auto simp: get_project_def)
  then show ?thesis by (simp add: visibility_at_def get_update_project)
qed

text \<open>Two changes that overlap make a step the machine does not have: from the local network to the public.\<close>

lemma visibility_jump:
  assumes "get_project d p = Some pj" "pj_visibility pj = Group" "\<not> pj_is_active pj"
    "vq_project (rq 0) = p" "vq_next (rq 0) = LanOnly" "vq_project (rq 1) = p" "vq_next (rq 1) = Public"
  shows "visibility_at (th_state (turns visibility_stmt rq (threads_at d Unchecked) [0, 1, 0])) p = Some LanOnly"
    "visibility_at (th_state (turns visibility_stmt rq (threads_at d Unchecked) [0, 1, 0, 1])) p = Some Public"
proof -
  let ?d1 = "update_project p (vq_time (rq 0)) (\<lambda>r. r\<lparr>pr_visibility := visibility_as_str LanOnly\<rparr>) d"
  have states: "th_state (turns visibility_stmt rq (threads_at d Unchecked) [0, 1, 0]) = ?d1"
    "th_state (turns visibility_stmt rq (threads_at d Unchecked) [0, 1, 0, 1]) =
       update_project p (vq_time (rq 1)) (\<lambda>r. r\<lparr>pr_visibility := visibility_as_str Public\<rparr>) ?d1"
    using assms by (simp_all add: visibility_stmt_def)
  have first: "get_project d p \<noteq> None" using assms(1) by simp
  then have "get_project ?d1 p \<noteq> None"
    using visibility_write [of d p "vq_time (rq 0)" LanOnly] by (auto simp: visibility_at_def)
  then show "visibility_at (th_state (turns visibility_stmt rq (threads_at d Unchecked) [0, 1, 0, 1])) p = Some Public"
    unfolding states(2) by (rule visibility_write)
  show "visibility_at (th_state (turns visibility_stmt rq (threads_at d Unchecked) [0, 1, 0])) p = Some LanOnly"
    unfolding states(1) using first by (rule visibility_write)
qed

text \<open>An active project changes its visibility when it became active after the check.\<close>

lemma visibility_after_check:
  assumes "get_project d p = Some pj" "\<not> pj_is_active pj" "vq_project (rq 0) = p" "can_transition_to (pj_visibility pj) (vq_next (rq 0))"
  shows "let d' = th_state (runA (slot_step visibility_stmt (project_step F) rq) (threads_at d Unchecked) [Turn 0, Other (Set_active now p True), Turn 0])
    in visibility_at d' p = Some (vq_next (rq 0)) \<and> map_option pj_is_active (get_project d' p) = Some True"
proof -
  let ?d1 = "update_project p now (\<lambda>r. r\<lparr>pr_is_active := 1\<rparr>) d"
  let ?d2 = "update_project p (vq_time (rq 0)) (\<lambda>r. r\<lparr>pr_visibility := visibility_as_str (vq_next (rq 0))\<rparr>) ?d1"
  obtain r where r: "find_by pr_id p (projects d) = Some r" using assms(1) by (auto simp: get_project_def)
  then have f1: "find_by pr_id p (projects ?d1) = Some (r\<lparr>pr_is_active := 1, pr_updated_at := now\<rparr>)"
    by (auto simp: update_project_def find_by_update_where dest: find_by_Some)
  have "th_state (runA (slot_step visibility_stmt (project_step F) rq) (threads_at d Unchecked)
      [Turn 0, Other (Set_active now p True), Turn 0]) = ?d2"
    using assms by (simp add: visibility_stmt_def exec_def set_active_def)
  moreover have "visibility_at ?d2 p = Some (vq_next (rq 0))"
    by (rule visibility_write) (simp add: get_project_def f1)
  moreover have "map_option pj_is_active (get_project ?d2 p) = Some True"
    by (simp add: get_update_project f1 project_of_row_def)
  ultimately show ?thesis by simp
qed

subsection \<open>Properties\<close>

text \<open>
  C15. Reviews of a pull request that overlap in any way, statement by statement, with any other operations of the store in
  between: when all reviewers have their answer, the proposal is decided, and the decision is that of a reviewer who was
  told that it went through.
\<close>

theorem reviews_settle:
  assumes "status_of d p = Some PrPending" "0 < k" "\<And>i. i < k \<Longrightarrow> rv_proposal (rq i) = p" "list_all (review_slot k p) xs"
    "t = runA (slot_step review_stmt proposal_step rq) (threads_at d Unread) xs" "\<And>i. i < k \<Longrightarrow> \<exists>x. th_pc t i = Reviewed x"
  shows "\<exists>i < k. th_pc t i = Reviewed (Inr ()) \<and> status_of (th_state t) p = Some (verdict (rq i))"
proof -
  have "review_inv rq k p (th_state (threads_at d Unread)) (th_pc (threads_at d Unread))"
    using assms(1,3) by (simp add: review_inv_def)
  from review_threads.schedule_inv [OF this assms(4)] have "review_inv rq k p (th_state t) (th_pc t)"
    by (simp only: assms(5))
  moreover have "th_pc t i \<noteq> Marked \<and> th_pc t i \<noteq> Unread \<and> th_pc t i \<noteq> Was_pending" if "i < k" for i
    using assms(6) [OF that] by auto
  ultimately show ?thesis using assms(2) unfolding review_inv_def by metis
qed

definition two_reviewers :: "nat \<Rightarrow> review" where
  "two_reviewers i = \<lparr>rv_time = 0, rv_proposal = ''x'', rv_reviewer = [char_of (97 + i)], rv_accept = (i = 0)\<rparr>"

definition review_db :: db where
  "review_db = empty_db\<lparr>proposals := [\<lparr>pp_id = ''x'', pp_project_id = ''p'', pp_proposer_gateway = ''g'', pp_proposer_agent = ''a'',
     pp_snapshot_id = ''s'', pp_description = [], pp_status = ''pr_pending'', pp_gateway_count = 2, pp_created_at = 0,
     pp_resolved_at = None, pp_resolved_by = None\<rparr>]\<rparr>"

lemma review_db_status: "status_of review_db ''x'' = Some PrPending"
  by code_simp

lemma reviews_settle_witness:
  "\<exists>i < 2. th_pc (runA (slot_step review_stmt proposal_step two_reviewers) (threads_at review_db Unread)
       [Turn 0, Turn 1, Turn 0, Turn 1, Other (Cast_vote ''v'' 1 ''x'' ''g'' ''a'' Approve []), Turn 0]) i = Reviewed (Inr ()) \<and>
     status_of (th_state (runA (slot_step review_stmt proposal_step two_reviewers) (threads_at review_db Unread)
       [Turn 0, Turn 1, Turn 0, Turn 1, Other (Cast_vote ''v'' 1 ''x'' ''g'' ''a'' Approve []), Turn 0])) ''x'' = Some (verdict (two_reviewers i))"
proof (rule reviews_settle [OF review_db_status _ _ _ refl])
  show "\<exists>x. th_pc (runA (slot_step review_stmt proposal_step two_reviewers) (threads_at review_db Unread)
      [Turn 0, Turn 1, Turn 0, Turn 1, Other (Cast_vote ''v'' 1 ''x'' ''g'' ''a'' Approve []), Turn 0]) i = Reviewed x" if "i < 2" for i
  proof -
    have "i = 0 \<or> i = 1" using that by auto
    moreover have "th_pc (runA (slot_step review_stmt proposal_step two_reviewers) (threads_at review_db Unread)
        [Turn 0, Turn 1, Turn 0, Turn 1, Other (Cast_vote ''v'' 1 ''x'' ''g'' ''a'' Approve []), Turn 0]) 0 = Reviewed (Inr ())"
      "th_pc (runA (slot_step review_stmt proposal_step two_reviewers) (threads_at review_db Unread)
        [Turn 0, Turn 1, Turn 0, Turn 1, Other (Cast_vote ''v'' 1 ''x'' ''g'' ''a'' Approve []), Turn 0]) 1 = Reviewed (Inr ())"
      by code_simp+
    ultimately show ?thesis by blast
  qed
qed (simp_all add: two_reviewers_def)

text \<open>
  C16. An accepting review that stops after its first update (the gateway is restarted, the request is dropped) leaves the
  proposal in \<open>pr_accepted\<close> for ever: no operation of the store moves it on, and every later review is refused.
\<close>

theorem abandoned_review:
  assumes "status_of d p = Some PrPending" "rv_proposal (rq 0) = p" "rv_accept (rq 0)"
    "d' = runA proposal_step (th_state (turns review_stmt rq (threads_at d Unread) [0, 0])) ops"
  shows "status_of d' p = Some PrAccepted \<and> result (accept_pr now p g) d' = Inl (Anyhow ''proposal is not in pr_pending state'') \<and>
    result (reject_pr now p g) d' = Inl (Anyhow ''proposal is not in pr_pending state'')"
proof -
  let ?d1 = "th_state (turns review_stmt rq (threads_at d Unread) [0, 0])"
  have "status_of ?d1 p = Some PrAccepted"
    using assms(1,2,3) by (auto simp: review_stmt_def review_read_def status_set status_of_def [of d])
  with proposal_history.run_ext [of ?d1 ops] have "status_of d' p = Some PrAccepted"
    by (auto simp: status_followed_def status_move_iff assms(4))
  then show ?thesis by (auto simp: result_def accept_pr_def reject_pr_def status_of_def)
qed

lemma abandoned_review_witness:
  "let d' = runA proposal_step (th_state (turns review_stmt two_reviewers (threads_at review_db Unread) [0, 0])) [Reject_pr 5 ''x'' ''b'']
   in status_of d' ''x'' = Some PrAccepted \<and> result (accept_pr 6 ''x'' ''a'') d' = Inl (Anyhow ''proposal is not in pr_pending state'') \<and>
     result (reject_pr 6 ''x'' ''a'') d' = Inl (Anyhow ''proposal is not in pr_pending state'')"
  unfolding Let_def
  by (rule abandoned_review [OF review_db_status _ _ refl]) (simp_all add: two_reviewers_def)

text \<open>
  C10. An invite admits one request, also when requests that redeem it overlap statement by statement, with any other
  operations on groups in between: whoever gets the group is a member of it, and no other request with the same token gets
  a group or a membership.
\<close>

theorem invite_admits_one:
  assumes "group_inv d" "t = runA (slot_step invite_stmt group_step rq) (threads_at d Waiting) xs" "th_pc t i = Concluded (Inr x)"
  shows "is_member (th_state t) (grp_id x) (iq_gateway (rq i)) \<and>
    (\<forall>j. iq_token (rq j) = iq_token (rq i) \<and> admitted (th_pc t j) \<longrightarrow> j = i)"
proof -
  have "invite_inv rq (th_state (threads_at d Waiting)) (th_pc (threads_at d Waiting))"
    using assms(1) by (simp add: invite_inv_def)
  moreover have "list_all (\<lambda>_. True) xs" by (simp add: list_all_iff)
  ultimately have "invite_inv rq (th_state t) (th_pc t)"
    unfolding assms(2) by (rule invite_threads.schedule_inv)
  moreover have "admitted (th_pc t i)" by (simp add: assms(3))
  ultimately show ?thesis
    using assms(3) unfolding invite_inv_def by (metis member_at.simps(2))
qed

definition two_joiners :: "nat \<Rightarrow> invite_request" where
  "two_joiners i = \<lparr>iq_time = 2, iq_token = ''t'', iq_gateway = [char_of (97 + i)]\<rparr>"

definition joined :: "(db, invite_pc) threads" where
  "joined = runA (slot_step invite_stmt group_step two_joiners) (threads_at invite_db Waiting)
     [Turn 1, Turn 0, Other (Create_group ''h'' 2 ''m'' [] ''gw''), Turn 1, Turn 1]"

lemma invite_admits_one_witness:
  "is_member (th_state joined) ''g'' ''b'' \<and> {j. admitted (th_pc joined j)} = {1}"
proof -
  have inv: "group_inv invite_db"
    unfolding invite_db_def by (rule group_system.run_inv) (simp add: group_inv_def empty_db_def table_simps)
  let ?x = "\<lparr>grp_id = ''g'', grp_name = ''n'', grp_description = [], grp_created_by = ''gw'', grp_created_at = 0\<rparr>"
  have x: "th_pc joined 1 = Concluded (Inr ?x)" by code_simp
  have "iq_gateway (two_joiners 1) = ''b''" by code_simp
  moreover have "iq_token (two_joiners j) = ''t''" for j by (simp add: two_joiners_def)
  ultimately show ?thesis
    using invite_admits_one [OF inv joined_def x] x by (simp only: group.simps) auto
qed

end
