(* ===== verification/Migrations.thy ===== *)
theory Migrations
  imports Gateway_Db
begin

text \<open>
  The schema (\<open>migrations/*.sql\<close>) and \<open>db.rs\<close>: connecting and migrating. A migration file is the list of its
  statements; a statement acts on the catalogue (tables with their columns and constraints, indexes) or fails. A file is
  sent as one simple query, which PostgreSQL runs as one transaction. Names that constraints and sequences get by
  themselves, storage and the rows (theory \<open>Schema_Rows\<close>) are not part of the catalogue.

  Lemmas: \<open>IF NOT EXISTS\<close> makes every statement a no-op once it has run, so a start that was interrupted can be repeated;
  the catalogue only grows and stays well formed; which rows sqlx can decode.
\<close>

subsection \<open>The catalogue\<close>

datatype col_type = TEXT | BIGSERIAL | BIGINT | INTEGER | DOUBLE_PRECISION

datatype on_delete = NO_ACTION | CASCADE | SET_NULL | RESTRICT

text \<open>A \<open>CHECK\<close> of the migrations lists the values a column may have; like every check it lets \<open>NULL\<close> through.\<close>

record col_def =
  cl_name :: string
  cl_type :: col_type
  cl_not_null :: bool
  cl_default :: "string option"
  cl_check :: "string list option"
  cl_ref :: "(string \<times> string \<times> on_delete) option"

record table_def =
  tb_name :: string
  tb_columns :: "col_def list"
  tb_primary :: "string list"
  tb_unique :: "string list list"

text \<open>A key column with whether it is descending; the condition of a partial index is a column that is null or is not.\<close>

record index_def =
  ix_name :: string
  ix_table :: string
  ix_columns :: "(string \<times> bool) list"
  ix_where :: "(string \<times> bool) option"

record catalogue =
  sc_tables :: "table_def list"
  sc_indexes :: "index_def list"

definition no_schema :: catalogue where
  "no_schema = \<lparr>sc_tables = [], sc_indexes = []\<rparr>"

abbreviation column_names :: "table_def \<Rightarrow> string list" where
  "column_names tb \<equiv> map cl_name (tb_columns tb)"

definition table_of :: "catalogue \<Rightarrow> string \<Rightarrow> table_def option" where
  "table_of s n = find_by tb_name n (sc_tables s)"

definition relation_exists :: "catalogue \<Rightarrow> string \<Rightarrow> bool" where
  "relation_exists s n \<longleftrightarrow> has_key tb_name n (sc_tables s) \<or> has_key ix_name n (sc_indexes s)"

text \<open>A foreign key needs a column that is a key of its own in the table it names.\<close>

definition is_key :: "table_def \<Rightarrow> string list \<Rightarrow> bool" where
  "is_key tb cs \<longleftrightarrow> tb_primary tb = cs \<or> cs \<in> set (tb_unique tb)"

definition ref_ok :: "catalogue \<Rightarrow> col_def \<Rightarrow> bool" where
  "ref_ok s c \<longleftrightarrow> (case cl_ref c of None \<Rightarrow> True
     | Some (t, k, _) \<Rightarrow> (case table_of s t of None \<Rightarrow> False | Some tb \<Rightarrow> k \<in> set (column_names tb) \<and> is_key tb [k]))"

definition table_ok :: "table_def \<Rightarrow> bool" where
  "table_ok tb \<longleftrightarrow> distinct (column_names tb) \<and> set (tb_primary tb) \<subseteq> set (column_names tb) \<and>
     (\<forall>u \<in> set (tb_unique tb). set u \<subseteq> set (column_names tb))"

definition index_columns :: "index_def \<Rightarrow> string list" where
  "index_columns ix = map fst (ix_columns ix) @ (case ix_where ix of None \<Rightarrow> [] | Some (c, _) \<Rightarrow> [c])"

definition index_ok :: "catalogue \<Rightarrow> index_def \<Rightarrow> bool" where
  "index_ok s ix \<longleftrightarrow> (case table_of s (ix_table ix) of None \<Rightarrow> False
     | Some tb \<Rightarrow> set (index_columns ix) \<subseteq> set (column_names tb))"

subsection \<open>Statements\<close>

datatype ddl = Create_table table_def | Create_index index_def | Add_column string col_def

definition add_table :: "table_def \<Rightarrow> catalogue \<Rightarrow> catalogue" where
  "add_table tb s = s\<lparr>sc_tables := sc_tables s @ [tb]\<rparr>"

definition add_index :: "index_def \<Rightarrow> catalogue \<Rightarrow> catalogue" where
  "add_index ix s = s\<lparr>sc_indexes := sc_indexes s @ [ix]\<rparr>"

definition add_col :: "string \<Rightarrow> col_def \<Rightarrow> catalogue \<Rightarrow> catalogue" where
  "add_col t c s = s\<lparr>sc_tables := update_where (\<lambda>tb. tb_name tb = t) (\<lambda>tb. tb\<lparr>tb_columns := tb_columns tb @ [c]\<rparr>) (sc_tables s)\<rparr>"

text \<open>
  \<open>None\<close> is an error of the statement. Every statement has \<open>IF NOT EXISTS\<close>; tables and indexes share their names. A column
  that is added may be null or has a default, since the table may have rows.
\<close>

fun run_ddl :: "ddl \<Rightarrow> catalogue \<Rightarrow> catalogue option" where
  "run_ddl (Create_table tb) s =
     (if relation_exists s (tb_name tb) then Some s
      else if table_ok tb \<and> list_all (ref_ok (add_table tb s)) (tb_columns tb) then Some (add_table tb s) else None)"
| "run_ddl (Create_index ix) s =
     (if relation_exists s (ix_name ix) then Some s else if index_ok s ix then Some (add_index ix s) else None)"
| "run_ddl (Add_column t c) s = (case table_of s t of None \<Rightarrow> None
     | Some tb \<Rightarrow>
         if cl_name c \<in> set (column_names tb) then Some s
         else if (cl_not_null c \<longrightarrow> cl_default c \<noteq> None) \<and> ref_ok s c then Some (add_col t c s) else None)"

fun run_file :: "ddl list \<Rightarrow> catalogue \<Rightarrow> catalogue option" where
  "run_file [] s = Some s"
| "run_file (x # xs) s = Option.bind (run_ddl x s) (run_file xs)"

subsection \<open>The migrations\<close>

definition col :: "string \<Rightarrow> col_type \<Rightarrow> col_def" where
  "col n t = \<lparr>cl_name = n, cl_type = t, cl_not_null = False, cl_default = None, cl_check = None, cl_ref = None\<rparr>"

definition not_null :: "col_def \<Rightarrow> col_def" where
  "not_null c = c\<lparr>cl_not_null := True\<rparr>"

definition default_to :: "string \<Rightarrow> col_def \<Rightarrow> col_def" where
  "default_to v c = c\<lparr>cl_default := Some v\<rparr>"

definition check_in :: "string list \<Rightarrow> col_def \<Rightarrow> col_def" where
  "check_in vs c = c\<lparr>cl_check := Some vs\<rparr>"

definition references :: "string \<Rightarrow> string \<Rightarrow> on_delete \<Rightarrow> col_def \<Rightarrow> col_def" where
  "references t k a c = c\<lparr>cl_ref := Some (t, k, a)\<rparr>"

abbreviation text_col :: "string \<Rightarrow> col_def" where
  "text_col n \<equiv> not_null (col n TEXT)"

abbreviation time_col :: "string \<Rightarrow> col_def" where
  "time_col n \<equiv> not_null (col n DOUBLE_PRECISION)"

abbreviation text_default :: "string \<Rightarrow> string \<Rightarrow> col_def" where
  "text_default n v \<equiv> default_to v (text_col n)"

definition table_with :: "string \<Rightarrow> string list \<Rightarrow> string list list \<Rightarrow> col_def list \<Rightarrow> table_def" where
  "table_with n pk us cs = \<lparr>tb_name = n, tb_columns = cs, tb_primary = pk, tb_unique = us\<rparr>"

definition index_on :: "string \<Rightarrow> string \<Rightarrow> (string \<times> bool) list \<Rightarrow> (string \<times> bool) option \<Rightarrow> ddl" where
  "index_on n t cs w = Create_index \<lparr>ix_name = n, ix_table = t, ix_columns = cs, ix_where = w\<rparr>"

definition agents_table :: table_def where
  "agents_table = table_with ''agents'' [''name''] []
     [text_col ''name'', text_default ''version'' ''0.1.0'', text_col ''endpoint'', text_default ''capabilities'' ''[]'',
      text_default ''soul_toml'' [], col ''last_seen'' TEXT, text_col ''registered_at'']"

definition memories_table :: table_def where
  "memories_table = table_with ''memories'' [''agent_name''] []
     [references ''agents'' ''name'' CASCADE (text_col ''agent_name''), text_default ''content_md'' []]"

definition todos_table :: table_def where
  "todos_table = table_with ''todos'' [''id''] []
     [not_null (col ''id'' BIGSERIAL), references ''agents'' ''name'' CASCADE (text_col ''agent_name''), text_col ''task'',
      text_default ''status'' ''pending'', text_default ''notes'' [], text_col ''created_at'', col ''completed_at'' TEXT]"

definition requests_table :: table_def where
  "requests_table = table_with ''requests'' [''id''] []
     [not_null (col ''id'' BIGSERIAL), text_col ''content'', text_col ''created_at'']"

definition project_todos_table :: table_def where
  "project_todos_table = table_with ''project_todos'' [''id''] [[''task'']]
     [not_null (col ''id'' BIGSERIAL), text_col ''task'', col ''assigned_to'' TEXT, text_default ''status'' ''pending'',
      text_default ''notes'' [], text_default ''source_todos'' ''[]'', text_col ''created_at'', text_col ''updated_at'']"

definition m001_init :: "ddl list" where
  "m001_init = [
     Create_table agents_table,
     Create_table memories_table,
     Create_table todos_table,
     Create_table requests_table,
     Create_table project_todos_table,
     index_on ''idx_todos_agent'' ''todos'' [(''agent_name'', False)] None,
     index_on ''idx_todos_status'' ''todos'' [(''status'', False)] None,
     index_on ''idx_ptodos_status'' ''project_todos'' [(''status'', False)] None]"

definition projects_table :: table_def where
  "projects_table = table_with ''projects'' [''id''] [[''name'']]
     [text_col ''id'', text_col ''name'', text_col ''repo_url'', text_default ''description'' [],
      check_in [''lan-only'', ''group'', ''public''] (text_default ''visibility'' ''lan-only''),
      text_default ''folder_path'' [], text_default ''file_glob'' ''**/*'', default_to ''0'' (not_null (col ''is_active'' INTEGER)),
      time_col ''created_at'', time_col ''updated_at'', col ''onboarding_step'' TEXT, text_default ''origin_gateway'' [],
      text_default ''peer_gateway'' [], text_default ''peer_project_id'' []]"

definition agent_projects_table :: table_def where
  "agent_projects_table = table_with ''agent_projects'' [''agent_name'', ''project_id''] []
     [text_col ''agent_name'', text_col ''project_id'', time_col ''joined_at'']"

definition m002_projects :: "ddl list" where
  "m002_projects = [
     Create_table projects_table,
     index_on ''projects_visibility'' ''projects'' [(''visibility'', False)] None,
     index_on ''projects_onboarding'' ''projects'' [(''onboarding_step'', False)] (Some (''onboarding_step'', False)),
     Create_table agent_projects_table]"

definition objects_table :: table_def where
  "objects_table = table_with ''objects'' [''sha256''] []
     [text_col ''sha256'', not_null (col ''size_bytes'' INTEGER), time_col ''created_at'']"

definition snapshots_table :: table_def where
  "snapshots_table = table_with ''snapshots'' [''id''] []
     [text_col ''id'', references ''projects'' ''id'' CASCADE (text_col ''project_id''), text_col ''gateway'',
      text_col ''transcript'', time_col ''created_at'']"

definition project_heads_table :: table_def where
  "project_heads_table = table_with ''project_heads'' [''project_id''] []
     [references ''projects'' ''id'' CASCADE (text_col ''project_id''),
      references ''snapshots'' ''id'' NO_ACTION (text_col ''snapshot_id''), time_col ''updated_at'']"

definition m003_file_sync :: "ddl list" where
  "m003_file_sync = [
     Create_table objects_table,
     Create_table snapshots_table,
     index_on ''snapshots_project'' ''snapshots'' [(''project_id'', False), (''created_at'', True)] None,
     Create_table project_heads_table]"

definition task_log_table :: table_def where
  "task_log_table = table_with ''task_log'' [''id''] []
     [text_col ''id'', references ''projects'' ''id'' CASCADE (text_col ''project_id''), text_col ''gateway_name'',
      text_default ''agent_name'' [],
      check_in [''focus'', ''done'', ''blocked'', ''note''] (text_default ''entry_type'' ''focus''), text_col ''content'',
      not_null (col ''cursor'' INTEGER), time_col ''created_at'',
      references ''todos'' ''id'' SET_NULL (col ''todo_id'' BIGINT), col ''signature'' TEXT]"

definition m004_task_log :: "ddl list" where
  "m004_task_log = [
     Create_table task_log_table,
     index_on ''task_log_project'' ''task_log'' [(''project_id'', False), (''cursor'', False)] None,
     index_on ''task_log_gateway'' ''task_log'' [(''gateway_name'', False), (''created_at'', True)] None]"

definition contribution_proposals_table :: table_def where
  "contribution_proposals_table = table_with ''contribution_proposals'' [''id''] []
     [text_col ''id'', references ''projects'' ''id'' CASCADE (text_col ''project_id''), text_col ''proposer_gateway'',
      text_default ''proposer_agent'' [], references ''snapshots'' ''id'' RESTRICT (text_col ''snapshot_id''),
      text_default ''description'' [],
      check_in [''open'', ''voting'', ''pr_pending'', ''pr_accepted'', ''accepted'', ''rejected''] (text_default ''status'' ''open''),
      default_to ''0'' (not_null (col ''gateway_count'' INTEGER)), time_col ''created_at'', col ''resolved_at'' DOUBLE_PRECISION,
      col ''resolved_by'' TEXT]"

definition contribution_votes_table :: table_def where
  "contribution_votes_table = table_with ''contribution_votes'' [''id''] [[''proposal_id'', ''gateway_name'', ''agent_name'']]
     [text_col ''id'', references ''contribution_proposals'' ''id'' CASCADE (text_col ''proposal_id''), text_col ''gateway_name'',
      text_col ''agent_name'', check_in [''approve'', ''reject''] (text_col ''vote''), text_default ''reason'' [],
      time_col ''voted_at'']"

definition m005_contributions :: "ddl list" where
  "m005_contributions = [
     Create_table contribution_proposals_table,
     index_on ''contrib_project'' ''contribution_proposals'' [(''project_id'', False), (''status'', False)] None,
     Create_table contribution_votes_table,
     index_on ''votes_proposal'' ''contribution_votes'' [(''proposal_id'', False)] None]"

definition groups_table :: table_def where
  "groups_table = table_with ''groups'' [''id''] [[''name'']]
     [text_col ''id'', text_col ''name'', text_default ''description'' [], text_col ''created_by'', time_col ''created_at'']"

definition group_members_table :: table_def where
  "group_members_table = table_with ''group_members'' [''group_id'', ''gateway_name''] []
     [references ''groups'' ''id'' CASCADE (text_col ''group_id''), text_col ''gateway_name'', time_col ''joined_at'',
      text_default ''invited_by'' []]"

definition invites_table :: table_def where
  "invites_table = table_with ''invites'' [''token''] []
     [text_col ''token'', references ''groups'' ''id'' CASCADE (text_col ''group_id''), text_col ''created_by'',
      time_col ''created_at'', time_col ''expires_at'', col ''used_at'' DOUBLE_PRECISION, col ''used_by'' TEXT]"

definition group_projects_table :: table_def where
  "group_projects_table = table_with ''group_projects'' [''group_id'', ''project_id''] []
     [references ''groups'' ''id'' CASCADE (text_col ''group_id''), references ''projects'' ''id'' CASCADE (text_col ''project_id''),
      time_col ''added_at'']"

definition m006_groups :: "ddl list" where
  "m006_groups = [
     Create_table groups_table,
     Create_table group_members_table,
     index_on ''members_gateway'' ''group_members'' [(''gateway_name'', False)] None,
     Create_table invites_table,
     index_on ''invites_group'' ''invites'' [(''group_id'', False)] None,
     index_on ''invites_expires'' ''invites'' [(''expires_at'', False)] (Some (''used_at'', True)),
     Create_table group_projects_table]"

definition m007_task_status :: "ddl list" where
  "m007_task_status = [
     Add_column ''task_log'' (check_in [''created'', ''queued'', ''in_progress'', ''waiting_for_input'', ''blocked'', ''completed'',
        ''failed'', ''cancelled'', ''timed_out'', ''delegated''] (col ''task_status'' TEXT)),
     index_on ''task_log_status'' ''task_log'' [(''project_id'', False), (''task_status'', False)] (Some (''task_status'', False)),
     Add_column ''task_log'' (col ''valid_from'' DOUBLE_PRECISION),
     Add_column ''task_log'' (col ''valid_to'' DOUBLE_PRECISION),
     index_on ''task_log_validity'' ''task_log'' [(''valid_to'', False)] (Some (''valid_to'', False))]"

definition memory_facts_table :: table_def where
  "memory_facts_table = table_with ''memory_facts'' [''id''] []
     [not_null (col ''id'' BIGSERIAL), references ''agents'' ''name'' CASCADE (text_col ''agent_name''), col ''project_id'' TEXT,
      text_default ''topic'' [], text_col ''content'', time_col ''created_at'', time_col ''valid_from'',
      col ''valid_to'' DOUBLE_PRECISION]"

definition m008_memory_facts :: "ddl list" where
  "m008_memory_facts = [
     Create_table memory_facts_table,
     index_on ''memory_facts_agent'' ''memory_facts'' [(''agent_name'', False), (''created_at'', True)] None,
     index_on ''memory_facts_project'' ''memory_facts'' [(''project_id'', False), (''agent_name'', False)] (Some (''project_id'', False)),
     index_on ''memory_facts_expiry'' ''memory_facts'' [(''valid_to'', False)] (Some (''valid_to'', False))]"

definition peer_cursor_state_table :: table_def where
  "peer_cursor_state_table = table_with ''peer_cursor_state'' [''peer_name'', ''project_id''] []
     [text_col ''peer_name'', text_col ''project_id'', default_to ''0'' (not_null (col ''last_cursor'' BIGINT)),
      time_col ''updated_at'']"

definition m009_peer_cursors :: "ddl list" where
  "m009_peer_cursors = [
     Create_table peer_cursor_state_table]"

definition migrations :: "(string \<times> ddl list) list" where
  "migrations = [(''001_init'', m001_init), (''002_projects'', m002_projects), (''003_file_sync'', m003_file_sync),
     (''004_task_log'', m004_task_log), (''005_contributions'', m005_contributions), (''006_groups'', m006_groups),
     (''007_task_status'', m007_task_status), (''008_memory_facts'', m008_memory_facts), (''009_peer_cursors'', m009_peer_cursors)]"

text \<open>The catalogue they leave.\<close>

definition full_schema :: catalogue where
  "full_schema = (case run_file (concat (map snd migrations)) no_schema of None \<Rightarrow> no_schema | Some s \<Rightarrow> s)"

subsection \<open>Opening\<close>

text \<open>
  The connection: whether the server answers, and where the connection breaks while a file runs, if it does. A break before
  the commit leaves nothing of the file; after it the file has run and the client does not know.
\<close>

datatype break = Before_commit | After_commit

record db_link =
  dl_connects :: "string \<Rightarrow> bool"
  dl_break :: "string \<Rightarrow> break option"

definition execute_file :: "db_link \<Rightarrow> string \<times> ddl list \<Rightarrow> (catalogue, unit) act" where
  "execute_file L f = (\<lambda>s. let e = Inl (Anyhow (''running migration '' @ fst f)) in
     case run_file (snd f) s of None \<Rightarrow> (s, e)
     | Some s' \<Rightarrow> (case dl_break L (fst f) of None \<Rightarrow> (s', Inr ()) | Some Before_commit \<Rightarrow> (s, e) | Some After_commit \<Rightarrow> (s', e)))"

fun run_migrations :: "db_link \<Rightarrow> (string \<times> ddl list) list \<Rightarrow> (catalogue, unit) act" where
  "run_migrations L [] = ret ()"
| "run_migrations L (f # fs) = bindA (execute_file L f) (\<lambda>_. run_migrations L fs)"

record pool =
  pl_url :: string
  pl_max_connections :: nat
  pl_acquire_timeout :: nat

definition pool_of :: "string \<Rightarrow> pool" where
  "pool_of url = \<lparr>pl_url = url, pl_max_connections = 20, pl_acquire_timeout = 30\<rparr>"

definition open_db :: "db_link \<Rightarrow> string \<Rightarrow> (catalogue, pool) act" where
  "open_db L url =
     (if dl_connects L url
      then bindA (run_migrations L migrations) (\<lambda>_. ret (pool_of url))
      else fail (Anyhow (''connecting to postgres: '' @ url)))"

subsection \<open>A statement that has run is a no-op\<close>

fun has_run :: "ddl \<Rightarrow> catalogue \<Rightarrow> bool" where
  "has_run (Create_table tb) s \<longleftrightarrow> relation_exists s (tb_name tb)"
| "has_run (Create_index ix) s \<longleftrightarrow> relation_exists s (ix_name ix)"
| "has_run (Add_column t c) s \<longleftrightarrow> (case table_of s t of None \<Rightarrow> False | Some tb \<Rightarrow> cl_name c \<in> set (column_names tb))"

named_theorems catalogue_simps \<open>how statements change the catalogue\<close>

lemma table_of_add [catalogue_simps]:
  "table_of (add_table tb s) n = (case table_of s n of None \<Rightarrow> if tb_name tb = n then Some tb else None | Some x \<Rightarrow> Some x)"
  "table_of (add_index ix s) n = table_of s n"
  "table_of (add_col t c s) n = map_option (\<lambda>tb. if tb_name tb = t then tb\<lparr>tb_columns := tb_columns tb @ [c]\<rparr> else tb) (table_of s n)"
  by (simp_all add: table_of_def add_table_def add_index_def add_col_def find_by_append find_by_single find_by_update_where
      split: option.split)

lemma exists_add [catalogue_simps]:
  "relation_exists (add_table tb s) n \<longleftrightarrow> tb_name tb = n \<or> relation_exists s n"
  "relation_exists (add_index ix s) n \<longleftrightarrow> ix_name ix = n \<or> relation_exists s n"
  "relation_exists (add_col t c s) n \<longleftrightarrow> relation_exists s n"
  by (auto simp: relation_exists_def add_table_def add_index_def add_col_def table_simps update_where_keys simp flip: set_map)

lemma table_of_name: "table_of s n = Some tb \<Longrightarrow> tb_name tb = n"
  by (auto simp: table_of_def dest: find_by_Some)

lemma table_exists: "table_of s n \<noteq> None \<Longrightarrow> relation_exists s n"
  by (simp add: table_of_def relation_exists_def table_simps)

text \<open>What a statement can do.\<close>

inductive ddl_step :: "catalogue \<Rightarrow> catalogue \<Rightarrow> bool" where
  skip: "ddl_step s s"
| table: "\<not> relation_exists s (tb_name tb) \<Longrightarrow> table_ok tb \<Longrightarrow> list_all (ref_ok (add_table tb s)) (tb_columns tb) \<Longrightarrow>
    ddl_step s (add_table tb s)"
| index: "\<not> relation_exists s (ix_name ix) \<Longrightarrow> index_ok s ix \<Longrightarrow> ddl_step s (add_index ix s)"
| column: "table_of s t = Some tb \<Longrightarrow> cl_name c \<notin> set (column_names tb) \<Longrightarrow> ref_ok s c \<Longrightarrow> ddl_step s (add_col t c s)"

lemma run_ddl_step: "run_ddl x s = Some s' \<Longrightarrow> ddl_step s s'"
  by (cases x) (auto split: if_splits option.splits intro: ddl_step.intros)

lemma runs_once: "run_ddl x s = Some s' \<Longrightarrow> has_run x s'"
  by (cases x) (auto simp: catalogue_simps split: if_splits option.splits dest: table_of_name)

lemma no_op: "has_run x s \<Longrightarrow> run_ddl x s = Some s"
  by (cases x) (auto split: option.splits)

lemma stays_run: "ddl_step s s' \<Longrightarrow> has_run x s \<Longrightarrow> has_run x s'"
  by (cases x; erule ddl_step.cases) (auto simp: catalogue_simps split: option.splits)

lemma file_steps: "run_file xs s = Some s' \<Longrightarrow> ddl_step\<^sup>*\<^sup>* s s'"
  by (induction xs arbitrary: s)
    (auto simp: bind_eq_Some_conv intro: converse_rtranclp_into_rtranclp run_ddl_step)

lemma steps_stay_run: "ddl_step\<^sup>*\<^sup>* s s' \<Longrightarrow> has_run x s \<Longrightarrow> has_run x s'"
  by (induction rule: rtranclp_induct) (auto intro: stays_run)

lemma file_runs: "run_file xs s = Some s' \<Longrightarrow> list_all (\<lambda>x. has_run x s') xs"
proof (induction xs arbitrary: s)
  case (Cons x xs)
  then obtain s1 where "run_ddl x s = Some s1" "run_file xs s1 = Some s'" by (auto simp: bind_eq_Some_conv)
  with Cons.IH show ?case by (simp add: steps_stay_run [OF file_steps] runs_once)
qed simp

lemma file_no_op: "list_all (\<lambda>x. has_run x s) xs \<Longrightarrow> run_file xs s = Some s"
  by (induction xs) (simp_all add: no_op)

lemma run_file_append: "run_file (xs @ ys) s = Option.bind (run_file xs s) (run_file ys)"
proof (induction xs arbitrary: s)
  case (Cons x xs)
  then show ?case by (cases "run_ddl x s") simp_all
qed simp

text \<open>A file that ran is skipped at any later time.\<close>

lemma rerun_file: "run_file xs s = Some s1 \<Longrightarrow> ddl_step\<^sup>*\<^sup>* s1 s2 \<Longrightarrow> run_file xs s2 = Some s2"
  using file_runs [of xs s s1] steps_stay_run by (intro file_no_op) (auto simp: list_all_iff)

subsection \<open>Starting again\<close>

text \<open>How far the files of a list have got: those before a cut have run, those after it have not.\<close>

definition partly_run :: "(string \<times> ddl list) list \<Rightarrow> catalogue \<Rightarrow> (string \<times> ddl list) list \<Rightarrow> catalogue \<Rightarrow> bool" where
  "partly_run fs s0 before s \<longleftrightarrow> prefix before fs \<and> run_file (concat (map snd before)) s0 = Some s"

lemma run_files_split:
  assumes "run_file (concat (map snd (xs @ ys))) s0 = Some s2"
  obtains s1 where "run_file (concat (map snd xs)) s0 = Some s1" "run_file (concat (map snd ys)) s1 = Some s2"
  using assms by (auto simp: run_file_append bind_eq_Some_conv)

lemma execute_skip:
  "run_file (snd f) s = Some s \<Longrightarrow>
     fst (execute_file L f s) = s \<and> (dl_break L (fst f) = None \<longrightarrow> snd (execute_file L f s) = Inr ())"
  by (simp add: execute_file_def Let_def split: option.split break.split)

lemma execute_partly:
  assumes full: "run_file (concat (map snd fs)) s0 = Some t" and fs: "fs = before @ f # after"
    and s: "partly_run fs s0 (before @ ahead) s"
  obtains ahead' s' r where "execute_file L f s = (s', r)" "partly_run fs s0 (before @ ahead') s'"
    "r = Inr () \<Longrightarrow> prefix [f] ahead'" "dl_break L (fst f) = None \<Longrightarrow> r = Inr ()"
proof (cases ahead)
  case Nil
  obtain s1 where s1: "run_file (concat (map snd (before @ [f]))) s0 = Some s1"
    using full fs run_files_split [of "before @ [f]" after s0 t] by (metis append.assoc append_Cons append_Nil)
  with s Nil have f: "run_file (snd f) s = Some s1"
    by (auto simp: partly_run_def run_file_append)
  have p1: "partly_run fs s0 (before @ [f]) s1" using s1 fs by (simp add: partly_run_def)
  show ?thesis
  proof (cases "dl_break L (fst f)")
    case None
    then show ?thesis using that [of s1 "Inr ()" "[f]"] p1 f by (simp add: execute_file_def)
  next
    case (Some b)
    then show ?thesis
      using that [of s "Inl (Anyhow (''running migration '' @ fst f))" ahead] that [of s1 "Inl (Anyhow (''running migration '' @ fst f))" "[f]"] p1 f s
      by (cases b) (simp_all add: execute_file_def)
  qed
next
  case (Cons g ahead')
  with s fs have g: "g = f" by (simp add: partly_run_def)
  from s Cons g obtain s1 s2 where "run_file (concat (map snd before)) s0 = Some s1" "run_file (snd f) s1 = Some s2"
    "run_file (concat (map snd ahead')) s2 = Some s"
    by (auto simp: partly_run_def run_file_append bind_eq_Some_conv)
  then have "run_file (snd f) s = Some s" using rerun_file file_steps by blast
  then show ?thesis
    using that [of s "snd (execute_file L f s)" ahead] execute_skip [of f s L] s Cons g
    by (metis append_Cons append_Nil prefixI prod.collapse)
qed

lemma migrations_partly:
  assumes full: "run_file (concat (map snd fs)) s0 = Some t" and "fs = before @ todo" "partly_run fs s0 (before @ ahead) s"
    "run_migrations L todo s = (s', r)"
  shows "(\<exists>done. partly_run fs s0 done s') \<and> (r = Inr () \<longrightarrow> s' = t) \<and> ((\<forall>f. dl_break L f = None) \<longrightarrow> r = Inr ())"
  using assms(2-4)
proof (induction todo arbitrary: before ahead s)
  case Nil
  then have "partly_run fs s0 fs s" "s' = s" "r = Inr ()"
    using prefix_order.antisym [of fs "fs @ ahead"] by (auto simp: partly_run_def act_simps)
  with full show ?case by (auto simp: partly_run_def)
next
  case (Cons f todo)
  obtain ahead' s1 r1 where e: "execute_file L f s = (s1, r1)" "partly_run fs s0 (before @ ahead') s1"
    "r1 = Inr () \<Longrightarrow> prefix [f] ahead'" "dl_break L (fst f) = None \<Longrightarrow> r1 = Inr ()"
    using execute_partly [OF full Cons.prems(1,2)] by metis
  show ?case
  proof (cases r1)
    case (Inl x)
    with e Cons.prems(3) show ?thesis by (auto simp: act_simps)
  next
    case (Inr u)
    with e obtain m where m: "partly_run fs s0 ((before @ [f]) @ m) s1" by (auto simp: prefix_def)
    have "run_migrations L todo s1 = (s', r)" using Cons.prems(3) e(1) Inr by (simp add: act_simps)
    with Cons.IH [of "before @ [f]" m s1] m Cons.prems(1) show ?thesis by simp
  qed
qed

lemma migrations_run: "run_file (concat (map snd migrations)) no_schema = Some full_schema"
proof -
  have "run_file (concat (map snd migrations)) no_schema \<noteq> None" by code_simp
  then show ?thesis by (auto simp: full_schema_def)
qed

abbreviation healthy :: "db_link \<Rightarrow> string \<Rightarrow> bool" where
  "healthy L url \<equiv> dl_connects L url \<and> (\<forall>f. dl_break L f = None)"

lemma open_partly:
  assumes "partly_run migrations no_schema done s" "open_db L url s = (s', r)"
  shows "(\<exists>done. partly_run migrations no_schema done s') \<and> (r = Inr p \<longrightarrow> s' = full_schema \<and> p = pool_of url) \<and>
    (healthy L url \<longrightarrow> r = Inr (pool_of url))"
proof (cases "dl_connects L url")
  case True
  obtain s1 r1 where m: "run_migrations L migrations s = (s1, r1)" by fastforce
  have "s' = s1" "r = (case r1 of Inl e \<Rightarrow> Inl e | Inr _ \<Rightarrow> Inr (pool_of url))"
    using assms(2) True m by (auto simp: open_db_def act_simps split: sum.splits)
  with migrations_partly [OF migrations_run _ _ m, of "[]" "done"] assms(1) show ?thesis
    by (auto split: sum.splits)
qed (use assms in \<open>auto simp: open_db_def act_simps\<close>)

definition start_db :: "db_link \<times> string \<Rightarrow> catalogue \<Rightarrow> catalogue" where
  "start_db x = exec (open_db (fst x) (snd x))"

interpretation starts: invariant_system start_db "\<lambda>s. \<exists>done. partly_run migrations no_schema done s"
proof
  fix s x
  assume "\<exists>done. partly_run migrations no_schema done s"
  then obtain d where d: "partly_run migrations no_schema d s" by blast
  obtain s' r where "open_db (fst x) (snd x) s = (s', r)" by fastforce
  with open_partly [OF d this] show "\<exists>done. partly_run migrations no_schema done (start_db x s)"
    by (auto simp: start_db_def exec_def)
qed

text \<open>A run that succeeds adds what was not there.\<close>

fun declare_new :: "ddl \<Rightarrow> catalogue \<Rightarrow> catalogue" where
  "declare_new (Create_table tb) s = (if relation_exists s (tb_name tb) then s else add_table tb s)"
| "declare_new (Create_index ix) s = (if relation_exists s (ix_name ix) then s else add_index ix s)"
| "declare_new (Add_column t c) s = (if has_run (Add_column t c) s then s else add_col t c s)"

lemma run_ddl_declares: "run_ddl x s = Some s' \<Longrightarrow> s' = declare_new x s"
  by (cases x) (auto split: if_splits option.splits)

lemma run_file_declares: "run_file xs s = Some s' \<Longrightarrow> s' = fold declare_new xs s"
  by (induction xs arbitrary: s) (auto simp: bind_eq_Some_conv dest: run_ddl_declares)

lemma table_names:
  "tb_name agents_table = ''agents''"
  "tb_name memories_table = ''memories''"
  "tb_name todos_table = ''todos''"
  "tb_name requests_table = ''requests''"
  "tb_name project_todos_table = ''project_todos''"
  "tb_name projects_table = ''projects''"
  "tb_name agent_projects_table = ''agent_projects''"
  "tb_name objects_table = ''objects''"
  "tb_name snapshots_table = ''snapshots''"
  "tb_name project_heads_table = ''project_heads''"
  "tb_name task_log_table = ''task_log''"
  "tb_name contribution_proposals_table = ''contribution_proposals''"
  "tb_name contribution_votes_table = ''contribution_votes''"
  "tb_name groups_table = ''groups''"
  "tb_name group_members_table = ''group_members''"
  "tb_name invites_table = ''invites''"
  "tb_name group_projects_table = ''group_projects''"
  "tb_name memory_facts_table = ''memory_facts''"
  "tb_name peer_cursor_state_table = ''peer_cursor_state''"
  by (simp_all add: table_with_def agents_table_def memories_table_def todos_table_def requests_table_def project_todos_table_def projects_table_def agent_projects_table_def objects_table_def snapshots_table_def project_heads_table_def task_log_table_def contribution_proposals_table_def contribution_votes_table_def groups_table_def group_members_table_def invites_table_def group_projects_table_def memory_facts_table_def peer_cursor_state_table_def)

lemmas migration_defs = migrations_def m001_init_def m002_projects_def m003_file_sync_def m004_task_log_def m005_contributions_def
  m006_groups_def m007_task_status_def m008_memory_facts_def m009_peer_cursors_def

lemma full_tables:
  "sc_tables full_schema = [agents_table, memories_table, todos_table, requests_table, project_todos_table, projects_table,
     agent_projects_table, objects_table, snapshots_table, project_heads_table,
     task_log_table\<lparr>tb_columns := tb_columns task_log_table @
       [check_in [''created'', ''queued'', ''in_progress'', ''waiting_for_input'', ''blocked'', ''completed'', ''failed'', ''cancelled'',
          ''timed_out'', ''delegated''] (col ''task_status'' TEXT), col ''valid_from'' DOUBLE_PRECISION, col ''valid_to'' DOUBLE_PRECISION]\<rparr>,
     contribution_proposals_table, contribution_votes_table, groups_table, group_members_table, invites_table,
     group_projects_table, memory_facts_table, peer_cursor_state_table]"
proof -
  have run: "full_schema = fold declare_new (concat (map snd migrations)) no_schema"
    by (rule run_file_declares [OF migrations_run])
  show ?thesis
    unfolding run
    by (simp add: migration_defs no_schema_def index_on_def relation_exists_def has_key_def table_of_def find_by_def
        add_table_def add_index_def add_col_def update_where_def table_names
        task_log_table_def table_with_def col_def not_null_def default_to_def check_in_def references_def)
qed

subsection \<open>The catalogue grows and stays well formed\<close>

definition catalogue_ok :: "catalogue \<Rightarrow> bool" where
  "catalogue_ok s \<longleftrightarrow> distinct (map tb_name (sc_tables s) @ map ix_name (sc_indexes s)) \<and>
     (\<forall>tb \<in> set (sc_tables s). table_ok tb \<and> (\<forall>c \<in> set (tb_columns tb). ref_ok s c)) \<and>
     (\<forall>ix \<in> set (sc_indexes s). index_ok s ix)"

text \<open>Every table stays, with its keys and with its columns in front.\<close>

definition catalogue_grows :: "catalogue \<Rightarrow> catalogue \<Rightarrow> bool" where
  "catalogue_grows s s' \<longleftrightarrow> (\<forall>n tb. table_of s n = Some tb \<longrightarrow> (\<exists>tb'. table_of s' n = Some tb' \<and>
     prefix (tb_columns tb) (tb_columns tb') \<and> tb_primary tb' = tb_primary tb \<and> tb_unique tb' = tb_unique tb))"

interpretation catalogue_history: history_order catalogue_grows
proof
  show "catalogue_grows s s" for s by (simp add: catalogue_grows_def)
  show "catalogue_grows s t \<Longrightarrow> catalogue_grows t u \<Longrightarrow> catalogue_grows s u" for s t u
    unfolding catalogue_grows_def using prefix_order.trans by fastforce
qed

lemma step_grows: "ddl_step s s' \<Longrightarrow> catalogue_grows s s'"
  by (erule ddl_step.cases) (auto simp: catalogue_grows_def catalogue_simps)

lemma ref_grows: "catalogue_grows s s' \<Longrightarrow> ref_ok s c \<Longrightarrow> ref_ok s' c"
  by (auto simp: ref_ok_def catalogue_grows_def is_key_def prefix_def split: option.splits) (fastforce dest: spec)+

lemma index_grows: "catalogue_grows s s' \<Longrightarrow> index_ok s ix \<Longrightarrow> index_ok s' ix"
  by (auto simp: index_ok_def catalogue_grows_def prefix_def split: option.splits) (fastforce dest: spec)+

lemma name_free: "relation_exists s n \<longleftrightarrow> n \<in> set (map tb_name (sc_tables s) @ map ix_name (sc_indexes s))"
  by (auto simp: relation_exists_def table_simps)

lemma step_ok: "ddl_step s s' \<Longrightarrow> catalogue_ok s \<Longrightarrow> catalogue_ok s'"
proof (frule step_grows, erule ddl_step.cases, goal_cases)
  case (2 s1 tb)
  then have "ref_ok s' c" if "tb' \<in> set (sc_tables s)" "c \<in> set (tb_columns tb')" for tb' c
    using that ref_grows by (auto simp: catalogue_ok_def)
  moreover have "index_ok s' ix" if "ix \<in> set (sc_indexes s)" for ix
    using 2 that index_grows by (auto simp: catalogue_ok_def)
  ultimately show ?case
    using 2 by (auto simp: catalogue_ok_def add_table_def name_free list_all_iff)
next
  case (3 s1 ix)
  then have "ref_ok s' c" if "tb' \<in> set (sc_tables s)" "c \<in> set (tb_columns tb')" for tb' c
    using that ref_grows by (auto simp: catalogue_ok_def)
  moreover have "index_ok s' ix'" if "ix' \<in> set (ix # sc_indexes s)" for ix'
    using 3 that index_grows by (auto simp: catalogue_ok_def)
  ultimately show ?case
    using 3 by (auto simp: catalogue_ok_def add_index_def name_free)
next
  case (4 s1 t tb c)
  let ?f = "\<lambda>tb. tb\<lparr>tb_columns := tb_columns tb @ [c]\<rparr>"
  have tables: "sc_tables s' = update_where (\<lambda>tb. tb_name tb = t) ?f (sc_tables s)" and ix: "sc_indexes s' = sc_indexes s"
    using 4 by (simp_all add: add_col_def)
  have names: "map tb_name (sc_tables s') = map tb_name (sc_tables s)"
    unfolding tables by (rule update_where_keys) simp
  have "keyed tb_name (sc_tables s)" using 4 by (simp add: catalogue_ok_def keyed_def)
  then have the_table: "tb' = tb" if "tb' \<in> set (sc_tables s)" "tb_name tb' = t" for tb'
    using 4 that find_by_keyed [of tb_name "sc_tables s" t tb] find_by_keyed [of tb_name "sc_tables s" t tb']
    by (auto simp: table_of_def)
  have "table_ok tb' \<and> (\<forall>x \<in> set (tb_columns tb'). ref_ok s' x)" if tb': "tb' \<in> set (sc_tables s')" for tb'
  proof -
    obtain old where old: "old \<in> set (sc_tables s)" "tb' = (if tb_name old = t then ?f old else old)"
      using tb' unfolding tables set_update_where by blast
    then have "table_ok old" "\<forall>x \<in> set (tb_columns old). ref_ok s' x" "ref_ok s' c"
      using 4 ref_grows by (auto simp: catalogue_ok_def)
    then show ?thesis using old the_table 4 by (auto simp: table_ok_def)
  qed
  then show ?case
    using 4 names ix index_grows by (auto simp: catalogue_ok_def)
qed simp

lemma steps_grow: "ddl_step\<^sup>*\<^sup>* s s' \<Longrightarrow> catalogue_grows s s'"
  by (induction rule: rtranclp_induct) (auto intro: catalogue_history.ext_refl catalogue_history.ext_trans step_grows)

lemma steps_ok: "ddl_step\<^sup>*\<^sup>* s s' \<Longrightarrow> catalogue_ok s \<Longrightarrow> catalogue_ok s'"
  by (induction rule: rtranclp_induct) (auto intro: step_ok)

lemma execute_steps: "ddl_step\<^sup>*\<^sup>* s (exec (execute_file L f) s)"
  by (auto simp: execute_file_def exec_def Let_def split: option.split break.split intro: file_steps)

interpretation ddl_history: history_order "ddl_step\<^sup>*\<^sup>*"
  by standard auto

lemma run_migrations_steps: "moves ddl_step\<^sup>*\<^sup>* (run_migrations L fs)"
proof (induction fs)
  case (Cons f fs)
  have "moves ddl_step\<^sup>*\<^sup>* (execute_file L f)" by (simp add: moves_def execute_steps)
  with Cons show ?case by (auto intro: ddl_history.moves_intros)
qed (simp add: ddl_history.moves_intros)

lemma start_steps: "ddl_step\<^sup>*\<^sup>* s (start_db x s)"
  unfolding start_db_def open_db_def
  by (rule movesD) (auto intro!: ddl_history.moves_intros run_migrations_steps)

interpretation start_history: history_system start_db catalogue_grows
  by standard (rule steps_grow [OF start_steps])

interpretation start_shape: invariant_system start_db catalogue_ok
  by standard (rule steps_ok [OF start_steps])

lemma full_ok: "catalogue_ok full_schema"
  by (rule steps_ok [OF file_steps [OF migrations_run]]) (simp add: catalogue_ok_def no_schema_def)

subsection \<open>Rows that sqlx decodes\<close>

text \<open>The types of the fields of the \<open>FromRow\<close> structs.\<close>

datatype rust_type = R_String | R_i64 | R_f64 | R_Option rust_type

type_synonym fields = "(string \<times> rust_type) list"

definition DbAgent_fields :: fields where
  "DbAgent_fields = [(''name'', R_String), (''version'', R_String), (''endpoint'', R_String), (''capabilities'', R_String),
     (''soul_toml'', R_String), (''last_seen'', R_Option R_String), (''registered_at'', R_String)]"

definition DbTodo_fields :: fields where
  "DbTodo_fields = [(''id'', R_i64), (''task'', R_String), (''status'', R_String), (''notes'', R_String),
     (''created_at'', R_String), (''completed_at'', R_Option R_String)]"

definition ProjectRow_fields :: fields where
  "ProjectRow_fields = [(''id'', R_String), (''name'', R_String), (''repo_url'', R_String), (''description'', R_String),
     (''visibility'', R_String), (''folder_path'', R_String), (''file_glob'', R_String), (''is_active'', R_i64),
     (''created_at'', R_f64), (''updated_at'', R_f64), (''onboarding_step'', R_Option R_String), (''origin_gateway'', R_String),
     (''peer_gateway'', R_String), (''peer_project_id'', R_String)]"

definition SnapRow_fields :: fields where
  "SnapRow_fields = [(''id'', R_String), (''project_id'', R_String), (''gateway'', R_String), (''transcript'', R_String),
     (''created_at'', R_f64)]"

definition LogRow_fields :: fields where
  "LogRow_fields = [(''id'', R_String), (''project_id'', R_String), (''gateway_name'', R_String), (''agent_name'', R_String),
     (''entry_type'', R_String), (''content'', R_String), (''cursor'', R_i64), (''created_at'', R_f64),
     (''todo_id'', R_Option R_i64), (''signature'', R_Option R_String), (''task_status'', R_Option R_String),
     (''valid_from'', R_Option R_f64), (''valid_to'', R_Option R_f64)]"

definition PropRow_fields :: fields where
  "PropRow_fields = [(''id'', R_String), (''project_id'', R_String), (''proposer_gateway'', R_String),
     (''proposer_agent'', R_String), (''snapshot_id'', R_String), (''description'', R_String), (''status'', R_String),
     (''gateway_count'', R_i64), (''created_at'', R_f64), (''resolved_at'', R_Option R_f64), (''resolved_by'', R_Option R_String)]"

definition GroupRow_fields :: fields where
  "GroupRow_fields = [(''id'', R_String), (''name'', R_String), (''description'', R_String), (''created_by'', R_String),
     (''created_at'', R_f64)]"

definition MemberRow_fields :: fields where
  "MemberRow_fields = [(''group_id'', R_String), (''gateway_name'', R_String), (''joined_at'', R_f64), (''invited_by'', R_String)]"

definition InviteRow_fields :: fields where
  "InviteRow_fields = [(''token'', R_String), (''group_id'', R_String), (''created_by'', R_String), (''created_at'', R_f64),
     (''expires_at'', R_f64), (''used_at'', R_Option R_f64), (''used_by'', R_Option R_String)]"

definition MemoryFactRow_fields :: fields where
  "MemoryFactRow_fields = [(''id'', R_i64), (''agent_name'', R_String), (''project_id'', R_Option R_String),
     (''topic'', R_String), (''content'', R_String), (''created_at'', R_f64), (''valid_from'', R_f64),
     (''valid_to'', R_Option R_f64)]"

definition row_structs :: "(string \<times> fields) list" where
  "row_structs = [(''agents'', DbAgent_fields), (''todos'', DbTodo_fields), (''projects'', ProjectRow_fields),
     (''snapshots'', SnapRow_fields), (''task_log'', LogRow_fields), (''contribution_proposals'', PropRow_fields),
     (''groups'', GroupRow_fields), (''group_members'', MemberRow_fields), (''invites'', InviteRow_fields),
     (''memory_facts'', MemoryFactRow_fields)]"

text \<open>
  A field decodes when the table has the column, sqlx accepts its type for the field's, and a column that may be null is an
  \<open>Option\<close>. Which types sqlx accepts is a parameter; its documentation has a table of the types of PostgreSQL.
\<close>

definition field_decodes :: "(rust_type \<Rightarrow> col_type \<Rightarrow> bool) \<Rightarrow> table_def \<Rightarrow> string \<times> rust_type \<Rightarrow> bool" where
  "field_decodes accepts tb f \<longleftrightarrow> list_ex (\<lambda>c. cl_name c = fst f \<and> accepts (snd f) (cl_type c) \<and>
     (cl_not_null c \<or> (case snd f of R_Option _ \<Rightarrow> True | _ \<Rightarrow> False))) (tb_columns tb)"

definition undecodable :: "(rust_type \<Rightarrow> col_type \<Rightarrow> bool) \<Rightarrow> catalogue \<Rightarrow> (string \<times> string) list" where
  "undecodable accepts s = concat (map (\<lambda>(t, fs). case table_of s t of None \<Rightarrow> map (\<lambda>f. (t, fst f)) fs
     | Some tb \<Rightarrow> map (\<lambda>f. (t, fst f)) (filter (\<lambda>f. \<not> field_decodes accepts tb f) fs)) row_structs)"

definition sqlx_documented :: "(rust_type \<Rightarrow> col_type \<Rightarrow> bool) \<Rightarrow> bool" where
  "sqlx_documented accepts \<longleftrightarrow> (\<forall>t. accepts R_String t = (t = TEXT)) \<and> (\<forall>t. accepts R_i64 t = (t = BIGINT \<or> t = BIGSERIAL)) \<and>
     (\<forall>t. accepts R_f64 t = (t = DOUBLE_PRECISION)) \<and> (\<forall>r t. accepts (R_Option r) t = accepts r t)"

lemmas table_def_simps = table_with_def col_def not_null_def default_to_def check_in_def references_def

lemma table_of_full:
  "table_of full_schema ''agents'' = Some agents_table" "table_of full_schema ''todos'' = Some todos_table"
  "table_of full_schema ''projects'' = Some projects_table" "table_of full_schema ''snapshots'' = Some snapshots_table"
  "table_of full_schema ''contribution_proposals'' = Some contribution_proposals_table"
  "table_of full_schema ''groups'' = Some groups_table" "table_of full_schema ''group_members'' = Some group_members_table"
  "table_of full_schema ''invites'' = Some invites_table" "table_of full_schema ''memory_facts'' = Some memory_facts_table"
  "table_of full_schema ''task_log'' = Some (task_log_table\<lparr>tb_columns := tb_columns task_log_table @
       [check_in [''created'', ''queued'', ''in_progress'', ''waiting_for_input'', ''blocked'', ''completed'', ''failed'', ''cancelled'',
          ''timed_out'', ''delegated''] (col ''task_status'' TEXT), col ''valid_from'' DOUBLE_PRECISION, col ''valid_to'' DOUBLE_PRECISION]\<rparr>)"
  unfolding table_of_def full_tables by (simp_all add: find_by_def table_names)

subsection \<open>Properties\<close>

text \<open>
  C4. Starts may be repeated: after any attempts to open an empty database, each of them cut short before or after the
  commit of any migration file, the next one either fails because of the connection or leaves exactly the schema of one
  uninterrupted run.
\<close>

theorem interrupted_starts:
  "case open_db L url (runA start_db no_schema attempts) of
     (s, Inl e) \<Rightarrow> \<not> healthy L url
   | (s, Inr p) \<Rightarrow> s = full_schema \<and> p = pool_of url"
proof -
  have "\<exists>done. partly_run migrations no_schema done no_schema"
    by (rule exI [of _ "[]"]) (simp add: partly_run_def)
  then have "\<exists>done. partly_run migrations no_schema done (runA start_db no_schema attempts)"
    by (rule starts.run_inv)
  then obtain d where d: "partly_run migrations no_schema d (runA start_db no_schema attempts)" by blast
  obtain s r where o: "open_db L url (runA start_db no_schema attempts) = (s, r)" by fastforce
  show ?thesis
  proof (cases r)
    case (Inl e)
    with open_partly [OF d o] o show ?thesis by auto
  next
    case (Inr p)
    with open_partly [OF d o, of p] o show ?thesis by auto
  qed
qed

text \<open>
  C39. With the types sqlx documents, the row structs decode the tables of the migrations except for three fields: the
  \<open>INTEGER\<close> columns \<open>is_active\<close>, \<open>cursor\<close> and \<open>gateway_count\<close>, which the structs declare \<open>i64\<close>. No row of projects, the task
  log or proposals can be read.
\<close>

theorem undecodable_columns:
  assumes "sqlx_documented accepts"
  shows "undecodable accepts full_schema =
    [(''projects'', ''is_active''), (''task_log'', ''cursor''), (''contribution_proposals'', ''gateway_count'')]"
  using assms
  by (simp add: undecodable_def row_structs_def table_of_full sqlx_documented_def field_decodes_def table_def_simps
      DbAgent_fields_def DbTodo_fields_def ProjectRow_fields_def SnapRow_fields_def LogRow_fields_def PropRow_fields_def
      GroupRow_fields_def MemberRow_fields_def InviteRow_fields_def MemoryFactRow_fields_def
      agents_table_def todos_table_def projects_table_def snapshots_table_def task_log_table_def
      contribution_proposals_table_def groups_table_def group_members_table_def invites_table_def memory_facts_table_def)

fun sqlx_accepts :: "rust_type \<Rightarrow> col_type \<Rightarrow> bool" where
  "sqlx_accepts R_String t \<longleftrightarrow> t = TEXT"
| "sqlx_accepts R_i64 t \<longleftrightarrow> t = BIGINT \<or> t = BIGSERIAL"
| "sqlx_accepts R_f64 t \<longleftrightarrow> t = DOUBLE_PRECISION"
| "sqlx_accepts (R_Option r) t \<longleftrightarrow> sqlx_accepts r t"

lemma undecodable_columns_witness:
  "undecodable sqlx_accepts full_schema =
    [(''projects'', ''is_active''), (''task_log'', ''cursor''), (''contribution_proposals'', ''gateway_count'')]"
  by (rule undecodable_columns) (simp add: sqlx_documented_def)

end
