(* ===== verification/Schema_Rows.thy ===== *)
theory Schema_Rows
  imports Gateway Migrations
begin

text \<open>
  The tables of \<open>Gateway_Db\<close> as rows of named SQL values, and what the constraints of a catalogue say about them:
  columns and their types, \<open>NOT NULL\<close>, \<open>CHECK\<close>, primary and unique keys, foreign keys. Nothing writes to \<open>requests\<close>.

  Lemmas: a database whose tables are well typed (\<open>db_typed\<close>) satisfies every constraint the migrations declare, so the
  constraints hold in every state of a gateway; what an append to the log answers with the column types of the migrations.
\<close>

subsection \<open>Constraints\<close>

datatype sql_value = V_null | V_text string | V_int int | V_real rat

type_synonym sql_row = "(string \<times> sql_value) list"

definition value_ok :: "col_def \<Rightarrow> sql_value \<Rightarrow> bool" where
  "value_ok c v \<longleftrightarrow> (case v of
     V_null \<Rightarrow> \<not> cl_not_null c
   | V_text s \<Rightarrow> cl_type c = TEXT \<and> (case cl_check c of None \<Rightarrow> True | Some vs \<Rightarrow> s \<in> set vs)
   | V_int i \<Rightarrow> cl_type c \<in> {BIGSERIAL, BIGINT, INTEGER}
   | V_real q \<Rightarrow> cl_type c = DOUBLE_PRECISION)"

definition row_ok :: "col_def list \<Rightarrow> sql_row \<Rightarrow> bool" where
  "row_ok cs row \<longleftrightarrow> list_all2 (\<lambda>c f. fst f = cl_name c \<and> value_ok c (snd f)) cs row"

definition key_of :: "string list \<Rightarrow> sql_row \<Rightarrow> sql_value option list" where
  "key_of cs row = map (map_of row) cs"

definition refs_ok :: "(string \<Rightarrow> sql_row list) \<Rightarrow> col_def \<Rightarrow> sql_row \<Rightarrow> bool" where
  "refs_ok T c row \<longleftrightarrow> (case cl_ref c of None \<Rightarrow> True
     | Some (t, k, _) \<Rightarrow> map_of row (cl_name c) = Some V_null \<or> map_of row (cl_name c) \<in> (\<lambda>r. map_of r k) ` set (T t))"

definition table_conforms :: "(string \<Rightarrow> sql_row list) \<Rightarrow> table_def \<Rightarrow> bool" where
  "table_conforms T tb \<longleftrightarrow> (let rows = T (tb_name tb) in
     list_all (row_ok (tb_columns tb)) rows \<and>
     list_all (\<lambda>k. distinct (map (key_of k) rows)) (tb_primary tb # tb_unique tb) \<and>
     list_all (\<lambda>row. list_all (\<lambda>c. refs_ok T c row) (tb_columns tb)) rows)"

definition conforms :: "catalogue \<Rightarrow> (string \<Rightarrow> sql_row list) \<Rightarrow> bool" where
  "conforms s T \<longleftrightarrow> list_all (table_conforms T) (sc_tables s)"

subsection \<open>The rows of the model\<close>

definition text_or_null :: "string option \<Rightarrow> sql_value" where
  "text_or_null v = (case v of None \<Rightarrow> V_null | Some s \<Rightarrow> V_text s)"

definition int_or_null :: "int option \<Rightarrow> sql_value" where
  "int_or_null v = (case v of None \<Rightarrow> V_null | Some i \<Rightarrow> V_int i)"

definition time_or_null :: "time option \<Rightarrow> sql_value" where
  "time_or_null v = (case v of None \<Rightarrow> V_null | Some t \<Rightarrow> V_real t)"

definition agent_sql :: "agent_row \<Rightarrow> sql_row" where
  "agent_sql r = [(''name'', V_text (ar_name r)), (''version'', V_text (ar_version r)), (''endpoint'', V_text (ar_endpoint r)),
     (''capabilities'', V_text (ar_capabilities r)), (''soul_toml'', V_text (ar_soul_toml r)),
     (''last_seen'', text_or_null (ar_last_seen r)), (''registered_at'', V_text (ar_registered_at r))]"

definition memory_sql :: "string \<times> string \<Rightarrow> sql_row" where
  "memory_sql r = [(''agent_name'', V_text (fst r)), (''content_md'', V_text (snd r))]"

definition todo_sql :: "todo_row \<Rightarrow> sql_row" where
  "todo_sql r = [(''id'', V_int (td_id r)), (''agent_name'', V_text (td_agent_name r)), (''task'', V_text (td_task r)),
     (''status'', V_text (td_status r)), (''notes'', V_text (td_notes r)), (''created_at'', V_text (td_created_at r)),
     (''completed_at'', text_or_null (td_completed_at r))]"

definition project_todo_sql :: "project_todo_row \<Rightarrow> sql_row" where
  "project_todo_sql r = [(''id'', V_int (pt_id r)), (''task'', V_text (pt_task r)), (''assigned_to'', text_or_null (pt_assigned_to r)),
     (''status'', V_text (pt_status r)), (''notes'', V_text (pt_notes r)), (''source_todos'', V_text (pt_source_todos r)),
     (''created_at'', V_text (pt_created_at r)), (''updated_at'', V_text (pt_updated_at r))]"

definition project_sql :: "project_row \<Rightarrow> sql_row" where
  "project_sql r = [(''id'', V_text (pr_id r)), (''name'', V_text (pr_name r)), (''repo_url'', V_text (pr_repo_url r)),
     (''description'', V_text (pr_description r)), (''visibility'', V_text (pr_visibility r)), (''folder_path'', V_text (pr_folder_path r)),
     (''file_glob'', V_text (pr_file_glob r)), (''is_active'', V_int (pr_is_active r)), (''created_at'', V_real (pr_created_at r)),
     (''updated_at'', V_real (pr_updated_at r)), (''onboarding_step'', text_or_null (pr_onboarding_step r)),
     (''origin_gateway'', V_text (pr_origin_gateway r)), (''peer_gateway'', V_text (pr_peer_gateway r)),
     (''peer_project_id'', V_text (pr_peer_project_id r))]"

definition agent_project_sql :: "agent_project_row \<Rightarrow> sql_row" where
  "agent_project_sql r = [(''agent_name'', V_text (ap_agent_name r)), (''project_id'', V_text (ap_project_id r)),
     (''joined_at'', V_real (ap_joined_at r))]"

definition object_sql :: "object_row \<Rightarrow> sql_row" where
  "object_sql r = [(''sha256'', V_text (ob_sha256 r)), (''size_bytes'', V_int (ob_size_bytes r)), (''created_at'', V_real (ob_created_at r))]"

definition snapshot_sql :: "snap_row \<Rightarrow> sql_row" where
  "snapshot_sql r = [(''id'', V_text (sn_id r)), (''project_id'', V_text (sn_project_id r)), (''gateway'', V_text (sn_gateway r)),
     (''transcript'', V_text (sn_transcript r)), (''created_at'', V_real (sn_created_at r))]"

definition head_sql :: "head_row \<Rightarrow> sql_row" where
  "head_sql r = [(''project_id'', V_text (hd_project_id r)), (''snapshot_id'', V_text (hd_snapshot_id r)),
     (''updated_at'', V_real (hd_updated_at r))]"

definition log_sql :: "log_row \<Rightarrow> sql_row" where
  "log_sql r = [(''id'', V_text (lr_id r)), (''project_id'', V_text (lr_project_id r)), (''gateway_name'', V_text (lr_gateway_name r)),
     (''agent_name'', V_text (lr_agent_name r)), (''entry_type'', V_text (lr_entry_type r)), (''content'', V_text (lr_content r)),
     (''cursor'', V_int (lr_cursor r)), (''created_at'', V_real (lr_created_at r)), (''todo_id'', int_or_null (lr_todo_id r)),
     (''signature'', text_or_null (lr_signature r)), (''task_status'', text_or_null (lr_task_status r)),
     (''valid_from'', time_or_null (lr_valid_from r)), (''valid_to'', time_or_null (lr_valid_to r))]"

definition proposal_sql :: "prop_row \<Rightarrow> sql_row" where
  "proposal_sql r = [(''id'', V_text (pp_id r)), (''project_id'', V_text (pp_project_id r)),
     (''proposer_gateway'', V_text (pp_proposer_gateway r)), (''proposer_agent'', V_text (pp_proposer_agent r)),
     (''snapshot_id'', V_text (pp_snapshot_id r)), (''description'', V_text (pp_description r)), (''status'', V_text (pp_status r)),
     (''gateway_count'', V_int (pp_gateway_count r)), (''created_at'', V_real (pp_created_at r)),
     (''resolved_at'', time_or_null (pp_resolved_at r)), (''resolved_by'', text_or_null (pp_resolved_by r))]"

definition vote_sql :: "vote_row \<Rightarrow> sql_row" where
  "vote_sql r = [(''id'', V_text (vt_id r)), (''proposal_id'', V_text (vt_proposal_id r)), (''gateway_name'', V_text (vt_gateway_name r)),
     (''agent_name'', V_text (vt_agent_name r)), (''vote'', V_text (vt_vote r)), (''reason'', V_text (vt_reason r)),
     (''voted_at'', V_real (vt_voted_at r))]"

definition group_sql :: "group_row \<Rightarrow> sql_row" where
  "group_sql r = [(''id'', V_text (gr_id r)), (''name'', V_text (gr_name r)), (''description'', V_text (gr_description r)),
     (''created_by'', V_text (gr_created_by r)), (''created_at'', V_real (gr_created_at r))]"

definition member_sql :: "member_row \<Rightarrow> sql_row" where
  "member_sql r = [(''group_id'', V_text (mr_group_id r)), (''gateway_name'', V_text (mr_gateway_name r)),
     (''joined_at'', V_real (mr_joined_at r)), (''invited_by'', V_text (mr_invited_by r))]"

definition invite_sql :: "invite_row \<Rightarrow> sql_row" where
  "invite_sql r = [(''token'', V_text (iv_token r)), (''group_id'', V_text (iv_group_id r)), (''created_by'', V_text (iv_created_by r)),
     (''created_at'', V_real (iv_created_at r)), (''expires_at'', V_real (iv_expires_at r)),
     (''used_at'', time_or_null (iv_used_at r)), (''used_by'', text_or_null (iv_used_by r))]"

definition group_project_sql :: "group_project_row \<Rightarrow> sql_row" where
  "group_project_sql r = [(''group_id'', V_text (gp_group_id r)), (''project_id'', V_text (gp_project_id r)),
     (''added_at'', V_real (gp_added_at r))]"

definition fact_sql :: "fact_row \<Rightarrow> sql_row" where
  "fact_sql r = [(''id'', V_int (mf_id r)), (''agent_name'', V_text (mf_agent_name r)), (''project_id'', text_or_null (mf_project_id r)),
     (''topic'', V_text (mf_topic r)), (''content'', V_text (mf_content r)), (''created_at'', V_real (mf_created_at r)),
     (''valid_from'', V_real (mf_valid_from r)), (''valid_to'', time_or_null (mf_valid_to r))]"

definition cursor_sql :: "peer_cursor_row \<Rightarrow> sql_row" where
  "cursor_sql r = [(''peer_name'', V_text (pc_peer_name r)), (''project_id'', V_text (pc_project_id r)),
     (''last_cursor'', V_int (pc_last_cursor r)), (''updated_at'', V_real (pc_updated_at r))]"

definition tables_of :: "db \<Rightarrow> string \<Rightarrow> sql_row list" where
  "tables_of d t = (case map_of
     [(''agents'', map agent_sql (agents d)), (''memories'', map memory_sql (memories d)), (''todos'', map todo_sql (todos d)),
      (''project_todos'', map project_todo_sql (project_todos d)), (''projects'', map project_sql (projects d)),
      (''agent_projects'', map agent_project_sql (agent_projects d)), (''objects'', map object_sql (objects d)),
      (''snapshots'', map snapshot_sql (snapshots d)), (''project_heads'', map head_sql (project_heads d)),
      (''task_log'', map log_sql (task_log d)), (''contribution_proposals'', map proposal_sql (proposals d)),
      (''contribution_votes'', map vote_sql (votes d)), (''groups'', map group_sql (groups d)),
      (''group_members'', map member_sql (members d)), (''invites'', map invite_sql (invites d)),
      (''group_projects'', map group_project_sql (group_projects d)), (''memory_facts'', map fact_sql (facts d)),
      (''peer_cursor_state'', map cursor_sql (peer_cursors d))] t of None \<Rightarrow> [] | Some rows \<Rightarrow> rows)"

subsection \<open>Typed tables satisfy the constraints\<close>

lemma keys_distinct:
  assumes "keyed f rows" and inj: "\<And>x y. key_of k (h x) = key_of k (h y) \<Longrightarrow> f x = f y"
  shows "distinct (map (key_of k) (map h rows))"
proof -
  have "inj_on f (set rows)" "distinct rows" using assms(1) by (auto simp: keyed_def distinct_map)
  moreover from this have "inj_on (key_of k \<circ> h) (set rows)" by (intro inj_onI) (auto dest: inj inj_onD)
  ultimately show ?thesis by (simp add: distinct_map)
qed

named_theorems conform_simps \<open>constraints of a column, from how it is declared\<close>

lemma column_parts [conform_simps]:
  "cl_name (col n t) = n" "cl_name (not_null c) = cl_name c" "cl_name (default_to v c) = cl_name c"
  "cl_name (check_in vs c) = cl_name c" "cl_name (references u k a c) = cl_name c"
  by (simp_all add: table_def_simps)

lemma value_ok_col [conform_simps]:
  "value_ok (col n t) V_null" "value_ok (col n t) (V_text s) \<longleftrightarrow> t = TEXT"
  "value_ok (col n t) (V_int i) \<longleftrightarrow> t \<in> {BIGSERIAL, BIGINT, INTEGER}" "value_ok (col n t) (V_real q) \<longleftrightarrow> t = DOUBLE_PRECISION"
  "value_ok (not_null c) v \<longleftrightarrow> v \<noteq> V_null \<and> value_ok c v" "value_ok (default_to x c) v \<longleftrightarrow> value_ok c v"
  "value_ok (references u k a c) v \<longleftrightarrow> value_ok c v"
  "value_ok (check_in vs (col n t)) (V_text s) \<longleftrightarrow> t = TEXT \<and> s \<in> set vs"
  "value_ok (check_in vs (col n t)) V_null"
  "value_ok (check_in vs (default_to x c)) v \<longleftrightarrow> value_ok (check_in vs c) v"
  "value_ok (check_in vs (not_null c)) v \<longleftrightarrow> v \<noteq> V_null \<and> value_ok (check_in vs c) v"
  by (auto simp: value_ok_def table_def_simps split: sql_value.split)

lemma value_ok_null [conform_simps]:
  "value_ok (col n TEXT) (text_or_null v)" "value_ok (col n BIGINT) (int_or_null i)"
  "value_ok (col n DOUBLE_PRECISION) (time_or_null t)"
  "value_ok (check_in vs (col n TEXT)) (text_or_null v) \<longleftrightarrow> (\<forall>s. v = Some s \<longrightarrow> s \<in> set vs)"
  by (auto simp: value_ok_def table_def_simps text_or_null_def int_or_null_def time_or_null_def split: option.split)

lemma refs_ok_col [conform_simps]:
  "refs_ok T (col n t) row" "refs_ok T (not_null c) row \<longleftrightarrow> refs_ok T c row" "refs_ok T (default_to x c) row \<longleftrightarrow> refs_ok T c row"
  "refs_ok T (check_in vs c) row \<longleftrightarrow> refs_ok T c row"
  "refs_ok T (references u k a c) row \<longleftrightarrow> map_of row (cl_name c) = Some V_null \<or> map_of row (cl_name c) \<in> (\<lambda>r. map_of r k) ` set (T u)"
  by (simp_all add: refs_ok_def table_def_simps split: option.split)

lemma row_ok_Cons [conform_simps]:
  "row_ok [] row \<longleftrightarrow> row = []" "row_ok (c # cs) (f # row) \<longleftrightarrow> fst f = cl_name c \<and> value_ok c (snd f) \<and> row_ok cs row"
  by (simp_all add: row_ok_def)

text \<open>A table conforms when its rows do, one by one.\<close>

lemma table_conforms_rows:
  assumes "T n = map h rows" "list_all (\<lambda>k. distinct (map (key_of k) (map h rows))) (pk # us)"
    "\<And>r. r \<in> set rows \<Longrightarrow> row_ok cs (h r)" "\<And>r c. r \<in> set rows \<Longrightarrow> c \<in> set cs \<Longrightarrow> refs_ok T c (h r)"
  shows "table_conforms T (table_with n pk us cs)"
  using assms by (simp add: table_conforms_def table_with_def Let_def list_all_iff)

lemma tables_of_simps:
  "tables_of d ''agents'' = map agent_sql (agents d)" "tables_of d ''memories'' = map memory_sql (memories d)"
  "tables_of d ''todos'' = map todo_sql (todos d)" "tables_of d ''requests'' = []"
  "tables_of d ''project_todos'' = map project_todo_sql (project_todos d)" "tables_of d ''projects'' = map project_sql (projects d)"
  "tables_of d ''agent_projects'' = map agent_project_sql (agent_projects d)" "tables_of d ''objects'' = map object_sql (objects d)"
  "tables_of d ''snapshots'' = map snapshot_sql (snapshots d)" "tables_of d ''project_heads'' = map head_sql (project_heads d)"
  "tables_of d ''task_log'' = map log_sql (task_log d)" "tables_of d ''contribution_proposals'' = map proposal_sql (proposals d)"
  "tables_of d ''contribution_votes'' = map vote_sql (votes d)" "tables_of d ''groups'' = map group_sql (groups d)"
  "tables_of d ''group_members'' = map member_sql (members d)" "tables_of d ''invites'' = map invite_sql (invites d)"
  "tables_of d ''group_projects'' = map group_project_sql (group_projects d)" "tables_of d ''memory_facts'' = map fact_sql (facts d)"
  "tables_of d ''peer_cursor_state'' = map cursor_sql (peer_cursors d)"
  by (simp_all add: tables_of_def)

lemma conforms_identity:
  assumes "identity_typed d"
  shows "table_conforms (tables_of d) agents_table" "table_conforms (tables_of d) memories_table"
    "table_conforms (tables_of d) todos_table" "table_conforms (tables_of d) requests_table"
    "table_conforms (tables_of d) memory_facts_table"
proof -
  have k: "distinct (map (key_of [''name'']) (map agent_sql (agents d)))"
    "distinct (map (key_of [''agent_name'']) (map memory_sql (memories d)))"
    "distinct (map (key_of [''id'']) (map todo_sql (todos d)))" "distinct (map (key_of [''id'']) (map fact_sql (facts d)))"
    by (rule keys_distinct [where f = ar_name] keys_distinct [where f = fst] keys_distinct [where f = td_id]
        keys_distinct [where f = mf_id];
        use assms in \<open>simp add: identity_typed_def key_of_def agent_sql_def memory_sql_def todo_sql_def fact_sql_def\<close>)+
  show "table_conforms (tables_of d) agents_table"
    unfolding agents_table_def
    by (rule table_conforms_rows [of "tables_of d", OF tables_of_simps(1)]) (use k in \<open>auto simp: agent_sql_def conform_simps\<close>)
  show "table_conforms (tables_of d) memories_table"
    unfolding memories_table_def
    by (rule table_conforms_rows [of "tables_of d", OF tables_of_simps(2)])
      (use k assms in \<open>auto simp: memory_sql_def agent_sql_def conform_simps identity_typed_def tables_of_simps image_image\<close>)
  show "table_conforms (tables_of d) todos_table"
    unfolding todos_table_def
    by (rule table_conforms_rows [of "tables_of d", OF tables_of_simps(3)])
      (use k assms in \<open>auto simp: todo_sql_def agent_sql_def conform_simps identity_typed_def tables_of_simps image_image\<close>)
  show "table_conforms (tables_of d) requests_table"
    unfolding requests_table_def by (rule table_conforms_rows [where rows = "[]" and h = id]) (simp_all add: tables_of_simps)
  show "table_conforms (tables_of d) memory_facts_table"
    unfolding memory_facts_table_def
    by (rule table_conforms_rows [of "tables_of d", OF tables_of_simps(18)])
      (use k assms in \<open>auto simp: fact_sql_def agent_sql_def conform_simps identity_typed_def tables_of_simps image_image\<close>)
qed

lemma visibility_strings: "visibility_as_str v \<in> {''lan-only'', ''group'', ''public''}"
  by (cases v) simp_all

lemma conforms_sync:
  assumes "project_inv d" "heads_inv d" "sync_typed d"
  shows "table_conforms (tables_of d) projects_table" "table_conforms (tables_of d) objects_table"
    "table_conforms (tables_of d) snapshots_table" "table_conforms (tables_of d) project_heads_table"
    "table_conforms (tables_of d) peer_cursor_state_table"
proof -
  have k: "distinct (map (key_of [''id'']) (map project_sql (projects d)))" "distinct (map (key_of [''name'']) (map project_sql (projects d)))"
    "distinct (map (key_of [''sha256'']) (map object_sql (objects d)))" "distinct (map (key_of [''id'']) (map snapshot_sql (snapshots d)))"
    "distinct (map (key_of [''project_id'']) (map head_sql (project_heads d)))"
    "distinct (map (key_of [''peer_name'', ''project_id'']) (map cursor_sql (peer_cursors d)))"
    by (rule keys_distinct [where f = pr_id] keys_distinct [where f = pr_name] keys_distinct [where f = ob_sha256]
        keys_distinct [where f = sn_id] keys_distinct [where f = hd_project_id] keys_distinct [where f = cursor_key];
        use assms in \<open>simp add: project_inv_def heads_inv_def sync_typed_def key_of_def project_sql_def object_sql_def
          snapshot_sql_def head_sql_def cursor_sql_def\<close>)+
  have vis: "pr_visibility r \<in> {''lan-only'', ''group'', ''public''}" if "r \<in> set (projects d)" for r
    using assms(1) that visibility_strings unfolding project_inv_def by metis
  show "table_conforms (tables_of d) projects_table"
    unfolding projects_table_def
    by (rule table_conforms_rows [of "tables_of d", OF tables_of_simps(6)])
      (use k vis in \<open>auto simp: project_sql_def conform_simps\<close>)
  show "table_conforms (tables_of d) objects_table"
    unfolding objects_table_def
    by (rule table_conforms_rows [of "tables_of d", OF tables_of_simps(8)]) (use k in \<open>auto simp: object_sql_def conform_simps\<close>)
  show "table_conforms (tables_of d) snapshots_table"
    unfolding snapshots_table_def
    by (rule table_conforms_rows [of "tables_of d", OF tables_of_simps(9)])
      (use k assms in \<open>auto simp: snapshot_sql_def project_sql_def conform_simps sync_typed_def tables_of_simps image_image\<close>)
  have heads: "hd_project_id ` set (project_heads d) \<subseteq> pr_id ` set (projects d)"
    "hd_snapshot_id ` set (project_heads d) \<subseteq> sn_id ` set (snapshots d)"
  proof -
    have h: "\<exists>r \<in> set (snapshots d). hd_snapshot_id x = sn_id r \<and> hd_project_id x = sn_project_id r" if "x \<in> set (project_heads d)" for x
      using assms(2) that unfolding heads_inv_def by metis
    then show "hd_snapshot_id ` set (project_heads d) \<subseteq> sn_id ` set (snapshots d)" by blast
    have "hd_project_id ` set (project_heads d) \<subseteq> sn_project_id ` set (snapshots d)" using h by blast
    also have "\<dots> \<subseteq> pr_id ` set (projects d)" using assms(3) by (simp add: sync_typed_def)
    finally show "hd_project_id ` set (project_heads d) \<subseteq> pr_id ` set (projects d)" .
  qed
  show "table_conforms (tables_of d) project_heads_table"
    unfolding project_heads_table_def
    by (rule table_conforms_rows [of "tables_of d", OF tables_of_simps(10)])
      (use k heads in \<open>auto simp: head_sql_def project_sql_def snapshot_sql_def conform_simps tables_of_simps image_image\<close>)
  show "table_conforms (tables_of d) peer_cursor_state_table"
    unfolding peer_cursor_state_table_def
    by (rule table_conforms_rows [of "tables_of d", OF tables_of_simps(19)]) (use k in \<open>auto simp: cursor_sql_def conform_simps\<close>)
qed

lemma conforms_work:
  assumes "work_typed d"
  shows "table_conforms (tables_of d) project_todos_table" "table_conforms (tables_of d) agent_projects_table"
proof -
  have k: "distinct (map (key_of [''id'']) (map project_todo_sql (project_todos d)))"
    "distinct (map (key_of [''task'']) (map project_todo_sql (project_todos d)))"
    "distinct (map (key_of [''agent_name'', ''project_id'']) (map agent_project_sql (agent_projects d)))"
    by (rule keys_distinct [where f = pt_id] keys_distinct [where f = pt_task]
        keys_distinct [where f = "\<lambda>r. (ap_agent_name r, ap_project_id r)"];
        use assms in \<open>simp add: work_typed_def key_of_def project_todo_sql_def agent_project_sql_def\<close>)+
  show "table_conforms (tables_of d) project_todos_table"
    unfolding project_todos_table_def
    by (rule table_conforms_rows [of "tables_of d", OF tables_of_simps(5)]) (use k in \<open>auto simp: project_todo_sql_def conform_simps\<close>)
  show "table_conforms (tables_of d) agent_projects_table"
    unfolding agent_projects_table_def
    by (rule table_conforms_rows [of "tables_of d", OF tables_of_simps(7)]) (use k in \<open>auto simp: agent_project_sql_def conform_simps\<close>)
qed

lemma enum_strings:
  "entry_type_as_str e \<in> {''focus'', ''done'', ''blocked'', ''note''}"
  "task_status_as_str t \<in> {''created'', ''queued'', ''in_progress'', ''waiting_for_input'', ''blocked'', ''completed'', ''failed'',
     ''cancelled'', ''timed_out'', ''delegated''}"
  "status_as_str p \<in> {''open'', ''voting'', ''pr_pending'', ''pr_accepted'', ''accepted'', ''rejected''}"
  "vote_as_str v \<in> {''approve'', ''reject''}"
  by (cases e; simp) ((cases t; simp), (cases p; simp), (cases v; simp))

lemma range_strings: "x \<in> range f \<Longrightarrow> (\<And>y. f y \<in> S) \<Longrightarrow> x \<in> S"
  by auto

lemma conforms_log:
  assumes "log_typed d"
  shows "table_conforms (tables_of d) (task_log_table\<lparr>tb_columns := tb_columns task_log_table @
       [check_in [''created'', ''queued'', ''in_progress'', ''waiting_for_input'', ''blocked'', ''completed'', ''failed'', ''cancelled'',
          ''timed_out'', ''delegated''] (col ''task_status'' TEXT), col ''valid_from'' DOUBLE_PRECISION, col ''valid_to'' DOUBLE_PRECISION]\<rparr>)"
    (is "table_conforms _ (task_log_table\<lparr>tb_columns := tb_columns task_log_table @ ?new\<rparr>)")
proof -
  have k: "distinct (map (key_of [''id'']) (map log_sql (task_log d)))"
    by (rule keys_distinct [where f = lr_id]; use assms in \<open>simp add: log_typed_def key_of_def log_sql_def\<close>)
  have types: "lr_entry_type r \<in> {''focus'', ''done'', ''blocked'', ''note''}" if "r \<in> set (task_log d)" for r
    using assms that by (intro range_strings [OF _ enum_strings(1)]) (auto simp: log_typed_def)
  have statuses: "s \<in> {''created'', ''queued'', ''in_progress'', ''waiting_for_input'', ''blocked'', ''completed'', ''failed'',
     ''cancelled'', ''timed_out'', ''delegated''}" if "r \<in> set (task_log d)" "lr_task_status r = Some s" for r s
    using assms that by (intro range_strings [OF _ enum_strings(2)]) (auto simp: log_typed_def)
  have todo: "(case lr_todo_id r of None \<Rightarrow> V_null | Some i \<Rightarrow> V_int i) = V_null \<or>
      (\<exists>t \<in> set (todos d). (case lr_todo_id r of None \<Rightarrow> V_null | Some i \<Rightarrow> V_int i) = V_int (td_id t))" if "r \<in> set (task_log d)" for r
  proof (cases "lr_todo_id r")
    case (Some i)
    with assms that have "i \<in> td_id ` set (todos d)" by (simp add: log_typed_def)
    with Some show ?thesis by auto
  qed simp
  have proj: "\<exists>p \<in> set (projects d). lr_project_id r = pr_id p" if "r \<in> set (task_log d)" for r
    using assms that by (auto simp: log_typed_def)
  have "task_log_table\<lparr>tb_columns := tb_columns task_log_table @ ?new\<rparr> =
      table_with ''task_log'' [''id''] [] (tb_columns task_log_table @ ?new)"
    by (simp add: task_log_table_def table_with_def)
  moreover have "table_conforms (tables_of d) (table_with ''task_log'' [''id''] [] (tb_columns task_log_table @ ?new))"
  proof (rule table_conforms_rows [of "tables_of d", OF tables_of_simps(11)])
    show "row_ok (tb_columns task_log_table @ ?new) (log_sql r)" if "r \<in> set (task_log d)" for r
      using types [OF that] statuses [OF that] by (simp add: task_log_table_def table_with_def log_sql_def conform_simps)
    show "refs_ok (tables_of d) c (log_sql r)" if "r \<in> set (task_log d)" "c \<in> set (tb_columns task_log_table @ ?new)" for r c
      using todo [OF that(1)] proj [OF that(1)] that(2)
      by (auto simp: task_log_table_def table_with_def log_sql_def conform_simps tables_of_simps todo_sql_def project_sql_def
          image_image int_or_null_def)
  qed (use k in simp)
  ultimately show ?thesis by simp
qed

lemma conforms_votes:
  assumes "votes_typed d"
  shows "table_conforms (tables_of d) contribution_proposals_table" "table_conforms (tables_of d) contribution_votes_table"
proof -
  have k: "distinct (map (key_of [''id'']) (map proposal_sql (proposals d)))" "distinct (map (key_of [''id'']) (map vote_sql (votes d)))"
    "distinct (map (key_of [''proposal_id'', ''gateway_name'', ''agent_name'']) (map vote_sql (votes d)))"
    by (rule keys_distinct [where f = pp_id] keys_distinct [where f = vt_id] keys_distinct [where f = voter_key];
        use assms in \<open>simp add: votes_typed_def key_of_def proposal_sql_def vote_sql_def\<close>)+
  have st: "pp_status r \<in> {''open'', ''voting'', ''pr_pending'', ''pr_accepted'', ''accepted'', ''rejected''}"
    and refs: "\<exists>p \<in> set (projects d). pp_project_id r = pr_id p" "\<exists>p \<in> set (snapshots d). pp_snapshot_id r = sn_id p"
    if "r \<in> set (proposals d)" for r
    by (rule range_strings [OF _ enum_strings(3)]) (use assms that in \<open>auto simp: votes_typed_def\<close>)
  have vt: "vt_vote r \<in> {''approve'', ''reject''}" and vref: "\<exists>p \<in> set (proposals d). vt_proposal_id r = pp_id p"
    if "r \<in> set (votes d)" for r
    by (rule range_strings [OF _ enum_strings(4)]) (use assms that in \<open>auto simp: votes_typed_def\<close>)
  show "table_conforms (tables_of d) contribution_proposals_table"
    unfolding contribution_proposals_table_def
  proof (rule table_conforms_rows [of "tables_of d", OF tables_of_simps(12)], goal_cases)
    case (2 r)
    then show ?case using st [of r] by (simp add: proposal_sql_def conform_simps)
  next
    case (3 r c)
    then show ?case using refs [of r]
      by (auto simp: proposal_sql_def conform_simps tables_of_simps project_sql_def snapshot_sql_def image_image)
  qed (use k in simp)
  show "table_conforms (tables_of d) contribution_votes_table"
    unfolding contribution_votes_table_def
  proof (rule table_conforms_rows [of "tables_of d", OF tables_of_simps(13)], goal_cases)
    case (2 r)
    then show ?case using vt [of r] by (simp add: vote_sql_def conform_simps)
  next
    case (3 r c)
    then show ?case using vref [of r] by (auto simp: vote_sql_def conform_simps tables_of_simps proposal_sql_def image_image)
  qed (use k in simp)
qed

lemma conforms_groups:
  assumes "group_inv d"
  shows "table_conforms (tables_of d) groups_table" "table_conforms (tables_of d) group_members_table"
    "table_conforms (tables_of d) invites_table" "table_conforms (tables_of d) group_projects_table"
proof -
  have k: "distinct (map (key_of [''id'']) (map group_sql (groups d)))" "distinct (map (key_of [''name'']) (map group_sql (groups d)))"
    "distinct (map (key_of [''group_id'', ''gateway_name'']) (map member_sql (members d)))"
    "distinct (map (key_of [''token'']) (map invite_sql (invites d)))"
    "distinct (map (key_of [''group_id'', ''project_id'']) (map group_project_sql (group_projects d)))"
    by (rule keys_distinct [where f = gr_id] keys_distinct [where f = gr_name] keys_distinct [where f = member_key]
        keys_distinct [where f = iv_token] keys_distinct [where f = share_key];
        use assms in \<open>simp add: group_inv_def key_of_def group_sql_def member_sql_def invite_sql_def group_project_sql_def\<close>)+
  show "table_conforms (tables_of d) groups_table"
    unfolding groups_table_def
    by (rule table_conforms_rows [of "tables_of d", OF tables_of_simps(14)]) (use k in \<open>auto simp: group_sql_def conform_simps\<close>)
  show "table_conforms (tables_of d) group_members_table"
    unfolding group_members_table_def
    by (rule table_conforms_rows [of "tables_of d", OF tables_of_simps(15)])
      (use k assms in \<open>auto simp: member_sql_def group_sql_def conform_simps group_inv_def tables_of_simps image_image\<close>)
  show "table_conforms (tables_of d) invites_table"
    unfolding invites_table_def
    by (rule table_conforms_rows [of "tables_of d", OF tables_of_simps(16)])
      (use k assms in \<open>auto simp: invite_sql_def group_sql_def conform_simps group_inv_def tables_of_simps image_image\<close>)
  show "table_conforms (tables_of d) group_projects_table"
    unfolding group_projects_table_def
    by (rule table_conforms_rows [of "tables_of d", OF tables_of_simps(17)])
      (use k assms in \<open>auto simp: group_project_sql_def group_sql_def project_sql_def conform_simps group_inv_def tables_of_simps image_image\<close>)
qed

lemma typed_conforms: "db_typed d \<Longrightarrow> conforms full_schema (tables_of d)"
  unfolding conforms_def full_tables db_typed_def
  by (simp add: conforms_identity conforms_sync conforms_work conforms_log conforms_votes conforms_groups)

subsection \<open>The start opens the database\<close>

text \<open>How opening a database with a given catalogue ends, as the start sees it.\<close>

definition open_result :: "db_link \<Rightarrow> catalogue \<Rightarrow> string \<Rightarrow> err option" where
  "open_result L s url = (case result (open_db L url) s of Inl e \<Rightarrow> Some e | Inr _ \<Rightarrow> None)"

text \<open>A gateway that serves has a migrated database, however many starts were needed.\<close>

lemma start_migrated:
  assumes "start_gateway (S\<lparr>sv_open := open_result L s\<rparr>) cfg disk d = (d', Inr g)" "s = runA start_db no_schema attempts"
  shows "\<exists>url. exec (open_db L url) s = full_schema"
proof -
  define url where "url = (case sv_database_url S of Some u \<Rightarrow> u | None \<Rightarrow> cf_db_url cfg)"
  have "open_result L s url = None"
    using assms(1) by (cases "open_result L s url") (simp_all add: start_gateway_def Let_def act_simps flip: url_def)
  then obtain p where p: "result (open_db L url) s = Inr p"
    by (cases "result (open_db L url) s") (simp_all add: open_result_def)
  have "\<exists>done. partly_run migrations no_schema done no_schema"
    by (rule exI [of _ "[]"]) (simp add: partly_run_def)
  then have "\<exists>done. partly_run migrations no_schema done s"
    unfolding assms(2) by (rule starts.run_inv)
  then obtain done' where "partly_run migrations no_schema done' s" by blast
  from open_partly [OF this, of L url "fst (open_db L url s)" "snd (open_db L url s)" p] p show ?thesis
    by (auto simp: exec_def result_def)
qed

subsection \<open>What an append answers\<close>

text \<open>
  Whether \<open>RETURNING cursor\<close> decodes as the \<open>i64\<close> that \<open>append_with_status\<close> declares, for the column the migrations give
  \<open>task_log\<close>.
\<close>

definition cursor_decodes :: "(rust_type \<Rightarrow> col_type \<Rightarrow> bool) \<Rightarrow> bool" where
  "cursor_decodes accepts = (case Option.bind (table_of full_schema ''task_log'') (\<lambda>tb. find_by cl_name ''cursor'' (tb_columns tb)) of
     None \<Rightarrow> False | Some c \<Rightarrow> accepts R_i64 (cl_type c))"

lemma cursor_decodes_integer: "cursor_decodes accepts = accepts R_i64 INTEGER"
  by (simp add: cursor_decodes_def table_of_full task_log_table_def table_def_simps find_by_def)


subsection \<open>Properties\<close>


text \<open>
  With the types sqlx documents every append that the database accepts reports a failure, and a caller that tries again puts the
  same entry into the log once more.
\<close>

lemma append_reports_failure:
  assumes "sqlx_documented accepts" "i \<notin> lr_id ` set (task_log d)" "project_exists d p" "todo_known d td"
  shows "\<exists>e. append_with_status (cursor_decodes accepts) H k i now p g a t c td st vt d =
    (d\<lparr>task_log := task_log d @ [log_row_of p e]\<rparr>, Inl (Anyhow ''insert log entry''))"
proof (cases rule: append_cases [of "cursor_decodes accepts" H k i now p g a t c td st vt d])
  case (err v)
  with assms(2-4) show ?thesis by blast
next
  case (ok e)
  have "\<not> cursor_decodes accepts" using assms(1) by (simp add: cursor_decodes_integer sqlx_documented_def)
  with ok(1) show ?thesis by auto
qed

text \<open>
  C3. The rows of a gateway satisfy every constraint of the migrations (columns, \<open>NOT NULL\<close>, \<open>CHECK\<close>, primary, unique and
  foreign keys) after any events, when it starts on a database that was migrated and is empty or well typed.
\<close>

theorem gateway_conforms:
  assumes "db_typed (gw_db g)"
  shows "conforms full_schema (tables_of (gw_db (runA (gw_step cfg) g evs)))"
  using gateway_system.run_ext [of cfg g evs] assms by (simp add: db_order_def typed_conforms)

lemma gateway_conforms_witness:
  "conforms full_schema (tables_of (gw_db (runA (gw_step demo_config) empty_gateway [Web_event demo_web_env demo_call])))"
  by (rule gateway_conforms) (simp add: empty_gateway_def empty_db_typed)

end
