(* ===== verification/Memory_Service.thy ===== *)
theory Memory_Service
  imports Gateway_Db
begin

text \<open>
  Verbatim memory facts (\<open>memory_service.rs\<close>): store, the four filters of recall with their limit, and
  expiry. The clock is a parameter.

  Lemmas: recall as the newest live facts that pass the filters.
\<close>

record memory_fact =
  fc_id :: int
  fc_agent_name :: string
  fc_project_id :: "string option"
  fc_topic :: string
  fc_content :: string
  fc_created_at :: time
  fc_valid_from :: time
  fc_valid_to :: "time option"

definition fact_of_row :: "fact_row \<Rightarrow> memory_fact" where
  "fact_of_row r = \<lparr>fc_id = mf_id r, fc_agent_name = mf_agent_name r, fc_project_id = mf_project_id r,
     fc_topic = mf_topic r, fc_content = mf_content r, fc_created_at = mf_created_at r,
     fc_valid_from = mf_valid_from r, fc_valid_to = mf_valid_to r\<rparr>"

text \<open>The serial is drawn before the foreign key is checked.\<close>

definition store_fact :: "time \<Rightarrow> string \<Rightarrow> string \<Rightarrow> string option \<Rightarrow> string \<Rightarrow> (db, memory_fact) act" where
  "store_fact now agent_name content project_id topic = (\<lambda>d.
     let r = \<lparr>mf_id = fact_serial d, mf_agent_name = agent_name, mf_project_id = project_id, mf_topic = topic,
              mf_content = content, mf_created_at = now, mf_valid_from = now, mf_valid_to = None\<rparr>;
         d1 = d\<lparr>fact_serial := fact_serial d + 1\<rparr>
     in if agent_exists d agent_name then (d1\<lparr>facts := facts d @ [r]\<rparr>, Inr (fact_of_row r))
        else (d1, Inl (Sql_err ''insert memory fact'' Foreign_key_violation)))"

definition live :: "time \<Rightarrow> fact_row \<Rightarrow> bool" where
  "live now r = (case mf_valid_to r of None \<Rightarrow> True | Some t \<Rightarrow> now < t)"

definition recall :: "time \<Rightarrow> db \<Rightarrow> string \<Rightarrow> string option \<Rightarrow> string option \<Rightarrow> nat \<Rightarrow> memory_fact list" where
  "recall now d agent_name project_id topic limit =
     (let rows = (case (project_id, topic) of
          (Some pid, Some t) \<Rightarrow> filter (\<lambda>r. mf_agent_name r = agent_name \<and> mf_project_id r = Some pid \<and>
             mf_topic r = t \<and> live now r) (facts d)
        | (Some pid, None) \<Rightarrow> filter (\<lambda>r. mf_agent_name r = agent_name \<and> mf_project_id r = Some pid \<and> live now r) (facts d)
        | (None, Some t) \<Rightarrow> filter (\<lambda>r. mf_agent_name r = agent_name \<and> mf_topic r = t \<and> live now r) (facts d)
        | (None, None) \<Rightarrow> filter (\<lambda>r. mf_agent_name r = agent_name \<and> live now r) (facts d))
      in map fact_of_row (take limit (order_by_desc mf_created_at rows)))"

definition recall_all :: "time \<Rightarrow> db \<Rightarrow> string \<Rightarrow> memory_fact list" where
  "recall_all now d agent_name = map fact_of_row
     (order_by_desc mf_created_at (filter (\<lambda>r. mf_agent_name r = agent_name \<and> live now r) (facts d)))"

definition expire :: "time \<Rightarrow> int \<Rightarrow> (db, unit) act" where
  "expire now i = (\<lambda>d. (d\<lparr>facts := update_where (\<lambda>r. mf_id r = i) (\<lambda>r. r\<lparr>mf_valid_to := Some now\<rparr>) (facts d)\<rparr>, Inr ()))"

text \<open>The facts a recall may return: an absent filter lets everything pass.\<close>

definition matching :: "time \<Rightarrow> db \<Rightarrow> string \<Rightarrow> string option \<Rightarrow> string option \<Rightarrow> fact_row list" where
  "matching now d agent project_id topic = filter (\<lambda>r. mf_agent_name r = agent \<and>
     (case project_id of None \<Rightarrow> True | Some p \<Rightarrow> mf_project_id r = Some p) \<and>
     (case topic of None \<Rightarrow> True | Some t \<Rightarrow> mf_topic r = t) \<and> live now r) (facts d)"

lemma recall_matching:
  "recall now d agent project_id topic limit =
     map fact_of_row (take limit (order_by_desc mf_created_at (matching now d agent project_id topic)))"
  by (cases project_id; cases topic) (simp_all add: recall_def matching_def)

lemma fact_created [simp]: "fc_created_at (fact_of_row r) = mf_created_at r"
  by (simp add: fact_of_row_def)

lemma sorted_desc: "sorted_wrt (\<lambda>x y. mf_created_at y \<le> mf_created_at x) (order_by_desc mf_created_at rs)"
proof -
  have "sorted (map (\<lambda>r. - mf_created_at r) (order_by_desc mf_created_at rs))"
    by (simp add: order_by_desc_def)
  then show ?thesis by (simp add: sorted_map sorted_wrt_map)
qed

lemma take_drop_desc:
  assumes "x \<in> set (take n (order_by_desc mf_created_at rs))" "y \<in> set (drop n (order_by_desc mf_created_at rs))"
  shows "mf_created_at y \<le> mf_created_at x"
  using sorted_desc [of rs] assms
  by (metis append_take_drop_id sorted_wrt_append)

lemma expired_gone:
  assumes "0 \<le> t"
  shows "i \<notin> fc_id ` set (recall_all (now + t) (exec (expire now i) d) agent)"
proof -
  have "mf_valid_to r = Some now"
    if r_in: "r \<in> set (update_where (\<lambda>r. mf_id r = i) (\<lambda>r. r\<lparr>mf_valid_to := Some now\<rparr>) (facts d))"
      and r_id: "mf_id r = i" for r
  proof -
    obtain x where "r = (if mf_id x = i then x\<lparr>mf_valid_to := Some now\<rparr> else x)"
      using r_in unfolding set_update_where by (elim imageE)
    with r_id show ?thesis
      by (cases "mf_id x = i") simp_all
  qed
  then have "\<not> live (now + t) r"
    if "r \<in> set (update_where (\<lambda>r. mf_id r = i) (\<lambda>r. r\<lparr>mf_valid_to := Some now\<rparr>) (facts d))" "mf_id r = i" for r
    using that assms by (simp add: live_def)
  moreover have "facts (exec (expire now i) d) = update_where (\<lambda>r. mf_id r = i) (\<lambda>r. r\<lparr>mf_valid_to := Some now\<rparr>) (facts d)"
    by (simp add: exec_def expire_def)
  moreover have "fc_id (fact_of_row r) = mf_id r" for r
    by (simp add: fact_of_row_def)
  ultimately show ?thesis
    unfolding recall_all_def by auto
qed

subsection \<open>Properties\<close>

text \<open>
  Recall returns the newest live facts that pass the filters, verbatim: as many as there are up to the
  limit, newest first, all of them matching rows; and a matching fact that was cut off is no newer
  than any returned one.
\<close>

lemma recall_newest:
  "(\<exists>shown hidden. recall now d agent pid topic limit = map fact_of_row shown \<and>
     mset (shown @ hidden) = mset (matching now d agent pid topic) \<and>
     length shown = min limit (length (matching now d agent pid topic)) \<and>
     sorted_wrt (\<lambda>x y. mf_created_at y \<le> mf_created_at x) (shown @ hidden))"
proof -
  let ?o = "order_by_desc mf_created_at (matching now d agent pid topic)"
  have "length ?o = length (matching now d agent pid topic)" "mset ?o = mset (matching now d agent pid topic)"
    by (simp_all add: order_by_desc_def)
  then show ?thesis
    using sorted_desc
    by (intro exI [of _ "take limit ?o"] exI [of _ "drop limit ?o"])
      (simp add: recall_matching min.commute)
qed

text \<open>
  A stored fact is recalled word for word until it is expired: right after \<open>store\<close>, an unlimited recall
  of the agent contains it, and after \<open>expire\<close> no recall from that moment on does.
\<close>

lemma store_recall_expire:
  assumes "agent_exists d agent" "0 \<le> t"
  shows "case store_fact now agent content pid topic d of
     (d', Inr f) \<Rightarrow> fc_content f = content \<and> f \<in> set (recall_all now' d' agent) \<and>
       fc_id f \<notin> fc_id ` set (recall_all (now' + t) (exec (expire now' (fc_id f)) d') agent)
   | (d', Inl _) \<Rightarrow> False"
  using assms(1) expired_gone [OF assms(2)]
  by (simp add: store_fact_def Let_def) (simp add: recall_all_def live_def fact_of_row_def)

definition one_agent :: db where
  "one_agent = empty_db\<lparr>agents := [\<lparr>ar_name = ''a'', ar_version = [], ar_endpoint = [], ar_capabilities = [],
     ar_soul_toml = [], ar_last_seen = None, ar_registered_at = []\<rparr>]\<rparr>"

lemma store_recall_expire_witness:
  "case store_fact 1 ''a'' ''tea'' None ''food'' one_agent of
     (d', Inr f) \<Rightarrow> fc_content f = ''tea'' \<and> f \<in> set (recall_all 2 d' ''a'') \<and>
       fc_id f \<notin> fc_id ` set (recall_all (2 + 3) (exec (expire 2 (fc_id f)) d') ''a'')
   | (d', Inl _) \<Rightarrow> False"
  by (rule store_recall_expire) (simp_all add: one_agent_def has_key_def)

end
