(* ===== verification/Store_Tests.thy ===== *)
theory Store_Tests
  imports Identity Projects Task_Log Group_Store Contributions Memory_Service
begin

text \<open>
  The unit tests of the stores (\<open>#[cfg(test)]\<close> in \<open>registry.rs\<close>, \<open>identity.rs\<close>, \<open>projects.rs\<close>, \<open>task_log.rs\<close>,
  \<open>groups.rs\<close>, \<open>contributions.rs\<close> and \<open>memory_service.rs\<close>) on the model: each test is the effect that its code is, with the
  ids it draws and the time as arguments. A failed assertion and an \<open>unwrap\<close> of an error end it with an error.

  Lemmas: on a fresh database every test but one passes, for any ids, any time and any JSON codec or MAC, so the model gives
  the answers that the repository asks of the code (the tests of projects, the log and proposals need their \<open>INTEGER\<close>
  columns to decode, as everywhere in this model but in theory \<open>Migrations\<close>). The one that fails is
  \<open>memory_appends_not_overwrites\<close>: PostgreSQL refuses its first append.
\<close>

subsection \<open>Assertions\<close>

definition assertA :: "bool \<Rightarrow> 's \<Rightarrow> 's \<times> (err + unit)" where
  "assertA b = guardA b (Panicked ''assertion failed'')"

definition someA :: "'a option \<Rightarrow> 's \<Rightarrow> 's \<times> (err + 'a)" where
  "someA v = needA (Panicked ''called `Option::unwrap()` on a `None` value'') v"

definition unwrap_errA :: "('s \<Rightarrow> 's \<times> (err + 'a)) \<Rightarrow> 's \<Rightarrow> 's \<times> (err + err)" where
  "unwrap_errA m = (\<lambda>s. case m s of (s', Inl e) \<Rightarrow> (s', Inr e)
     | (s', Inr _) \<Rightarrow> (s', Inl (Panicked ''called `Result::unwrap_err()` on an `Ok` value'')))"

text \<open>The outermost message of an error.\<close>

fun err_message :: "err \<Rightarrow> string" where
  "err_message (Anyhow m) = m"
| "err_message (Sql_err m _) = m"
| "err_message (Panicked m) = m"

definition passes :: "('s \<Rightarrow> 's \<times> (err + unit)) \<Rightarrow> 's \<Rightarrow> bool" where
  "passes t s \<longleftrightarrow> is_ok (result t s)"

named_theorems test_simps \<open>running a test\<close>

lemmas test_defs [test_simps] = passes_def result_def assertA_def someA_def unwrap_errA_def act_simps

lemma update_where_Cons [test_simps]:
  "update_where p f [] = []" "update_where p f (r # rs) = (if p r then f r else r) # update_where p f rs"
  by (simp_all add: update_where_def)

lemma has_key_Cons [test_simps]: "has_key key k [] = False" "has_key key k (r # rs) \<longleftrightarrow> key r = k \<or> has_key key k rs"
  by (simp_all add: has_key_def)

lemma find_by_Cons [test_simps]: "find_by key k (r # rs) = (if key r = k then Some r else find_by key k rs)"
  by (simp add: find_by_def)

lemma order_single [test_simps]: "order_by key [] = []" "order_by key [r] = [r]" "order_by_desc tk [] = []" "order_by_desc tk [r] = [r]"
  by (simp_all add: order_by_def order_by_desc_def)

lemmas fresh_db [test_simps] = empty_db_def insert_ignore_def insert_or_def find_by_Nil

subsection \<open>Projects that the tests insert\<close>

definition stub_project :: "string \<Rightarrow> string \<Rightarrow> time \<Rightarrow> project_row" where
  "stub_project pid folder now = \<lparr>pr_id = pid, pr_name = pid, pr_repo_url = ''https://x.com'', pr_description = [],
     pr_visibility = ''lan-only'', pr_folder_path = folder, pr_file_glob = ''**/*'', pr_is_active = 0, pr_created_at = now,
     pr_updated_at = now, pr_onboarding_step = None, pr_origin_gateway = ''gw'', pr_peer_gateway = [], pr_peer_project_id = []\<rparr>"

definition insert_project_row :: "project_row \<Rightarrow> (db, unit) act" where
  "insert_project_row r = (\<lambda>d. if has_key pr_id (pr_id r) (projects d) \<or> has_key pr_name (pr_name r) (projects d)
     then (d, Inl (Sql_err [] Unique_violation)) else (d\<lparr>projects := projects d @ [r]\<rparr>, Inr ()))"

subsection \<open>\<open>registry.rs\<close>\<close>

definition test_entry :: "string \<Rightarrow> string \<Rightarrow> agent_entry" where
  "test_entry now name = \<lparr>ae_name = name, ae_version = ''0.1.0'', ae_endpoint = ''http://'' @ name @ '':8080'',
     ae_capabilities = [''test''], ae_soul_toml = [], ae_last_seen = None, ae_registered_at = now\<rparr>"

definition insert_and_get :: "caps_json \<Rightarrow> string \<Rightarrow> (registry, unit) act" where
  "insert_and_get J now =
     bindA (upsert J (test_entry now ''alpha'')) (\<lambda>_.
     bindA (askA (\<lambda>s. registry_get s ''alpha'')) (\<lambda>g.
     bindA (someA g) (\<lambda>got. assertA (ae_endpoint got = ''http://alpha:8080''))))"

definition upsert_updates_not_duplicates :: "caps_json \<Rightarrow> string \<Rightarrow> (registry, unit) act" where
  "upsert_updates_not_duplicates J now =
     bindA (upsert J (test_entry now ''alpha'')) (\<lambda>_.
     bindA (upsert J ((test_entry now ''alpha'')\<lparr>ae_version := ''0.2.0''\<rparr>)) (\<lambda>_.
     bindA (askA registry_len) (\<lambda>n. bindA (assertA (n = 1)) (\<lambda>_.
     bindA (askA (\<lambda>s. registry_get s ''alpha'')) (\<lambda>g.
     bindA (someA g) (\<lambda>got. assertA (ae_version got = ''0.2.0'')))))))"

definition heartbeat_updates_last_seen :: "caps_json \<Rightarrow> string \<Rightarrow> string \<Rightarrow> (registry, unit) act" where
  "heartbeat_updates_last_seen J now beat =
     bindA (upsert J (test_entry now ''beta'')) (\<lambda>_.
     bindA (heartbeat beat ''beta'') (\<lambda>found. bindA (assertA found) (\<lambda>_.
     bindA (askA (\<lambda>s. registry_get s ''beta'')) (\<lambda>g.
     bindA (someA g) (\<lambda>got. assertA (ae_last_seen got \<noteq> None))))))"

definition heartbeat_unknown_agent_returns_false :: "string \<Rightarrow> (registry, unit) act" where
  "heartbeat_unknown_agent_returns_false beat = bindA (heartbeat beat ''nobody'') (\<lambda>found. assertA (\<not> found))"

definition reload_from_db_on_new_instance :: "caps_json \<Rightarrow> string \<Rightarrow> (db, unit) act" where
  "reload_from_db_on_new_instance J now = (\<lambda>d.
     case upsert J (test_entry now ''persist-me'') (registry_new J d) of
       (reg, Inl e) \<Rightarrow> (rg_db reg, Inl e)
     | (reg, Inr _) \<Rightarrow> assertA (registry_get (registry_new J (rg_db reg)) ''persist-me'' \<noteq> None) (rg_db reg))"

abbreviation fresh_registry :: "caps_json \<Rightarrow> registry" where
  "fresh_registry J \<equiv> registry_new J empty_db"

lemmas registry_op_defs = test_entry_def upsert_def heartbeat_def registry_get_def registry_len_def registry_new_def
  reload_from_db_def cache_get_def cache_insert_def agent_row_of_def merge_agent_def entry_of_row_def

lemma registry_tests:
  "passes (insert_and_get J now) (fresh_registry J)"
  "passes (upsert_updates_not_duplicates J now) (fresh_registry J)"
  "passes (heartbeat_updates_last_seen J now beat) (fresh_registry J)"
  "passes (heartbeat_unknown_agent_returns_false beat) (fresh_registry J)"
  "passes (reload_from_db_on_new_instance J now) empty_db"
  by (simp_all add: insert_and_get_def upsert_updates_not_duplicates_def heartbeat_updates_last_seen_def
      heartbeat_unknown_agent_returns_false_def reload_from_db_on_new_instance_def registry_op_defs test_simps)

subsection \<open>\<open>identity.rs\<close>\<close>

definition identity_setup :: "caps_json \<Rightarrow> string \<Rightarrow> db" where
  "identity_setup J now = rg_db (exec (upsert J \<lparr>ae_name = ''agent-a'', ae_version = ''0.1.0'',
     ae_endpoint = ''http://agent-a:8080'', ae_capabilities = [], ae_soul_toml = [], ae_last_seen = None,
     ae_registered_at = now\<rparr>) (fresh_registry J))"

definition role_soul :: "string \<Rightarrow> string" where
  "role_soul r = ''role = '' @ [CHR 0x27] @ r @ [CHR 0x27]"

definition soul_set_once_not_overwritten :: "(db, unit) act" where
  "soul_set_once_not_overwritten =
     bindA (set_soul ''agent-a'' (role_soul ''researcher'') False) (\<lambda>_.
     bindA (set_soul ''agent-a'' (role_soul ''writer'') False) (\<lambda>_.
     bindA (get_soul ''agent-a'') (\<lambda>soul. assertA (soul = role_soul ''researcher''))))"

definition soul_force_overwrites :: "(db, unit) act" where
  "soul_force_overwrites =
     bindA (set_soul ''agent-a'' (role_soul ''researcher'') False) (\<lambda>_.
     bindA (set_soul ''agent-a'' (role_soul ''writer'') True) (\<lambda>_.
     bindA (get_soul ''agent-a'') (\<lambda>soul. assertA (soul = role_soul ''writer''))))"

definition memory_appends_not_overwrites :: "(db, unit) act" where
  "memory_appends_not_overwrites =
     bindA (append_memory ''agent-a'' ''# Day 1'') (\<lambda>_.
     bindA (append_memory ''agent-a'' ''# Day 2'') (\<lambda>_.
     bindA (get_memory ''agent-a'') (\<lambda>mem.
     bindA (assertA (contains ''# Day 1'' mem)) (\<lambda>_. assertA (contains ''# Day 2'' mem)))))"

definition todo_never_deleted_on_complete :: "string \<Rightarrow> string \<Rightarrow> (db, unit) act" where
  "todo_never_deleted_on_complete t1 t2 =
     bindA (append_todo t1 ''agent-a'' ''Write tests'') (\<lambda>i.
     bindA (complete_todo t2 i ''all green'') (\<lambda>_.
     bindA (list_todos ''agent-a'' True) (\<lambda>todos.
     bindA (assertA (length todos = 1)) (\<lambda>_.
     bindA (assertA (tv_status (todos ! 0) = ''done'')) (\<lambda>_.
     bindA (assertA (tv_notes (todos ! 0) = ''all green'')) (\<lambda>_. assertA (tv_completed_at (todos ! 0) \<noteq> None)))))))"

definition list_todos_excludes_done_by_default :: "string \<Rightarrow> string \<Rightarrow> string \<Rightarrow> (db, unit) act" where
  "list_todos_excludes_done_by_default t1 t2 t3 =
     bindA (append_todo t1 ''agent-a'' ''Task A'') (\<lambda>i.
     bindA (append_todo t2 ''agent-a'' ''Task B'') (\<lambda>_.
     bindA (complete_todo t3 i ''done'') (\<lambda>_.
     bindA (list_todos ''agent-a'' False) (\<lambda>open_ones.
     bindA (assertA (length open_ones = 1)) (\<lambda>_. assertA (tv_task (open_ones ! 0) = ''Task B''))))))"

lemmas identity_op_defs = identity_setup_def exec_def set_soul_def get_soul_def append_memory_def get_memory_def
  append_todo_def complete_todo_def list_todos_def view_todo_def

lemma identity_tests:
  "passes soul_set_once_not_overwritten (identity_setup J now)"
  "passes soul_force_overwrites (identity_setup J now)"
  "passes (todo_never_deleted_on_complete t1 t2) (identity_setup J now)"
  "passes (list_todos_excludes_done_by_default t1 t2 t3) (identity_setup J now)"
  by (simp_all add: soul_set_once_not_overwritten_def soul_force_overwrites_def
      todo_never_deleted_on_complete_def list_todos_excludes_done_by_default_def identity_op_defs registry_op_defs test_simps
      starts_with_def role_soul_def)

lemma memory_test_fails: "\<not> passes memory_appends_not_overwrites d"
  by (simp add: memory_appends_not_overwrites_def append_memory_def passes_def result_def act_simps)

subsection \<open>\<open>projects.rs\<close>\<close>

definition create_and_get :: "string \<Rightarrow> time \<Rightarrow> (db, unit) act" where
  "create_and_get i now =
     bindA (create_project i now ''alpha'' ''https://github.com/x/alpha'' ''desc'' ''site-a'' [] []) (\<lambda>p.
     bindA (assertA (pj_name p = ''alpha'')) (\<lambda>_. bindA (assertA (pj_visibility p = LanOnly)) (\<lambda>_.
     bindA (assertA (pj_onboarding_step p = None)) (\<lambda>_.
     bindA (askA (\<lambda>d. get_project d (pj_id p))) (\<lambda>g. bindA (someA g) (\<lambda>got. assertA (pj_id got = pj_id p)))))))"

definition peer_project_starts_onboarding :: "string \<Rightarrow> time \<Rightarrow> (db, unit) act" where
  "peer_project_starts_onboarding i now =
     bindA (create_project i now ''beta'' ''https://github.com/x/beta'' [] ''site-a'' ''site-b'' ''remote-id'') (\<lambda>p.
     bindA (assertA (pj_onboarding_step p = Some ''awaiting_folder'')) (\<lambda>_. assertA (pj_peer_gateway p = ''site-b'')))"

definition visibility_transition :: "string \<Rightarrow> time \<Rightarrow> time \<Rightarrow> (db, unit) act" where
  "visibility_transition i t1 t2 =
     bindA (create_project i t1 ''gamma'' ''https://github.com/x/g'' [] ''site-a'' [] []) (\<lambda>p.
     bindA (set_visibility t2 (pj_id p) Group) (\<lambda>_.
     bindA (askA (\<lambda>d. get_project d (pj_id p))) (\<lambda>g. bindA (someA g) (\<lambda>got. assertA (pj_visibility got = Group)))))"

definition visibility_blocked_while_active :: "string \<Rightarrow> time \<Rightarrow> time \<Rightarrow> time \<Rightarrow> (db, unit) act" where
  "visibility_blocked_while_active i t1 t2 t3 =
     bindA (create_project i t1 ''delta'' ''https://github.com/x/d'' [] ''site-a'' [] []) (\<lambda>p.
     bindA (set_active t2 (pj_id p) True) (\<lambda>_.
     bindA (unwrap_errA (set_visibility t3 (pj_id p) Group)) (\<lambda>e. assertA (contains ''active'' (err_message e)))))"

definition agent_membership :: "string \<Rightarrow> time \<Rightarrow> time \<Rightarrow> time \<Rightarrow> (db, unit) act" where
  "agent_membership i t1 t2 t3 =
     bindA (create_project i t1 ''epsilon'' ''https://github.com/x/e'' [] ''site-a'' [] []) (\<lambda>p.
     bindA (add_agent t2 ''orchestrator'' (pj_id p)) (\<lambda>_. bindA (add_agent t3 ''research'' (pj_id p)) (\<lambda>_.
     bindA (askA (\<lambda>d. list_agents d (pj_id p))) (\<lambda>agents. assertA (length agents = 2)))))"

definition onboarding_step_progression ::
  "(string \<Rightarrow> string option) \<Rightarrow> (string \<Rightarrow> bool) \<Rightarrow> string \<Rightarrow> time \<Rightarrow> (db, unit) act" where
  "onboarding_step_progression canonicalize is_dir i now =
     bindA (create_project i now ''zeta'' ''https://github.com/x/z'' [] ''site-a'' ''site-b'' ''r1'') (\<lambda>p.
     bindA (assertA (pj_onboarding_step p = Some ''awaiting_folder'')) (\<lambda>_.
     bindA (set_folder_path canonicalize is_dir now (pj_id p) ''/data/projects/zeta'') (\<lambda>_.
     bindA (set_onboarding_step now (pj_id p) (Some ''awaiting_files'')) (\<lambda>_.
     bindA (askA (\<lambda>d. get_project d (pj_id p))) (\<lambda>g. bindA (someA g) (\<lambda>got.
     bindA (assertA (pj_onboarding_step got = Some ''awaiting_files'')) (\<lambda>_.
     bindA (assertA (pj_folder_path got = ''/data/projects/zeta'')) (\<lambda>_.
     bindA (set_onboarding_step now (pj_id p) None) (\<lambda>_.
     bindA (askA (\<lambda>d. get_project d (pj_id p))) (\<lambda>g. bindA (someA g) (\<lambda>finished.
     assertA (pj_onboarding_step finished = None))))))))))))"

text \<open>The last test creates no directory: it passes only where that directory exists and no link is on its path.\<close>

lemmas project_op_defs = create_project_def project_row_new_def get_project_def project_of_row_def visibility_from_str_def
  set_visibility_def set_active_def set_folder_path_def set_onboarding_step_def update_project_def add_agent_def list_agents_def

lemma project_tests:
  "passes (create_and_get i now) empty_db" "passes (peer_project_starts_onboarding i now) empty_db"
  "passes (visibility_transition i t1 t2) empty_db" "passes (visibility_blocked_while_active i t1 t2 t3) empty_db"
  "passes (agent_membership i t1 t2 t3) empty_db" "passes (onboarding_step_progression c dr i now) empty_db \<longleftrightarrow>
     c ''/data/projects/zeta'' = Some ''/data/projects/zeta'' \<and> dr ''/data/projects/zeta''"
  by (simp_all add: create_and_get_def peer_project_starts_onboarding_def visibility_transition_def
      visibility_blocked_while_active_def agent_membership_def onboarding_step_progression_def project_op_defs test_simps
      starts_with_def split: option.split)

subsection \<open>\<open>task_log.rs\<close>\<close>

definition project_of_test :: "string \<Rightarrow> time \<Rightarrow> (db, string) act" where
  "project_of_test pid now = bindA (insert_project_row (stub_project pid [] now)) (\<lambda>_. ret pid)"

text \<open>A loop that appends with the ids it is given.\<close>

fun append_all :: "mac \<Rightarrow> string \<Rightarrow> time \<Rightarrow> string \<Rightarrow> string \<Rightarrow> entry_type \<Rightarrow> (string \<times> string) list \<Rightarrow> (db, unit) act" where
  "append_all H k now pid agent t [] = ret ()"
| "append_all H k now pid agent t ((i, content) # es) =
     bindA (append_entry H k i now pid ''site-a'' agent t content None) (\<lambda>_. append_all H k now pid agent t es)"

definition append_and_list :: "mac \<Rightarrow> string \<Rightarrow> string \<Rightarrow> time \<Rightarrow> (db, unit) act" where
  "append_and_list H pid i now =
     bindA (project_of_test pid now) (\<lambda>pid.
     bindA (append_entry H ''secret'' i now pid ''site-a'' ''orch'' Focus ''working on auth'' None) (\<lambda>e.
     bindA (assertA (le_cursor e = 1)) (\<lambda>_.
     bindA (askA (\<lambda>d. list_log d pid)) (\<lambda>entries.
     bindA (assertA (length entries = 1)) (\<lambda>_. assertA (le_content (entries ! 0) = ''working on auth''))))))"

definition cursors_are_monotonic :: "mac \<Rightarrow> string \<Rightarrow> string list \<Rightarrow> time \<Rightarrow> (db, unit) act" where
  "cursors_are_monotonic H pid ids now =
     bindA (project_of_test pid now) (\<lambda>pid.
     bindA (append_all H ''secret'' now pid ''agent'' Note (map (\<lambda>i. (ids ! i, ''entry '' @ show_int (int i))) [0..<5])) (\<lambda>_.
     bindA (askA (\<lambda>d. map le_cursor (list_log d pid))) (\<lambda>cursors. assertA (cursors = [1, 2, 3, 4, 5]))))"

definition delta_sync :: "mac \<Rightarrow> string \<Rightarrow> string list \<Rightarrow> time \<Rightarrow> (db, unit) act" where
  "delta_sync H pid ids now =
     bindA (project_of_test pid now) (\<lambda>pid.
     bindA (append_all H ''secret'' now pid ''a'' Focus (map (\<lambda>i. (ids ! i, ''e'' @ show_int (int i))) [0..<4])) (\<lambda>_.
     bindA (askA (\<lambda>d. since d pid 2)) (\<lambda>delta.
     bindA (assertA (length delta = 2)) (\<lambda>_. assertA (le_cursor (delta ! 0) = 3)))))"

definition signature_verifies :: "mac \<Rightarrow> string \<Rightarrow> string \<Rightarrow> time \<Rightarrow> (db, unit) act" where
  "signature_verifies H pid i now =
     bindA (project_of_test pid now) (\<lambda>pid.
     bindA (append_entry H ''my-secret'' i now pid ''gw'' ''agent'' Focus ''hello'' None) (\<lambda>e.
     assertA (verify_entry H ''my-secret'' e)))"

definition different_projects_independent_cursors :: "mac \<Rightarrow> string \<Rightarrow> string \<Rightarrow> string list \<Rightarrow> time \<Rightarrow> (db, unit) act" where
  "different_projects_independent_cursors H p1 p2 ids now =
     bindA (project_of_test p1 now) (\<lambda>p1. bindA (project_of_test p2 now) (\<lambda>p2.
     bindA (append_entry H ''s'' (ids ! 0) now p1 ''gw'' ''a'' Focus ''one'' None) (\<lambda>_.
     bindA (append_entry H ''s'' (ids ! 1) now p1 ''gw'' ''a'' Focus ''two'' None) (\<lambda>_.
     bindA (append_entry H ''s'' (ids ! 2) now p2 ''gw'' ''a'' Focus ''first'' None) (\<lambda>e. assertA (le_cursor e = 1))))))"

lemmas log_op_defs = project_of_test_def insert_project_row_def stub_project_def append_entry_def append_with_status_def
  todo_known_def head_cursor_def project_log_def list_log_def since_def log_row_of_def log_entry_of_row_def verify_entry_def

lemma log_tests:
  "passes (append_and_list H pid i now) empty_db" "passes (signature_verifies H pid i now) empty_db"
  by (simp_all add: append_and_list_def signature_verifies_def log_op_defs test_simps)

lemma log_tests_ids:
  assumes "distinct [i1, i2, i3, i4, i5 :: string]"
  shows "passes (cursors_are_monotonic H pid [i1, i2, i3, i4, i5] now) empty_db"
    "passes (delta_sync H pid [i1, i2, i3, i4] now) empty_db"
    "p1 \<noteq> p2 \<Longrightarrow> passes (different_projects_independent_cursors H p1 p2 [i1, i2, i3] now) empty_db"
  using assms
  by (simp_all add: cursors_are_monotonic_def delta_sync_def different_projects_independent_cursors_def log_op_defs test_simps
      upt_rec order_by_def)

subsection \<open>\<open>groups.rs\<close>\<close>

definition create_group_creator_joins :: "string \<Rightarrow> time \<Rightarrow> (db, unit) act" where
  "create_group_creator_joins i now =
     bindA (create_group i now ''alpha'' ''test group'' ''site-a'') (\<lambda>g.
     bindA (askA (\<lambda>d. is_member d (grp_id g) ''site-a'')) (\<lambda>m. bindA (assertA m) (\<lambda>_.
     bindA (askA (\<lambda>d. member_count d (grp_id g))) (\<lambda>n. assertA (n = 1)))))"

definition invite_flow :: "string \<Rightarrow> string \<Rightarrow> time \<Rightarrow> time \<Rightarrow> (db, unit) act" where
  "invite_flow i token now later =
     bindA (create_group i now ''beta'' [] ''site-a'') (\<lambda>g.
     bindA (create_invite token now (grp_id g) ''site-a'') (\<lambda>inv.
     bindA (assertA (invite_is_valid later inv)) (\<lambda>_.
     bindA (consume_invite later (in_token inv) ''site-b'') (\<lambda>joined.
     bindA (assertA (grp_id joined = grp_id g)) (\<lambda>_.
     bindA (askA (\<lambda>d. is_member d (grp_id g) ''site-b'')) (\<lambda>m. bindA (assertA m) (\<lambda>_.
     bindA (askA (\<lambda>d. member_count d (grp_id g))) (\<lambda>n. assertA (n = 2)))))))))"

definition invite_single_use_test :: "string \<Rightarrow> string \<Rightarrow> time \<Rightarrow> time \<Rightarrow> (db, unit) act" where
  "invite_single_use_test i token now later =
     bindA (create_group i now ''gamma'' [] ''site-a'') (\<lambda>g.
     bindA (create_invite token now (grp_id g) ''site-a'') (\<lambda>inv.
     bindA (consume_invite later (in_token inv) ''site-b'') (\<lambda>_.
     bindA (unwrap_errA (consume_invite later (in_token inv) ''site-c'')) (\<lambda>e.
     assertA (contains ''expired or already used'' (err_message e))))))"

definition groups_for_gateway_test :: "string \<Rightarrow> string \<Rightarrow> time \<Rightarrow> (db, unit) act" where
  "groups_for_gateway_test i1 i2 now =
     bindA (create_group i1 now ''g1'' [] ''site-a'') (\<lambda>g1. bindA (create_group i2 now ''g2'' [] ''site-a'') (\<lambda>g2.
     bindA (add_member now (grp_id g2) ''site-b'' ''site-a'') (\<lambda>_.
     bindA (askA (\<lambda>d. groups_for_gateway d ''site-b'')) (\<lambda>gws.
     bindA (assertA (length gws = 1)) (\<lambda>_. assertA (grp_id (gws ! 0) = grp_id g2))))))"

definition gateway_count_for_project_test :: "string \<Rightarrow> string \<Rightarrow> time \<Rightarrow> (db, unit) act" where
  "gateway_count_for_project_test i pid now =
     bindA (create_group i now ''delta'' [] ''site-a'') (\<lambda>g.
     bindA (add_member now (grp_id g) ''site-b'' ''site-a'') (\<lambda>_. bindA (add_member now (grp_id g) ''site-c'' ''site-a'') (\<lambda>_.
     bindA (insert_project_row (stub_project pid [] now)) (\<lambda>_.
     bindA (add_project now (grp_id g) pid) (\<lambda>_.
     bindA (askA (\<lambda>d. gateway_count_for_project d pid)) (\<lambda>count. assertA (count = 3)))))))"

lemmas group_op_defs = create_group_def add_member_def group_of_row_def is_member_def member_count_def create_invite_def
  invite_of_row_def consume_invite_def redeem_def get_group_def invite_is_valid_def groups_for_gateway_def add_project_def
  gateway_count_for_project_def insert_project_row_def stub_project_def invite_ttl_secs_def

lemma group_tests:
  "passes (create_group_creator_joins i now) empty_db"
  "i1 \<noteq> i2 \<Longrightarrow> passes (groups_for_gateway_test i1 i2 now) empty_db"
  "passes (gateway_count_for_project_test i pid now) empty_db"
  "later < now + invite_ttl_secs \<Longrightarrow> passes (invite_flow i token now later) empty_db"
  "later < now + invite_ttl_secs \<Longrightarrow> passes (invite_single_use_test i token now later) empty_db"
  by (simp_all add: create_group_creator_joins_def groups_for_gateway_test_def gateway_count_for_project_test_def
      invite_flow_def invite_single_use_test_def group_op_defs test_simps starts_with_def)

subsection \<open>\<open>contributions.rs\<close>\<close>

definition store_with_project :: "string \<Rightarrow> string \<Rightarrow> time \<Rightarrow> (db, string) act" where
  "store_with_project pid sid now =
     bindA (insert_project_row (stub_project pid [] now)) (\<lambda>_. \<lambda>d.
       (d\<lparr>snapshots := snapshots d @ [\<lparr>sn_id = sid, sn_project_id = pid, sn_gateway = ''gw'', sn_transcript = [],
          sn_created_at = now\<rparr>]\<rparr>, Inr pid))"

definition open_test_proposal :: "string \<Rightarrow> time \<Rightarrow> string \<Rightarrow> int \<Rightarrow> (db, proposal) act" where
  "open_test_proposal i now pid gw_count =
     bindA (askA (\<lambda>d. List.find (\<lambda>r. sn_project_id r = pid) (snapshots d))) (\<lambda>r.
     bindA (someA r) (\<lambda>snap. open_proposal i now pid ''site-b'' ''agent'' (sn_id snap) ''add feature X'' gw_count))"

definition pr_flow_two_gateways :: "string \<Rightarrow> string \<Rightarrow> string \<Rightarrow> time \<Rightarrow> (db, unit) act" where
  "pr_flow_two_gateways pid sid i now =
     bindA (store_with_project pid sid now) (\<lambda>pid. bindA (open_test_proposal i now pid 2) (\<lambda>p.
     bindA (assertA (po_status p = PrPending)) (\<lambda>_. bindA (accept_pr now (po_id p) ''site-a'') (\<lambda>_.
     bindA (askA (\<lambda>d. get_proposal d (po_id p))) (\<lambda>g. bindA (someA g) (\<lambda>finished.
     bindA (assertA (po_status finished = Accepted)) (\<lambda>_. assertA (po_resolved_by finished = Some ''site-a''))))))))"

definition pr_reject_test :: "string \<Rightarrow> string \<Rightarrow> string \<Rightarrow> time \<Rightarrow> (db, unit) act" where
  "pr_reject_test pid sid i now =
     bindA (store_with_project pid sid now) (\<lambda>pid. bindA (open_test_proposal i now pid 2) (\<lambda>p.
     bindA (reject_pr now (po_id p) ''site-a'') (\<lambda>_.
     bindA (askA (\<lambda>d. get_proposal d (po_id p))) (\<lambda>g. bindA (someA g) (\<lambda>finished. assertA (po_status finished = Rejected))))))"

definition voting_majority_accepts :: "string \<Rightarrow> string \<Rightarrow> string \<Rightarrow> string \<Rightarrow> string \<Rightarrow> time \<Rightarrow> (db, unit) act" where
  "voting_majority_accepts pid sid i v1 v2 now =
     bindA (store_with_project pid sid now) (\<lambda>pid. bindA (open_test_proposal i now pid 3) (\<lambda>p.
     bindA (assertA (po_status p = Voting)) (\<lambda>_.
     bindA (cast_vote v1 now (po_id p) ''site-a'' ''orch-a'' Approve ''lgtm'') (\<lambda>_.
     bindA (cast_vote v2 now (po_id p) ''site-b'' ''orch-b'' Approve ''good'') (\<lambda>outcome.
     bindA (assertA (outcome = VoteAccepted)) (\<lambda>_.
     bindA (askA (\<lambda>d. get_proposal d (po_id p))) (\<lambda>g. bindA (someA g) (\<lambda>finished. assertA (po_status finished = Accepted)))))))))"

definition voting_majority_rejects :: "string \<Rightarrow> string \<Rightarrow> string \<Rightarrow> string \<Rightarrow> string \<Rightarrow> time \<Rightarrow> (db, unit) act" where
  "voting_majority_rejects pid sid i v1 v2 now =
     bindA (store_with_project pid sid now) (\<lambda>pid. bindA (open_test_proposal i now pid 3) (\<lambda>p.
     bindA (cast_vote v1 now (po_id p) ''site-a'' ''a'' Reject []) (\<lambda>_.
     bindA (cast_vote v2 now (po_id p) ''site-b'' ''b'' Reject []) (\<lambda>outcome. assertA (outcome = VoteRejected)))))"

definition voting_pending_until_majority :: "string \<Rightarrow> string \<Rightarrow> string \<Rightarrow> string \<Rightarrow> time \<Rightarrow> (db, unit) act" where
  "voting_pending_until_majority pid sid i v1 now =
     bindA (store_with_project pid sid now) (\<lambda>pid. bindA (open_test_proposal i now pid 4) (\<lambda>p.
     bindA (cast_vote v1 now (po_id p) ''site-a'' ''a'' Approve []) (\<lambda>outcome.
     bindA (assertA (case outcome of VotePending _ _ _ \<Rightarrow> True | _ \<Rightarrow> False)) (\<lambda>_.
     bindA (askA (\<lambda>d. get_proposal d (po_id p))) (\<lambda>g. bindA (someA g) (\<lambda>q. assertA (po_status q = Voting)))))))"

definition cannot_vote_on_non_voting_proposal :: "string \<Rightarrow> string \<Rightarrow> string \<Rightarrow> string \<Rightarrow> time \<Rightarrow> (db, unit) act" where
  "cannot_vote_on_non_voting_proposal pid sid i v1 now =
     bindA (store_with_project pid sid now) (\<lambda>pid. bindA (open_test_proposal i now pid 2) (\<lambda>p.
     bindA (unwrap_errA (cast_vote v1 now (po_id p) ''site-a'' ''a'' Approve [])) (\<lambda>e.
     assertA (contains ''not in voting state'' (err_message e)))))"

lemmas contribution_op_defs = store_with_project_def open_test_proposal_def insert_project_row_def stub_project_def
  open_proposal_def proposal_of_row_def accept_pr_def reject_pr_def get_proposal_def resolve_def set_status_def cast_vote_def
  vote_row_of_def check_vote_outcome_def tally_def majority_of_def status_from_str_def

lemma contribution_tests:
  "passes (pr_flow_two_gateways pid sid i now) empty_db" "passes (pr_reject_test pid sid i now) empty_db"
  "v1 \<noteq> v2 \<Longrightarrow> passes (voting_majority_accepts pid sid i v1 v2 now) empty_db"
  "v1 \<noteq> v2 \<Longrightarrow> passes (voting_majority_rejects pid sid i v1 v2 now) empty_db"
  "passes (voting_pending_until_majority pid sid i v1 now) empty_db"
  "passes (cannot_vote_on_non_voting_proposal pid sid i v1 now) empty_db"
  by (simp_all add: pr_flow_two_gateways_def pr_reject_test_def voting_majority_accepts_def voting_majority_rejects_def
      voting_pending_until_majority_def cannot_vote_on_non_voting_proposal_def contribution_op_defs test_simps starts_with_def)

subsection \<open>\<open>memory_service.rs\<close>\<close>

definition memory_setup :: "caps_json \<Rightarrow> string \<Rightarrow> db" where
  "memory_setup J now = rg_db (exec (upsert J \<lparr>ae_name = ''mem-agent'', ae_version = ''0.1.0'',
     ae_endpoint = ''http://mem-agent:8080'', ae_capabilities = [], ae_soul_toml = [], ae_last_seen = None,
     ae_registered_at = now\<rparr>) (fresh_registry J))"

definition store_and_recall :: "time \<Rightarrow> time \<Rightarrow> (db, unit) act" where
  "store_and_recall t1 t2 =
     bindA (store_fact t1 ''mem-agent'' ''Rust is great'' None ''lang'') (\<lambda>fact.
     bindA (assertA (0 < fc_id fact)) (\<lambda>_. bindA (assertA (fc_content fact = ''Rust is great'')) (\<lambda>_.
     bindA (assertA (fc_valid_to fact = None)) (\<lambda>_.
     bindA (askA (\<lambda>d. recall t2 d ''mem-agent'' None (Some ''lang'') 10)) (\<lambda>found.
     assertA (list_ex (\<lambda>f. fc_content f = ''Rust is great'') found))))))"

definition recall_filters_by_project :: "time \<Rightarrow> time \<Rightarrow> time \<Rightarrow> (db, unit) act" where
  "recall_filters_by_project t1 t2 t3 =
     bindA (store_fact t1 ''mem-agent'' ''project fact'' (Some ''proj-1'') []) (\<lambda>_.
     bindA (store_fact t2 ''mem-agent'' ''global fact'' None []) (\<lambda>_.
     bindA (askA (\<lambda>d. recall t3 d ''mem-agent'' (Some ''proj-1'') None 100)) (\<lambda>found.
     bindA (assertA (list_all (\<lambda>f. fc_project_id f = Some ''proj-1'') found)) (\<lambda>_.
     assertA (list_ex (\<lambda>f. fc_content f = ''project fact'') found)))))"

definition recall_excludes_expired :: "time \<Rightarrow> time \<Rightarrow> time \<Rightarrow> (db, unit) act" where
  "recall_excludes_expired t1 t2 t3 =
     bindA (store_fact t1 ''mem-agent'' ''ephemeral'' None ''temp'') (\<lambda>fact. bindA (expire t2 (fc_id fact)) (\<lambda>_.
     bindA (askA (\<lambda>d. recall t3 d ''mem-agent'' None (Some ''temp'') 100)) (\<lambda>found.
     assertA (\<not> list_ex (\<lambda>f. fc_id f = fc_id fact) found))))"

definition recall_all_returns_non_expired :: "time \<Rightarrow> time \<Rightarrow> time \<Rightarrow> time \<Rightarrow> (db, unit) act" where
  "recall_all_returns_non_expired t1 t2 t3 t4 =
     bindA (store_fact t1 ''mem-agent'' ''keep me'' None ''a'') (\<lambda>f1.
     bindA (store_fact t2 ''mem-agent'' ''expire me'' None ''b'') (\<lambda>f2. bindA (expire t3 (fc_id f2)) (\<lambda>_.
     bindA (askA (\<lambda>d. recall_all t4 d ''mem-agent'')) (\<lambda>found.
     bindA (assertA (list_ex (\<lambda>f. fc_id f = fc_id f1) found)) (\<lambda>_.
     assertA (\<not> list_ex (\<lambda>f. fc_id f = fc_id f2) found))))))"

definition expire_sets_valid_to :: "time \<Rightarrow> time \<Rightarrow> (db, unit) act" where
  "expire_sets_valid_to t1 t2 =
     bindA (store_fact t1 ''mem-agent'' ''will expire'' None []) (\<lambda>fact.
     bindA (assertA (fc_valid_to fact = None)) (\<lambda>_. bindA (expire t2 (fc_id fact)) (\<lambda>_.
     bindA (askA (\<lambda>d. find_by mf_id (fc_id fact) (facts d))) (\<lambda>r. bindA (someA r) (\<lambda>row. assertA (mf_valid_to row \<noteq> None))))))"

lemmas memory_op_defs = memory_setup_def exec_def store_fact_def fact_of_row_def recall_def recall_all_def live_def expire_def

lemma memory_tests:
  "passes (store_and_recall t1 t2) (memory_setup J now)" "passes (recall_filters_by_project t1 t2 t3) (memory_setup J now)"
  "t2 \<le> t3 \<Longrightarrow> passes (recall_excludes_expired t1 t2 t3) (memory_setup J now)"
  "t3 \<le> t4 \<Longrightarrow> passes (recall_all_returns_non_expired t1 t2 t3 t4) (memory_setup J now)"
  "passes (expire_sets_valid_to t1 t2) (memory_setup J now)"
  by (simp_all add: store_and_recall_def recall_filters_by_project_def recall_excludes_expired_def
      recall_all_returns_non_expired_def expire_sets_valid_to_def memory_op_defs registry_op_defs test_simps)

end
