(* ===== verification/Wiring.thy ===== *)
theory Wiring
  imports Background Migrations
begin

text \<open>
  How \<open>main.rs\<close> puts the process together: the constructors of the stores, servers and tasks, what each of them holds, and
  what the operations of the other theories get from it. A database handle is the pool it was cloned from; the cache that
  registry handles share is named by a number.

  Lemmas: every part holds the one pool, the one cache, the one secret and the gateway's name, which is what lets
  \<open>Gateway\<close> give them one state; and what the parts of two gateways make of each other.
\<close>

subsection \<open>Stores\<close>

text \<open>\<open>ProjectStore\<close>, \<open>GroupStore\<close>, \<open>ContributionStore\<close>, \<open>IdentityStore\<close> and \<open>MemoryService\<close> hold a pool and nothing else.\<close>

record db_store =
  ds_db :: pool

definition project_store_new :: "pool \<Rightarrow> db_store" where
  "project_store_new db = \<lparr>ds_db = db\<rparr>"

definition group_store_new :: "pool \<Rightarrow> db_store" where
  "group_store_new db = \<lparr>ds_db = db\<rparr>"

definition contribution_store_new :: "pool \<Rightarrow> db_store" where
  "contribution_store_new db = \<lparr>ds_db = db\<rparr>"

definition identity_store_new :: "pool \<Rightarrow> db_store" where
  "identity_store_new db = \<lparr>ds_db = db\<rparr>"

definition memory_service_new :: "pool \<Rightarrow> db_store" where
  "memory_service_new db = \<lparr>ds_db = db\<rparr>"

lemmas store_defs = project_store_new_def group_store_new_def contribution_store_new_def identity_store_new_def memory_service_new_def

record registry_handle =
  hr_inner :: nat
  hr_db :: pool

definition registry_handle_new :: "nat \<Rightarrow> pool \<Rightarrow> registry_handle" where
  "registry_handle_new inner db = \<lparr>hr_inner = inner, hr_db = db\<rparr>"

record task_log_handle =
  tk_db :: pool
  tk_jwt_secret :: string

definition task_log_new :: "pool \<Rightarrow> string \<Rightarrow> task_log_handle" where
  "task_log_new db jwt_secret = \<lparr>tk_db = db, tk_jwt_secret = jwt_secret\<rparr>"

record object_store_handle =
  ob_db :: pool
  ob_root :: string

definition object_store_new :: "pool \<Rightarrow> string \<Rightarrow> object_store_handle" where
  "object_store_new db dir = \<lparr>ob_db = db, ob_root = dir\<rparr>"

record file_sync_handle =
  fy_db :: pool
  fy_objects :: object_store_handle
  fy_projects :: db_store
  fy_gateway :: string

definition file_sync_new :: "pool \<Rightarrow> object_store_handle \<Rightarrow> string \<Rightarrow> file_sync_handle" where
  "file_sync_new db objs gateway =
     \<lparr>fy_db = db, fy_objects = objs, fy_projects = project_store_new db, fy_gateway = gateway\<rparr>"

record router_handle =
  rt_config :: config
  rt_registry :: registry_handle

definition router_new :: "config \<Rightarrow> registry_handle \<Rightarrow> router_handle" where
  "router_new config registry = \<lparr>rt_config = config, rt_registry = registry\<rparr>"

definition jwt_auth_new :: "string \<Rightarrow> string \<Rightarrow> jwt_auth" where
  "jwt_auth_new secret issuer = \<lparr>ja_secret = secret, ja_issuer = issuer\<rparr>"

subsection \<open>Servers and tasks\<close>

record context_builder_handle =
  cx_registry :: registry_handle
  cx_task_log :: task_log_handle
  cx_gateway_name :: string

definition context_builder_new :: "pool \<Rightarrow> registry_handle \<Rightarrow> string \<Rightarrow> string \<Rightarrow> context_builder_handle" where
  "context_builder_new db registry gateway_name jwt_secret =
     \<lparr>cx_registry = registry, cx_task_log = task_log_new db jwt_secret, cx_gateway_name = gateway_name\<rparr>"

record onboarding_handle =
  bo_projects :: db_store
  bo_task_log :: task_log_handle
  bo_gateway_name :: string
  bo_entropy_webhook :: "string option"
  bo_entropy_token :: "string option"
  bo_context_builder :: "context_builder_handle option"
  bo_pending :: "prompt list"

definition onboarding_new :: "pool \<Rightarrow> string \<Rightarrow> string \<Rightarrow> string option \<Rightarrow> string option \<Rightarrow> onboarding_handle" where
  "onboarding_new db gateway_name jwt_secret entropy_webhook entropy_token =
     \<lparr>bo_projects = project_store_new db, bo_task_log = task_log_new db jwt_secret, bo_gateway_name = gateway_name,
      bo_entropy_webhook = entropy_webhook, bo_entropy_token = entropy_token, bo_context_builder = None, bo_pending = []\<rparr>"

definition with_context_builder :: "context_builder_handle \<Rightarrow> onboarding_handle \<Rightarrow> onboarding_handle" where
  "with_context_builder cb m = m\<lparr>bo_context_builder := Some cb\<rparr>"

text \<open>The templates, as minijinja keeps them: by name. A template that does not parse makes \<open>unwrap\<close> panic.\<close>

type_synonym templates = "(string \<times> string) list"

definition template_names :: "string list" where
  "template_names = [''base.html'', ''dashboard.html'', ''project.html'', ''onboard_prompt.html'', ''task_log_partial.html'',
     ''contribution.html'']"

fun add_templates :: "(string \<Rightarrow> bool) \<Rightarrow> (string \<Rightarrow> string) \<Rightarrow> string list \<Rightarrow> templates \<Rightarrow> err + templates" where
  "add_templates parses source [] env = Inr env"
| "add_templates parses source (n # ns) env =
     (if parses (source n) then add_templates parses source ns ((n, source n) # env)
      else Inl (Panicked ''called `Result::unwrap()` on an `Err` value''))"

definition register_templates :: "(string \<Rightarrow> bool) \<Rightarrow> (string \<Rightarrow> string) \<Rightarrow> templates \<Rightarrow> err + templates" where
  "register_templates parses source env = add_templates parses source template_names env"

record app_state =
  ap_projects :: db_store
  ap_task_log :: task_log_handle
  ap_contributions :: db_store
  ap_groups :: db_store
  ap_onboarding :: onboarding_handle
  ap_gateway_name :: string
  ap_env :: templates
  ap_lxc :: "(lxc_config \<times> string) option"
  ap_web_token :: "string option"

definition app_state_new ::
  "(string \<Rightarrow> bool) \<Rightarrow> (string \<Rightarrow> string) \<Rightarrow> pool \<Rightarrow> string \<Rightarrow> string \<Rightarrow> string option \<Rightarrow> string option \<Rightarrow>
     registry_handle option \<Rightarrow> (lxc_config \<times> string) option \<Rightarrow> string option \<Rightarrow> err + app_state" where
  "app_state_new parses source db gateway_name jwt_secret entropy_webhook entropy_token registry lxc web_token =
     (let om = onboarding_new db gateway_name jwt_secret entropy_webhook entropy_token;
          om' = (case registry of None \<Rightarrow> om
            | Some reg \<Rightarrow> with_context_builder (context_builder_new db reg gateway_name jwt_secret) om)
      in case register_templates parses source [] of
        Inl e \<Rightarrow> Inl e
      | Inr env \<Rightarrow> Inr \<lparr>ap_projects = project_store_new db, ap_task_log = task_log_new db jwt_secret,
          ap_contributions = contribution_store_new db, ap_groups = group_store_new db, ap_onboarding = om',
          ap_gateway_name = gateway_name, ap_env = env, ap_lxc = lxc, ap_web_token = web_token\<rparr>)"

record reconciler_handle =
  rn_db :: pool
  rn_interval :: "64 word"
  rn_data_dir :: string
  rn_bus :: bus
  rn_gateway :: string

definition reconciler_new :: "pool \<Rightarrow> 64 word \<Rightarrow> string \<Rightarrow> bus \<Rightarrow> string \<Rightarrow> reconciler_handle" where
  "reconciler_new db interval_secs data_dir b gateway =
     \<lparr>rn_db = db, rn_interval = interval_secs, rn_data_dir = data_dir, rn_bus = b, rn_gateway = gateway\<rparr>"

record coordinator =
  co_gateway_name :: string
  co_peers :: "peer_config list"
  co_auth :: jwt_auth
  co_file_sync :: file_sync_handle
  co_task_log :: task_log_handle
  co_projects :: db_store
  co_db :: pool
  co_sync_interval :: "64 word"

definition coordinator_new ::
  "string \<Rightarrow> peer_config list \<Rightarrow> jwt_auth \<Rightarrow> file_sync_handle \<Rightarrow> task_log_handle \<Rightarrow> pool \<Rightarrow> 64 word \<Rightarrow> coordinator" where
  "coordinator_new gateway_name peers auth file_sync tasks db sync_interval_secs =
     \<lparr>co_gateway_name = gateway_name, co_peers = peers, co_auth = auth, co_file_sync = file_sync, co_task_log = tasks,
      co_projects = project_store_new db, co_db = db, co_sync_interval = sync_interval sync_interval_secs\<rparr>"

record http_state =
  hs_gateway_name :: string
  hs_registry :: registry_handle
  hs_version :: string

record peer_handler =
  ph_gateway_name :: string
  ph_auth :: jwt_auth
  ph_registry :: registry_handle
  ph_router :: router_handle
  ph_projects :: db_store
  ph_file_sync :: file_sync_handle
  ph_task_log :: task_log_handle
  ph_groups :: db_store

definition peer_handler_new ::
  "string \<Rightarrow> jwt_auth \<Rightarrow> registry_handle \<Rightarrow> router_handle \<Rightarrow> file_sync_handle \<Rightarrow> task_log_handle \<Rightarrow> db_store \<Rightarrow> peer_handler" where
  "peer_handler_new gateway_name auth registry router file_sync tasks gs =
     \<lparr>ph_gateway_name = gateway_name, ph_auth = auth, ph_registry = registry, ph_router = router,
      ph_projects = project_store_new (fy_db file_sync), ph_file_sync = file_sync, ph_task_log = tasks, ph_groups = gs\<rparr>"

record local_handler =
  lh_registry :: registry_handle
  lh_identity :: db_store
  lh_router :: router_handle
  lh_gateway_name :: string

definition local_handler_new :: "registry_handle \<Rightarrow> db_store \<Rightarrow> router_handle \<Rightarrow> string \<Rightarrow> local_handler" where
  "local_handler_new registry identity router gateway_name =
     \<lparr>lh_registry = registry, lh_identity = identity, lh_router = router, lh_gateway_name = gateway_name\<rparr>"

subsection \<open>The clock\<close>

text \<open>\<open>util::now_secs\<close>: the system clock relative to the epoch; a clock before the epoch reads as zero.\<close>

definition now_secs :: "time \<Rightarrow> time" where
  "now_secs since_epoch = (if since_epoch < 0 then 0 else since_epoch)"

lemma now_secs_bounds: "0 \<le> now_secs t" "t \<le> now_secs t" "mono now_secs"
  by (auto simp: now_secs_def mono_def)

subsection \<open>The process\<close>

text \<open>
  What \<open>main\<close> has when it puts the parts together: the pool, the environment variables, the connected bus, the version of
  the crate, the embedded template files, and the outcome of binding an address. The seeding of the registry and the
  connection of the bus, which come between the constructors, are in \<open>Gateway\<close> and \<open>Background\<close>.
\<close>

record wire_env =
  wi_db :: pool
  wi_inner :: nat
  wi_jwt_secret :: string
  wi_entropy_url :: "string option"
  wi_entropy_token :: "string option"
  wi_web_token :: "string option"
  wi_proxmox_token :: "string option"
  wi_bus :: bus
  wi_version :: string
  wi_parses :: "string \<Rightarrow> bool"
  wi_source :: "string \<Rightarrow> string"
  wi_bind :: "string \<Rightarrow> err + unit"

definition listen_addr :: "16 word \<Rightarrow> string" where
  "listen_addr port = ''0.0.0.0:'' @ show_radix 10 (unat port)"

text \<open>The addresses are those of the HTTP, dashboard, peer and local servers, in this order.\<close>

record process =
  wp_registry :: registry_handle
  wp_auth :: jwt_auth
  wp_contributions :: db_store
  wp_reconciler :: reconciler_handle
  wp_sync :: "coordinator option"
  wp_http :: http_state
  wp_web :: app_state
  wp_peer :: peer_handler
  wp_local :: local_handler
  wp_addrs :: "string list"

definition lxc_client_of :: "string option \<Rightarrow> config \<Rightarrow> (lxc_config \<times> string) option" where
  "lxc_client_of token cfg = Option.bind (cf_lxc cfg) (\<lambda>c. case lxc_from_config token c of Inl _ \<Rightarrow> None | Inr x \<Rightarrow> Some x)"

text \<open>
  A server that can not bind ends the start with its error, but for the peer server: that one is spawned and its error
  is logged.
\<close>

definition wire :: "wire_env \<Rightarrow> config \<Rightarrow> err + process" where
  "wire W cfg =
     (let db = wi_db W; secret = wi_jwt_secret W; gw = cf_gateway cfg; name = gc_name gw; dir = gc_data_dir gw;
          auth = jwt_auth_new secret name;
          registry = registry_handle_new (wi_inner W) db;
          router = router_new cfg registry;
          identity = identity_store_new db;
          file_sync = file_sync_new db (object_store_new db (dir @ ''/objects'')) name;
          tasks = task_log_new db secret;
          gs = group_store_new db;
          http_addr = listen_addr (gc_port_http gw); web_addr = listen_addr (gc_port_web gw);
          peer_addr = listen_addr (gc_port_peer gw); local_addr = listen_addr (gc_port_local gw)
      in case wi_bind W http_addr of
        Inl e \<Rightarrow> Inl e
      | Inr _ \<Rightarrow> (case app_state_new (wi_parses W) (wi_source W) db name secret (wi_entropy_url W) (wi_entropy_token W)
            (Some registry) (lxc_client_of (wi_proxmox_token W) cfg) (wi_web_token W) of
        Inl e \<Rightarrow> Inl e
      | Inr web \<Rightarrow> (case wi_bind W web_addr of
        Inl e \<Rightarrow> Inl e
      | Inr _ \<Rightarrow> (case wi_bind W local_addr of
        Inl e \<Rightarrow> Inl e
      | Inr _ \<Rightarrow> Inr \<lparr>wp_registry = registry, wp_auth = auth, wp_contributions = contribution_store_new db,
          wp_reconciler = reconciler_new db (gc_reconcile_interval_secs gw) dir (wi_bus W) name,
          wp_sync = (if cf_peers cfg = [] then None else Some (coordinator_new name (cf_peers cfg) auth file_sync tasks db 60)),
          wp_http = \<lparr>hs_gateway_name = name, hs_registry = registry, hs_version = wi_version W\<rparr>,
          wp_web = web,
          wp_peer = peer_handler_new name auth registry router file_sync tasks gs,
          wp_local = local_handler_new registry identity router name,
          wp_addrs = [http_addr, web_addr, peer_addr, local_addr]\<rparr>))))"

subsection \<open>What the operations get\<close>

text \<open>The parts of the environments of \<open>Web\<close>, \<open>Peer_Server\<close> and \<open>Peer_Sync\<close> that come from the handles; the rest is given by a model.\<close>

definition get_template :: "(string \<Rightarrow> string) \<Rightarrow> templates \<Rightarrow> string \<Rightarrow> string + string" where
  "get_template absent env name = (case map_of env name of None \<Rightarrow> Inl (absent name) | Some source \<Rightarrow> Inr source)"

fun template_of :: "page \<Rightarrow> string" where
  "template_of (Dashboard_page _ _ _) = ''dashboard.html''"
| "template_of (Project_page _ _ _ _ _ _) = ''project.html''"
| "template_of (Onboard_page _ _ _ _) = ''onboard_prompt.html''"
| "template_of (Task_log_page _ _) = ''task_log_partial.html''"
| "template_of (Contribution_page _ _) = ''contribution.html''"

definition app_render :: "(string \<Rightarrow> string) \<Rightarrow> (templates \<Rightarrow> string \<Rightarrow> page \<Rightarrow> string + string) \<Rightarrow> app_state \<Rightarrow> page \<Rightarrow> string + string" where
  "app_render absent expand A p = (case get_template absent (ap_env A) (template_of p) of
     Inl e \<Rightarrow> Inl e
   | Inr source \<Rightarrow> expand (ap_env A) source p)"

definition web_env_of ::
  "(string \<Rightarrow> string) \<Rightarrow> (templates \<Rightarrow> string \<Rightarrow> page \<Rightarrow> string + string) \<Rightarrow> (lxc_config \<times> string \<Rightarrow> lxc_api) \<Rightarrow> app_state \<Rightarrow> web_env \<Rightarrow> web_env" where
  "web_env_of absent expand proxmox A E =
     (let m = ap_onboarding A in
      E\<lparr>we_on := (we_on E)\<lparr>ne_gateway := bo_gateway_name m, ne_webhook := bo_entropy_webhook m,
          ne_context_builder := (bo_context_builder m \<noteq> None), ne_secret := tk_jwt_secret (bo_task_log m)\<rparr>,
        we_token := ap_web_token A, we_lxc := map_option (\<lambda>c. (fst c, proxmox c)) (ap_lxc A),
        we_render := app_render absent expand A\<rparr>)"

definition peer_env_of :: "peer_handler \<Rightarrow> peer_env \<Rightarrow> peer_env" where
  "peer_env_of h E = E\<lparr>pv_name := ph_gateway_name h, pv_auth := ph_auth h,
     pv_objects := (pv_objects E)\<lparr>oe_root := ob_root (fy_objects (ph_file_sync h))\<rparr>\<rparr>"

definition pull_env_of :: "coordinator \<Rightarrow> pull_env \<Rightarrow> pull_env" where
  "pull_env_of c E = E\<lparr>ye_gateway := co_gateway_name c, ye_auth := co_auth c, ye_secret := tk_jwt_secret (co_task_log c),
     ye_objects := (ye_objects E)\<lparr>oe_root := ob_root (fy_objects (co_file_sync c))\<rparr>\<rparr>"

subsection \<open>One process\<close>

lemma add_templates_env:
  "add_templates parses source ns env = Inr env' \<Longrightarrow> env' = rev (map (\<lambda>n. (n, source n)) ns) @ env"
  by (induction ns arbitrary: env) (auto split: if_splits)

lemma templates_env:
  "register_templates parses source [] = Inr env \<Longrightarrow> env = rev (map (\<lambda>n. (n, source n)) template_names)"
  unfolding register_templates_def by (drule add_templates_env) simp

lemma template_found:
  assumes "register_templates parses source [] = Inr env" "n \<in> set template_names"
  shows "get_template absent env n = Inr (source n)"
proof -
  have "map_of env n = Some (source n)"
    using assms(2) unfolding templates_env [OF assms(1)] by (auto simp: template_names_def)
  then show ?thesis by (simp add: get_template_def)
qed

lemma page_templates: "template_of p \<in> set template_names"
  by (cases p) (simp_all add: template_names_def)

lemma wire_web:
  assumes "wire W cfg = Inr P"
  obtains env where "register_templates (wi_parses W) (wi_source W) [] = Inr env"
    "wp_web P = \<lparr>ap_projects = project_store_new (wi_db W), ap_task_log = task_log_new (wi_db W) (wi_jwt_secret W),
       ap_contributions = contribution_store_new (wi_db W), ap_groups = group_store_new (wi_db W),
       ap_onboarding = with_context_builder
         (context_builder_new (wi_db W) (registry_handle_new (wi_inner W) (wi_db W)) (gc_name (cf_gateway cfg)) (wi_jwt_secret W))
         (onboarding_new (wi_db W) (gc_name (cf_gateway cfg)) (wi_jwt_secret W) (wi_entropy_url W) (wi_entropy_token W)),
       ap_gateway_name = gc_name (cf_gateway cfg), ap_env = env, ap_lxc = lxc_client_of (wi_proxmox_token W) cfg,
       ap_web_token = wi_web_token W\<rparr>"
  using assms by (auto simp: wire_def app_state_new_def Let_def split: sum.splits)

lemma wire_parts:
  assumes "wire W cfg = Inr P"
  shows "wp_registry P = registry_handle_new (wi_inner W) (wi_db W)"
    "wp_auth P = jwt_auth_new (wi_jwt_secret W) (gc_name (cf_gateway cfg))"
    "ph_gateway_name (wp_peer P) = gc_name (cf_gateway cfg)" "ph_auth (wp_peer P) = wp_auth P"
    "ph_task_log (wp_peer P) = task_log_new (wi_db W) (wi_jwt_secret W)"
    "wp_sync P = Some c \<Longrightarrow> co_gateway_name c = gc_name (cf_gateway cfg) \<and> co_auth c = wp_auth P \<and> co_peers c = cf_peers cfg \<and>
       co_task_log c = ph_task_log (wp_peer P) \<and> co_file_sync c = ph_file_sync (wp_peer P)"
    "wp_sync P = None \<longleftrightarrow> cf_peers cfg = []"
  using assms by (auto simp: wire_def Let_def peer_handler_new_def coordinator_new_def split: sum.splits if_splits)

text \<open>The pool and the cache each part works on, and the secrets and names they use.\<close>

definition pools_of :: "process \<Rightarrow> pool list" where
  "pools_of P = (let h = wp_peer P; l = wp_local P; A = wp_web P; m = ap_onboarding A in
     [hr_db (wp_registry P), ds_db (wp_contributions P), rn_db (wp_reconciler P), hr_db (hs_registry (wp_http P)),
      ds_db (ap_projects A), tk_db (ap_task_log A), ds_db (ap_contributions A), ds_db (ap_groups A),
      ds_db (bo_projects m), tk_db (bo_task_log m),
      hr_db (ph_registry h), hr_db (rt_registry (ph_router h)), ds_db (ph_projects h), fy_db (ph_file_sync h),
      ob_db (fy_objects (ph_file_sync h)), ds_db (fy_projects (ph_file_sync h)), tk_db (ph_task_log h), ds_db (ph_groups h),
      hr_db (lh_registry l), ds_db (lh_identity l), hr_db (rt_registry (lh_router l))] @
     (case bo_context_builder m of None \<Rightarrow> [] | Some b \<Rightarrow> [hr_db (cx_registry b), tk_db (cx_task_log b)]) @
     (case wp_sync P of None \<Rightarrow> [] | Some c \<Rightarrow>
        [co_db c, ds_db (co_projects c), fy_db (co_file_sync c), tk_db (co_task_log c)]))"

definition registries_of :: "process \<Rightarrow> registry_handle list" where
  "registries_of P = [wp_registry P, hs_registry (wp_http P), ph_registry (wp_peer P), rt_registry (ph_router (wp_peer P)),
     lh_registry (wp_local P), rt_registry (lh_router (wp_local P))] @
     (case bo_context_builder (ap_onboarding (wp_web P)) of None \<Rightarrow> [] | Some b \<Rightarrow> [cx_registry b])"

definition secrets_of :: "process \<Rightarrow> string list" where
  "secrets_of P = (let m = ap_onboarding (wp_web P) in
     [ja_secret (wp_auth P), ja_secret (ph_auth (wp_peer P)), tk_jwt_secret (ph_task_log (wp_peer P)),
      tk_jwt_secret (ap_task_log (wp_web P)), tk_jwt_secret (bo_task_log m)] @
     (case bo_context_builder m of None \<Rightarrow> [] | Some b \<Rightarrow> [tk_jwt_secret (cx_task_log b)]) @
     (case wp_sync P of None \<Rightarrow> [] | Some c \<Rightarrow> [ja_secret (co_auth c), tk_jwt_secret (co_task_log c)]))"

text \<open>This is what lets \<open>Gateway\<close> keep one database and one cache for all parts.\<close>

lemma wired_together:
  assumes "wire W cfg = Inr P"
  shows "set (pools_of P) = {wi_db W}" "set (registries_of P) = {registry_handle_new (wi_inner W) (wi_db W)}"
    "set (secrets_of P) = {wi_jwt_secret W}"
proof -
  obtain env where web: "wp_web P = \<lparr>ap_projects = project_store_new (wi_db W), ap_task_log = task_log_new (wi_db W) (wi_jwt_secret W),
       ap_contributions = contribution_store_new (wi_db W), ap_groups = group_store_new (wi_db W),
       ap_onboarding = with_context_builder
         (context_builder_new (wi_db W) (registry_handle_new (wi_inner W) (wi_db W)) (gc_name (cf_gateway cfg)) (wi_jwt_secret W))
         (onboarding_new (wi_db W) (gc_name (cf_gateway cfg)) (wi_jwt_secret W) (wi_entropy_url W) (wi_entropy_token W)),
       ap_gateway_name = gc_name (cf_gateway cfg), ap_env = env, ap_lxc = lxc_client_of (wi_proxmox_token W) cfg,
       ap_web_token = wi_web_token W\<rparr>"
    using assms by (rule wire_web)
  show "set (pools_of P) = {wi_db W}" "set (registries_of P) = {registry_handle_new (wi_inner W) (wi_db W)}"
    "set (secrets_of P) = {wi_jwt_secret W}"
    unfolding pools_of_def registries_of_def secrets_of_def Let_def web
    using assms
    by (auto simp: wire_def Let_def store_defs with_context_builder_def onboarding_new_def context_builder_new_def task_log_new_def
        registry_handle_new_def router_new_def file_sync_new_def object_store_new_def jwt_auth_new_def reconciler_new_def
        coordinator_new_def peer_handler_new_def local_handler_new_def split: sum.splits if_splits option.split)
qed

text \<open>Every page of the dashboard has its template: rendering fails only in the template itself.\<close>

lemma pages_found:
  assumes "wire W cfg = Inr P"
  shows "app_render absent expand (wp_web P) p = expand (ap_env (wp_web P)) (wi_source W (template_of p)) p"
proof -
  obtain env where "register_templates (wi_parses W) (wi_source W) [] = Inr env" "ap_env (wp_web P) = env"
    by (rule wire_web [OF assms]) simp
  with template_found [OF this(1) page_templates] show ?thesis by (simp add: app_render_def)
qed

text \<open>The process comes up unless a template is broken or one of three addresses is taken.\<close>

lemma add_templates_ok: "is_ok (add_templates parses source ns env) \<longleftrightarrow> list_all (\<lambda>n. parses (source n)) ns"
  by (induction ns arbitrary: env) auto

lemma is_ok_case:
  "is_ok (case a of Inl e \<Rightarrow> Inl e | Inr x \<Rightarrow> f x) \<longleftrightarrow> (case a of Inl _ \<Rightarrow> False | Inr x \<Rightarrow> is_ok (f x))"
  "(case a of Inl _ \<Rightarrow> False | Inr _ \<Rightarrow> p) \<longleftrightarrow> is_ok a \<and> p"
  by (cases a; simp)+

lemma wire_ok:
  "is_ok (wire W cfg) \<longleftrightarrow> list_all (\<lambda>n. wi_parses W (wi_source W n)) template_names \<and>
     list_all (\<lambda>f. is_ok (wi_bind W (listen_addr (f (cf_gateway cfg))))) [gc_port_http, gc_port_web, gc_port_local]"
proof -
  have "is_ok (app_state_new (wi_parses W) (wi_source W) db n k u t r l w) \<longleftrightarrow>
      list_all (\<lambda>n. wi_parses W (wi_source W n)) template_names" for db n k u t r l w
    using add_templates_ok [of "wi_parses W" "wi_source W" template_names "[]"]
    by (cases "add_templates (wi_parses W) (wi_source W) template_names []")
      (simp_all add: app_state_new_def register_templates_def Let_def)
  then show ?thesis
    unfolding wire_def Let_def by (simp only: is_ok_case is_ok.simps HOL.simp_thms list.pred_inject conj_ac)
qed

subsection \<open>Properties\<close>

text \<open>
  C20. Two gateways as their starts wire them, with the same secret. What the synchronisation of the first sends to a configured
  peer passes the token check of the second exactly if the token is not older than an hour and the configuration of the first
  names the second by its own gateway name (or by a star).
\<close>

theorem wired_peers:
  assumes "wire W cfg = Inr P" "wire W' cfg' = Inr Q" "wp_sync P = Some c" "wi_jwt_secret W = wi_jwt_secret W'"
    "ye_jwt E = L" "pv_jwt V = L" "jwt_laws L" "f64_as_u64 (ye_now E) + 3600 < 2 ^ 64"
  shows "is_ok (result (auth_peer (peer_env_of (wp_peer Q) V) (client_jwt (client_of (pull_env_of c E) peer net) scope)) s) \<longleftrightarrow>
    f64_as_u64 (pv_now V) \<le> f64_as_u64 (ye_now E) + 3600 \<and> (pe_name peer = ''*'' \<or> pe_name peer = gc_name (cf_gateway cfg'))"
proof -
  have secret: "ja_secret (ph_auth (wp_peer Q)) = ja_secret (co_auth c)"
    using wire_parts(2,4,6) [OF assms(1)] wire_parts(2,4) [OF assms(2)] assms(3,4) by (simp add: jwt_auth_new_def)
  have "ph_gateway_name (wp_peer Q) = gc_name (cf_gateway cfg')"
    using wire_parts(3) [OF assms(2)] .
  moreover have "is_ok (result (auth_peer (peer_env_of (wp_peer Q) V) token) s) \<longleftrightarrow>
      is_ok (validate_for L (ph_auth (wp_peer Q)) (pv_now V) token (ph_gateway_name (wp_peer Q)))" for token
    by (auto simp: auth_peer_def result_def peer_env_of_def assms(6) split: sum.split)
  moreover have "client_jwt (client_of (pull_env_of c E) peer net) scope = issue L (co_auth c) (ye_now E) (pe_name peer) scope"
    by (simp add: client_jwt_def client_of_def pull_env_of_def assms(5))
  ultimately show ?thesis
    using accepted_iff [OF assms(7,8) secret, of "pv_now V" "pe_name peer" scope "gc_name (cf_gateway cfg')"] by simp
qed

definition demo_wire :: wire_env where
  "demo_wire = \<lparr>wi_db = pool_of ''postgres'', wi_inner = 0, wi_jwt_secret = ''k'', wi_entropy_url = None, wi_entropy_token = None,
     wi_web_token = None, wi_proxmox_token = None, wi_bus = Null_bus, wi_version = ''0.1.0'', wi_parses = (\<lambda>_. True),
     wi_source = (\<lambda>n. n), wi_bind = (\<lambda>_. Inr ())\<rparr>"

definition demo_named :: "string \<Rightarrow> peer_config list \<Rightarrow> config" where
  "demo_named name peers = demo_config\<lparr>cf_gateway := (cf_gateway demo_config)\<lparr>gc_name := name\<rparr>, cf_peers := peers\<rparr>"

definition demo_process :: "string \<Rightarrow> peer_config list \<Rightarrow> process" where
  "demo_process name peers = projr (wire demo_wire (demo_named name peers))"

lemma demo_wired: "wire demo_wire (demo_named name peers) = Inr (demo_process name peers)"
proof -
  have "is_ok (wire demo_wire (demo_named name peers))"
    by (simp add: wire_ok demo_wire_def list_all_iff)
  then show ?thesis by (cases "wire demo_wire (demo_named name peers)") (simp_all add: demo_process_def)
qed

lemma demo_coordinator: "wp_sync (demo_process name (p # ps)) = Some (the (wp_sync (demo_process name (p # ps))))"
  using wire_parts(7) [OF demo_wired [of name "p # ps"]] by (simp add: demo_named_def)

text \<open>Gateway \<open>a\<close> names its peer \<open>b\<close>: the second gateway lets it in if it is called \<open>b\<close>, and not if it is called \<open>c\<close>.\<close>

lemma wired_peers_witness:
  "is_ok (result (auth_peer (peer_env_of (wp_peer (demo_process ''b'' [])) demo_peer_env)
     (client_jwt (client_of (pull_env_of (the (wp_sync (demo_process ''a'' [demo_peer]))) demo_pull_env) demo_peer (net_of demo_peer_env demo_server)) ''peer''))
     demo_server) \<and>
   \<not> is_ok (result (auth_peer (peer_env_of (wp_peer (demo_process ''c'' [])) demo_peer_env)
     (client_jwt (client_of (pull_env_of (the (wp_sync (demo_process ''a'' [demo_peer]))) demo_pull_env) demo_peer (net_of demo_peer_env demo_server)) ''peer''))
     demo_server)"
  by (subst (1 2) wired_peers [OF demo_wired demo_wired demo_coordinator refl _ _ demo_jwt_laws])
    (simp_all add: demo_peer_env_def demo_pull_env_def demo_peer_def demo_named_def f64_as_u64_def)

text \<open>What the second writes into its log, the first accepts as signed by it.\<close>

lemma wired_signatures:
  assumes "wire W cfg = Inr P" "wire W' cfg' = Inr Q" "wp_sync P = Some c" "wi_jwt_secret W = wi_jwt_secret W'"
    "append_with_status True H (tk_jwt_secret (ap_task_log (wp_web Q))) i now p g a t body td st vt d = (d', Inr e)"
  shows "verify_entry H (ye_secret (pull_env_of c E)) e"
proof -
  have "tk_jwt_secret (ap_task_log (wp_web Q)) = wi_jwt_secret W'"
    by (rule wire_web [OF assms(2)]) (simp add: task_log_new_def)
  moreover have "ye_secret (pull_env_of c E) = wi_jwt_secret W"
    using wire_parts(5,6) [OF assms(1)] assms(3) by (simp add: pull_env_of_def task_log_new_def)
  moreover have "verify_entry H k e" if "append_with_status True H k i now p g a t body td st vt d = (d', Inr e)" for k
    using that by (cases rule: append_cases [of True H k i now p g a t body td st vt d]) auto
  ultimately show ?thesis using assms(4,5) by simp
qed

end
